(* ===== verification/Prelude.thy ===== *)
theory Prelude
  imports Main "HOL-Library.Word"
begin

text \<open>
  Shared vocabulary of the development: the machine integers the C++ code uses, the values of
  undefined behaviour, the conversions \<^verbatim>\<open>static_cast<int>\<close> and \<^verbatim>\<open>static_cast<unsigned int>\<close>, the
  fact collections that carry the component proofs, and generic lemmas on lists and words.
\<close>

unbundle bit_operations_syntax

section \<open>Types\<close>

type_synonym u8 = "8 word"
type_synonym u16 = "16 word"
type_synonym u32 = "32 word"
type_synonym u64 = "64 word"

text \<open>A buffer is the list of its bytes; an object of the library is named by a number.\<close>

type_synonym bytes = "u8 list"
type_synonym oid = nat

text \<open>
  What a C++ program may not do. An operation that reaches one of these has the value
  \<^verbatim>\<open>Inl\<close>; an operation that stays defined has the value \<^verbatim>\<open>Inr\<close>.
\<close>

datatype ub =
    Use_after_free oid
  | Endless_forward oid
  | Indeterminate_value
  | Null_dereference
  | Out_of_bounds

section \<open>Integer conversions\<close>

text \<open>
  \<^verbatim>\<open>static_cast<int>(v)\<close>, \<^verbatim>\<open>static_cast<unsigned int>(v)\<close>, \<^verbatim>\<open>static_cast<std::size_t>(v)\<close> and
  \<^verbatim>\<open>static_cast<int64_t>(v)\<close> on the LP64 targets: keep the low 32 or 64 bits.
\<close>

definition to_int32 :: "int \<Rightarrow> int" where
  "to_int32 v = sint (word_of_int v :: u32)"

definition to_uint32 :: "int \<Rightarrow> u32" where
  "to_uint32 v = word_of_int v"

definition to_size :: "int \<Rightarrow> u64" where
  "to_size v = word_of_int v"

definition to_int64 :: "int \<Rightarrow> int" where
  "to_int64 v = sint (word_of_int v :: u64)"

definition int32_range :: "int \<Rightarrow> bool" where
  "int32_range v \<longleftrightarrow> - (2 ^ 31) \<le> v \<and> v < 2 ^ 31"

definition int64_range :: "int \<Rightarrow> bool" where
  "int64_range v \<longleftrightarrow> - (2 ^ 63) \<le> v \<and> v < 2 ^ 63"

section \<open>Fact collections\<close>

text \<open>
  \<^verbatim>\<open>uvw_defs\<close> collects the defining equations of the operations, \<^verbatim>\<open>uvw_frame\<close> what an operation
  leaves unchanged, \<^verbatim>\<open>uvw_inv\<close> the preservation lemmas of the lifetime invariant.
\<close>

named_theorems uvw_defs
named_theorems uvw_frame
named_theorems uvw_inv

section \<open>Lemmas\<close>

lemma to_int32_id [simp]: "int32_range v \<Longrightarrow> to_int32 v = v"
  unfolding to_int32_def int32_range_def
  by (simp add: sint_sbintrunc' signed_take_bit_int_eq_self)

lemma to_int64_id [simp]: "int64_range v \<Longrightarrow> to_int64 v = v"
  unfolding to_int64_def int64_range_def
  by (simp add: sint_sbintrunc' signed_take_bit_int_eq_self)

lemma to_size_nonneg: "0 \<le> v \<Longrightarrow> v < 2 ^ 64 \<Longrightarrow> uint (to_size v) = v"
  by (simp add: to_size_def uint_word_of_int_eq take_bit_int_eq_self)

lemma unat_to_uint32: "unat (to_uint32 (int n)) = n mod 2 ^ 32"
  by (simp add: to_uint32_def unat_of_nat flip: take_bit_eq_mod)

lemma count_list_append [simp]: "count_list (xs @ ys) x = count_list xs x + count_list ys x"
  by (induction xs) auto

lemma count_list_pos_iff: "0 < count_list xs x \<longleftrightarrow> x \<in> set xs"
  by (induction xs) auto

lemma count_list_0_iff': "count_list xs x = 0 \<longleftrightarrow> x \<notin> set xs"
  by (induction xs) auto

lemma map_update_nth:
  "i < length xs \<Longrightarrow> map f (xs[i := v]) = (map f xs)[i := f v]"
  by (simp add: map_update)

lemma filter_length_mono:
  "(\<And>x. x \<in> set xs \<Longrightarrow> P x \<Longrightarrow> Q x) \<Longrightarrow> length (filter P xs) \<le> length (filter Q xs)"
  by (induction xs) (auto intro: le_SucI)

end
