(* ===== verification/Type_Info.thy ===== *)
theory Type_Info
  imports Prelude
begin

text \<open>
  \<^verbatim>\<open>src/uvw/type_info.hpp\<close>: the numerical identifier of a type. On clang, GCC and MSVC it is the
  FNV-1a hash of the compiler's spelling of the function signature; the fallback hands out the
  numbers of a counter, once per type. A string is the list of its characters; the counter and the
  function-local statics are explicit state.
\<close>

section \<open>Definitions\<close>

definition fnv_offset :: u32 where
  "fnv_offset = 2166136261"

definition fnv_prime :: u32 where
  "fnv_prime = 16777619"

text \<open>One turn of the loop: \<^verbatim>\<open>value = (value ^ (uint32_t)(unsigned char)curr) * prime\<close>.\<close>

definition fnv_step :: "char \<Rightarrow> u32 \<Rightarrow> u32" where
  "fnv_step c v = (v XOR of_nat (of_char c)) * fnv_prime"

fun fnv_loop :: "u32 \<Rightarrow> string \<Rightarrow> u32" where
  "fnv_loop v [] = v"
| "fnv_loop v (c # cs) = fnv_loop (fnv_step c v) cs"

definition fnv1a :: "string \<Rightarrow> u32" where
  "fnv1a view = fnv_loop fnv_offset view"

text \<open>
  \<^verbatim>\<open>counter()\<close> returns its static and post-increments it (wrapping); \<^verbatim>\<open>fake<Type>()\<close> has one static
  \<^verbatim>\<open>local\<close> per type, initialised on the first call.
\<close>

record 'ty ids =
  cnt :: u32
  locals :: "'ty \<Rightarrow> u32 option"

definition ids_start :: "'ty ids" where
  "ids_start = \<lparr>cnt = 0, locals = (\<lambda>_. None)\<rparr>"

definition counter :: "'ty ids \<Rightarrow> u32 \<times> 'ty ids" where
  "counter s = (cnt s, s\<lparr>cnt := cnt s + 1\<rparr>)"

definition fake :: "'ty \<Rightarrow> 'ty ids \<Rightarrow> u32 \<times> 'ty ids" where
  "fake t s =
     (case locals s t of
        Some v \<Rightarrow> (v, s)
      | None \<Rightarrow> (let (v, s') = counter s in (v, s'\<lparr>locals := (locals s')(t := Some v)\<rparr>)))"

text \<open>\<^verbatim>\<open>type<Type>()\<close>: the hash of the function's signature where the compiler spells it, else the fallback.\<close>

definition type_id :: "('ty \<Rightarrow> string) option \<Rightarrow> 'ty \<Rightarrow> 'ty ids \<Rightarrow> u32 \<times> 'ty ids" where
  "type_id signature t s = (case signature of Some spell \<Rightarrow> (fnv1a (spell t), s) | None \<Rightarrow> fake t s)"

fun fakes :: "'ty list \<Rightarrow> 'ty ids \<Rightarrow> 'ty ids" where
  "fakes [] s = s"
| "fakes (t # ts) s = fakes ts (snd (fake t s))"

text \<open>The number of types that have an identifier, and the invariant of the counter.\<close>

definition ids_inv :: "nat \<Rightarrow> 'ty ids \<Rightarrow> bool" where
  "ids_inv n s \<longleftrightarrow>
     cnt s = of_nat n \<and> inj_on (locals s) (dom (locals s)) \<and>
     (\<forall>t v. locals s t = Some v \<longrightarrow> unat v < n)"

section \<open>The hash\<close>

lemma fnv_loop_append: "fnv_loop v (xs @ ys) = fnv_loop (fnv_loop v xs) ys"
  by (induction xs arbitrary: v) auto

lemma fnv_loop_fold: "fnv_loop v xs = fold fnv_step xs v"
  by (induction xs arbitrary: v) auto

text \<open>The prime is odd, hence a unit modulo \<^verbatim>\<open>2^32\<close>: each turn is injective.\<close>

definition fnv_inverse :: u32 where
  "fnv_inverse = 899433627"

lemma fnv_prime_inverse: "fnv_prime * fnv_inverse = 1"
  by (simp add: fnv_prime_def fnv_inverse_def)

lemma times_prime_inj: "a * fnv_prime = b * fnv_prime \<longleftrightarrow> a = b"
proof
  assume "a * fnv_prime = b * fnv_prime"
  then have "a * fnv_prime * fnv_inverse = b * fnv_prime * fnv_inverse"
    by simp
  then show "a = b"
    by (simp add: mult.assoc fnv_prime_inverse)
qed simp

lemma xor_cancel_left: "(c :: u32) XOR (c XOR a) = a"
  by (rule bit_word_eqI) (auto simp: bit_xor_iff)

lemma xor_left_inj: "(c :: u32) XOR a = c XOR b \<longleftrightarrow> a = b"
  using xor_cancel_left [of c a] xor_cancel_left [of c b] by metis

lemma xor_right_inj: "(a :: u32) XOR c = b XOR c \<longleftrightarrow> a = b"
  by (simp only: xor.commute [of _ c] xor_left_inj)

lemma fnv_step_inj_value: "fnv_step c a = fnv_step c b \<longleftrightarrow> a = b"
  by (simp add: fnv_step_def times_prime_inj xor_right_inj)

lemma byte_to_word_inj: "(of_nat (of_char c) :: u32) = of_nat (of_char d) \<longleftrightarrow> c = d"
proof
  assume eq: "(of_nat (of_char c) :: u32) = of_nat (of_char d)"
  have "(of_char x :: nat) mod 2 ^ 32 = of_char x" for x :: char
    by (rule mod_less, rule less_trans [OF nat_of_char_less_256]) simp
  then have "unat (of_nat (of_char x) :: u32) = of_char x" for x :: char
    by (simp add: unat_of_nat)
  with eq have "(of_char c :: nat) = of_char d"
    by metis
  then show "c = d"
    by simp
qed simp

lemma fnv_step_inj_char: "fnv_step c a = fnv_step d a \<longleftrightarrow> c = d"
  by (simp add: fnv_step_def times_prime_inj xor_left_inj byte_to_word_inj)

lemma fnv_loop_inj_value: "fnv_loop a xs = fnv_loop b xs \<longleftrightarrow> a = b"
  by (induction xs arbitrary: a b) (auto simp: fnv_step_inj_value)

lemma fnv_inverse_step: "fnv_step c v * fnv_inverse = v XOR of_nat (of_char c)"
  by (simp add: fnv_step_def mult.assoc fnv_prime_inverse)

section \<open>The counter\<close>

lemma ids_inv_start: "ids_inv 0 ids_start"
  by (simp add: ids_inv_def ids_start_def)

lemma fake_again: "fake t (snd (fake t s)) = (fst (fake t s), snd (fake t s))"
  by (simp add: fake_def counter_def split: option.splits)

lemma fake_known: "locals s t = Some v \<Longrightarrow> fake t s = (v, s)"
  by (simp add: fake_def)

lemma fake_keeps: "locals s u = Some v \<Longrightarrow> locals (snd (fake t s)) u = Some v"
  by (auto simp: fake_def counter_def split: option.splits)

lemma fake_dom: "dom (locals (snd (fake t s))) = insert t (dom (locals s))"
  by (auto simp: fake_def counter_def split: option.splits if_splits)

lemma fake_inv_fresh:
  assumes "ids_inv n s" and "n < 2 ^ 32" and "locals s t = None"
  shows "ids_inv (Suc n) (snd (fake t s))"
proof -
  from assms(2) have u: "unat (of_nat n :: u32) = n"
    by (simp add: unat_of_nat)
  from assms(1) u have "\<forall>t v. locals s t = Some v \<longrightarrow> v \<noteq> of_nat n"
    unfolding ids_inv_def by (metis less_irrefl)
  moreover from assms(1) have "inj_on (locals s) (dom (locals s))"
    by (simp add: ids_inv_def)
  ultimately have "inj_on ((locals s)(t := Some (of_nat n))) (insert t (dom (locals s)))"
    using assms(3) unfolding inj_on_def dom_def by (simp split: if_splits) metis
  moreover have "locals (snd (fake t s)) = (locals s)(t := Some (of_nat n))"
    and "cnt (snd (fake t s)) = of_nat (Suc n)"
    using assms(1,3) by (simp_all add: ids_inv_def fake_def counter_def)
  moreover from assms(1) u have
    "\<forall>a v. ((locals s)(t := Some (of_nat n))) a = Some v \<longrightarrow> unat v < Suc n"
    by (auto simp: ids_inv_def less_SucI)
  ultimately show ?thesis
    by (simp add: ids_inv_def)
qed

lemma fake_inv:
  assumes "ids_inv n s" and "n < 2 ^ 32"
  shows "ids_inv (if locals s t = None then Suc n else n) (snd (fake t s))"
  using assms by (auto simp: fake_inv_fresh fake_known)

lemma fakes_inv:
  assumes "ids_inv n s" and "n + length ts \<le> 2 ^ 32"
  shows "\<exists>m \<le> n + length ts. ids_inv m (fakes ts s)"
  using assms
proof (induction ts arbitrary: s n)
  case Nil
  then show ?case by auto
next
  case (Cons t ts)
  let ?k = "if locals s t = None then Suc n else n"
  from Cons.prems have "ids_inv ?k (snd (fake t s))"
    by (intro fake_inv) auto
  moreover from Cons.prems have "?k + length ts \<le> 2 ^ 32"
    by auto
  ultimately obtain m where "m \<le> ?k + length ts" "ids_inv m (fakes ts (snd (fake t s)))"
    using Cons.IH by blast
  then show ?case
    by (auto split: if_splits intro: exI [of _ m])
qed

lemma fakes_dom: "dom (locals (fakes ts s)) = set ts \<union> dom (locals s)"
  by (induction ts arbitrary: s) (auto simp: fake_dom)

section \<open>Properties\<close>

text \<open>
  C39. Two type names that differ in exactly one character have different identifiers: after the
  common prefix the loop is in one state, the differing characters take it to two, and no common
  suffix brings these together.
\<close>

theorem fnv1a_one_char:
  assumes "c \<noteq> d"
  shows "fnv1a (xs @ c # ys) \<noteq> fnv1a (xs @ d # ys)"
  using assms by (simp add: fnv1a_def fnv_loop_append fnv_loop_inj_value fnv_step_inj_char)

theorem fnv1a_one_char_witness: "fnv1a ''uvw::tcp'' \<noteq> fnv1a ''uvw::tcq''"
  using fnv1a_one_char [of "CHR ''p''" "CHR ''q''" "''uvw::tc''" "[]"] by simp

text \<open>The published test vectors of 32-bit FNV-1a.\<close>

lemma fnv1a_vectors:
  "fnv1a [] = 0x811c9dc5" "fnv1a ''a'' = 0xe40c292c" "fnv1a ''foobar'' = 0xbf9cf968"
  by code_simp+

text \<open>
  The fallback numbering: after any sequence of requests for identifiers, over fewer than
  \<^verbatim>\<open>2^32\<close> of them, each type asked for has an identifier, a repeated request returns the same one and
  changes nothing, and two types never share one.
\<close>

lemma fake_ids_distinct:
  assumes "length ts \<le> 2 ^ 32" and "t \<in> set ts" and "u \<in> set ts"
  shows "fake t (fakes ts ids_start) = (fst (fake t (fakes ts ids_start)), fakes ts ids_start) \<and>
    (fst (fake t (fakes ts ids_start)) = fst (fake u (fakes ts ids_start)) \<longleftrightarrow> t = u)"
proof -
  let ?s = "fakes ts ids_start"
  obtain m where "ids_inv m ?s"
    using fakes_inv [OF ids_inv_start, of ts] assms(1) by auto
  then have inj: "inj_on (locals ?s) (dom (locals ?s))" by (simp add: ids_inv_def)
  have "t \<in> dom (locals ?s)" "u \<in> dom (locals ?s)" using assms by (auto simp: fakes_dom)
  then obtain i j where ij: "locals ?s t = Some i" "locals ?s u = Some j" by auto
  moreover have "i = j \<longleftrightarrow> t = u"
    using inj_onD [OF inj, of t u] ij by (auto simp: dom_def)
  ultimately show ?thesis by (simp add: fake_known)
qed

end
