(* ===== verification/Libuv.thy ===== *)
theory Libuv
  imports Prelude
begin

text \<open>
  The boundary to libuv, which is not part of the repository. A call into libuv is a value of type
  \<^verbatim>\<open>uv_call\<close> that carries the function's name and the arguments the source passes; the history of
  a run is the list of the calls made, with what they returned, and of the callbacks libuv fired,
  newest first. libuv itself is a parameter: a record \<^verbatim>\<open>libuv\<close> of functions of the history that say
  what a call returns and what it stores through its output pointers. The predicates \<^verbatim>\<open>is_open\<close>,
  \<^verbatim>\<open>is_closing\<close> and \<^verbatim>\<open>pending\<close> read off a history which pointers libuv holds, and \<^verbatim>\<open>may_fire\<close> is
  the documented condition under which it may invoke a callback with such a pointer.
\<close>

section \<open>Pointers, constants and callbacks\<close>

text \<open>
  A \<^verbatim>\<open>uv_loop_t*\<close> is the storage a \<^verbatim>\<open>uvw::loop\<close> allocated, the default loop, or storage of the
  user; the null pointer is \<^verbatim>\<open>None\<close> where a pointer is an option. A handle or request pointer
  (\<^verbatim>\<open>raw()\<close>) is named by the object that embeds it.
\<close>

datatype (plugins only: code) uv_loop_ptr = Own_loop oid | Default_loop | User_loop nat

type_synonym lptr = "uv_loop_ptr option"

text \<open>The enumeration \<^verbatim>\<open>uv_handle_type\<close>, with the values the source does not name in one case.\<close>

datatype (plugins only: code) uv_handle_type =
    UV_UNKNOWN_HANDLE | UV_ASYNC | UV_CHECK | UV_FS_EVENT | UV_FS_POLL | UV_HANDLE | UV_IDLE
  | UV_NAMED_PIPE | UV_POLL | UV_PREPARE | UV_PROCESS | UV_STREAM | UV_TCP | UV_TIMER | UV_TTY
  | UV_UDP | UV_SIGNAL | UV_FILE | UV_HANDLE_OTHER nat

text \<open>The static member functions the source registers with libuv; \<^verbatim>\<open>cb_custom_alloc n\<close> is the instance of
  \<^verbatim>\<open>common_alloc_callback\<close> for the user's allocation function \<^verbatim>\<open>n\<close>.\<close>

datatype (plugins only: code) uv_cb =
    cb_close | cb_async | cb_check | cb_idle | cb_prepare | cb_timer | cb_signal | cb_poll
  | cb_fs_event | cb_fs_poll | cb_exit | cb_listen | cb_read | cb_recv | cb_alloc | cb_custom_alloc nat
  | cb_connect | cb_shutdown | cb_write | cb_send | cb_work | cb_after_work
  | cb_addr_info | cb_name_info | cb_fs_open | cb_fs_close | cb_fs_read | cb_fs_request

text \<open>A \<^verbatim>\<open>uv_buf_t\<close>: the bytes its base points to and the length it announces.\<close>

record uv_buf =
  base :: bytes
  len :: u32

definition uv_buf_init :: "bytes \<Rightarrow> u32 \<Rightarrow> uv_buf" where
  "uv_buf_init b n = \<lparr>base = b, len = n\<rparr>"

section \<open>Calls\<close>

datatype (plugins only: code) loop_call =
    uv_loop_init lptr | uv_loop_close lptr | uv_loop_configure lptr nat "int list"
  | uv_run lptr nat | uv_loop_alive lptr | uv_stop lptr | uv_backend_fd lptr
  | uv_backend_timeout lptr | uv_metrics_idle_time lptr | uv_metrics_info lptr | uv_now lptr
  | uv_update_time lptr | uv_loop_fork lptr | uv_walk lptr | uv_default_loop

datatype (plugins only: code) handle_call =
    uv_is_active oid | uv_is_closing oid | uv_close oid uv_cb | uv_ref oid | uv_unref oid
  | uv_has_ref oid | uv_handle_size uv_handle_type | uv_send_buffer_size oid int
  | uv_recv_buffer_size oid int | uv_fileno oid | uv_cancel oid | uv_req_size oid

datatype (plugins only: code) tick_call =
    uv_async_init lptr oid uv_cb | uv_async_send oid
  | uv_check_init lptr oid | uv_check_start oid uv_cb | uv_check_stop oid
  | uv_idle_init lptr oid | uv_idle_start oid uv_cb | uv_idle_stop oid
  | uv_prepare_init lptr oid | uv_prepare_start oid uv_cb | uv_prepare_stop oid
  | uv_timer_init lptr oid | uv_timer_start oid uv_cb u64 u64 | uv_timer_stop oid
  | uv_timer_again oid | uv_timer_set_repeat oid u64 | uv_timer_get_repeat oid
  | uv_timer_get_due_in oid

datatype (plugins only: code) watch_call =
    uv_signal_init lptr oid | uv_signal_start oid uv_cb int
  | uv_signal_start_oneshot oid uv_cb int | uv_signal_stop oid
  | uv_poll_init lptr oid int | uv_poll_init_socket lptr oid int
  | uv_poll_start oid u32 uv_cb | uv_poll_stop oid
  | uv_fs_event_init lptr oid | uv_fs_event_start oid uv_cb string u32 | uv_fs_event_stop oid
  | uv_fs_poll_init lptr oid | uv_fs_poll_start oid uv_cb string u32 | uv_fs_poll_stop oid

datatype (plugins only: code) stream_call =
    uv_shutdown oid oid uv_cb | uv_listen oid int uv_cb | uv_accept oid oid
  | uv_read_start oid uv_cb uv_cb | uv_read_stop oid
  | uv_write oid oid uv_buf nat uv_cb | uv_write2 oid oid uv_buf nat oid uv_cb
  | uv_try_write oid uv_buf nat | uv_try_write2 oid uv_buf nat oid
  | uv_is_readable oid | uv_is_writable oid | uv_stream_set_blocking oid bool
  | uv_stream_get_write_queue_size oid

datatype (plugins only: code) tcp_call =
    uv_tcp_init lptr oid | uv_tcp_init_ex lptr oid u32 | uv_tcp_open oid int
  | uv_tcp_nodelay oid bool | uv_tcp_keepalive oid bool u32
  | uv_tcp_simultaneous_accepts oid bool | uv_tcp_bind oid bytes u32
  | uv_tcp_getsockname oid | uv_tcp_getpeername oid | uv_tcp_connect oid oid bytes uv_cb
  | uv_tcp_close_reset oid uv_cb

datatype (plugins only: code) pipe_call =
    uv_pipe_init lptr oid bool | uv_pipe_open oid int | uv_pipe_bind2 oid string nat u32
  | uv_pipe_connect2 oid oid string nat u32 uv_cb | uv_pipe_pending_instances oid int
  | uv_pipe_pending_count oid | uv_pipe_pending_type oid | uv_pipe_chmod oid u32

datatype (plugins only: code) tty_call =
    uv_tty_init lptr oid int bool | uv_tty_set_mode oid nat | uv_tty_reset_mode
  | uv_tty_get_winsize oid | uv_tty_set_vterm_state nat | uv_tty_get_vterm_state

datatype (plugins only: code) udp_call =
    uv_udp_init lptr oid | uv_udp_init_ex lptr oid u32 | uv_udp_open oid int
  | uv_udp_connect oid "bytes option" | uv_udp_getpeername oid | uv_udp_bind oid bytes u32
  | uv_udp_getsockname oid | uv_udp_set_membership oid string string nat
  | uv_udp_set_multicast_loop oid bool | uv_udp_set_multicast_ttl oid int
  | uv_udp_set_multicast_interface oid string | uv_udp_set_broadcast oid bool
  | uv_udp_set_ttl oid int | uv_udp_send oid oid uv_buf nat bytes uv_cb
  | uv_udp_try_send oid uv_buf nat bytes | uv_udp_recv_start oid uv_cb uv_cb
  | uv_udp_recv_stop oid | uv_udp_get_send_queue_size oid | uv_udp_get_send_queue_count oid

text \<open>One entry of the \<^verbatim>\<open>stdio\<close> array of \<^verbatim>\<open>uv_process_options_t\<close>, and the options themselves.\<close>

datatype (plugins only: code) stdio_data = Stdio_fd int | Stdio_stream oid

record stdio_container =
  stdio_flags :: u32
  stdio_data :: stdio_data

record process_options =
  exit_cb :: uv_cb
  file_opt :: string
  args_opt :: "string list"
  env_opt :: "string list option"
  cwd_opt :: "string option"
  flags_opt :: u32
  uid_opt :: u32
  gid_opt :: u32
  stdio_count :: nat
  stdio_opt :: "stdio_container list"

datatype (plugins only: code) process_call =
    uv_disable_stdio_inheritance | uv_kill int int | uv_spawn lptr oid process_options
  | uv_process_kill oid int

datatype (plugins only: code) work_call =
    uv_queue_work lptr oid uv_cb uv_cb
  | uv_getaddrinfo lptr oid "uv_cb option" "string option" "string option" "nat option"
  | uv_getnameinfo lptr oid "uv_cb option" bytes int

text \<open>
  The functions \<^verbatim>\<open>uv_fs_*\<close>, less the loop, the request and the callback they all take. A time is the
  \<^verbatim>\<open>double\<close> that \<^verbatim>\<open>count()\<close> hands over, by its bits, a directory stream the number of its \<^verbatim>\<open>uv_dir_t\<close>.
\<close>

type_synonym double = u64

datatype (plugins only: code) fs_op =
    uv_fs_close int | uv_fs_open string u32 int | uv_fs_read int uv_buf nat int
  | uv_fs_write int uv_buf nat int | uv_fs_fstat int | uv_fs_fsync int | uv_fs_fdatasync int
  | uv_fs_ftruncate int int | uv_fs_sendfile int int int u64 | uv_fs_fchmod int int
  | uv_fs_futime int double double | uv_fs_fchown int u32 u32
  | uv_fs_unlink string | uv_fs_mkdir string int | uv_fs_mkdtemp string | uv_fs_mkstemp string
  | uv_fs_lutime string double double | uv_fs_rmdir string | uv_fs_scandir string int
  | uv_fs_stat string | uv_fs_lstat string | uv_fs_statfs string | uv_fs_rename string string
  | uv_fs_copyfile string string u32 | uv_fs_access string int | uv_fs_chmod string int
  | uv_fs_utime string double double | uv_fs_link string string | uv_fs_symlink string string u32
  | uv_fs_readlink string | uv_fs_realpath string | uv_fs_chown string u32 u32
  | uv_fs_lchown string u32 u32 | uv_fs_opendir string | uv_fs_closedir "nat option"
  | uv_fs_readdir "nat option"

datatype (plugins only: code) fs_call =
    uv_fs lptr oid fs_op "uv_cb option" | uv_fs_req_cleanup oid | uv_fs_scandir_next oid

datatype (plugins only: code) uv_call =
    C_loop loop_call | C_handle handle_call | C_tick tick_call | C_watch watch_call
  | C_stream stream_call | C_tcp tcp_call | C_pipe pipe_call | C_tty tty_call | C_udp udp_call
  | C_process process_call | C_work work_call | C_fs fs_call

datatype (plugins only: code) uv_event = Called uv_call int | Fired uv_cb oid

type_synonym history = "uv_event list"

text \<open>
  \<^verbatim>\<open>uv_stat_t\<close> and \<^verbatim>\<open>uv_statfs_t\<close> are only copied: the list of their fields. A directory entry is
  its type and name.
\<close>

type_synonym file_info = "int list"
type_synonym fs_info = "int list"
type_synonym dirent = "int \<times> string"

text \<open>The values of \<^verbatim>\<open>uv_fs_type\<close>, all of which \<^verbatim>\<open>uvw_fs_type\<close> of \<^verbatim>\<open>fs.h\<close> names.\<close>

datatype (plugins only: code) fs_type =
    FS_UNKNOWN | FS_CUSTOM | FS_OPEN | FS_CLOSE | FS_READ | FS_WRITE | FS_SENDFILE | FS_STAT
  | FS_LSTAT | FS_FSTAT | FS_FTRUNCATE | FS_UTIME | FS_FUTIME | FS_ACCESS | FS_CHMOD | FS_FCHMOD
  | FS_FSYNC | FS_FDATASYNC | FS_UNLINK | FS_RMDIR | FS_MKDIR | FS_MKDTEMP | FS_RENAME
  | FS_SCANDIR | FS_LINK | FS_SYMLINK | FS_READLINK | FS_CHOWN | FS_FCHOWN | FS_REALPATH
  | FS_COPYFILE | FS_LCHOWN | FS_OPENDIR | FS_READDIR | FS_CLOSEDIR | FS_STATFS | FS_MKSTEMP
  | FS_LUTIME

text \<open>
  What the \<^verbatim>\<open>ptr\<close> of a \<^verbatim>\<open>uv_fs_t\<close> points to after an operation, and the members of a \<^verbatim>\<open>uv_fs_t\<close>
  that the source reads.
\<close>

datatype (plugins only: code) fs_ptr =
    Ptr_null | Ptr_stat file_info | Ptr_statfs fs_info | Ptr_chars string
  | Ptr_dir nat "dirent list"

record uv_fs_t =
  fs_kind :: fs_type
  fs_result :: int
  fs_path :: string
  fs_pointer :: fs_ptr
  fs_statbuf :: file_info

text \<open>
  libuv as a parameter: the value a call returns, the number and the bytes it stores through its
  output pointers (\<^verbatim>\<open>None\<close> when it stores nothing), the members of its structs that the source reads
  (\<^verbatim>\<open>signum\<close>, \<^verbatim>\<open>pid\<close>, the results of a file system or name request), the functions that fill a
  buffer with a name, and the two error constants the source names.
\<close>

datatype (plugins only: code) name_query =
    Q_fs_event_path | Q_fs_poll_path | Q_pipe_sockname | Q_pipe_peername

record libuv =
  ret :: "history \<Rightarrow> uv_call \<Rightarrow> int"
  out_int :: "history \<Rightarrow> uv_call \<Rightarrow> int option"
  out_pair :: "history \<Rightarrow> uv_call \<Rightarrow> (int \<times> int) option"
  out_bytes :: "history \<Rightarrow> uv_call \<Rightarrow> bytes option"
  out_dirent :: "history \<Rightarrow> uv_call \<Rightarrow> dirent option"
  raw_signum :: "history \<Rightarrow> oid \<Rightarrow> int"
  raw_pid :: "history \<Rightarrow> oid \<Rightarrow> int"
  raw_fs :: "history \<Rightarrow> oid \<Rightarrow> uv_fs_t"
  raw_addrinfo :: "history \<Rightarrow> oid \<Rightarrow> nat option"
  raw_nameinfo :: "history \<Rightarrow> oid \<Rightarrow> string \<times> string"
  pending_type :: "history \<Rightarrow> oid \<Rightarrow> uv_handle_type"
  query_name :: "history \<Rightarrow> name_query \<Rightarrow> oid \<Rightarrow> nat \<Rightarrow> int \<times> string \<times> nat"
  UV_EOF :: int
  UV_ENOBUFS :: int

section \<open>What libuv holds\<close>

text \<open>
  A call that registers a handle with a loop: from then on libuv may call back with it. \<^verbatim>\<open>uv_spawn\<close>
  registers the handle whether or not the child starts.
\<close>

definition opens_tick :: "tick_call \<Rightarrow> oid option" where
  "opens_tick c =
     (case c of
        uv_async_init l h cb \<Rightarrow> Some h
      | uv_check_init l h \<Rightarrow> Some h
      | uv_idle_init l h \<Rightarrow> Some h
      | uv_prepare_init l h \<Rightarrow> Some h
      | uv_timer_init l h \<Rightarrow> Some h
      | _ \<Rightarrow> None)"

definition opens_watch :: "watch_call \<Rightarrow> oid option" where
  "opens_watch c =
     (case c of
        uv_signal_init l h \<Rightarrow> Some h
      | uv_poll_init l h fd \<Rightarrow> Some h
      | uv_poll_init_socket l h s \<Rightarrow> Some h
      | uv_fs_event_init l h \<Rightarrow> Some h
      | uv_fs_poll_init l h \<Rightarrow> Some h
      | _ \<Rightarrow> None)"

definition opens :: "uv_call \<Rightarrow> int \<Rightarrow> oid option" where
  "opens c r =
     (case c of
        C_tick c \<Rightarrow> (if r = 0 then opens_tick c else None)
      | C_watch c \<Rightarrow> (if r = 0 then opens_watch c else None)
      | C_tcp (uv_tcp_init l h) \<Rightarrow> (if r = 0 then Some h else None)
      | C_tcp (uv_tcp_init_ex l h f) \<Rightarrow> (if r = 0 then Some h else None)
      | C_pipe (uv_pipe_init l h b) \<Rightarrow> (if r = 0 then Some h else None)
      | C_tty (uv_tty_init l h fd b) \<Rightarrow> (if r = 0 then Some h else None)
      | C_udp (uv_udp_init l h) \<Rightarrow> (if r = 0 then Some h else None)
      | C_udp (uv_udp_init_ex l h f) \<Rightarrow> (if r = 0 then Some h else None)
      | C_process (uv_spawn l h po) \<Rightarrow> Some h
      | _ \<Rightarrow> None)"

text \<open>A call that starts closing a handle.\<close>

definition closes :: "uv_call \<Rightarrow> int \<Rightarrow> oid option" where
  "closes c r =
     (case c of
        C_handle (uv_close h cb) \<Rightarrow> Some h
      | C_tcp (uv_tcp_close_reset h cb) \<Rightarrow> (if r = 0 then Some h else None)
      | _ \<Rightarrow> None)"

text \<open>
  A call that hands a request to libuv, which will call back with it. The functions that also have
  a synchronous form do so only when they are given a callback.
\<close>

definition submits :: "uv_call \<Rightarrow> int \<Rightarrow> oid option" where
  "submits c r =
     (case c of
        C_stream (uv_shutdown q h cb) \<Rightarrow> (if r = 0 then Some q else None)
      | C_stream (uv_write q h b n cb) \<Rightarrow> (if r = 0 then Some q else None)
      | C_stream (uv_write2 q h b n s cb) \<Rightarrow> (if r = 0 then Some q else None)
      | C_tcp (uv_tcp_connect q h a cb) \<Rightarrow> (if r = 0 then Some q else None)
      | C_pipe (uv_pipe_connect2 q h s n f cb) \<Rightarrow> (if r = 0 then Some q else None)
      | C_udp (uv_udp_send q h b n a cb) \<Rightarrow> (if r = 0 then Some q else None)
      | C_work (uv_queue_work l q cb cb2) \<Rightarrow> (if r = 0 then Some q else None)
      | C_work (uv_getaddrinfo l q cb nd sv hi) \<Rightarrow> (if r = 0 \<and> cb \<noteq> None then Some q else None)
      | C_work (uv_getnameinfo l q cb a f) \<Rightarrow> (if r = 0 \<and> cb \<noteq> None then Some q else None)
      | C_fs (uv_fs l q op cb) \<Rightarrow> (if r = 0 \<and> cb \<noteq> None then Some q else None)
      | _ \<Rightarrow> None)"

lemmas call_defs = opens_def opens_tick_def opens_watch_def closes_def submits_def

definition neutral :: "uv_call \<Rightarrow> bool" where
  "neutral c \<longleftrightarrow> (\<forall>r. opens c r = None \<and> closes c r = None \<and> submits c r = None)"

text \<open>The callbacks that complete a request; the others, but \<^verbatim>\<open>cb_close\<close>, report on a handle.\<close>

definition request_cb :: "uv_cb \<Rightarrow> bool" where
  "request_cb cb \<longleftrightarrow> cb \<in> {cb_connect, cb_shutdown, cb_write, cb_send, cb_after_work,
     cb_addr_info, cb_name_info, cb_fs_open, cb_fs_close, cb_fs_read, cb_fs_request}"

fun is_open :: "history \<Rightarrow> oid \<Rightarrow> bool" where
  "is_open [] p = False"
| "is_open (Called c r # h) p = (opens c r = Some p \<or> is_open h p)"
| "is_open (Fired cb q # h) p = (\<not> (cb = cb_close \<and> q = p) \<and> is_open h p)"

text \<open>The handle was registered at some time, so that its \<^verbatim>\<open>type\<close> is set.\<close>

fun was_opened :: "history \<Rightarrow> oid \<Rightarrow> bool" where
  "was_opened [] p = False"
| "was_opened (Called c r # h) p = (opens c r = Some p \<or> was_opened h p)"
| "was_opened (Fired cb q # h) p = was_opened h p"

fun is_closing :: "history \<Rightarrow> oid \<Rightarrow> bool" where
  "is_closing [] p = False"
| "is_closing (Called c r # h) p =
     (opens c r \<noteq> Some p \<and> (closes c r = Some p \<or> is_closing h p))"
| "is_closing (Fired cb q # h) p = is_closing h p"

fun pending :: "history \<Rightarrow> oid \<Rightarrow> nat" where
  "pending [] p = 0"
| "pending (Called c r # h) p = (if submits c r = Some p then Suc (pending h p) else pending h p)"
| "pending (Fired cb q # h) p = (if request_cb cb \<and> q = p then pending h p - 1 else pending h p)"

text \<open>
  The documented contract of the callbacks: a close callback follows a call that closes the handle
  and comes once; a handle reports nothing after its close callback; a request completes once per
  successful submission, and its work runs before that.
\<close>

definition may_fire :: "history \<Rightarrow> uv_cb \<Rightarrow> oid \<Rightarrow> bool" where
  "may_fire h cb p \<longleftrightarrow>
     (if cb = cb_close then is_open h p \<and> is_closing h p
      else if request_cb cb \<or> cb = cb_work then 0 < pending h p
      else is_open h p)"

definition documented_callbacks :: "(history \<Rightarrow> uv_cb \<Rightarrow> oid \<Rightarrow> bool) \<Rightarrow> bool" where
  "documented_callbacks fires \<longleftrightarrow> (\<forall>h cb p. fires h cb p \<longrightarrow> may_fire h cb p)"

text \<open>\<^verbatim>\<open>uv_is_closing\<close> as documented: non-zero from the close call on, until the handle is initialised again.\<close>

definition documented_is_closing :: "libuv \<Rightarrow> bool" where
  "documented_is_closing uv \<longleftrightarrow>
     (\<forall>h p. (ret uv h (C_handle (uv_is_closing p)) \<noteq> 0) = is_closing h p)"

text \<open>
  One libuv that keeps these contracts: every call succeeds and stores nothing, and
  \<^verbatim>\<open>uv_is_closing\<close> tells the truth. \<^verbatim>\<open>refusing\<close> is the same but that the calls in question fail.
\<close>

definition sample_libuv :: libuv where
  "sample_libuv =
     \<lparr>ret = (\<lambda>h c. case c of C_handle (uv_is_closing p) \<Rightarrow> if is_closing h p then 1 else 0 | _ \<Rightarrow> 0),
      out_int = (\<lambda>h c. None), out_pair = (\<lambda>h c. None), out_bytes = (\<lambda>h c. None),
      out_dirent = (\<lambda>h c. None), raw_signum = (\<lambda>h p. 0), raw_pid = (\<lambda>h p. 0),
      raw_fs = (\<lambda>h p. \<lparr>fs_kind = FS_UNKNOWN, fs_result = 0, fs_path = [], fs_pointer = Ptr_null,
        fs_statbuf = []\<rparr>),
      raw_addrinfo = (\<lambda>h p. None), raw_nameinfo = (\<lambda>h p. ([], [])),
      pending_type = (\<lambda>h p. UV_UNKNOWN_HANDLE), query_name = (\<lambda>h q p n. (0, [], 0)),
      UV_EOF = -4095, UV_ENOBUFS = -105\<rparr>"

definition refusing :: "(uv_call \<Rightarrow> bool) \<Rightarrow> int \<Rightarrow> libuv" where
  "refusing no err = sample_libuv\<lparr>ret := (\<lambda>h c. if no c then err else ret sample_libuv h c)\<rparr>"

section \<open>Lemmas\<close>

lemma sample_is_closing: "documented_is_closing sample_libuv"
  by (simp add: documented_is_closing_def sample_libuv_def)

lemma may_fire_documented: "documented_callbacks may_fire"
  by (simp add: documented_callbacks_def)

lemma not_request_cb_close [simp]: "\<not> request_cb cb_close"
  by (simp add: request_cb_def)

lemma neutral_simps:
  assumes "neutral c"
  shows "is_open (Called c r # h) p = is_open h p"
    and "is_closing (Called c r # h) p = is_closing h p"
    and "pending (Called c r # h) p = pending h p"
  using assms by (auto simp: neutral_def)

lemma request_fired_simps:
  assumes "request_cb cb"
  shows "is_open (Fired cb q # h) p = is_open h p"
  using assms by auto

end
