(* ===== verification/Emitter.thy ===== *)
theory Emitter
  imports Prelude
begin

text \<open>
  \<^verbatim>\<open>src/uvw/emitter.h\<close> and \<^verbatim>\<open>emitter.ipp\<close>: the error event and the table of listeners. The class
  keeps a \<^verbatim>\<open>std::tuple\<close> with one \<^verbatim>\<open>std::function\<close> per declared event, \<^verbatim>\<open>error_event\<close> first, and
  selects an element by its type. Here the tuple is the list of its elements, each under the tag of
  its event type; an empty \<^verbatim>\<open>std::function\<close> is \<^verbatim>\<open>None\<close>. Calling the listener (\<^verbatim>\<open>publish\<close>) needs
  the object store and is in the theory Resource.
\<close>

section \<open>The error event\<close>

text \<open>\<^verbatim>\<open>explicit error_event(Type val): ec{static_cast<int>(val)}\<close>.\<close>

record error_event =
  ec :: int

definition make_error_event :: "int \<Rightarrow> error_event" where
  "make_error_event val = \<lparr>ec = to_int32 val\<rparr>"

definition error_code :: "error_event \<Rightarrow> int" where
  "error_code e = ec e"

definition error_bool :: "error_event \<Rightarrow> bool" where
  "error_bool e \<longleftrightarrow> ec e < 0"

text \<open>
  The three functions that only ask libuv take its function as their argument:
  \<^verbatim>\<open>uv_translate_sys_error\<close>, \<^verbatim>\<open>uv_strerror\<close>, \<^verbatim>\<open>uv_err_name\<close>.
\<close>

definition error_translate :: "(int \<Rightarrow> int) \<Rightarrow> int \<Rightarrow> int" where
  "error_translate uv_translate_sys_error sys = uv_translate_sys_error sys"

definition error_what :: "(int \<Rightarrow> string) \<Rightarrow> error_event \<Rightarrow> string" where
  "error_what uv_strerror e = uv_strerror (ec e)"

definition error_name :: "(int \<Rightarrow> string) \<Rightarrow> error_event \<Rightarrow> string" where
  "error_name uv_err_name e = uv_err_name (ec e)"

section \<open>The tuple of listeners\<close>

type_synonym ('t, 'l) slots = "('t \<times> 'l option) list"

text \<open>\<^verbatim>\<open>std::tuple<listener_t<error_event>, listener_t<Event>...> handlers{}\<close>.\<close>

definition slots_make :: "'t list \<Rightarrow> ('t, 'l) slots" where
  "slots_make tags = map (\<lambda>t. (t, None)) tags"

text \<open>\<^verbatim>\<open>handler<Type>()\<close>: \<^verbatim>\<open>std::get\<close> by type, for reading and as the place to assign to.\<close>

fun handler :: "'t \<Rightarrow> ('t, 'l) slots \<Rightarrow> 'l option" where
  "handler t [] = None"
| "handler t ((u, l) # s) = (if u = t then l else handler t s)"

fun handler_assign :: "'t \<Rightarrow> 'l option \<Rightarrow> ('t, 'l) slots \<Rightarrow> ('t, 'l) slots" where
  "handler_assign t f [] = []"
| "handler_assign t f ((u, l) # s) =
     (if u = t then (u, f) # s else (u, l) # handler_assign t f s)"

definition slots_on :: "'t \<Rightarrow> 'l option \<Rightarrow> ('t, 'l) slots \<Rightarrow> ('t, 'l) slots" where
  "slots_on t f s = handler_assign t f s"

definition slots_reset :: "'t \<Rightarrow> ('t, 'l) slots \<Rightarrow> ('t, 'l) slots" where
  "slots_reset t s = handler_assign t None s"

text \<open>\<^verbatim>\<open>reset<error_event>(); (reset<Event>(), ...)\<close>: one reset per tuple element, in order.\<close>

definition slots_reset_all :: "('t, 'l) slots \<Rightarrow> ('t, 'l) slots" where
  "slots_reset_all s = fold slots_reset (map fst s) s"

definition slots_has :: "'t \<Rightarrow> ('t, 'l) slots \<Rightarrow> bool" where
  "slots_has t s \<longleftrightarrow> handler t s \<noteq> None"

text \<open>The listeners that are set, and what an event type of the tuple is.\<close>

definition listeners :: "('t, 'l) slots \<Rightarrow> 'l list" where
  "listeners s = List.map_filter snd s"

definition declares :: "('t, 'l) slots \<Rightarrow> 't \<Rightarrow> bool" where
  "declares s t \<longleftrightarrow> t \<in> fst ` set s"

section \<open>The interface of an event table\<close>

text \<open>
  What the classes above the emitter rely on. \<^verbatim>\<open>decl\<close> is the set of events of the table, which no
  operation changes.
\<close>

locale event_table =
  fixes on :: "'t \<Rightarrow> 'l option \<Rightarrow> 's \<Rightarrow> 's"
    and reset :: "'t \<Rightarrow> 's \<Rightarrow> 's"
    and reset_all :: "'s \<Rightarrow> 's"
    and get :: "'t \<Rightarrow> 's \<Rightarrow> 'l option"
    and decl :: "'s \<Rightarrow> 't \<Rightarrow> bool"
    and ok :: "'s \<Rightarrow> bool"
  assumes get_on: "ok s \<Longrightarrow> decl s t \<Longrightarrow> get u (on t f s) = (if u = t then f else get u s)"
    and reset_on: "ok s \<Longrightarrow> reset t s = on t None s"
    and get_reset_all: "ok s \<Longrightarrow> get u (reset_all s) = None"
    and decl_on: "ok s \<Longrightarrow> decl (on t f s) = decl s"
    and decl_reset_all: "ok s \<Longrightarrow> decl (reset_all s) = decl s"
    and ok_on: "ok s \<Longrightarrow> ok (on t f s)"
    and ok_reset_all: "ok s \<Longrightarrow> ok (reset_all s)"
begin

lemma get_reset: "ok s \<Longrightarrow> decl s t \<Longrightarrow> get u (reset t s) = (if u = t then None else get u s)"
  by (simp add: reset_on get_on)

text \<open>At most one listener per event type: the last \<^verbatim>\<open>on\<close> replaces what was there.\<close>

lemma on_replaces: "ok s \<Longrightarrow> decl s t \<Longrightarrow> get u (on t g (on t f s)) = get u (on t g s)"
  by (simp add: get_on decl_on ok_on)

lemma on_commute:
  "ok s \<Longrightarrow> decl s t \<Longrightarrow> decl s u \<Longrightarrow> t \<noteq> u \<Longrightarrow>
   get v (on t f (on u g s)) = get v (on u g (on t f s))"
  by (simp add: get_on decl_on ok_on)

lemma run_ok:
  "ok s \<Longrightarrow> ok (fold (\<lambda>(t, f). on t f) ops s) \<and> decl (fold (\<lambda>(t, f). on t f) ops s) = decl s"
  by (induction ops arbitrary: s) (auto simp: ok_on decl_on)

text \<open>After any sequence of registrations the table is the map that the sequence describes.\<close>

lemma run_get:
  assumes "ok s" and "\<And>t f. (t, f) \<in> set ops \<Longrightarrow> decl s t"
  shows "get u (fold (\<lambda>(t, f). on t f) ops s) =
    (case map_of (rev ops) u of Some f \<Rightarrow> f | None \<Rightarrow> get u s)"
  using assms
proof (induction ops arbitrary: s)
  case (Cons op ops)
  obtain t f where op: "op = (t, f)" by (cases op)
  have "get u (fold (\<lambda>(t, f). on t f) ops (on t f s)) =
      (case map_of (rev ops) u of Some f \<Rightarrow> f | None \<Rightarrow> get u (on t f s))"
    by (rule Cons.IH) (use Cons.prems in \<open>auto simp: ok_on decl_on\<close>)
  moreover from Cons.prems op have "decl s t" by auto
  ultimately show ?case
    using Cons.prems(1) op by (simp add: get_on map_add_def split: option.splits)
qed simp

end

section \<open>The tuple implements it\<close>

lemma handler_assign_dom [simp]: "map fst (handler_assign t f s) = map fst s"
  by (induction t f s rule: handler_assign.induct) auto

lemma handler_assign_dom_set: "fst ` set (handler_assign t f s) = fst ` set s"
  by (simp flip: set_map)

lemma declares_simps [simp]:
  "\<not> declares [] t"
  "declares ((u, l) # s) t \<longleftrightarrow> u = t \<or> declares s t"
  by (auto simp: declares_def)

lemma handler_assign_get:
  "declares s t \<Longrightarrow> handler u (handler_assign t f s) = (if u = t then f else handler u s)"
  by (induction t f s rule: handler_assign.induct) auto

lemma handler_undeclared: "\<not> declares s t \<Longrightarrow> handler t s = None"
  by (induction t s rule: handler.induct) auto

lemma handler_assign_undeclared: "\<not> declares s t \<Longrightarrow> handler_assign t f s = s"
  by (induction t f s rule: handler_assign.induct) auto

lemma handler_assign_None: "handler u (handler_assign t None s) = (if u = t then None else handler u s)"
  by (cases "declares s t") (auto simp: handler_assign_get handler_assign_undeclared handler_undeclared)

lemma fold_reset_dom: "map fst (fold slots_reset ts s) = map fst s"
  by (induction ts arbitrary: s) (auto simp: slots_reset_def)

lemma handler_fold_reset:
  "handler u (fold slots_reset ts s) = (if u \<in> set ts then None else handler u s)"
  by (induction ts arbitrary: s) (auto simp: slots_reset_def handler_assign_None)

lemma handler_reset_all: "handler u (slots_reset_all s) = None"
proof (cases "declares s u")
  case False
  then show ?thesis
    by (simp add: slots_reset_all_def handler_fold_reset handler_undeclared)
qed (simp add: slots_reset_all_def handler_fold_reset declares_def)

lemma declares_assign: "declares (handler_assign t f s) = declares s"
  by (simp add: declares_def fun_eq_iff handler_assign_dom_set)

lemma declares_reset_all: "declares (slots_reset_all s) = declares s"
  by (simp add: declares_def fun_eq_iff slots_reset_all_def fold_reset_dom flip: set_map)

interpretation tuple: event_table slots_on slots_reset slots_reset_all handler declares "\<lambda>_. True"
  by unfold_locales
    (simp_all add: slots_on_def slots_reset_def handler_assign_get handler_reset_all declares_assign
      declares_reset_all)

lemma handler_make [simp]: "handler t (slots_make ts) = None"
  by (induction ts) (auto simp: slots_make_def)

lemma listeners_make [simp]: "listeners (slots_make ts) = []"
  by (induction ts) (auto simp: slots_make_def listeners_def map_filter_simps)

lemma handler_in_listeners: "handler t s = Some l \<Longrightarrow> l \<in> set (listeners s)"
  by (induction t s rule: handler.induct)
    (auto simp: listeners_def map_filter_simps split: if_splits option.splits)

lemma listeners_assign_subset:
  "set (listeners (handler_assign t f s)) \<subseteq> set_option f \<union> set (listeners s)"
  by (induction t f s rule: handler_assign.induct)
    (auto simp: listeners_def map_filter_simps split: option.splits if_splits)

lemma listeners_fold_reset: "set (listeners (fold slots_reset ts s)) \<subseteq> set (listeners s)"
proof (induction ts arbitrary: s)
  case (Cons t ts)
  have "set (listeners (slots_reset t s)) \<subseteq> set (listeners s)"
    using listeners_assign_subset [of t None s] by (simp add: slots_reset_def)
  with Cons.IH [of "slots_reset t s"] show ?case by auto
qed simp

lemma listeners_reset_all_subset: "set (listeners (slots_reset_all s)) \<subseteq> set (listeners s)"
  unfolding slots_reset_all_def by (rule listeners_fold_reset)

lemma slots_empty:
  assumes "\<forall>u. handler u s = None" and "distinct (map fst s)"
  shows "s = slots_make (map fst s)"
  using assms
proof (induction s)
  case (Cons x s)
  obtain t l where x: "x = (t, l)" by (cases x)
  have "handler u s = None" for u
  proof (cases "u = t")
    case True
    with Cons.prems(2) x show ?thesis by (intro handler_undeclared) (auto simp: declares_def)
  next
    case False
    with Cons.prems(1) x show ?thesis by (auto dest: spec [of _ u])
  qed
  moreover have "l = None" using Cons.prems(1) x by (auto dest: spec [of _ t])
  ultimately show ?case using Cons x by (simp add: slots_make_def)
qed (simp add: slots_make_def)

section \<open>Properties\<close>



text \<open>
  Disconnecting all listeners leaves no listener for any event type and keeps the event types
  of the class, so that a later registration works as on a fresh object.
\<close>

lemma emitter_reset_all_fresh:
  assumes "distinct (map fst s)"
  shows "slots_reset_all s = slots_make (map fst s)"
proof -
  have "map fst (slots_reset_all s) = map fst s" by (simp add: slots_reset_all_def fold_reset_dom)
  then show ?thesis using slots_empty [of "slots_reset_all s"] assms by (simp add: handler_reset_all)
qed

text \<open>
  An error code of libuv, a negative \<^verbatim>\<open>int\<close>, survives the conversion in an error event: the event
  converts to true exactly for a negative code, and \<^verbatim>\<open>code\<close> returns it.
\<close>

lemma error_event_code:
  assumes "int32_range val"
  shows "error_code (make_error_event val) = val \<and> (error_bool (make_error_event val) \<longleftrightarrow> val < 0)"
  using assms by (simp add: make_error_event_def error_code_def error_bool_def)

end
