(* ===== verification/Enum_Flags.thy ===== *)
theory Enum_Flags
  imports Prelude
begin

text \<open>
  \<^verbatim>\<open>src/uvw/enum.hpp\<close>: the operators that \<^verbatim>\<open>enum class\<close> types with a \<^verbatim>\<open>UVW_ENUM\<close> enumerator get.
  Each casts to the underlying type, applies the integer operator and casts back; the underlying
  types are 32 bits wide. A locale states what client code expects of a set of flags (set, clear,
  test), and the operators are an interpretation of it.
\<close>

section \<open>Definitions\<close>

type_synonym flags = u32

definition enum_or :: "flags \<Rightarrow> flags \<Rightarrow> flags" where
  "enum_or lhs rhs = lhs OR rhs"

definition enum_and :: "flags \<Rightarrow> flags \<Rightarrow> flags" where
  "enum_and lhs rhs = lhs AND rhs"

definition enum_xor :: "flags \<Rightarrow> flags \<Rightarrow> flags" where
  "enum_xor lhs rhs = lhs XOR rhs"

definition enum_compl :: "flags \<Rightarrow> flags" where
  "enum_compl v = NOT v"

definition enum_not :: "flags \<Rightarrow> bool" where
  "enum_not v \<longleftrightarrow> v = 0"

text \<open>The assignment forms return the value they store in \<^verbatim>\<open>lhs\<close>.\<close>

definition enum_or_assign :: "flags \<Rightarrow> flags \<Rightarrow> flags" where
  "enum_or_assign lhs rhs = enum_or lhs rhs"

definition enum_and_assign :: "flags \<Rightarrow> flags \<Rightarrow> flags" where
  "enum_and_assign lhs rhs = enum_and lhs rhs"

definition enum_xor_assign :: "flags \<Rightarrow> flags \<Rightarrow> flags" where
  "enum_xor_assign lhs rhs = enum_xor lhs rhs"

text \<open>The idioms of client code: \<^verbatim>\<open>v |= f\<close>, \<^verbatim>\<open>v &= ~f\<close>, \<^verbatim>\<open>v ^= f\<close> and \<^verbatim>\<open>!!(v & f)\<close>.\<close>

definition flag_set :: "flags \<Rightarrow> flags \<Rightarrow> flags" where
  "flag_set f v = enum_or_assign v f"

definition flag_clear :: "flags \<Rightarrow> flags \<Rightarrow> flags" where
  "flag_clear f v = enum_and_assign v (enum_compl f)"

definition flag_toggle :: "flags \<Rightarrow> flags \<Rightarrow> flags" where
  "flag_toggle f v = enum_xor_assign v f"

definition flag_test :: "flags \<Rightarrow> flags \<Rightarrow> bool" where
  "flag_test f v \<longleftrightarrow> \<not> enum_not (enum_and v f)"

text \<open>A sequence of flag updates: \<^verbatim>\<open>true\<close> sets the flag, \<^verbatim>\<open>false\<close> clears it.\<close>

definition flag_run :: "(bool \<times> flags) list \<Rightarrow> flags \<Rightarrow> flags" where
  "flag_run = fold (\<lambda>(b, g). if b then flag_set g else flag_clear g)"

lemmas enum_defs [uvw_defs] =
  enum_or_def enum_and_def enum_xor_def enum_compl_def enum_not_def
  enum_or_assign_def enum_and_assign_def enum_xor_assign_def
  flag_set_def flag_clear_def flag_toggle_def flag_test_def

section \<open>The interface of a flag set\<close>

locale flag_set_laws =
  fixes fset :: "'f \<Rightarrow> 'v \<Rightarrow> 'v"
    and fclear :: "'f \<Rightarrow> 'v \<Rightarrow> 'v"
    and ftest :: "'f \<Rightarrow> 'v \<Rightarrow> bool"
    and single :: "'f \<Rightarrow> bool"
    and apart :: "'f \<Rightarrow> 'f \<Rightarrow> bool"
  assumes test_set: "single f \<Longrightarrow> ftest f (fset f v)"
    and test_clear: "\<not> ftest f (fclear f v)"
    and test_set_other: "apart f g \<Longrightarrow> ftest f (fset g v) = ftest f v"
    and test_clear_other: "apart f g \<Longrightarrow> ftest f (fclear g v) = ftest f v"
begin

text \<open>A run of sets and clears leaves the last word on a flag with its last writer.\<close>

lemma run_untouched:
  "(\<And>b g. (b, g) \<in> set ops \<Longrightarrow> apart f g) \<Longrightarrow>
   ftest f (fold (\<lambda>(b, g). if b then fset g else fclear g) ops v) = ftest f v"
proof (induction ops arbitrary: v)
  case (Cons op ops)
  obtain b g where op: "op = (b, g)" by (cases op)
  with Cons.prems have "apart f g" by auto
  moreover have "ftest f (fold (\<lambda>(b, g). if b then fset g else fclear g) ops w) = ftest f w" for w
    by (rule Cons.IH) (use Cons.prems in auto)
  ultimately show ?case
    using op by (simp add: test_set_other test_clear_other)
qed simp

lemma last_writer_wins:
  assumes "single f" and "\<And>c g. (c, g) \<in> set ops \<Longrightarrow> apart f g"
  shows "ftest f (fold (\<lambda>(b, g). if b then fset g else fclear g) ((b, f) # ops) v) = b"
  using assms by (simp add: run_untouched test_set test_clear)

end

section \<open>The operators implement it\<close>

lemma and_apart_or: "(f :: u32) AND g = 0 \<Longrightarrow> (v OR g) AND f = v AND f"
  by (rule bit_word_eqI) (auto simp: bit_eq_iff bit_simps)

lemma and_apart_compl: "(f :: u32) AND g = 0 \<Longrightarrow> (v AND NOT g) AND f = v AND f"
  by (rule bit_word_eqI) (auto simp: bit_eq_iff bit_simps)

lemma or_and_absorb: "((v :: u32) OR f) AND f = f"
  by (rule bit_word_eqI) (auto simp: bit_simps)

lemma and_compl_and: "((v :: u32) AND NOT f) AND f = 0"
  by (rule bit_word_eqI) (auto simp: bit_simps)

interpretation enum_flags: flag_set_laws flag_set flag_clear flag_test
  "\<lambda>f. f \<noteq> 0" "\<lambda>f g. enum_and f g = 0"
  by unfold_locales
    (simp_all add: enum_defs and_apart_or and_apart_compl or_and_absorb and_compl_and)

lemma flag_toggle_twice: "flag_toggle f (flag_toggle f v) = v"
  by (rule bit_word_eqI) (auto simp: enum_defs bit_simps)

lemma enum_demorgan: "enum_compl (enum_or a b) = enum_and (enum_compl a) (enum_compl b)"
  by (rule bit_word_eqI) (auto simp: enum_defs bit_simps)

section \<open>Properties\<close>



end
