(* ===== verification/Objects.thy ===== *)
theory Objects
  imports Libuv Emitter Enum_Flags
begin

text \<open>
  The objects of the library and who keeps them alive. Every class derived from \<^verbatim>\<open>uv_type\<close>,
  \<^verbatim>\<open>emitter\<close> and \<^verbatim>\<open>std::enable_shared_from_this\<close> is an entry of one object store; a
  \<^verbatim>\<open>std::shared_ptr\<close> is counted where it is stored: in an object (its \<^verbatim>\<open>owner\<close>, its \<^verbatim>\<open>self_ptr\<close>,
  the captures of its listeners, other members), in the user's program (\<^verbatim>\<open>ext\<close>), or in a local
  variable of the library (\<^verbatim>\<open>hold\<close>). An object whose last pointer goes is destroyed: its destructor
  runs, and its own pointers go (\<^verbatim>\<open>collect\<close>).
\<close>

section \<open>Events\<close>

text \<open>\<^verbatim>\<open>socket_address\<close> of \<^verbatim>\<open>util.h\<close>.\<close>

record socket_address =
  ip :: string
  port :: u32

text \<open>\<^verbatim>\<open>fs_event\<close>; a member that the constructor leaves unset is \<^verbatim>\<open>None\<close>.\<close>

record fs_event =
  ev_type :: fs_type
  ev_path :: string
  ev_result :: u64
  ev_read :: "bytes option"
  ev_readlink :: "string option"
  ev_stat :: "file_info option"
  ev_statfs :: "fs_info option"
  ev_dirent :: "(string \<times> int \<times> bool) option"

text \<open>The events of the library, with the data each carries.\<close>

datatype (plugins only: code) event =
    Ev_error error_event
  | Ev_close
  | Ev_async
  | Ev_check
  | Ev_idle
  | Ev_prepare
  | Ev_timer
  | Ev_signal int
  | Ev_poll flags
  | Ev_fs_event "string option" flags
  | Ev_fs_poll file_info file_info
  | Ev_exit int int
  | Ev_listen
  | Ev_end
  | Ev_connect
  | Ev_shutdown
  | Ev_data bytes u64
  | Ev_write
  | Ev_send
  | Ev_udp_data socket_address bytes u64 bool
  | Ev_work
  | Ev_addr_info nat
  | Ev_name_info string string
  | Ev_fs fs_event

text \<open>The event types, by which the tuple of listeners is indexed.\<close>

datatype (plugins only: code) tag =
    T_error | T_close | T_async | T_check | T_idle | T_prepare | T_timer | T_signal | T_poll
  | T_fs_event | T_fs_poll | T_exit | T_listen | T_end | T_connect | T_shutdown | T_data | T_write
  | T_send | T_udp_data | T_work | T_addr_info | T_name_info | T_fs

definition tag_of :: "event \<Rightarrow> tag" where
  "tag_of e =
     (case e of
        Ev_error x \<Rightarrow> T_error
      | Ev_close \<Rightarrow> T_close
      | Ev_async \<Rightarrow> T_async
      | Ev_check \<Rightarrow> T_check
      | Ev_idle \<Rightarrow> T_idle
      | Ev_prepare \<Rightarrow> T_prepare
      | Ev_timer \<Rightarrow> T_timer
      | Ev_signal s \<Rightarrow> T_signal
      | Ev_poll f \<Rightarrow> T_poll
      | Ev_fs_event p f \<Rightarrow> T_fs_event
      | Ev_fs_poll p c \<Rightarrow> T_fs_poll
      | Ev_exit s g \<Rightarrow> T_exit
      | Ev_listen \<Rightarrow> T_listen
      | Ev_end \<Rightarrow> T_end
      | Ev_connect \<Rightarrow> T_connect
      | Ev_shutdown \<Rightarrow> T_shutdown
      | Ev_data d n \<Rightarrow> T_data
      | Ev_write \<Rightarrow> T_write
      | Ev_send \<Rightarrow> T_send
      | Ev_udp_data a d n p \<Rightarrow> T_udp_data
      | Ev_work \<Rightarrow> T_work
      | Ev_addr_info a \<Rightarrow> T_addr_info
      | Ev_name_info h s \<Rightarrow> T_name_info
      | Ev_fs e \<Rightarrow> T_fs)"

section \<open>Objects\<close>

text \<open>
  A listener is a function of the user's program, by number and with the shared pointers it
  captures, or the library's own \<^verbatim>\<open>[ptr = shared_from_this()](const auto &event, const auto &)
  { ptr->publish(event); }\<close>.
\<close>

datatype (plugins only: code) listener = User nat "oid list" | Forward oid

text \<open>The members of \<^verbatim>\<open>process_handle\<close>; \<^verbatim>\<open>po_flags\<close>, \<^verbatim>\<open>po_uid\<close>, \<^verbatim>\<open>po_gid\<close> have no initialiser.\<close>

record process_data =
  po_cwd :: string
  po_flags :: "u32 option"
  po_fd_stdio :: "stdio_container list"
  po_stream_stdio :: "stdio_container list"
  po_uid :: "u32 option"
  po_gid :: "u32 option"

text \<open>The members of \<^verbatim>\<open>file_req\<close>; \<^verbatim>\<open>fs_req\<close> adds the \<^verbatim>\<open>uv_dirent_t dirents\<close>.\<close>

record file_data =
  current :: "bytes option"
  buffer :: "uv_buf option"
  file_desc :: int

datatype (plugins only: code) poll_desc = Poll_fd int | Poll_socket int
datatype (plugins only: code) init_tag = DEFAULT | FLAGS

text \<open>
  The classes, with the members a class adds to \<^verbatim>\<open>resource\<close>. The last group is internal: the user
  never holds one of these.
\<close>

datatype (plugins only: code) kind =
    K_loop lptr
  | K_async | K_check | K_idle | K_prepare | K_timer | K_signal
  | K_poll poll_desc | K_fs_event | K_fs_poll
  | K_tcp init_tag u32 | K_pipe bool | K_tty int bool | K_udp init_tag u32
  | K_process process_data
  | K_work nat | K_getaddrinfo | K_getnameinfo
  | K_file file_data | K_fs "dirent option"
  | K_connect_req | K_shutdown_req | K_write_req uv_buf | K_send_req uv_buf | K_reset_memo

definition internal_kind :: "kind \<Rightarrow> bool" where
  "internal_kind k =
     (case k of
        K_connect_req \<Rightarrow> True
      | K_shutdown_req \<Rightarrow> True
      | K_write_req b \<Rightarrow> True
      | K_send_req b \<Rightarrow> True
      | K_reset_memo \<Rightarrow> True
      | _ \<Rightarrow> False)"

definition fs_kind_of :: "kind \<Rightarrow> bool" where
  "fs_kind_of k = (case k of K_file d \<Rightarrow> True | K_fs d \<Rightarrow> True | _ \<Rightarrow> False)"

definition stream_kind :: "kind \<Rightarrow> bool" where
  "stream_kind k = (case k of K_tcp t f \<Rightarrow> True | K_pipe b \<Rightarrow> True | K_tty f r \<Rightarrow> True | _ \<Rightarrow> False)"

definition handle_kind :: "kind \<Rightarrow> bool" where
  "handle_kind k \<longleftrightarrow> stream_kind k \<or>
     (case k of
        K_async \<Rightarrow> True | K_check \<Rightarrow> True | K_idle \<Rightarrow> True | K_prepare \<Rightarrow> True | K_timer \<Rightarrow> True
      | K_signal \<Rightarrow> True | K_poll d \<Rightarrow> True | K_fs_event \<Rightarrow> True | K_fs_poll \<Rightarrow> True
      | K_udp t f \<Rightarrow> True | K_process d \<Rightarrow> True | _ \<Rightarrow> False)"

text \<open>
  The event types of a class, in the order of its tuple: \<^verbatim>\<open>error_event\<close>, then for a handle
  \<^verbatim>\<open>close_event\<close>, then for a stream the stream's events, then its own.
\<close>

definition stream_tags :: "tag list" where
  "stream_tags = [T_listen, T_end, T_connect, T_shutdown, T_data, T_write]"

definition own_tags :: "kind \<Rightarrow> tag list" where
  "own_tags k =
     (case k of
        K_async \<Rightarrow> [T_async] | K_check \<Rightarrow> [T_check] | K_idle \<Rightarrow> [T_idle] | K_prepare \<Rightarrow> [T_prepare]
      | K_timer \<Rightarrow> [T_timer] | K_signal \<Rightarrow> [T_signal] | K_poll d \<Rightarrow> [T_poll]
      | K_fs_event \<Rightarrow> [T_fs_event] | K_fs_poll \<Rightarrow> [T_fs_poll]
      | K_udp t f \<Rightarrow> [T_send, T_udp_data] | K_process d \<Rightarrow> [T_exit] | K_work n \<Rightarrow> [T_work]
      | K_getaddrinfo \<Rightarrow> [T_addr_info] | K_getnameinfo \<Rightarrow> [T_name_info]
      | K_file d \<Rightarrow> [T_fs] | K_fs d \<Rightarrow> [T_fs]
      | K_connect_req \<Rightarrow> [T_connect] | K_shutdown_req \<Rightarrow> [T_shutdown]
      | K_write_req b \<Rightarrow> [T_write] | K_send_req b \<Rightarrow> [T_send]
      | _ \<Rightarrow> [])"

definition events_of :: "kind \<Rightarrow> tag list" where
  "events_of k = T_error # (if handle_kind k then [T_close] else []) @
     (if stream_kind k then stream_tags else []) @ own_tags k"

record obj =
  alive :: bool
  owner :: "oid option"
  kind :: kind
  handlers :: "(tag, listener) slots"
  user_data :: "nat option"
  self_ptr :: bool
  members :: "oid list"
  ext :: nat
  hold :: nat

text \<open>
  A state of the program: the objects, what libuv has seen, the function-local statics
  (\<^verbatim>\<open>loop::get_default\<close> and \<^verbatim>\<open>tty_handle::mode_memo_handler\<close> keep a \<^verbatim>\<open>std::weak_ptr\<close>).
\<close>

record world =
  objs :: "obj list"
  hist :: history
  default_ref :: "oid option"
  memo_ref :: "oid option"

definition start_world :: world where
  "start_world = \<lparr>objs = [], hist = [], default_ref = None, memo_ref = None\<rparr>"

section \<open>The object store\<close>

definition live :: "world \<Rightarrow> oid \<Rightarrow> bool" where
  "live w p \<longleftrightarrow> p < length (objs w) \<and> alive (objs w ! p)"

definition upd :: "oid \<Rightarrow> (obj \<Rightarrow> obj) \<Rightarrow> world \<Rightarrow> world" where
  "upd p f w = (if p < length (objs w) then w\<lparr>objs := (objs w)[p := f (objs w ! p)]\<rparr> else w)"

text \<open>\<^verbatim>\<open>std::make_shared\<close>: the new pointer is a local of the library.\<close>

definition new_obj :: "kind \<Rightarrow> oid option \<Rightarrow> obj" where
  "new_obj k own =
     \<lparr>alive = True, owner = own, kind = k, handlers = slots_make (events_of k), user_data = None,
      self_ptr = False, members = [], ext = 0, hold = 1\<rparr>"

definition alloc :: "kind \<Rightarrow> oid option \<Rightarrow> world \<Rightarrow> oid \<times> world" where
  "alloc k own w = (length (objs w), w\<lparr>objs := objs w @ [new_obj k own]\<rparr>)"

definition captures :: "listener \<Rightarrow> oid list" where
  "captures l = (case l of User n ps \<Rightarrow> ps | Forward p \<Rightarrow> [p])"

definition refs_of :: "obj \<Rightarrow> oid list" where
  "refs_of b = (case owner b of None \<Rightarrow> [] | Some l \<Rightarrow> [l]) @ members b @
     concat (map captures (listeners (handlers b)))"

definition held_by_objs :: "obj list \<Rightarrow> oid \<Rightarrow> nat" where
  "held_by_objs bs p = sum_list (map (\<lambda>b. if alive b then count_list (refs_of b) p else 0) bs)"

definition own_count :: "obj \<Rightarrow> nat" where
  "own_count b = hold b + ext b + (if self_ptr b then 1 else 0)"

text \<open>\<^verbatim>\<open>use_count()\<close> of the object.\<close>

definition strong :: "world \<Rightarrow> oid \<Rightarrow> nat" where
  "strong w p = own_count (objs w ! p) + held_by_objs (objs w) p"

definition uvcall :: "libuv \<Rightarrow> uv_call \<Rightarrow> world \<Rightarrow> int \<times> world" where
  "uvcall uv c w = (let r = ret uv (hist w) c in (r, w\<lparr>hist := Called c r # hist w\<rparr>))"

definition uv_loop_of :: "world \<Rightarrow> oid \<Rightarrow> lptr" where
  "uv_loop_of w l = (case kind (objs w ! l) of K_loop p \<Rightarrow> p | _ \<Rightarrow> None)"

text \<open>\<^verbatim>\<open>loop::close\<close>, which the destructor runs too when \<^verbatim>\<open>uv_loop\<close> is still set.\<close>

definition loop_close :: "libuv \<Rightarrow> oid \<Rightarrow> world \<Rightarrow> int \<times> world" where
  "loop_close uv l w =
     (case uv_loop_of w l of
        None \<Rightarrow> (0, w)
      | Some p \<Rightarrow>
          let (r, w1) = uvcall uv (C_loop (uv_loop_close (Some p))) w
          in (r, upd l (\<lambda>b. b\<lparr>kind := K_loop None\<rparr>) w1))"

text \<open>
  The destructors with a body: \<^verbatim>\<open>~loop\<close>, \<^verbatim>\<open>~file_req\<close>, \<^verbatim>\<open>~fs_req\<close> and \<^verbatim>\<open>~reset_mode_memo\<close>.
\<close>

definition destructor :: "libuv \<Rightarrow> oid \<Rightarrow> world \<Rightarrow> world" where
  "destructor uv p w =
     (case kind (objs w ! p) of
        K_loop l \<Rightarrow> (if l = None then w else snd (loop_close uv p w))
      | K_file d \<Rightarrow> snd (uvcall uv (C_fs (uv_fs_req_cleanup p)) w)
      | K_fs d \<Rightarrow> snd (uvcall uv (C_fs (uv_fs_req_cleanup p)) w)
      | K_reset_memo \<Rightarrow> snd (uvcall uv (C_tty uv_tty_reset_mode) w)
      | _ \<Rightarrow> w)"

definition destroy :: "libuv \<Rightarrow> oid \<Rightarrow> world \<Rightarrow> world" where
  "destroy uv p w = upd p (\<lambda>b. b\<lparr>alive := False\<rparr>) (destructor uv p w)"

text \<open>The objects whose last pointer has gone.\<close>

definition garbage :: "world \<Rightarrow> oid list" where
  "garbage w = filter (\<lambda>p. alive (objs w ! p) \<and> strong w p = 0) [0..<length (objs w)]"

lemma upd_length [simp]: "length (objs (upd p f w)) = length (objs w)"
  by (simp add: upd_def)

lemma uvcall_objs [simp]: "objs (snd (uvcall uv c w)) = objs w"
  by (simp add: uvcall_def Let_def)

definition count_alive :: "world \<Rightarrow> nat" where
  "count_alive w = length (filter alive (objs w))"

lemma filter_length_update:
  "p < length xs \<Longrightarrow> P (xs ! p) \<Longrightarrow> \<not> P y \<Longrightarrow>
   length (filter P (xs[p := y])) < length (filter P xs)"
proof (induction xs arbitrary: p)
  case (Cons x xs)
  then show ?case by (cases p) auto
qed simp

lemma filter_length_same:
  "p < length xs \<Longrightarrow> P (xs ! p) = P y \<Longrightarrow>
   length (filter P (xs[p := y])) = length (filter P xs)"
proof (induction xs arbitrary: p)
  case (Cons x xs)
  then show ?case by (cases p) auto
qed simp

lemma loop_close_shape:
  "\<exists>k h. snd (loop_close uv p w) = upd p (\<lambda>b. b\<lparr>kind := k b\<rparr>) (w\<lparr>hist := h\<rparr>)"
proof (cases "uv_loop_of w p")
  case None
  then have "snd (loop_close uv p w) = upd p (\<lambda>b. b\<lparr>kind := kind b\<rparr>) (w\<lparr>hist := hist w\<rparr>)"
    by (simp add: loop_close_def upd_def list_update_id)
  then show ?thesis by (intro exI)
next
  case (Some q)
  then show ?thesis
    by (intro exI [of _ "\<lambda>b. K_loop None"] exI [of _ "hist (snd (uvcall uv (C_loop (uv_loop_close (Some q))) w))"])
      (simp add: loop_close_def uvcall_def Let_def)
qed

lemma destructor_cases:
  "destructor uv p w = w \<or> destructor uv p w = snd (loop_close uv p w) \<or>
   (\<exists>c. destructor uv p w = snd (uvcall uv c w))"
  unfolding destructor_def by (cases "kind (objs w ! p)") auto

lemma upd_id [simp]: "upd p (\<lambda>b. b) w = w"
  by (simp add: upd_def)

lemma uvcall_shape: "\<exists>h. snd (uvcall uv c w) = w\<lparr>hist := h\<rparr>"
  by (auto simp: uvcall_def Let_def)

lemma destructor_shape:
  "\<exists>k h. destructor uv p w = upd p (\<lambda>b. b\<lparr>kind := k b\<rparr>) (w\<lparr>hist := h\<rparr>)"
proof -
  have hist: "\<exists>k h. v = upd p (\<lambda>b. b\<lparr>kind := k b\<rparr>) (w\<lparr>hist := h\<rparr>)" if "v = w\<lparr>hist := h\<rparr>" for v h
    by (rule exI [of _ kind], rule exI [of _ h]) (simp add: that)
  consider "destructor uv p w = w" | "destructor uv p w = snd (loop_close uv p w)"
    | c where "destructor uv p w = snd (uvcall uv c w)"
    using destructor_cases by blast
  then show ?thesis
  proof cases
    case 1
    then show ?thesis by (intro hist [of _ "hist w"]) simp
  next
    case 2
    then show ?thesis using loop_close_shape by simp
  next
    case 3
    then show ?thesis using uvcall_shape [of uv c w] hist by auto
  qed
qed

lemma destroy_alive:
  assumes "p < length (objs w)"
  shows "map alive (objs (destroy uv p w)) = (map alive (objs w))[p := False]"
proof -
  obtain k h where "destructor uv p w = upd p (\<lambda>b. b\<lparr>kind := k b\<rparr>) (w\<lparr>hist := h\<rparr>)"
    using destructor_shape by blast
  with assms show ?thesis
    by (simp add: destroy_def upd_def map_update)
qed

lemma count_alive_map: "count_alive w = length (filter id (map alive (objs w)))"
  by (simp add: count_alive_def filter_map comp_def)

lemma garbage_in: "garbage w = p # ps \<Longrightarrow> p < length (objs w) \<and> alive (objs w ! p) \<and> strong w p = 0"
proof -
  assume "garbage w = p # ps"
  then have "p \<in> set (garbage w)" by simp
  then show ?thesis by (auto simp: garbage_def)
qed

lemma destroy_decreases:
  assumes "garbage w = p # ps"
  shows "count_alive (destroy uv p w) < count_alive w"
proof -
  have p: "p < length (objs w)" "alive (objs w ! p)"
    using garbage_in [OF assms] by simp_all
  then have "length (filter id ((map alive (objs w))[p := False])) <
      length (filter id (map alive (objs w)))"
    by (intro filter_length_update) auto
  with p(1) show ?thesis
    by (simp only: count_alive_map destroy_alive)
qed

text \<open>Destruction runs until every object has a pointer to it.\<close>

function collect :: "libuv \<Rightarrow> world \<Rightarrow> world" where
  "collect uv w = (case garbage w of [] \<Rightarrow> w | p # ps \<Rightarrow> collect uv (destroy uv p w))"
  by pat_completeness auto
termination
  by (relation "measure (count_alive \<circ> snd)") (auto simp: destroy_decreases)

declare collect.simps [simp del]

end
