(* ===== verification/Util.thy ===== *)
theory Util
  imports Objects
begin

text \<open>
  \<^verbatim>\<open>src/uvw/util.h\<close> and \<^verbatim>\<open>util.ipp\<close>: the wrappers of libuv's types, the handle types, reading a
  string of unknown length, socket addresses as bytes, and the queries of \<^verbatim>\<open>utilities\<close>. These
  functions keep no state; a libuv function they call is an argument that returns the error code and
  what the function stores through its output pointers.
\<close>

section \<open>Wrappers and handle types\<close>

text \<open>
  \<^verbatim>\<open>uv_type_wrapper<T>\<close> with its conversion and its member \<^verbatim>\<open>operator==\<close>. The free \<^verbatim>\<open>operator==\<close>
  beside it negates the comparison; overload resolution prefers the member, which is not a template.
\<close>

record 'a uv_type_wrapper =
  wrapped :: 'a

definition wrapper_eq :: "'a uv_type_wrapper \<Rightarrow> 'a uv_type_wrapper \<Rightarrow> bool" where
  "wrapper_eq a b \<longleftrightarrow> wrapped a = wrapped b"

definition wrapper_free_eq :: "'a uv_type_wrapper \<Rightarrow> 'a uv_type_wrapper \<Rightarrow> bool" where
  "wrapper_free_eq lhs rhs \<longleftrightarrow> \<not> wrapper_eq lhs rhs"

datatype (plugins only: code) handle_type =
    HT_UNKNOWN | HT_ASYNC | HT_CHECK | HT_FS_EVENT | HT_FS_POLL | HT_HANDLE | HT_IDLE | HT_PIPE
  | HT_POLL | HT_PREPARE | HT_PROCESS | HT_STREAM | HT_TCP | HT_TIMER | HT_TTY | HT_UDP
  | HT_SIGNAL | HT_FILE

definition guess_handle :: "uv_handle_type \<Rightarrow> handle_type" where
  "guess_handle category =
     (case category of
        UV_ASYNC \<Rightarrow> HT_ASYNC
      | UV_CHECK \<Rightarrow> HT_CHECK
      | UV_FS_EVENT \<Rightarrow> HT_FS_EVENT
      | UV_FS_POLL \<Rightarrow> HT_FS_POLL
      | UV_HANDLE \<Rightarrow> HT_HANDLE
      | UV_IDLE \<Rightarrow> HT_IDLE
      | UV_NAMED_PIPE \<Rightarrow> HT_PIPE
      | UV_POLL \<Rightarrow> HT_POLL
      | UV_PREPARE \<Rightarrow> HT_PREPARE
      | UV_PROCESS \<Rightarrow> HT_PROCESS
      | UV_STREAM \<Rightarrow> HT_STREAM
      | UV_TCP \<Rightarrow> HT_TCP
      | UV_TIMER \<Rightarrow> HT_TIMER
      | UV_TTY \<Rightarrow> HT_TTY
      | UV_UDP \<Rightarrow> HT_UDP
      | UV_SIGNAL \<Rightarrow> HT_SIGNAL
      | UV_FILE \<Rightarrow> HT_FILE
      | _ \<Rightarrow> HT_UNKNOWN)"

definition guess_handle_file :: "(int \<Rightarrow> uv_handle_type) \<Rightarrow> int \<Rightarrow> handle_type" where
  "guess_handle_file uv_guess_handle f = guess_handle (uv_guess_handle f)"

text \<open>The enumerator values of \<^verbatim>\<open>uvw_handle_type\<close>.\<close>

definition handle_type_value :: "handle_type \<Rightarrow> uv_handle_type" where
  "handle_type_value t =
     (case t of
        HT_UNKNOWN \<Rightarrow> UV_UNKNOWN_HANDLE
      | HT_ASYNC \<Rightarrow> UV_ASYNC
      | HT_CHECK \<Rightarrow> UV_CHECK
      | HT_FS_EVENT \<Rightarrow> UV_FS_EVENT
      | HT_FS_POLL \<Rightarrow> UV_FS_POLL
      | HT_HANDLE \<Rightarrow> UV_HANDLE
      | HT_IDLE \<Rightarrow> UV_IDLE
      | HT_PIPE \<Rightarrow> UV_NAMED_PIPE
      | HT_POLL \<Rightarrow> UV_POLL
      | HT_PREPARE \<Rightarrow> UV_PREPARE
      | HT_PROCESS \<Rightarrow> UV_PROCESS
      | HT_STREAM \<Rightarrow> UV_STREAM
      | HT_TCP \<Rightarrow> UV_TCP
      | HT_TIMER \<Rightarrow> UV_TIMER
      | HT_TTY \<Rightarrow> UV_TTY
      | HT_UDP \<Rightarrow> UV_UDP
      | HT_SIGNAL \<Rightarrow> UV_SIGNAL
      | HT_FILE \<Rightarrow> UV_FILE)"

section \<open>Strings of unknown length\<close>

definition DEFAULT_SIZE :: nat where
  "DEFAULT_SIZE = 128"

text \<open>
  A C string is read up to its terminator. The bytes of a buffer are characters here; \<^verbatim>\<open>CHR 0x00\<close>
  terminates.
\<close>

definition c_str :: "string \<Rightarrow> string" where
  "c_str s = takeWhile (\<lambda>c. c \<noteq> CHR 0x00) s"

text \<open>
  \<^verbatim>\<open>try_read\<close>: \<^verbatim>\<open>f n\<close> is the libuv function called with a zeroed buffer of \<^verbatim>\<open>n\<close> bytes; it returns
  the error code, the buffer and the size it stores. The second call gets the size of the first.
\<close>

definition try_read :: "int \<Rightarrow> (nat \<Rightarrow> int \<times> string \<times> nat) \<Rightarrow> string" where
  "try_read enobufs f =
     (let (err, buf, size) = f DEFAULT_SIZE in
      if err = enobufs
      then (let (err2, data, size2) = f size in if err2 = 0 then c_str data else [])
      else if err = 0 then take size buf else [])"

text \<open>\<^verbatim>\<open>uv_buf_init(new char[size], size)\<close>; a \<^verbatim>\<open>new char[size]\<close> has \<^verbatim>\<open>size\<close> bytes of any value.\<close>

definition common_alloc_callback :: "(nat \<Rightarrow> bytes) \<Rightarrow> u64 \<Rightarrow> uv_buf" where
  "common_alloc_callback new suggested =
     (let size = to_uint32 (uint suggested) in uv_buf_init (new (unat size)) size)"

definition custom_alloc_callback :: "(u64 \<Rightarrow> bytes \<times> u64) \<Rightarrow> u64 \<Rightarrow> uv_buf" where
  "custom_alloc_callback al suggested =
     (let (ptr, size) = al suggested in uv_buf_init ptr (to_uint32 (uint size)))"

section \<open>Socket addresses\<close>

text \<open>
  Addresses as bytes, in the layout of the Linux targets: the family in the first two bytes, low
  byte first, the port in the next two, high byte first; \<^verbatim>\<open>sockaddr\<close> and \<^verbatim>\<open>sockaddr_in\<close> have 16 bytes,
  \<^verbatim>\<open>sockaddr_in6\<close> has 28. What libuv parses and prints is a parameter.
\<close>

definition sizeof_sockaddr :: nat where
  "sizeof_sockaddr = 16"

definition AF_INET :: nat where
  "AF_INET = 2"

definition AF_INET6 :: nat where
  "AF_INET6 = 10"

record netlib =
  uv_ip4_addr :: "string \<Rightarrow> int \<Rightarrow> int \<times> bytes"
  uv_ip6_addr :: "string \<Rightarrow> int \<Rightarrow> int \<times> bytes"
  uv_ip4_name :: "bytes \<Rightarrow> int \<times> string"
  uv_ip6_name :: "bytes \<Rightarrow> int \<times> string"

definition sa_family :: "bytes \<Rightarrow> nat" where
  "sa_family a = unat (a ! 0) + 256 * unat (a ! 1)"

definition ntohs_port :: "bytes \<Rightarrow> u32" where
  "ntohs_port a = of_nat (256 * unat (a ! 2) + unat (a ! 3))"

text \<open>The function returns a \<^verbatim>\<open>sockaddr\<close> by value, whatever the family.\<close>

definition ip_addr :: "netlib \<Rightarrow> string \<Rightarrow> u32 \<Rightarrow> bytes" where
  "ip_addr net addr pt =
     (let signed_port = sint pt; (e4, a4) = uv_ip4_addr net addr signed_port in
      if e4 = 0 then take sizeof_sockaddr a4
      else (let (e6, a6) = uv_ip6_addr net addr signed_port in
            if e6 = 0 then take sizeof_sockaddr a6 else replicate sizeof_sockaddr 0))"

definition no_address :: socket_address where
  "no_address = \<lparr>ip = [], port = 0\<rparr>"

definition sock_addr_in :: "netlib \<Rightarrow> bytes \<Rightarrow> socket_address" where
  "sock_addr_in net a =
     (let (err, name) = uv_ip4_name net a in
      if err = 0 then \<lparr>ip = c_str name, port = ntohs_port a\<rparr> else no_address)"

definition sock_addr_in6 :: "netlib \<Rightarrow> bytes \<Rightarrow> socket_address" where
  "sock_addr_in6 net a =
     (let (err, name) = uv_ip6_name net a in
      if err = 0 then \<lparr>ip = c_str name, port = ntohs_port a\<rparr> else no_address)"

definition sock_addr :: "netlib \<Rightarrow> bytes \<Rightarrow> socket_address" where
  "sock_addr net a =
     (if sa_family a = AF_INET then sock_addr_in net a
      else if sa_family a = AF_INET6 then sock_addr_in6 net a
      else no_address)"

text \<open>The overload for \<^verbatim>\<open>sockaddr_storage\<close>, whose \<^verbatim>\<open>ss_family\<close> is at the same place.\<close>

definition sock_addr_storage :: "netlib \<Rightarrow> bytes \<Rightarrow> socket_address" where
  "sock_addr_storage net storage =
     (if sa_family storage = AF_INET then sock_addr_in net storage
      else if sa_family storage = AF_INET6 then sock_addr_in6 net storage
      else no_address)"

section \<open>Queries of the system\<close>

text \<open>
  \<^verbatim>\<open>passwd_info\<close>: the pointer may be null (\<^verbatim>\<open>None\<close>), and the strings of an entry may be. An entry that
  libuv never filled is \<^verbatim>\<open>Some None\<close>: \<^verbatim>\<open>new uv_passwd_t\<close> leaves its members indeterminate.
\<close>

record uv_passwd =
  pw_username :: "string option"
  pw_uid :: int
  pw_gid :: int
  pw_shell :: "string option"
  pw_homedir :: "string option"

type_synonym passwd_info = "uv_passwd option option"

definition or_empty :: "string option \<Rightarrow> string" where
  "or_empty s = (case s of None \<Rightarrow> [] | Some t \<Rightarrow> t)"

text \<open>\<^verbatim>\<open>value ? ... : ...\<close>: a member of the entry, or the default.\<close>

definition passwd_member :: "'a \<Rightarrow> (uv_passwd \<Rightarrow> 'a) \<Rightarrow> passwd_info \<Rightarrow> ub + 'a" where
  "passwd_member dflt get v =
     (case v of None \<Rightarrow> Inr dflt | Some None \<Rightarrow> Inl Indeterminate_value | Some (Some p) \<Rightarrow> Inr (get p))"

definition passwd_username :: "passwd_info \<Rightarrow> ub + string" where
  "passwd_username v = passwd_member [] (\<lambda>p. or_empty (pw_username p)) v"

definition passwd_uid :: "passwd_info \<Rightarrow> ub + int" where
  "passwd_uid v = passwd_member 0 pw_uid v"

definition passwd_gid :: "passwd_info \<Rightarrow> ub + int" where
  "passwd_gid v = passwd_member 0 pw_gid v"

definition passwd_shell :: "passwd_info \<Rightarrow> ub + string" where
  "passwd_shell v = passwd_member [] (\<lambda>p. or_empty (pw_shell p)) v"

definition passwd_homedir :: "passwd_info \<Rightarrow> ub + string" where
  "passwd_homedir v = passwd_member [] (\<lambda>p. or_empty (pw_homedir p)) v"

definition passwd_bool :: "passwd_info \<Rightarrow> bool" where
  "passwd_bool v \<longleftrightarrow> v \<noteq> None"

text \<open>
  \<^verbatim>\<open>os::passwd\<close>: the entry is allocated, and the error code of \<^verbatim>\<open>uv_os_get_passwd\<close> is dropped; the
  argument is that code and the entry it stored, if it did. The deleter hands the entry to
  \<^verbatim>\<open>uv_os_free_passwd\<close>, which reads its pointers.
\<close>

definition os_passwd :: "(int \<times> uv_passwd option) \<Rightarrow> passwd_info" where
  "os_passwd uv_os_get_passwd = Some (snd uv_os_get_passwd)"

definition passwd_deleter :: "passwd_info \<Rightarrow> ub + uv_passwd list" where
  "passwd_deleter v =
     (case v of None \<Rightarrow> Inr [] | Some None \<Rightarrow> Inl Indeterminate_value | Some (Some p) \<Rightarrow> Inr [p])"

record uts_name =
  sysname :: string
  release_name :: string
  version_name :: string
  machine :: string

definition uts_sysname :: "uts_name option \<Rightarrow> string" where
  "uts_sysname u = (case u of None \<Rightarrow> [] | Some n \<Rightarrow> sysname n)"

definition uts_release :: "uts_name option \<Rightarrow> string" where
  "uts_release u = (case u of None \<Rightarrow> [] | Some n \<Rightarrow> release_name n)"

definition uts_version :: "uts_name option \<Rightarrow> string" where
  "uts_version u = (case u of None \<Rightarrow> [] | Some n \<Rightarrow> version_name n)"

definition uts_machine :: "uts_name option \<Rightarrow> string" where
  "uts_machine u = (case u of None \<Rightarrow> [] | Some n \<Rightarrow> machine n)"

text \<open>\<^verbatim>\<open>os::env\<close>: read, write or unset, and iterate.\<close>

definition os_env_get :: "int \<Rightarrow> (string \<Rightarrow> nat \<Rightarrow> int \<times> string \<times> nat) \<Rightarrow> string \<Rightarrow> string" where
  "os_env_get enobufs uv_os_getenv name = try_read enobufs (uv_os_getenv (c_str name))"

datatype env_call = uv_os_setenv string string | uv_os_unsetenv string

definition os_env_set_call :: "string \<Rightarrow> string \<Rightarrow> env_call" where
  "os_env_set_call name value =
     (if value = [] then uv_os_unsetenv (c_str name) else uv_os_setenv (c_str name) (c_str value))"

definition os_env_set :: "(env_call \<Rightarrow> int) \<Rightarrow> string \<Rightarrow> string \<Rightarrow> bool" where
  "os_env_set env name value \<longleftrightarrow> env (os_env_set_call name value) = 0"

text \<open>
  Arrays that libuv allocates are given back to it with their length when they have been read; the
  functions below return these calls with their results.
\<close>

datatype array_call = uv_os_free_environ nat | uv_free_cpu_info nat | uv_free_interface_addresses nat

text \<open>The loop over the items; \<^verbatim>\<open>func\<close> acts on the caller's state.\<close>

fun env_loop :: "(string \<Rightarrow> string \<Rightarrow> 's \<Rightarrow> 's) \<Rightarrow> (string \<times> string) list \<Rightarrow> 's \<Rightarrow> 's" where
  "env_loop func [] s = s"
| "env_loop func ((name, value) # items) s = env_loop func items (func name value s)"

definition os_env_iterate ::
  "(string \<Rightarrow> string \<Rightarrow> 's \<Rightarrow> 's) \<Rightarrow> int \<times> (string \<times> string) list \<Rightarrow> 's \<Rightarrow>
   bool \<times> 's \<times> array_call list" where
  "os_env_iterate func uv_os_environ s =
     (let (err, items) = uv_os_environ in
      if err = 0 then (True, env_loop func items s, [uv_os_free_environ (length items)])
      else (False, s, []))"

definition UV_PRIORITY_LOW :: int where
  "UV_PRIORITY_LOW = 19"

definition os_priority :: "(int \<Rightarrow> int \<times> int) \<Rightarrow> int \<Rightarrow> int" where
  "os_priority uv_os_getpriority pid =
     (let (err, prio) = uv_os_getpriority pid in if err \<noteq> 0 then UV_PRIORITY_LOW + 1 else prio)"

definition os_set_priority :: "(int \<Rightarrow> int \<Rightarrow> int) \<Rightarrow> int \<Rightarrow> int \<Rightarrow> bool" where
  "os_set_priority uv_os_setpriority pid prio \<longleftrightarrow> 0 = uv_os_setpriority pid prio"

text \<open>\<^verbatim>\<open>utilities::cpu\<close> and \<^verbatim>\<open>interface_addresses\<close> copy the arrays libuv returns, element by element.\<close>

record cpu_info =
  cpu_model :: string
  cpu_speed :: int
  cpu_times :: "int list"

fun cpu_loop :: "cpu_info list \<Rightarrow> cpu_info list \<Rightarrow> cpu_info list" where
  "cpu_loop acc [] = acc"
| "cpu_loop acc (i # infos) =
     cpu_loop (acc @ [\<lparr>cpu_model = cpu_model i, cpu_speed = cpu_speed i, cpu_times = cpu_times i\<rparr>]) infos"

definition cpu :: "int \<times> cpu_info list \<Rightarrow> cpu_info list \<times> array_call list" where
  "cpu uv_cpu_info =
     (let (err, infos) = uv_cpu_info in
      if 0 = err then (cpu_loop [] infos, [uv_free_cpu_info (length infos)]) else ([], []))"

record uv_interface =
  if_name :: string
  if_phys :: bytes
  if_internal :: int
  if_address :: bytes
  if_netmask :: bytes

record interface_address =
  ia_name :: string
  ia_physical :: bytes
  ia_internal :: bool
  ia_address :: socket_address
  ia_netmask :: socket_address

text \<open>
  The body of the loop. The local has no initialiser: for an address of another family the numbers
  in \<^verbatim>\<open>address\<close> and \<^verbatim>\<open>netmask\<close> stay indeterminate, and moving the local into the vector reads them.
\<close>

definition interface_of :: "netlib \<Rightarrow> uv_interface \<Rightarrow> ub + interface_address" where
  "interface_of net i =
     (let make = (\<lambda>a m. \<lparr>ia_name = if_name i, ia_physical = take 6 (if_phys i),
                         ia_internal = (if if_internal i = 0 then False else True),
                         ia_address = a, ia_netmask = m\<rparr>) in
      if sa_family (if_address i) = AF_INET
      then Inr (make (sock_addr_in net (if_address i)) (sock_addr_in net (if_netmask i)))
      else if sa_family (if_address i) = AF_INET6
      then Inr (make (sock_addr_in6 net (if_address i)) (sock_addr_in6 net (if_netmask i)))
      else Inl Indeterminate_value)"

fun interfaces_loop ::
  "netlib \<Rightarrow> interface_address list \<Rightarrow> uv_interface list \<Rightarrow> ub + interface_address list" where
  "interfaces_loop net acc [] = Inr acc"
| "interfaces_loop net acc (i # is) =
     (case interface_of net i of Inl e \<Rightarrow> Inl e | Inr a \<Rightarrow> interfaces_loop net (acc @ [a]) is)"

definition interface_addresses ::
  "netlib \<Rightarrow> int \<times> uv_interface list \<Rightarrow> ub + (interface_address list \<times> array_call list)" where
  "interface_addresses net uv_interface_addresses =
     (let (err, ifaces) = uv_interface_addresses in
      if 0 = err then map_sum id (\<lambda>as. (as, [uv_free_interface_addresses (length ifaces)])) (interfaces_loop net [] ifaces)
      else Inr ([], []))"

text \<open>
  \<^verbatim>\<open>process_title\<close>: the string is assigned the whole buffer; \<^verbatim>\<open>resident_set_memory\<close>: the size, or
  the error; \<^verbatim>\<open>uptime\<close>: zero in case of errors.
\<close>

definition process_title :: "(nat \<Rightarrow> int \<times> string) \<Rightarrow> string" where
  "process_title uv_get_process_title =
     (let (err, buf) = uv_get_process_title DEFAULT_SIZE in
      if 0 = err then take DEFAULT_SIZE buf else [])"

definition set_process_title :: "(string \<Rightarrow> int) \<Rightarrow> string \<Rightarrow> bool" where
  "set_process_title uv_set_process_title title \<longleftrightarrow> 0 = uv_set_process_title (c_str title)"

definition resident_set_memory :: "int \<times> u64 \<Rightarrow> int" where
  "resident_set_memory uv_resident_set_memory =
     (let (err, res) = uv_resident_set_memory in
      if err = 0 then to_int64 (uint res) else to_int64 err)"

definition uptime :: "int \<times> 'd \<Rightarrow> 'd \<Rightarrow> 'd" where
  "uptime uv_uptime zero = (let (err, r) = uv_uptime in if 0 \<noteq> err then zero else r)"

text \<open>\<^verbatim>\<open>rusage\<close> and \<^verbatim>\<open>gettime\<close>: a value-initialised struct in case of errors.\<close>

definition rusage :: "int \<times> int list \<Rightarrow> int list" where
  "rusage uv_getrusage =
     (let (err, ru) = uv_getrusage in if err \<noteq> 0 then replicate (length ru) 0 else ru)"

datatype (plugins only: code) clock_id = MONOTONIC | REALTIME

definition clock_id_value :: "clock_id \<Rightarrow> nat" where
  "clock_id_value c = (case c of MONOTONIC \<Rightarrow> 0 | REALTIME \<Rightarrow> 1)"

definition gettime :: "(nat \<Rightarrow> int \<times> int \<times> int) \<Rightarrow> clock_id \<Rightarrow> int \<times> int" where
  "gettime uv_clock_gettime source =
     (let (err, ts) = uv_clock_gettime (clock_id_value source) in if err \<noteq> 0 then (0, 0) else ts)"

text \<open>\<^verbatim>\<open>time_of_day\<close> returns the local variable whatever the call says; it is unset when the call failed.\<close>

definition time_of_day :: "int \<times> (int \<times> int) option \<Rightarrow> ub + (int \<times> int)" where
  "time_of_day uv_gettimeofday =
     (case snd uv_gettimeofday of None \<Rightarrow> Inl Indeterminate_value | Some tv \<Rightarrow> Inr tv)"

text \<open>The functions that replace the allocator, by number.\<close>

definition replace_allocator :: "(nat \<Rightarrow> nat \<Rightarrow> nat \<Rightarrow> nat \<Rightarrow> int) \<Rightarrow> nat \<Rightarrow> nat \<Rightarrow> nat \<Rightarrow> nat \<Rightarrow> bool" where
  "replace_allocator uv_replace_allocator malloc_func realloc_func calloc_func free_func \<longleftrightarrow>
     0 = uv_replace_allocator malloc_func realloc_func calloc_func free_func"

definition chdir :: "(string \<Rightarrow> int) \<Rightarrow> string \<Rightarrow> bool" where
  "chdir uv_chdir dir \<longleftrightarrow> 0 = uv_chdir (c_str dir)"

text \<open>The other strings that \<^verbatim>\<open>try_read\<close> fetches, and the queries that pass libuv's value on.\<close>

type_synonym name_source = "nat \<Rightarrow> int \<times> string \<times> nat"

definition os_homedir :: "int \<Rightarrow> name_source \<Rightarrow> string" where
  "os_homedir enobufs uv_os_homedir = try_read enobufs uv_os_homedir"

definition os_tmpdir :: "int \<Rightarrow> name_source \<Rightarrow> string" where
  "os_tmpdir enobufs uv_os_tmpdir = try_read enobufs uv_os_tmpdir"

definition os_hostname :: "int \<Rightarrow> name_source \<Rightarrow> string" where
  "os_hostname enobufs uv_os_gethostname = try_read enobufs uv_os_gethostname"

definition exe_path :: "int \<Rightarrow> name_source \<Rightarrow> string" where
  "exe_path enobufs uv_exepath = try_read enobufs uv_exepath"

definition cwd :: "int \<Rightarrow> name_source \<Rightarrow> string" where
  "cwd enobufs uv_cwd = try_read enobufs uv_cwd"

definition index_to_name :: "int \<Rightarrow> (u32 \<Rightarrow> name_source) \<Rightarrow> u32 \<Rightarrow> string" where
  "index_to_name enobufs uv_if_indextoname index = try_read enobufs (uv_if_indextoname index)"

definition index_to_iid :: "int \<Rightarrow> (u32 \<Rightarrow> name_source) \<Rightarrow> u32 \<Rightarrow> string" where
  "index_to_iid enobufs uv_if_indextoiid index = try_read enobufs (uv_if_indextoiid index)"

definition os_uname :: "int \<times> uts_name \<Rightarrow> uts_name option" where
  "os_uname uv_os_uname = Some (snd uv_os_uname)"

text \<open>The standard descriptors.\<close>

definition std_in :: "int uv_type_wrapper" where
  "std_in = \<lparr>wrapped = 0\<rparr>"

definition std_out :: "int uv_type_wrapper" where
  "std_out = \<lparr>wrapped = 1\<rparr>"

definition std_err :: "int uv_type_wrapper" where
  "std_err = \<lparr>wrapped = 2\<rparr>"

text \<open>
  The queries whose value is libuv's, unchanged: the process numbers, the sizes of the memory, the
  clock, the number of threads that can run, the adjusted program arguments. \<^verbatim>\<open>load_average\<close> returns
  the array that \<^verbatim>\<open>uv_loadavg\<close> fills; \<^verbatim>\<open>sleep\<close> has no result, what it does to the system is \<^verbatim>\<open>uv_sleep\<close>.
\<close>

definition os_pid :: "int \<Rightarrow> int" where
  "os_pid uv_os_getpid = uv_os_getpid"

definition os_ppid :: "int \<Rightarrow> int" where
  "os_ppid uv_os_getppid = uv_os_getppid"

definition total_memory :: "u64 \<Rightarrow> u64" where
  "total_memory uv_get_total_memory = uv_get_total_memory"

definition constrained_memory :: "u64 \<Rightarrow> u64" where
  "constrained_memory uv_get_constrained_memory = uv_get_constrained_memory"

definition available_memory :: "u64 \<Rightarrow> u64" where
  "available_memory uv_get_available_memory = uv_get_available_memory"

definition hrtime :: "u64 \<Rightarrow> u64" where
  "hrtime uv_hrtime = uv_hrtime"

definition available_parallelism :: "u32 \<Rightarrow> u32" where
  "available_parallelism uv_available_parallelism = uv_available_parallelism"

definition setup_args :: "(int \<Rightarrow> string list \<Rightarrow> string list) \<Rightarrow> int \<Rightarrow> string list \<Rightarrow> string list" where
  "setup_args uv_setup_args argc argv = uv_setup_args argc argv"

definition load_average :: "'d \<times> 'd \<times> 'd \<Rightarrow> 'd list" where
  "load_average uv_loadavg = (let (one, five, fifteen) = uv_loadavg in [one, five, fifteen])"

definition util_sleep :: "(u32 \<Rightarrow> 's \<Rightarrow> 's) \<Rightarrow> u32 \<Rightarrow> 's \<Rightarrow> 's" where
  "util_sleep uv_sleep msec s = uv_sleep msec s"

section \<open>The contracts of the parameters\<close>

text \<open>
  The documented protocol of a function that fills a buffer: with room for the value and its
  terminator it succeeds and stores the length; otherwise it returns \<^verbatim>\<open>UV_ENOBUFS\<close> and stores the
  size that is needed, terminator included.
\<close>

definition fill_buffer :: "int \<Rightarrow> string \<Rightarrow> nat \<Rightarrow> int \<times> string \<times> nat" where
  "fill_buffer enobufs val n =
     (if length val < n
      then (0, val @ replicate (n - length val) (CHR 0x00), length val)
      else (enobufs, replicate n (CHR 0x00), Suc (length val)))"

text \<open>The environment of the process, and \<^verbatim>\<open>uv_os_getenv\<close> on it; \<^verbatim>\<open>UV_ENOENT\<close> for a missing name.\<close>

definition env_after :: "env_call \<Rightarrow> (string \<rightharpoonup> string) \<Rightarrow> string \<rightharpoonup> string" where
  "env_after c m = (case c of uv_os_setenv n v \<Rightarrow> m(n \<mapsto> v) | uv_os_unsetenv n \<Rightarrow> m(n := None))"

definition getenv_of :: "int \<Rightarrow> (string \<rightharpoonup> string) \<Rightarrow> string \<Rightarrow> nat \<Rightarrow> int \<times> string \<times> nat" where
  "getenv_of enobufs m name n =
     (case m name of None \<Rightarrow> (-2, replicate n (CHR 0x00), n) | Some v \<Rightarrow> fill_buffer enobufs v n)"

text \<open>
  \<^verbatim>\<open>uv_ip4_addr\<close> and \<^verbatim>\<open>uv_ip4_name\<close> as documented: the first fills a \<^verbatim>\<open>sockaddr_in\<close> with the family,
  the low 16 bits of the port in network order and the parsed address, and the second prints the
  address that the first parsed.
\<close>

definition sockaddr_in_of :: "int \<Rightarrow> bytes \<Rightarrow> bytes" where
  "sockaddr_in_of pt quad =
     [2, 0, of_int (pt div 256), of_int pt] @ quad @ replicate 8 0"

definition documented_ip4 :: "netlib \<Rightarrow> string \<Rightarrow> bytes \<Rightarrow> bool" where
  "documented_ip4 net text quad \<longleftrightarrow> length quad = 4 \<and>
     (\<forall>pt. uv_ip4_addr net text pt = (0, sockaddr_in_of pt quad)) \<and>
     (\<forall>pt. uv_ip4_name net (sockaddr_in_of pt quad) = (0, text @ [CHR 0x00]))"

definition sample_netlib :: netlib where
  "sample_netlib =
     \<lparr>uv_ip4_addr = (\<lambda>s pt. if s = ''127.0.0.1'' then (0, sockaddr_in_of pt [127, 0, 0, 1]) else (-22, [])),
      uv_ip6_addr = (\<lambda>s pt. if s = ''::1''
        then (0, [10, 0, of_int (pt div 256), of_int pt] @ replicate 19 0 @ [1] @ replicate 4 0)
        else (-22, [])),
      uv_ip4_name = (\<lambda>a. (0, ''127.0.0.1'' @ [CHR 0x00])),
      uv_ip6_name = (\<lambda>a. (0, ''::1'' @ [CHR 0x00]))\<rparr>"

section \<open>Lemmas\<close>

lemma c_str_id: "CHR 0x00 \<notin> set s \<Longrightarrow> c_str s = s"
  unfolding c_str_def by (intro takeWhile_eq_all_conv [THEN iffD2]) auto

lemma c_str_append_zero: "CHR 0x00 \<notin> set s \<Longrightarrow> c_str (s @ CHR 0x00 # t) = s"
  unfolding c_str_def by (subst takeWhile_append2) auto

lemma c_str_no_zero: "CHR 0x00 \<notin> set (c_str s)"
  unfolding c_str_def by (auto dest: set_takeWhileD)

lemma fill_buffer_read:
  assumes "enobufs \<noteq> 0" and "CHR 0x00 \<notin> set val"
  shows "try_read enobufs (fill_buffer enobufs val) = val"
  using assms by (simp add: try_read_def fill_buffer_def c_str_append_zero)

lemma try_read_failure:
  assumes "enobufs \<noteq> err" and "err \<noteq> 0" and "fst (f DEFAULT_SIZE) = err"
  shows "try_read enobufs f = []"
  using assms by (auto simp: try_read_def Let_def split: prod.splits)

lemma getenv_read:
  assumes "enobufs \<noteq> 0" and "enobufs \<noteq> -2" and "\<forall>v. m (c_str name) = Some v \<longrightarrow> CHR 0x00 \<notin> set v"
  shows "os_env_get enobufs (getenv_of enobufs m) name =
    (case m (c_str name) of None \<Rightarrow> [] | Some v \<Rightarrow> v)"
proof (cases "m (c_str name)")
  case None
  then show ?thesis using assms(2) try_read_failure [of enobufs "-2"]
    by (simp add: os_env_get_def getenv_of_def)
next
  case (Some v)
  then have "getenv_of enobufs m (c_str name) = fill_buffer enobufs v"
    by (simp add: getenv_of_def fun_eq_iff)
  with Some assms(1,3) show ?thesis by (simp add: os_env_get_def fill_buffer_read)
qed

text \<open>The two bytes of a port and back, for a port of 16 bits.\<close>

lemma port_bytes:
  assumes "n < 65536"
  shows "256 * unat (of_int (int n div 256) :: u8) + unat (of_int (int n) :: u8) = n"
proof -
  have "(of_int (int n div 256) :: u8) = of_nat (n div 256)" "(of_int (int n) :: u8) = of_nat n"
    by (metis of_int_of_nat_eq zdiv_int of_nat_numeral) simp
  moreover have "n div 256 < 256" using assms by simp
  ultimately show ?thesis by (simp add: unat_of_nat)
qed

lemma ntohs_sockaddr_in:
  assumes "unat pt < 65536"
  shows "ntohs_port (sockaddr_in_of (sint (pt :: u32)) quad) = pt"
proof -
  have "sint pt = int (unat pt)"
  proof -
    have "int (unat pt) < 65536" using assms by linarith
    then have "uint pt < 65536" by (simp only: of_nat_unat)
    then have "signed_take_bit 31 (uint pt) = uint pt"
      by (intro signed_take_bit_int_eq_self order_trans [OF _ uint_ge_0]) simp_all
    then show ?thesis by (simp add: sint_uint)
  qed
  then show ?thesis
    using port_bytes [OF assms]
    by (simp only: ntohs_port_def sockaddr_in_of_def append_Cons nth_Cons_Suc nth_Cons_0 numeral_nat One_nat_def)
      simp
qed

lemma cpu_loop_append: "cpu_loop acc infos = acc @ infos"
  by (induction infos arbitrary: acc) simp_all

lemma env_loop_fold: "env_loop func items s = fold (\<lambda>(n, v). func n v) items s"
  by (induction items arbitrary: s) auto

text \<open>The families that the loop over the interfaces knows.\<close>

definition inet_family :: "uv_interface \<Rightarrow> bool" where
  "inet_family i \<longleftrightarrow> sa_family (if_address i) = AF_INET \<or> sa_family (if_address i) = AF_INET6"

lemma interface_of_defined: "inet_family i \<Longrightarrow> \<exists>a. interface_of net i = Inr a"
  by (auto simp: inet_family_def interface_of_def Let_def)

lemma interface_of_undefined: "\<not> inet_family i \<Longrightarrow> interface_of net i = Inl Indeterminate_value"
  by (auto simp: inet_family_def interface_of_def Let_def)

lemma interfaces_loop_map:
  "interfaces_loop net acc ifs =
     (if list_all inet_family ifs then Inr (acc @ map (\<lambda>i. projr (interface_of net i)) ifs)
      else Inl Indeterminate_value)"
proof (induction ifs arbitrary: acc)
  case (Cons i ifs)
  then show ?case
    using interface_of_defined [of i net] interface_of_undefined [of i net] by (cases "inet_family i") auto
qed simp

section \<open>Properties\<close>

text \<open>
  \<^verbatim>\<open>guess_handle\<close> inverts the values of \<^verbatim>\<open>handle_type\<close>: every enumerator is recognised from the
  libuv category it stands for, and a category that has no enumerator is reported as unknown.
\<close>

lemma guess_handle_inverse:
  "guess_handle (handle_type_value t) = t \<and>
   (guess_handle c = HT_UNKNOWN \<longleftrightarrow> c \<notin> handle_type_value ` (UNIV - {HT_UNKNOWN}))"
proof -
  have inv: "guess_handle (handle_type_value t) = t" for t
    by (cases t) (simp_all add: guess_handle_def handle_type_value_def)
  have "guess_handle c \<noteq> HT_UNKNOWN \<Longrightarrow> handle_type_value (guess_handle c) = c"
    by (cases c) (simp_all add: guess_handle_def handle_type_value_def)
  with inv show ?thesis by (metis (no_types, lifting) DiffE DiffI UNIV_I image_iff singleton_iff)
qed

text \<open>
  C27. \<^verbatim>\<open>try_read\<close> returns the whole value of a function that fills buffers, whatever its length: from the
  buffer on the stack when it fits, else from a second call with the size the first one reported.
\<close>

theorem try_read_complete:
  assumes "\<forall>n. f n = fill_buffer enobufs val n" and "enobufs \<noteq> 0" and "CHR 0x00 \<notin> set val"
  shows "try_read enobufs f = val"
proof -
  have "f = fill_buffer enobufs val" using assms(1) by (intro ext) simp
  then show ?thesis using assms(2,3) by (simp add: fill_buffer_read)
qed

theorem try_read_complete_witness:
  "try_read (-105) (fill_buffer (-105) (replicate 200 CHR ''x'')) = replicate 200 CHR ''x''"
  by (rule try_read_complete) simp_all



text \<open>
  C29. An IPv4 address and a port of 16 bits survive the way to a \<^verbatim>\<open>sockaddr\<close> and back: \<^verbatim>\<open>sock_addr\<close> reads
  the text and the port from the result of \<^verbatim>\<open>ip_addr\<close>.
\<close>

theorem ip4_round_trip:
  assumes "documented_ip4 net txt quad" and "CHR 0x00 \<notin> set txt" and "unat pt < 65536"
  shows "sock_addr net (ip_addr net txt pt) = \<lparr>ip = txt, port = pt\<rparr>"
proof -
  let ?a = "sockaddr_in_of (sint pt) quad"
  have "length ?a = sizeof_sockaddr"
    using assms(1) by (simp add: sockaddr_in_of_def documented_ip4_def sizeof_sockaddr_def)
  then have "ip_addr net txt pt = ?a"
    using assms(1) by (simp add: ip_addr_def documented_ip4_def)
  moreover have "sa_family ?a = AF_INET"
    by (simp add: sa_family_def sockaddr_in_of_def AF_INET_def)
  moreover have "c_str (txt @ [CHR 0x00]) = txt" using assms(2) by (rule c_str_append_zero)
  ultimately show ?thesis
    using assms(1,3) by (simp add: sock_addr_def sock_addr_in_def documented_ip4_def ntohs_sockaddr_in)
qed

theorem ip4_round_trip_witness:
  "sock_addr sample_netlib (ip_addr sample_netlib ''127.0.0.1'' 8080) = \<lparr>ip = ''127.0.0.1'', port = 8080\<rparr>"
  by (rule ip4_round_trip [of _ _ "[127, 0, 0, 1]"])
    (simp_all add: documented_ip4_def sample_netlib_def)

text \<open>
  C30. An IPv6 address does not survive it: \<^verbatim>\<open>ip_addr\<close> returns a \<^verbatim>\<open>sockaddr\<close> by value, so that of the
  28 bytes of a \<^verbatim>\<open>sockaddr_in6\<close> only the first 16 are left, and two addresses that differ after
  their first eight bytes give the same result.
\<close>

theorem ip6_truncated:
  assumes "fst (uv_ip4_addr net s (sint pt)) \<noteq> 0" and "fst (uv_ip4_addr net t (sint pt)) \<noteq> 0"
    and "uv_ip6_addr net s (sint pt) = (0, front @ xs)" and "uv_ip6_addr net t (sint pt) = (0, front @ ys)"
    and "length front = 16"
  shows "ip_addr net s pt = front \<and> ip_addr net t pt = front"
  using assms by (auto simp: ip_addr_def sizeof_sockaddr_def Let_def split: prod.splits)

theorem ip6_truncated_witness:
  "ip_addr sample_netlib ''::1'' 80 = [10, 0, 0, 80] @ replicate 12 0"
  using ip6_truncated [of sample_netlib "''::1''" 80 "''::1''" "[10, 0, 0, 80] @ replicate 12 0"
      "replicate 7 0 @ [1] @ replicate 4 0" "replicate 7 0 @ [1] @ replicate 4 0"]
  by (simp add: sample_netlib_def numeral_eq_Suc)

text \<open>
  The lists of processors, of environment variables and of network interfaces are complete and in
  libuv's order, and the array libuv allocated is given back exactly once, with its length, and only
  when there is one; the list of interfaces is defined exactly when every address is of a family the
  code knows.
\<close>

lemma listings_complete:
  "cpu (err, infos) = (if err = 0 then (infos, [uv_free_cpu_info (length infos)]) else ([], [])) \<and>
   os_env_iterate func (err, items) s =
     (if err = 0 then (True, fold (\<lambda>(n, v). func n v) items s, [uv_os_free_environ (length items)])
      else (False, s, [])) \<and>
   interface_addresses net (err, ifs) =
     (if err \<noteq> 0 then Inr ([], [])
      else if list_all inet_family ifs
      then Inr (map (\<lambda>i. projr (interface_of net i)) ifs, [uv_free_interface_addresses (length ifs)])
      else Inl Indeterminate_value)"
  by (simp add: cpu_def cpu_loop_append os_env_iterate_def env_loop_fold interface_addresses_def
      interfaces_loop_map)

end
