(* ===== verification/Sync.thy ===== *)
theory Sync
  imports Util
begin

text \<open>
  \<^verbatim>\<open>src/uvw/thread.h\<close>, \<^verbatim>\<open>thread.ipp\<close>, \<^verbatim>\<open>lib.h\<close> and \<^verbatim>\<open>lib.ipp\<close>: threads, thread local storage, the
  once guard, locks, semaphores, conditions, barriers and shared libraries. These classes derive from
  \<^verbatim>\<open>uv_type\<close> alone: they have no listeners and no \<^verbatim>\<open>self_ptr\<close>, and the constructor and the destructor
  of each call libuv. An object is named by a number that stands for its \<^verbatim>\<open>raw()\<close>; the history of
  the calls, newest first and with what they returned, is threaded through the operations. The locale
  \<^verbatim>\<open>managed\<close> is the contract the classes share.
\<close>

section \<open>The boundary to libuv\<close>

type_synonym sid = nat

datatype sync_call =
    uv_thread_create sid | uv_thread_create_ex sid u32 u64 | uv_thread_join sid | uv_thread_self
  | uv_thread_getcpu | uv_thread_equal sid sid | uv_thread_setname string | uv_thread_getname sid nat
  | uv_thread_setpriority sid int | uv_thread_getpriority sid
  | uv_key_create sid | uv_key_delete sid | uv_key_get sid | uv_key_set sid nat
  | uv_once sid nat
  | uv_mutex_init sid | uv_mutex_init_recursive sid | uv_mutex_destroy sid | uv_mutex_lock sid
  | uv_mutex_trylock sid | uv_mutex_unlock sid
  | uv_rwlock_init sid | uv_rwlock_destroy sid | uv_rwlock_rdlock sid | uv_rwlock_tryrdlock sid
  | uv_rwlock_rdunlock sid | uv_rwlock_wrlock sid | uv_rwlock_trywrlock sid | uv_rwlock_wrunlock sid
  | uv_sem_init sid u32 | uv_sem_destroy sid | uv_sem_post sid | uv_sem_wait sid | uv_sem_trywait sid
  | uv_cond_init sid | uv_cond_destroy sid | uv_cond_signal sid | uv_cond_broadcast sid
  | uv_cond_wait sid sid | uv_cond_timedwait sid sid u64
  | uv_barrier_init sid u32 | uv_barrier_destroy sid | uv_barrier_wait sid
  | uv_dlopen string sid | uv_dlclose sid | uv_dlsym sid string | uv_dlerror sid

type_synonym sync_history = "(sync_call \<times> int) list"

text \<open>
  libuv is a parameter, a record of functions of the history: what a call returns, the buffer that
  \<^verbatim>\<open>uv_thread_getname\<close> filled, if it did, the priority that \<^verbatim>\<open>uv_thread_getpriority\<close> stored, if it
  did, the pointer of a thread local variable, whether \<^verbatim>\<open>uv_once\<close> invokes the callback, the address
  a symbol maps to (which may be null) and the message of \<^verbatim>\<open>uv_dlerror\<close>.
\<close>

record sync_lib =
  sync_ret :: "sync_history \<Rightarrow> sync_call \<Rightarrow> int"
  name_buffer :: "sync_history \<Rightarrow> sid \<Rightarrow> string option"
  stored_priority :: "sync_history \<Rightarrow> sid \<Rightarrow> int option"
  key_value :: "sync_history \<Rightarrow> sid \<Rightarrow> nat option"
  once_invokes :: "sync_history \<Rightarrow> sid \<Rightarrow> bool"
  symbol_address :: "sync_history \<Rightarrow> sid \<Rightarrow> string \<Rightarrow> nat option"
  dl_message :: "sync_history \<Rightarrow> sid \<Rightarrow> string"

definition scall :: "sync_lib \<Rightarrow> sync_call \<Rightarrow> sync_history \<Rightarrow> int \<times> sync_history" where
  "scall lib c h = (let r = sync_ret lib h c in (r, (c, r) # h))"

text \<open>A call whose result the source ignores, and one the source compares with zero.\<close>

definition ignore :: "sync_lib \<Rightarrow> sync_call \<Rightarrow> sync_history \<Rightarrow> sync_history" where
  "ignore lib c h = snd (scall lib c h)"

definition succeeds :: "sync_lib \<Rightarrow> sync_call \<Rightarrow> sync_history \<Rightarrow> bool \<times> sync_history" where
  "succeeds lib c h = (let (r, h1) = scall lib c h in (0 = r, h1))"

lemma ignore_calls [simp]: "map fst (ignore lib c h) = c # map fst h"
  by (simp add: ignore_def scall_def Let_def)

lemma succeeds_calls [simp]: "map fst (snd (succeeds lib c h)) = c # map fst h"
  by (simp add: succeeds_def scall_def Let_def)

section \<open>Threads\<close>

datatype thread_create_flags = THREAD_NO_FLAGS | THREAD_HAS_STACK_SIZE

definition create_flags_value :: "thread_create_flags \<Rightarrow> u32" where
  "create_flags_value f = (case f of THREAD_NO_FLAGS \<Rightarrow> 0 | THREAD_HAS_STACK_SIZE \<Rightarrow> 1)"

datatype thread_prio =
  THREAD_PRIO_HIGHEST | THREAD_PRIO_ABOVE_NORMAL | THREAD_PRIO_NORMAL | THREAD_PRIO_BELOW_NORMAL | THREAD_PRIO_LOWEST

definition thread_prio_value :: "thread_prio \<Rightarrow> int" where
  "thread_prio_value p =
     (case p of
        THREAD_PRIO_HIGHEST \<Rightarrow> 2 | THREAD_PRIO_ABOVE_NORMAL \<Rightarrow> 1 | THREAD_PRIO_NORMAL \<Rightarrow> 0
      | THREAD_PRIO_BELOW_NORMAL \<Rightarrow> -1 | THREAD_PRIO_LOWEST \<Rightarrow> -2)"

text \<open>
  \<^verbatim>\<open>class thread\<close>. The payload is a shared pointer of the user, by number; the task is a function of
  the user's program, by number.
\<close>

record thread =
  thread_raw :: sid
  thread_data :: "nat option"
  joinable :: bool
  func :: nat

definition thread_new :: "sid \<Rightarrow> nat \<Rightarrow> nat option \<Rightarrow> thread" where
  "thread_new p t d = \<lparr>thread_raw = p, thread_data = d, joinable = True, func = t\<rparr>"

definition thread_create_callback :: "(nat \<Rightarrow> nat option \<Rightarrow> 's \<Rightarrow> 's) \<Rightarrow> thread \<Rightarrow> 's \<Rightarrow> 's" where
  "thread_create_callback task th s = task (func th) (thread_data th) s"

definition thread_self :: "sync_lib \<Rightarrow> sync_history \<Rightarrow> int \<times> sync_history" where
  "thread_self lib h = scall lib uv_thread_self h"

definition thread_getcpu :: "sync_lib \<Rightarrow> sync_history \<Rightarrow> int \<times> sync_history" where
  "thread_getcpu lib h = scall lib uv_thread_getcpu h"

definition thread_equal :: "sync_lib \<Rightarrow> thread \<Rightarrow> thread \<Rightarrow> sync_history \<Rightarrow> bool \<times> sync_history" where
  "thread_equal lib th tr h =
     (let (r, h1) = scall lib (uv_thread_equal (thread_raw th) (thread_raw tr)) h in (\<not> (0 = r), h1))"

definition thread_set_name :: "sync_lib \<Rightarrow> string \<Rightarrow> sync_history \<Rightarrow> bool \<times> sync_history" where
  "thread_set_name lib v h = succeeds lib (uv_thread_setname (c_str v)) h"

text \<open>The buffer is not initialised and the result of the call is ignored.\<close>

definition thread_name :: "sync_lib \<Rightarrow> thread \<Rightarrow> sync_history \<Rightarrow> ub + (string \<times> sync_history)" where
  "thread_name lib th h =
     (let h1 = ignore lib (uv_thread_getname (thread_raw th) DEFAULT_SIZE) h
      in case name_buffer lib h (thread_raw th) of
           None \<Rightarrow> Inl Indeterminate_value
         | Some buf \<Rightarrow> Inr (c_str buf, h1))"

definition thread_set_priority :: "sync_lib \<Rightarrow> thread \<Rightarrow> int \<Rightarrow> sync_history \<Rightarrow> bool \<times> sync_history" where
  "thread_set_priority lib th val h = succeeds lib (uv_thread_setpriority (thread_raw th) val) h"

definition thread_priority :: "sync_lib \<Rightarrow> thread \<Rightarrow> sync_history \<Rightarrow> (bool \<times> int) \<times> sync_history" where
  "thread_priority lib th h =
     (let prio = (case stored_priority lib h (thread_raw th) of None \<Rightarrow> 0 | Some v \<Rightarrow> v);
          (res, h1) = succeeds lib (uv_thread_getpriority (thread_raw th)) h
      in ((res, prio), h1))"

definition thread_run :: "sync_lib \<Rightarrow> thread \<Rightarrow> sync_history \<Rightarrow> bool \<times> sync_history" where
  "thread_run lib th h = succeeds lib (uv_thread_create (thread_raw th)) h"

definition thread_run_ex :: "sync_lib \<Rightarrow> u32 \<Rightarrow> u64 \<Rightarrow> thread \<Rightarrow> sync_history \<Rightarrow> bool \<times> sync_history" where
  "thread_run_ex lib opts stack th h = succeeds lib (uv_thread_create_ex (thread_raw th) opts stack) h"

definition thread_join :: "sync_lib \<Rightarrow> thread \<Rightarrow> sync_history \<Rightarrow> bool \<times> thread \<times> sync_history" where
  "thread_join lib th h =
     (let was_joinable = joinable th; th1 = th\<lparr>joinable := False\<rparr>
      in if was_joinable
         then (let (r, h1) = succeeds lib (uv_thread_join (thread_raw th)) h in (r, th1, h1))
         else (True, th1, h))"

definition thread_destroy :: "sync_lib \<Rightarrow> thread \<Rightarrow> sync_history \<Rightarrow> sync_history" where
  "thread_destroy lib th h = snd (snd (thread_join lib th h))"

text \<open>The life of a thread object: made, used in any way, destroyed.\<close>

datatype thread_op = Thread_run | Thread_run_ex u32 u64 | Thread_join

fun thread_exec :: "sync_lib \<Rightarrow> thread_op \<Rightarrow> thread \<times> sync_history \<Rightarrow> thread \<times> sync_history" where
  "thread_exec lib Thread_run (th, h) = (th, snd (thread_run lib th h))"
| "thread_exec lib (Thread_run_ex opts stack) (th, h) = (th, snd (thread_run_ex lib opts stack th h))"
| "thread_exec lib Thread_join (th, h) = snd (thread_join lib th h)"

definition thread_life :: "sync_lib \<Rightarrow> sid \<Rightarrow> nat \<Rightarrow> nat option \<Rightarrow> thread_op list \<Rightarrow> sync_history \<Rightarrow> sync_history" where
  "thread_life lib p t d ops h =
     (let (th, h1) = fold (thread_exec lib) ops (thread_new p t d, h) in thread_destroy lib th h1)"

section \<open>Thread local storage and once\<close>

definition tls_new :: "sync_lib \<Rightarrow> sid \<Rightarrow> sync_history \<Rightarrow> sync_history" where
  "tls_new lib p h = ignore lib (uv_key_create p) h"

definition tls_destroy :: "sync_lib \<Rightarrow> sid \<Rightarrow> sync_history \<Rightarrow> sync_history" where
  "tls_destroy lib p h = ignore lib (uv_key_delete p) h"

definition tls_get :: "sync_lib \<Rightarrow> sid \<Rightarrow> sync_history \<Rightarrow> nat option \<times> sync_history" where
  "tls_get lib p h = (key_value lib h p, ignore lib (uv_key_get p) h)"

definition tls_set :: "sync_lib \<Rightarrow> nat \<Rightarrow> sid \<Rightarrow> sync_history \<Rightarrow> sync_history" where
  "tls_set lib v p h = ignore lib (uv_key_set p v) h"

text \<open>
  \<^verbatim>\<open>once::guard\<close>: the address of the function's static variable, one for the whole program.
\<close>

definition once_guard :: sid where
  "once_guard = 0"

text \<open>\<^verbatim>\<open>once::run\<close>, with the callbacks that have been invoked, oldest first.\<close>

definition once_run :: "sync_lib \<Rightarrow> nat \<Rightarrow> nat list \<times> sync_history \<Rightarrow> nat list \<times> sync_history" where
  "once_run lib cb s =
     (let (ran, h) = s
      in (if once_invokes lib h once_guard then ran @ [cb] else ran, ignore lib (uv_once once_guard cb) h))"

text \<open>\<^verbatim>\<open>uv_once\<close> as documented: the first call with a guard runs its callback, later calls do nothing.\<close>

definition documented_once :: "sync_lib \<Rightarrow> bool" where
  "documented_once lib \<longleftrightarrow>
     (\<forall>h g. once_invokes lib h g \<longleftrightarrow> (\<forall>cb. uv_once g cb \<notin> fst ` set h))"

section \<open>Locks, semaphores, conditions and barriers\<close>

definition mutex_new :: "sync_lib \<Rightarrow> bool \<Rightarrow> sid \<Rightarrow> sync_history \<Rightarrow> sync_history" where
  "mutex_new lib recursive p h =
     (if recursive then ignore lib (uv_mutex_init_recursive p) h else ignore lib (uv_mutex_init p) h)"

definition mutex_destroy :: "sync_lib \<Rightarrow> sid \<Rightarrow> sync_history \<Rightarrow> sync_history" where
  "mutex_destroy lib p h = ignore lib (uv_mutex_destroy p) h"

definition mutex_lock :: "sync_lib \<Rightarrow> sid \<Rightarrow> sync_history \<Rightarrow> sync_history" where
  "mutex_lock lib p h = ignore lib (uv_mutex_lock p) h"

definition mutex_try_lock :: "sync_lib \<Rightarrow> sid \<Rightarrow> sync_history \<Rightarrow> bool \<times> sync_history" where
  "mutex_try_lock lib p h = succeeds lib (uv_mutex_trylock p) h"

definition mutex_unlock :: "sync_lib \<Rightarrow> sid \<Rightarrow> sync_history \<Rightarrow> sync_history" where
  "mutex_unlock lib p h = ignore lib (uv_mutex_unlock p) h"

definition rwlock_new :: "sync_lib \<Rightarrow> sid \<Rightarrow> sync_history \<Rightarrow> sync_history" where
  "rwlock_new lib p h = ignore lib (uv_rwlock_init p) h"

definition rwlock_destroy :: "sync_lib \<Rightarrow> sid \<Rightarrow> sync_history \<Rightarrow> sync_history" where
  "rwlock_destroy lib p h = ignore lib (uv_rwlock_destroy p) h"

definition rwlock_rdlock :: "sync_lib \<Rightarrow> sid \<Rightarrow> sync_history \<Rightarrow> sync_history" where
  "rwlock_rdlock lib p h = ignore lib (uv_rwlock_rdlock p) h"

definition rwlock_try_rdlock :: "sync_lib \<Rightarrow> sid \<Rightarrow> sync_history \<Rightarrow> bool \<times> sync_history" where
  "rwlock_try_rdlock lib p h = succeeds lib (uv_rwlock_tryrdlock p) h"

definition rwlock_rdunlock :: "sync_lib \<Rightarrow> sid \<Rightarrow> sync_history \<Rightarrow> sync_history" where
  "rwlock_rdunlock lib p h = ignore lib (uv_rwlock_rdunlock p) h"

definition rwlock_wrlock :: "sync_lib \<Rightarrow> sid \<Rightarrow> sync_history \<Rightarrow> sync_history" where
  "rwlock_wrlock lib p h = ignore lib (uv_rwlock_wrlock p) h"

definition rwlock_try_wrlock :: "sync_lib \<Rightarrow> sid \<Rightarrow> sync_history \<Rightarrow> bool \<times> sync_history" where
  "rwlock_try_wrlock lib p h = succeeds lib (uv_rwlock_trywrlock p) h"

definition rwlock_wrunlock :: "sync_lib \<Rightarrow> sid \<Rightarrow> sync_history \<Rightarrow> sync_history" where
  "rwlock_wrunlock lib p h = ignore lib (uv_rwlock_wrunlock p) h"

definition semaphore_new :: "sync_lib \<Rightarrow> u32 \<Rightarrow> sid \<Rightarrow> sync_history \<Rightarrow> sync_history" where
  "semaphore_new lib v p h = ignore lib (uv_sem_init p v) h"

definition semaphore_destroy :: "sync_lib \<Rightarrow> sid \<Rightarrow> sync_history \<Rightarrow> sync_history" where
  "semaphore_destroy lib p h = ignore lib (uv_sem_destroy p) h"

definition semaphore_post :: "sync_lib \<Rightarrow> sid \<Rightarrow> sync_history \<Rightarrow> sync_history" where
  "semaphore_post lib p h = ignore lib (uv_sem_post p) h"

definition semaphore_wait :: "sync_lib \<Rightarrow> sid \<Rightarrow> sync_history \<Rightarrow> sync_history" where
  "semaphore_wait lib p h = ignore lib (uv_sem_wait p) h"

definition semaphore_try_wait :: "sync_lib \<Rightarrow> sid \<Rightarrow> sync_history \<Rightarrow> bool \<times> sync_history" where
  "semaphore_try_wait lib p h = succeeds lib (uv_sem_trywait p) h"

definition condition_new :: "sync_lib \<Rightarrow> sid \<Rightarrow> sync_history \<Rightarrow> sync_history" where
  "condition_new lib p h = ignore lib (uv_cond_init p) h"

definition condition_destroy :: "sync_lib \<Rightarrow> sid \<Rightarrow> sync_history \<Rightarrow> sync_history" where
  "condition_destroy lib p h = ignore lib (uv_cond_destroy p) h"

definition condition_signal :: "sync_lib \<Rightarrow> sid \<Rightarrow> sync_history \<Rightarrow> sync_history" where
  "condition_signal lib p h = ignore lib (uv_cond_signal p) h"

definition condition_broadcast :: "sync_lib \<Rightarrow> sid \<Rightarrow> sync_history \<Rightarrow> sync_history" where
  "condition_broadcast lib p h = ignore lib (uv_cond_broadcast p) h"

definition condition_wait :: "sync_lib \<Rightarrow> sid \<Rightarrow> sid \<Rightarrow> sync_history \<Rightarrow> sync_history" where
  "condition_wait lib mtx p h = ignore lib (uv_cond_wait p mtx) h"

definition condition_timed_wait :: "sync_lib \<Rightarrow> sid \<Rightarrow> u64 \<Rightarrow> sid \<Rightarrow> sync_history \<Rightarrow> bool \<times> sync_history" where
  "condition_timed_wait lib mtx timeout p h = succeeds lib (uv_cond_timedwait p mtx timeout) h"

definition barrier_new :: "sync_lib \<Rightarrow> u32 \<Rightarrow> sid \<Rightarrow> sync_history \<Rightarrow> sync_history" where
  "barrier_new lib count p h = ignore lib (uv_barrier_init p count) h"

definition barrier_destroy :: "sync_lib \<Rightarrow> sid \<Rightarrow> sync_history \<Rightarrow> sync_history" where
  "barrier_destroy lib p h = ignore lib (uv_barrier_destroy p) h"

definition barrier_wait :: "sync_lib \<Rightarrow> sid \<Rightarrow> sync_history \<Rightarrow> bool \<times> sync_history" where
  "barrier_wait lib p h = succeeds lib (uv_barrier_wait p) h"

section \<open>Shared libraries\<close>

record shared_lib =
  lib_raw :: sid
  opened :: bool

definition shared_lib_new :: "sync_lib \<Rightarrow> string \<Rightarrow> sid \<Rightarrow> sync_history \<Rightarrow> shared_lib \<times> sync_history" where
  "shared_lib_new lib filename p h =
     (let (ok, h1) = succeeds lib (uv_dlopen (c_str filename) p) h in (\<lparr>lib_raw = p, opened = ok\<rparr>, h1))"

definition shared_lib_destroy :: "sync_lib \<Rightarrow> shared_lib \<Rightarrow> sync_history \<Rightarrow> sync_history" where
  "shared_lib_destroy lib s h = ignore lib (uv_dlclose (lib_raw s)) h"

definition shared_lib_bool :: "shared_lib \<Rightarrow> bool" where
  "shared_lib_bool s = opened s"

text \<open>\<^verbatim>\<open>sym\<close>: the null pointer is \<^verbatim>\<open>None\<close>.\<close>

definition shared_lib_sym :: "sync_lib \<Rightarrow> string \<Rightarrow> shared_lib \<Rightarrow> sync_history \<Rightarrow> nat option \<times> sync_history" where
  "shared_lib_sym lib name s h =
     (let c = uv_dlsym (lib_raw s) (c_str name);
          fn = symbol_address lib h (lib_raw s) (c_str name);
          (err, h1) = scall lib c h
      in (if err \<noteq> 0 then None else fn, h1))"

definition shared_lib_error :: "sync_lib \<Rightarrow> shared_lib \<Rightarrow> sync_history \<Rightarrow> string \<times> sync_history" where
  "shared_lib_error lib s h = (dl_message lib h (lib_raw s), ignore lib (uv_dlerror (lib_raw s)) h)"

section \<open>The life of an object\<close>

text \<open>An object is made, used by any sequence of operations, and destroyed.\<close>

definition managed_life ::
  "(sync_lib \<Rightarrow> sid \<Rightarrow> sync_history \<Rightarrow> 'a \<times> sync_history) \<Rightarrow>
   (sync_lib \<Rightarrow> 'o \<Rightarrow> 'a \<Rightarrow> sync_history \<Rightarrow> sync_history) \<Rightarrow>
   (sync_lib \<Rightarrow> 'a \<Rightarrow> sync_history \<Rightarrow> sync_history) \<Rightarrow>
   sync_lib \<Rightarrow> sid \<Rightarrow> 'o list \<Rightarrow> sync_history \<Rightarrow> sync_history" where
  "managed_life mk exec finish lib p ops h =
     (let (x, h1) = mk lib p h in finish lib x (fold (\<lambda>op. exec lib op x) ops h1))"

text \<open>
  The contract: the constructor initialises the embedded structure with one call, every operation
  is one call on it, and the destructor releases it with one call.
\<close>

locale managed =
  fixes mk :: "sync_lib \<Rightarrow> sid \<Rightarrow> sync_history \<Rightarrow> 'a \<times> sync_history"
    and exec :: "sync_lib \<Rightarrow> 'o \<Rightarrow> 'a \<Rightarrow> sync_history \<Rightarrow> sync_history"
    and finish :: "sync_lib \<Rightarrow> 'a \<Rightarrow> sync_history \<Rightarrow> sync_history"
    and raw :: "'a \<Rightarrow> sid"
    and first_call :: "sid \<Rightarrow> sync_call"
    and op_call :: "'o \<Rightarrow> sid \<Rightarrow> sync_call"
    and last_call :: "sid \<Rightarrow> sync_call"
  assumes make_calls: "raw (fst (mk lib p h)) = p" "map fst (snd (mk lib p h)) = first_call p # map fst h"
    and exec_calls: "map fst (exec lib op x h) = op_call op (raw x) # map fst h"
    and finish_calls: "map fst (finish lib x h) = last_call (raw x) # map fst h"
begin

lemma exec_all_calls:
  "map fst (fold (\<lambda>op. exec lib op x) ops h) = rev (map (\<lambda>op. op_call op (raw x)) ops) @ map fst h"
  by (induction ops arbitrary: h) (simp_all add: exec_calls)

lemma life_calls:
  "map fst (managed_life mk exec finish lib p ops h) =
     last_call p # rev (map (\<lambda>op. op_call op p) ops) @ first_call p # map fst h"
  using make_calls [of lib p h]
  by (simp add: managed_life_def case_prod_beta finish_calls exec_all_calls)

end

text \<open>The operations of each class and the calls they make.\<close>

datatype tls_op = Tls_get | Tls_set nat
datatype mutex_op = Mutex_lock | Mutex_try_lock | Mutex_unlock
datatype rwlock_op =
  Rwlock_rdlock | Rwlock_try_rdlock | Rwlock_rdunlock | Rwlock_wrlock | Rwlock_try_wrlock | Rwlock_wrunlock
datatype semaphore_op = Semaphore_post | Semaphore_wait | Semaphore_try_wait
datatype condition_op = Condition_signal | Condition_broadcast | Condition_wait sid | Condition_timed_wait sid u64
datatype barrier_op = Barrier_wait
datatype shared_lib_op = Lib_sym string | Lib_error

primrec tls_exec :: "sync_lib \<Rightarrow> tls_op \<Rightarrow> sid \<Rightarrow> sync_history \<Rightarrow> sync_history" where
  "tls_exec lib Tls_get = (\<lambda>p h. snd (tls_get lib p h))"
| "tls_exec lib (Tls_set v) = tls_set lib v"

primrec tls_call :: "tls_op \<Rightarrow> sid \<Rightarrow> sync_call" where
  "tls_call Tls_get = uv_key_get"
| "tls_call (Tls_set v) = (\<lambda>p. uv_key_set p v)"

primrec mutex_exec :: "sync_lib \<Rightarrow> mutex_op \<Rightarrow> sid \<Rightarrow> sync_history \<Rightarrow> sync_history" where
  "mutex_exec lib Mutex_lock = mutex_lock lib"
| "mutex_exec lib Mutex_try_lock = (\<lambda>p h. snd (mutex_try_lock lib p h))"
| "mutex_exec lib Mutex_unlock = mutex_unlock lib"

primrec mutex_call :: "mutex_op \<Rightarrow> sid \<Rightarrow> sync_call" where
  "mutex_call Mutex_lock = uv_mutex_lock"
| "mutex_call Mutex_try_lock = uv_mutex_trylock"
| "mutex_call Mutex_unlock = uv_mutex_unlock"

primrec rwlock_exec :: "sync_lib \<Rightarrow> rwlock_op \<Rightarrow> sid \<Rightarrow> sync_history \<Rightarrow> sync_history" where
  "rwlock_exec lib Rwlock_rdlock = rwlock_rdlock lib"
| "rwlock_exec lib Rwlock_try_rdlock = (\<lambda>p h. snd (rwlock_try_rdlock lib p h))"
| "rwlock_exec lib Rwlock_rdunlock = rwlock_rdunlock lib"
| "rwlock_exec lib Rwlock_wrlock = rwlock_wrlock lib"
| "rwlock_exec lib Rwlock_try_wrlock = (\<lambda>p h. snd (rwlock_try_wrlock lib p h))"
| "rwlock_exec lib Rwlock_wrunlock = rwlock_wrunlock lib"

primrec rwlock_call :: "rwlock_op \<Rightarrow> sid \<Rightarrow> sync_call" where
  "rwlock_call Rwlock_rdlock = uv_rwlock_rdlock"
| "rwlock_call Rwlock_try_rdlock = uv_rwlock_tryrdlock"
| "rwlock_call Rwlock_rdunlock = uv_rwlock_rdunlock"
| "rwlock_call Rwlock_wrlock = uv_rwlock_wrlock"
| "rwlock_call Rwlock_try_wrlock = uv_rwlock_trywrlock"
| "rwlock_call Rwlock_wrunlock = uv_rwlock_wrunlock"

primrec semaphore_exec :: "sync_lib \<Rightarrow> semaphore_op \<Rightarrow> sid \<Rightarrow> sync_history \<Rightarrow> sync_history" where
  "semaphore_exec lib Semaphore_post = semaphore_post lib"
| "semaphore_exec lib Semaphore_wait = semaphore_wait lib"
| "semaphore_exec lib Semaphore_try_wait = (\<lambda>p h. snd (semaphore_try_wait lib p h))"

primrec semaphore_call :: "semaphore_op \<Rightarrow> sid \<Rightarrow> sync_call" where
  "semaphore_call Semaphore_post = uv_sem_post"
| "semaphore_call Semaphore_wait = uv_sem_wait"
| "semaphore_call Semaphore_try_wait = uv_sem_trywait"

primrec condition_exec :: "sync_lib \<Rightarrow> condition_op \<Rightarrow> sid \<Rightarrow> sync_history \<Rightarrow> sync_history" where
  "condition_exec lib Condition_signal = condition_signal lib"
| "condition_exec lib Condition_broadcast = condition_broadcast lib"
| "condition_exec lib (Condition_wait mtx) = condition_wait lib mtx"
| "condition_exec lib (Condition_timed_wait mtx t) = (\<lambda>p h. snd (condition_timed_wait lib mtx t p h))"

primrec condition_call :: "condition_op \<Rightarrow> sid \<Rightarrow> sync_call" where
  "condition_call Condition_signal = uv_cond_signal"
| "condition_call Condition_broadcast = uv_cond_broadcast"
| "condition_call (Condition_wait mtx) = (\<lambda>p. uv_cond_wait p mtx)"
| "condition_call (Condition_timed_wait mtx t) = (\<lambda>p. uv_cond_timedwait p mtx t)"

primrec barrier_exec :: "sync_lib \<Rightarrow> barrier_op \<Rightarrow> sid \<Rightarrow> sync_history \<Rightarrow> sync_history" where
  "barrier_exec lib Barrier_wait = (\<lambda>p h. snd (barrier_wait lib p h))"

primrec barrier_call :: "barrier_op \<Rightarrow> sid \<Rightarrow> sync_call" where
  "barrier_call Barrier_wait = uv_barrier_wait"

primrec shared_lib_exec :: "sync_lib \<Rightarrow> shared_lib_op \<Rightarrow> shared_lib \<Rightarrow> sync_history \<Rightarrow> sync_history" where
  "shared_lib_exec lib (Lib_sym name) = (\<lambda>s h. snd (shared_lib_sym lib name s h))"
| "shared_lib_exec lib Lib_error = (\<lambda>s h. snd (shared_lib_error lib s h))"

primrec shared_lib_call :: "shared_lib_op \<Rightarrow> sid \<Rightarrow> sync_call" where
  "shared_lib_call (Lib_sym name) = (\<lambda>p. uv_dlsym p (c_str name))"
| "shared_lib_call Lib_error = uv_dlerror"

text \<open>The constructors, with the object they make: for these classes the storage itself.\<close>

definition storage :: "(sync_lib \<Rightarrow> sid \<Rightarrow> sync_history \<Rightarrow> sync_history) \<Rightarrow> sync_lib \<Rightarrow> sid \<Rightarrow> sync_history \<Rightarrow> sid \<times> sync_history" where
  "storage mk lib p h = (p, mk lib p h)"

lemmas sync_defs = storage_def
  tls_new_def tls_destroy_def tls_get_def tls_set_def mutex_new_def mutex_destroy_def mutex_lock_def
  mutex_try_lock_def mutex_unlock_def rwlock_new_def rwlock_destroy_def rwlock_rdlock_def
  rwlock_try_rdlock_def rwlock_rdunlock_def rwlock_wrlock_def rwlock_try_wrlock_def rwlock_wrunlock_def
  semaphore_new_def semaphore_destroy_def semaphore_post_def semaphore_wait_def semaphore_try_wait_def
  condition_new_def condition_destroy_def condition_signal_def condition_broadcast_def
  condition_wait_def condition_timed_wait_def barrier_new_def barrier_destroy_def barrier_wait_def

interpretation tls_life: managed "storage tls_new" tls_exec tls_destroy id uv_key_create tls_call uv_key_delete
proof
  show "map fst (tls_exec lib op x h) = tls_call op (id x) # map fst h" for lib op x h
    by (cases op) (simp_all add: sync_defs)
qed (simp_all add: sync_defs)

interpretation mutex_life: managed "storage (\<lambda>lib. mutex_new lib r)" mutex_exec mutex_destroy id
  "if r then uv_mutex_init_recursive else uv_mutex_init" mutex_call uv_mutex_destroy for r
proof
  show "map fst (mutex_exec lib op x h) = mutex_call op (id x) # map fst h" for lib op x h
    by (cases op) (simp_all add: sync_defs)
qed (simp_all add: sync_defs)

interpretation rwlock_life: managed "storage rwlock_new" rwlock_exec rwlock_destroy id
  uv_rwlock_init rwlock_call uv_rwlock_destroy
proof
  show "map fst (rwlock_exec lib op x h) = rwlock_call op (id x) # map fst h" for lib op x h
    by (cases op) (simp_all add: sync_defs)
qed (simp_all add: sync_defs)

interpretation semaphore_life: managed "storage (\<lambda>lib. semaphore_new lib v)" semaphore_exec semaphore_destroy id
  "\<lambda>p. uv_sem_init p v" semaphore_call uv_sem_destroy for v
proof
  show "map fst (semaphore_exec lib op x h) = semaphore_call op (id x) # map fst h" for lib op x h
    by (cases op) (simp_all add: sync_defs)
qed (simp_all add: sync_defs)

interpretation condition_life: managed "storage condition_new" condition_exec condition_destroy id
  uv_cond_init condition_call uv_cond_destroy
proof
  show "map fst (condition_exec lib op x h) = condition_call op (id x) # map fst h" for lib op x h
    by (cases op) (simp_all add: sync_defs)
qed (simp_all add: sync_defs)

interpretation barrier_life: managed "storage (\<lambda>lib. barrier_new lib n)" barrier_exec barrier_destroy id
  "\<lambda>p. uv_barrier_init p n" barrier_call uv_barrier_destroy for n
proof
  show "map fst (barrier_exec lib op x h) = barrier_call op (id x) # map fst h" for lib op x h
    by (cases op) (simp_all add: sync_defs)
qed (simp_all add: sync_defs)

interpretation shared_lib_life: managed "\<lambda>lib. shared_lib_new lib f" shared_lib_exec shared_lib_destroy lib_raw
  "uv_dlopen (c_str f)" shared_lib_call uv_dlclose for f
proof
  show "map fst (shared_lib_exec lib op x h) = shared_lib_call op (lib_raw x) # map fst h" for lib op x h
    by (cases op) (simp_all add: shared_lib_sym_def shared_lib_error_def scall_def Let_def)
  show "lib_raw (fst (shared_lib_new lib f p h)) = p" for lib p h
    by (simp add: shared_lib_new_def case_prod_beta)
  show "map fst (snd (shared_lib_new lib f p h)) = uv_dlopen (c_str f) p # map fst h" for lib p h
    by (simp add: shared_lib_new_def case_prod_beta)
qed (simp add: shared_lib_destroy_def)

section \<open>Joining\<close>

definition joins :: "sid \<Rightarrow> sync_history \<Rightarrow> nat" where
  "joins p h = length (filter (\<lambda>c. c = uv_thread_join p) (map fst h))"

lemma joins_calls: "map fst h1 = c # map fst h \<Longrightarrow>
    joins p h1 = (if c = uv_thread_join p then Suc (joins p h) else joins p h)"
  by (simp add: joins_def)

lemmas joins_ignore [simp] = joins_calls [OF ignore_calls]
lemmas joins_succeeds [simp] = joins_calls [OF succeeds_calls]

lemma thread_join_joins:
  "thread_join lib th h = (r, th1, h1) \<Longrightarrow>
    thread_raw th1 = thread_raw th \<and> \<not> joinable th1 \<and>
    joins (thread_raw th) h1 = (if joinable th then Suc (joins (thread_raw th) h) else joins (thread_raw th) h)"
  by (auto simp: thread_join_def Let_def case_prod_beta split: if_splits)

lemma thread_exec_joins:
  "thread_exec lib op (th, h) = (th1, h1) \<Longrightarrow>
    thread_raw th1 = thread_raw th \<and>
    joins (thread_raw th) h1 + of_bool (joinable th1) = joins (thread_raw th) h + of_bool (joinable th)"
proof (cases op)
  case Thread_join
  moreover assume "thread_exec lib op (th, h) = (th1, h1)"
  ultimately obtain r where "thread_join lib th h = (r, th1, h1)" by (cases "thread_join lib th h") auto
  then show ?thesis using thread_join_joins by fastforce
qed (auto simp: thread_run_def thread_run_ex_def)

lemma thread_execs_joins:
  "fold (thread_exec lib) ops (th, h) = (th1, h1) \<Longrightarrow>
    thread_raw th1 = thread_raw th \<and>
    joins (thread_raw th) h1 + of_bool (joinable th1) = joins (thread_raw th) h + of_bool (joinable th)"
proof (induction ops arbitrary: th h)
  case (Cons op ops)
  obtain th2 h2 where e: "thread_exec lib op (th, h) = (th2, h2)" by (cases "thread_exec lib op (th, h)")
  then show ?case using Cons thread_exec_joins [OF e] by force
qed simp

text \<open>A library that accepts every call, with a \<^verbatim>\<open>uv_once\<close> as documented.\<close>

definition sample_sync :: sync_lib where
  "sample_sync = \<lparr>sync_ret = \<lambda>h c. 0, name_buffer = \<lambda>h t. None, stored_priority = \<lambda>h t. None,
     key_value = \<lambda>h k. None, once_invokes = \<lambda>h g. list_all (\<lambda>c. case fst c of uv_once k cb \<Rightarrow> k \<noteq> g | _ \<Rightarrow> True) h,
     symbol_address = \<lambda>h l s. None, dl_message = \<lambda>h l. []\<rparr>"

section \<open>Properties\<close>

text \<open>
  C35. Whatever the program does with a thread object between its creation and its destruction,
  \<^verbatim>\<open>uv_thread_join\<close> is called on it exactly once: joining twice is harmless and forgetting to join
  is made up for by the destructor. This is also so for a thread that was never started: its
  destructor joins the zeroed \<^verbatim>\<open>uv_thread_t\<close>.
\<close>

theorem thread_joined_once:
  "joins p (thread_life lib p t d ops h) = Suc (joins p h) \<and>
   map fst (thread_life lib p t d [] h) = uv_thread_join p # map fst h"
proof -
  obtain th h1 where e: "fold (thread_exec lib) ops (thread_new p t d, h) = (th, h1)"
    by (cases "fold (thread_exec lib) ops (thread_new p t d, h)")
  obtain r th2 h2 where j: "thread_join lib th h1 = (r, th2, h2)" by (cases "thread_join lib th h1") auto
  have "thread_raw th = p" "joins p h1 + of_bool (joinable th) = Suc (joins p h)"
    using thread_execs_joins [OF e] by (simp_all add: thread_new_def)
  then have "joins p (thread_life lib p t d ops h) = Suc (joins p h)"
    using thread_join_joins [OF j] e j
    by (auto simp: thread_life_def thread_destroy_def split: if_splits)
  then show ?thesis
    by (simp add: thread_life_def thread_destroy_def thread_join_def thread_new_def case_prod_beta Let_def)
qed

text \<open>
  C37. \<^verbatim>\<open>once::run\<close> has one guard for the whole program: of all the callbacks handed to it, in any
  sequence, only the very first runs, other functions than the first included.
\<close>

theorem once_runs_first_only:
  assumes "documented_once lib" and "\<forall>g cb. uv_once g cb \<notin> fst ` set h"
  shows "fst (fold (once_run lib) cbs ([], h)) = take 1 cbs"
proof -
  have later: "fst (fold (once_run lib) cbs (ran, h)) = ran" if "uv_once once_guard cb \<in> fst ` set h" for cbs ran h cb
    using that
  proof (induction cbs arbitrary: ran h)
    case (Cons c cbs)
    have "\<not> once_invokes lib h once_guard" using assms(1) Cons.prems by (auto simp: documented_once_def)
    moreover have "uv_once once_guard cb \<in> fst ` set (ignore lib (uv_once once_guard c) h)"
      using Cons.prems by (simp flip: set_map)
    ultimately show ?case using Cons.IH by (simp add: once_run_def)
  qed simp
  show ?thesis
  proof (cases cbs)
    case (Cons c cs)
    have "once_invokes lib h once_guard" using assms by (auto simp: documented_once_def)
    moreover have "uv_once once_guard c \<in> fst ` set (ignore lib (uv_once once_guard c) h)"
      by (simp flip: set_map)
    ultimately show ?thesis using Cons later by (simp add: once_run_def)
  qed simp
qed

theorem once_runs_first_only_witness:
  "documented_once sample_sync \<and> fst (fold (once_run sample_sync) [4, 5, 4] ([], [])) = [4]"
proof
  show d: "documented_once sample_sync"
    by (fastforce simp: documented_once_def sample_sync_def list_all_iff image_iff split: sync_call.splits)
  show "fst (fold (once_run sample_sync) [4, 5, 4] ([], [])) = [4]"
    using once_runs_first_only [OF d, of "[]" "[4, 5, 4]"] by simp
qed


end
