(* ===== verification/Resource.thy ===== *)
theory Resource
  imports Objects
begin

text \<open>
  \<^verbatim>\<open>src/uvw/uv_type.hpp\<close>, \<^verbatim>\<open>resource.hpp\<close> and the part of \<^verbatim>\<open>emitter.h\<close> that works on an object:
  \<^verbatim>\<open>parent\<close>, \<^verbatim>\<open>leak_if\<close>, \<^verbatim>\<open>self_reset\<close>, \<^verbatim>\<open>has_self\<close>, \<^verbatim>\<open>data\<close>, \<^verbatim>\<open>on\<close>, \<^verbatim>\<open>reset\<close>, \<^verbatim>\<open>has\<close> and \<^verbatim>\<open>publish\<close>.
  The user's program is a parameter: \<^verbatim>\<open>beh u p e w\<close> is the state its listener \<^verbatim>\<open>u\<close> leaves when object
  \<^verbatim>\<open>p\<close> publishes the event \<^verbatim>\<open>e\<close> in the state \<^verbatim>\<open>w\<close>.
\<close>

section \<open>Definitions\<close>

type_synonym behaviour = "nat \<Rightarrow> oid \<Rightarrow> event \<Rightarrow> world \<Rightarrow> world"

text \<open>\<^verbatim>\<open>parent().raw()\<close>, the first argument of every initialisation.\<close>

definition parent :: "world \<Rightarrow> oid \<Rightarrow> oid option" where
  "parent w p = owner (objs w ! p)"

definition parent_raw :: "world \<Rightarrow> oid \<Rightarrow> lptr" where
  "parent_raw w p = (case parent w p of None \<Rightarrow> None | Some l \<Rightarrow> uv_loop_of w l)"

definition set_self :: "bool \<Rightarrow> oid \<Rightarrow> world \<Rightarrow> world" where
  "set_self b p w = upd p (\<lambda>o1. o1\<lparr>self_ptr := b\<rparr>) w"

definition leak_if :: "oid \<Rightarrow> int \<Rightarrow> world \<Rightarrow> int \<times> world" where
  "leak_if p err w = (err, if err = 0 then set_self True p w else w)"

definition self_reset :: "oid \<Rightarrow> world \<Rightarrow> world" where
  "self_reset p w = set_self False p w"

definition has_self :: "world \<Rightarrow> oid \<Rightarrow> bool" where
  "has_self w p = self_ptr (objs w ! p)"

text \<open>\<^verbatim>\<open>leak_if(uv_...(...))\<close>.\<close>

definition leak_if_call :: "libuv \<Rightarrow> oid \<Rightarrow> uv_call \<Rightarrow> world \<Rightarrow> int \<times> world" where
  "leak_if_call uv p c w = (let (err, w1) = uvcall uv c w in leak_if p err w1)"

definition data :: "world \<Rightarrow> oid \<Rightarrow> nat option" where
  "data w p = user_data (objs w ! p)"

definition set_data :: "nat option \<Rightarrow> oid \<Rightarrow> world \<Rightarrow> world" where
  "set_data d p w = upd p (\<lambda>o1. o1\<lparr>user_data := d\<rparr>) w"

text \<open>
  The listeners of an object. Storing a listener drops the pointers that the one it replaces had
  captured.
\<close>

definition assign_handler :: "tag \<Rightarrow> listener option \<Rightarrow> oid \<Rightarrow> world \<Rightarrow> world" where
  "assign_handler t f p w = upd p (\<lambda>o1. o1\<lparr>handlers := slots_on t f (handlers o1)\<rparr>) w"

definition emitter_on :: "libuv \<Rightarrow> tag \<Rightarrow> listener option \<Rightarrow> oid \<Rightarrow> world \<Rightarrow> world" where
  "emitter_on uv t f p w = collect uv (assign_handler t f p w)"

definition emitter_reset :: "libuv \<Rightarrow> tag \<Rightarrow> oid \<Rightarrow> world \<Rightarrow> world" where
  "emitter_reset uv t p w =
     collect uv (upd p (\<lambda>o1. o1\<lparr>handlers := slots_reset t (handlers o1)\<rparr>) w)"

definition emitter_reset_all :: "libuv \<Rightarrow> oid \<Rightarrow> world \<Rightarrow> world" where
  "emitter_reset_all uv p w =
     collect uv (upd p (\<lambda>o1. o1\<lparr>handlers := slots_reset_all (handlers o1)\<rparr>) w)"

definition emitter_has :: "tag \<Rightarrow> world \<Rightarrow> oid \<Rightarrow> bool" where
  "emitter_has t w p = slots_has t (handlers (objs w ! p))"

text \<open>
  \<^verbatim>\<open>publish\<close>: an empty listener is skipped, the user's runs, and the forwarding one publishes on the
  captured object in turn. The fuel bounds the chain of forwards; \<^verbatim>\<open>publish\<close> gives one more than the
  number of objects, and a longer chain would not end.
\<close>

fun publish_fuel :: "nat \<Rightarrow> behaviour \<Rightarrow> event \<Rightarrow> oid \<Rightarrow> world \<Rightarrow> ub + world" where
  "publish_fuel 0 beh e p w = Inl (Endless_forward p)"
| "publish_fuel (Suc n) beh e p w =
     (if \<not> live w p then Inl (Use_after_free p)
      else case handler (tag_of e) (handlers (objs w ! p)) of
             None \<Rightarrow> Inr w
           | Some (User u cs) \<Rightarrow> Inr (beh u p e w)
           | Some (Forward q) \<Rightarrow> publish_fuel n beh e q w)"

definition publish :: "behaviour \<Rightarrow> event \<Rightarrow> oid \<Rightarrow> world \<Rightarrow> ub + world" where
  "publish beh e p w = publish_fuel (Suc (length (objs w))) beh e p w"

text \<open>A shared pointer in a local variable of the library: taken, and dropped at the end.\<close>

definition take_hold :: "oid \<Rightarrow> world \<Rightarrow> world" where
  "take_hold p w = upd p (\<lambda>o1. o1\<lparr>hold := Suc (hold o1)\<rparr>) w"

definition drop_hold :: "libuv \<Rightarrow> oid \<Rightarrow> world \<Rightarrow> world" where
  "drop_hold uv p w = collect uv (upd p (\<lambda>o1. o1\<lparr>hold := hold o1 - 1\<rparr>) w)"

text \<open>The user's pointers: a copy of one, and one that goes.\<close>

definition acquire :: "oid \<Rightarrow> world \<Rightarrow> world" where
  "acquire p w = upd p (\<lambda>o1. o1\<lparr>ext := Suc (ext o1)\<rparr>) w"

definition release :: "libuv \<Rightarrow> oid \<Rightarrow> world \<Rightarrow> world" where
  "release uv p w = collect uv (upd p (\<lambda>o1. o1\<lparr>ext := ext o1 - 1\<rparr>) w)"

text \<open>The event that libuv invoked a callback, and the value of \<^verbatim>\<open>*static_cast<T *>(hndl->data)\<close>.\<close>

definition fire :: "uv_cb \<Rightarrow> oid \<Rightarrow> world \<Rightarrow> world" where
  "fire cb p w = w\<lparr>hist := Fired cb p # hist w\<rparr>"

definition deref :: "oid \<Rightarrow> world \<Rightarrow> (world \<Rightarrow> ub + world) \<Rightarrow> ub + world" where
  "deref p w k = (if live w p then k w else Inl (Use_after_free p))"

text \<open>A callback of a handle that only publishes.\<close>

definition plain_callback :: "behaviour \<Rightarrow> uv_cb \<Rightarrow> event \<Rightarrow> oid \<Rightarrow> world \<Rightarrow> ub + world" where
  "plain_callback beh cb e p w = deref p (fire cb p w) (publish beh e p)"

lemmas resource_defs [uvw_defs] =
  parent_def parent_raw_def set_self_def leak_if_def self_reset_def has_self_def leak_if_call_def
  data_def set_data_def assign_handler_def emitter_on_def emitter_reset_def emitter_reset_all_def
  emitter_has_def take_hold_def drop_hold_def acquire_def release_def fire_def deref_def
  plain_callback_def

end
