(* ===== verification/Invariant.thy ===== *)
theory Invariant
  imports Resource
begin

text \<open>
  The invariant of the object store. \<^verbatim>\<open>core\<close> ties the objects to what libuv holds: a handle that is
  registered with libuv, and a request that libuv has yet to complete, is alive and keeps itself
  alive, and only such an object does; a stored pointer points to an object that is alive; the tuple
  of listeners has the class's event types. \<^verbatim>\<open>invar\<close> adds that every object is reachable through some
  pointer. The lemmas show that each primitive step of the operations keeps them.
\<close>

section \<open>Definitions\<close>

definition is_loop_kind :: "kind \<Rightarrow> bool" where
  "is_loop_kind k = (case k of K_loop p \<Rightarrow> True | _ \<Rightarrow> False)"

text \<open>The classes without an \<^verbatim>\<open>owner\<close>: the loop itself and the memo of the TTY handles.\<close>

definition ownerless :: "kind \<Rightarrow> bool" where
  "ownerless k = (case k of K_loop p \<Rightarrow> True | K_reset_memo \<Rightarrow> True | _ \<Rightarrow> False)"

text \<open>What an operation never changes of an object's class.\<close>

definition class_of :: "kind \<Rightarrow> bool \<times> bool \<times> bool \<times> bool \<times> bool \<times> tag list" where
  "class_of k =
     (handle_kind k, fs_kind_of k, internal_kind k, is_loop_kind k, ownerless k, events_of k)"

lemma distinct_events_of: "distinct (events_of k)"
  by (cases k) (simp_all add: events_of_def own_tags_def stream_tags_def handle_kind_def stream_kind_def)

definition refs_ok :: "world \<Rightarrow> oid \<Rightarrow> bool" where
  "refs_ok w p \<longleftrightarrow> (\<forall>q \<in> set (refs_of (objs w ! p)). live w q)"

definition forward_ok :: "world \<Rightarrow> oid \<Rightarrow> bool" where
  "forward_ok w p \<longleftrightarrow>
     (\<forall>q. Forward q \<in> set (listeners (handlers (objs w ! p))) \<longrightarrow>
        internal_kind (kind (objs w ! p)) \<and> \<not> internal_kind (kind (objs w ! q)))"

definition slots_ok :: "world \<Rightarrow> oid \<Rightarrow> bool" where
  "slots_ok w p \<longleftrightarrow> map fst (handlers (objs w ! p)) = events_of (kind (objs w ! p))"

definition owner_ok :: "world \<Rightarrow> oid \<Rightarrow> bool" where
  "owner_ok w p \<longleftrightarrow>
     (owner (objs w ! p) = None \<longrightarrow> ownerless (kind (objs w ! p))) \<and>
     (\<forall>l. owner (objs w ! p) = Some l \<longrightarrow> is_loop_kind (kind (objs w ! l)))"

definition live_ok :: "world \<Rightarrow> oid \<Rightarrow> bool" where
  "live_ok w p \<longleftrightarrow> refs_ok w p \<and> forward_ok w p \<and> slots_ok w p \<and> owner_ok w p \<and>
     (self_ptr (objs w ! p) \<longrightarrow> is_open (hist w) p \<or> 0 < pending (hist w) p)"

definition kept :: "world \<Rightarrow> oid \<Rightarrow> bool" where
  "kept w p \<longleftrightarrow> live w p \<and> self_ptr (objs w ! p)"

definition libuv_ok :: "world \<Rightarrow> oid \<Rightarrow> bool" where
  "libuv_ok w p \<longleftrightarrow>
     (is_open (hist w) p \<longrightarrow> kept w p \<and> handle_kind (kind (objs w ! p))) \<and>
     (0 < pending (hist w) p \<longrightarrow>
        p < length (objs w) \<and> \<not> handle_kind (kind (objs w ! p)) \<and>
        (\<not> fs_kind_of (kind (objs w ! p)) \<longrightarrow> kept w p \<and> pending (hist w) p = 1))"

definition core :: "world \<Rightarrow> bool" where
  "core w \<longleftrightarrow> (\<forall>p. (live w p \<longrightarrow> live_ok w p) \<and> libuv_ok w p)"

definition all_held :: "world \<Rightarrow> bool" where
  "all_held w \<longleftrightarrow> (\<forall>p. live w p \<longrightarrow> 0 < strong w p)"

definition invar :: "world \<Rightarrow> bool" where
  "invar w \<longleftrightarrow> core w \<and> all_held w"

section \<open>Basic lemmas\<close>

lemma nth_upd:
  "objs (upd p f w) ! q = (if q = p \<and> p < length (objs w) then f (objs w ! p) else objs w ! q)"
  by (auto simp: upd_def)

lemma hist_upd [simp]: "hist (upd p f w) = hist w"
  by (simp add: upd_def)

lemma live_upd: "(\<And>b. alive (f b) = alive b) \<Longrightarrow> live (upd p f w) = live w"
  by (auto simp: live_def nth_upd fun_eq_iff)

lemma live_hist [simp]: "live (w\<lparr>hist := h\<rparr>) = live w"
  by (simp add: live_def fun_eq_iff)

lemma coreI:
  "(\<And>p. live w p \<Longrightarrow> live_ok w p) \<Longrightarrow> (\<And>p. libuv_ok w p) \<Longrightarrow> core w"
  by (simp add: core_def)

lemma core_live: "core w \<Longrightarrow> live w p \<Longrightarrow> live_ok w p"
  and core_libuv: "core w \<Longrightarrow> libuv_ok w p"
  by (simp_all add: core_def)

lemma live_length: "live w p \<Longrightarrow> p < length (objs w)"
  by (simp add: live_def)

text \<open>The frame lemma: a step that shrinks what an object refers to and keeps the rest.\<close>

definition same_view :: "world \<Rightarrow> world \<Rightarrow> bool" where
  "same_view w v \<longleftrightarrow> length (objs v) = length (objs w) \<and>
     (\<forall>p < length (objs w).
        alive (objs v ! p) = alive (objs w ! p) \<and>
        set (refs_of (objs v ! p)) \<subseteq> set (refs_of (objs w ! p)) \<and>
        set (listeners (handlers (objs v ! p))) \<subseteq> set (listeners (handlers (objs w ! p))) \<and>
        map fst (handlers (objs v ! p)) = map fst (handlers (objs w ! p)) \<and>
        class_of (kind (objs v ! p)) = class_of (kind (objs w ! p)) \<and>
        owner (objs v ! p) = owner (objs w ! p) \<and>
        self_ptr (objs v ! p) = self_ptr (objs w ! p)) \<and>
     (\<forall>p. is_open (hist v) p = is_open (hist w) p \<and> pending (hist v) p = pending (hist w) p)"

lemma same_view_live: "same_view w v \<Longrightarrow> live v = live w"
  by (auto simp: same_view_def live_def fun_eq_iff)

lemma class_of_eq:
  assumes "class_of k = class_of j"
  shows "handle_kind k = handle_kind j" and "fs_kind_of k = fs_kind_of j"
    and "internal_kind k = internal_kind j" and "is_loop_kind k = is_loop_kind j"
    and "ownerless k = ownerless j" and "events_of k = events_of j"
  using assms by (simp_all add: class_of_def)

lemma owner_in_refs: "owner b = Some l \<Longrightarrow> l \<in> set (refs_of b)"
  by (simp add: refs_of_def)

lemma forward_in_refs: "Forward q \<in> set (listeners (handlers b)) \<Longrightarrow> q \<in> set (refs_of b)"
  unfolding refs_of_def captures_def by force

lemma same_view_live_ok:
  assumes sv: "same_view w v" and ok: "live_ok w p" and p: "live w p"
  shows "live_ok v p"
proof -
  have len: "p < length (objs w)" using p by (rule live_length)
  have refs: "q < length (objs w)" if "q \<in> set (refs_of (objs w ! p))" for q
    using ok that by (auto simp: live_ok_def refs_ok_def live_def)
  have cls: "class_of (kind (objs v ! q)) = class_of (kind (objs w ! q))" if "q < length (objs w)" for q
    using sv that by (simp add: same_view_def)
  have "refs_ok v p"
    using ok sv len same_view_live [OF sv] by (auto simp: live_ok_def refs_ok_def same_view_def)
  moreover have "forward_ok v p"
    unfolding forward_ok_def
  proof (intro allI impI)
    fix q assume "Forward q \<in> set (listeners (handlers (objs v ! p)))"
    then have q: "Forward q \<in> set (listeners (handlers (objs w ! p)))"
      using sv len by (auto simp: same_view_def)
    then have "q < length (objs w)" by (intro refs forward_in_refs)
    then show "internal_kind (kind (objs v ! p)) \<and> \<not> internal_kind (kind (objs v ! q))"
      using ok q class_of_eq(3) [OF cls] len by (auto simp: live_ok_def forward_ok_def)
  qed
  moreover have "slots_ok v p"
    using ok sv len class_of_eq(6) [OF cls] by (auto simp: live_ok_def slots_ok_def same_view_def)
  moreover have "owner_ok v p"
    using ok sv len class_of_eq(4,5) [OF cls] refs owner_in_refs
    by (auto simp: live_ok_def owner_ok_def same_view_def split: option.splits)
  ultimately show ?thesis
    using ok sv len by (auto simp: live_ok_def same_view_def)
qed

lemma same_view_libuv_ok:
  assumes sv: "same_view w v" and ok: "libuv_ok w p"
  shows "libuv_ok v p"
proof -
  have cls: "p < length (objs w) \<Longrightarrow> class_of (kind (objs v ! p)) = class_of (kind (objs w ! p))"
    using sv by (simp add: same_view_def)
  have k: "p < length (objs w) \<Longrightarrow> kept v p = kept w p"
    using sv same_view_live [OF sv] by (auto simp: kept_def same_view_def)
  show ?thesis
    using ok sv k class_of_eq(1,2) [OF cls] live_length
    unfolding libuv_ok_def kept_def same_view_def by metis
qed

lemma same_view_core: "same_view w v \<Longrightarrow> core w \<Longrightarrow> core v"
  using same_view_live_ok same_view_libuv_ok same_view_live
  unfolding core_def by metis

section \<open>Steps that keep the view\<close>

text \<open>A call that, with the value it returned, hands no pointer to libuv.\<close>

definition quiet :: "uv_call \<Rightarrow> int \<Rightarrow> bool" where
  "quiet c r \<longleftrightarrow> opens c r = None \<and> submits c r = None"

lemma neutral_quiet: "neutral c \<Longrightarrow> quiet c r"
  by (simp add: neutral_def quiet_def)

lemma core_quiet:
  assumes "core w" and "quiet c r"
  shows "core (w\<lparr>hist := Called c r # hist w\<rparr>)"
proof -
  have "opens c r = None" "submits c r = None"
    using assms(2) by (simp_all add: quiet_def)
  then have "same_view w (w\<lparr>hist := Called c r # hist w\<rparr>)"
    by (simp add: same_view_def)
  then show ?thesis using assms(1) by (rule same_view_core)
qed

lemma core_upd_view:
  assumes "core w"
    and "\<And>b. alive (f b) = alive b" "\<And>b. owner (f b) = owner b" "\<And>b. self_ptr (f b) = self_ptr b"
    and "\<And>b. members (f b) = members b" "\<And>b. handlers (f b) = handlers b"
    and "class_of (kind (f (objs w ! p))) = class_of (kind (objs w ! p))"
  shows "core (upd p f w)"
  by (rule same_view_core [OF _ assms(1)])
    (use assms(2-7) in \<open>auto simp: same_view_def nth_upd refs_of_def\<close>)

lemma core_hold [simp]:
  "core w \<Longrightarrow> core (upd p (\<lambda>b. b\<lparr>hold := f b\<rparr>) w)"
  and core_ext [simp]: "core w \<Longrightarrow> core (upd p (\<lambda>b. b\<lparr>ext := f b\<rparr>) w)"
  and core_user_data [simp]: "core w \<Longrightarrow> core (upd p (\<lambda>b. b\<lparr>user_data := g b\<rparr>) w)"
  by (simp_all add: core_upd_view)

lemma core_kind:
  "core w \<Longrightarrow> class_of (k (objs w ! p)) = class_of (kind (objs w ! p)) \<Longrightarrow>
   core (upd p (\<lambda>b. b\<lparr>kind := k b\<rparr>) w)"
  by (simp add: core_upd_view)

section \<open>Steps that hand a pointer to libuv or take it back\<close>

lemma refs_of_simps [simp]:
  "refs_of (b\<lparr>alive := a\<rparr>) = refs_of b"
  "refs_of (b\<lparr>kind := k\<rparr>) = refs_of b"
  "refs_of (b\<lparr>user_data := d\<rparr>) = refs_of b"
  "refs_of (b\<lparr>self_ptr := s\<rparr>) = refs_of b"
  "refs_of (b\<lparr>ext := n\<rparr>) = refs_of b"
  "refs_of (b\<lparr>hold := n\<rparr>) = refs_of b"
  by (simp_all add: refs_of_def)

lemma core_open:
  assumes "core w" and "live w p" and "handle_kind (kind (objs w ! p))"
    and "opens c r = Some p" and "submits c r = None"
  shows "core (set_self True p (w\<lparr>hist := Called c r # hist w\<rparr>))"
proof (rule coreI)
  let ?v = "set_self True p (w\<lparr>hist := Called c r # hist w\<rparr>)"
  have len: "p < length (objs w)" using assms(2) by (rule live_length)
  have lv: "live ?v = live w"
    by (auto simp: set_self_def live_def nth_upd fun_eq_iff)
  have o: "objs ?v ! q = (if q = p then (objs w ! p)\<lparr>self_ptr := True\<rparr> else objs w ! q)" for q
    using len by (simp add: set_self_def nth_upd)
  have h: "hist ?v = Called c r # hist w" by (simp add: set_self_def)
  show "live_ok ?v q" if "live ?v q" for q
    using core_live [OF assms(1), of q] that assms(4,5)
    unfolding live_ok_def refs_ok_def forward_ok_def slots_ok_def owner_ok_def lv o h by auto
  show "libuv_ok ?v q" for q
    using core_libuv [OF assms(1), of q] assms(2-5) len
    unfolding libuv_ok_def kept_def lv o h by (auto simp: set_self_def)
qed

lemma core_submit:
  assumes "core w" and "live w p" and "\<not> handle_kind (kind (objs w ! p))"
    and "pending (hist w) p = 0" and "submits c r = Some p" and "opens c r = None"
  shows "core (set_self True p (w\<lparr>hist := Called c r # hist w\<rparr>))"
proof (rule coreI)
  let ?v = "set_self True p (w\<lparr>hist := Called c r # hist w\<rparr>)"
  have len: "p < length (objs w)" using assms(2) by (rule live_length)
  have lv: "live ?v = live w"
    by (auto simp: set_self_def live_def nth_upd fun_eq_iff)
  have o: "objs ?v ! q = (if q = p then (objs w ! p)\<lparr>self_ptr := True\<rparr> else objs w ! q)" for q
    using len by (simp add: set_self_def nth_upd)
  have h: "hist ?v = Called c r # hist w" by (simp add: set_self_def)
  show "live_ok ?v q" if "live ?v q" for q
    using core_live [OF assms(1), of q] that assms(5,6)
    unfolding live_ok_def refs_ok_def forward_ok_def slots_ok_def owner_ok_def lv o h by auto
  show "libuv_ok ?v q" for q
    using core_libuv [OF assms(1), of q] assms(2-6) len
    unfolding libuv_ok_def kept_def lv o h by (auto simp: set_self_def)
qed

text \<open>A file system request is handed over without being kept.\<close>

lemma core_fs_submit:
  assumes "core w" and "p < length (objs w)" and "fs_kind_of (kind (objs w ! p))"
    and "submits c r = Some p" and "opens c r = None"
  shows "core (w\<lparr>hist := Called c r # hist w\<rparr>)"
proof (rule coreI)
  let ?v = "w\<lparr>hist := Called c r # hist w\<rparr>"
  have nh: "\<not> handle_kind (kind (objs w ! p))"
    using assms(3) by (auto simp: fs_kind_of_def handle_kind_def stream_kind_def split: kind.splits)
  show "live_ok ?v q" if "live ?v q" for q
    using core_live [OF assms(1), of q] that assms(4,5)
    unfolding live_ok_def refs_ok_def forward_ok_def slots_ok_def owner_ok_def by auto
  show "libuv_ok ?v q" for q
    using core_libuv [OF assms(1), of q] assms(2-5) nh
    unfolding libuv_ok_def kept_def by auto
qed

text \<open>The close callback, and the callback that completes a request, reset \<^verbatim>\<open>self_ptr\<close>.\<close>

lemma core_closed:
  assumes "core w" and "is_open (hist w) p"
  shows "core (self_reset p (fire cb_close p w))"
proof (rule coreI)
  let ?v = "self_reset p (fire cb_close p w)"
  have ok: "live w p" "handle_kind (kind (objs w ! p))"
    using core_libuv [OF assms(1), of p] assms(2) by (auto simp: libuv_ok_def kept_def)
  have len: "p < length (objs w)" using ok(1) by (rule live_length)
  have lv: "live ?v = live w"
    by (auto simp: resource_defs live_def nth_upd fun_eq_iff)
  have o: "objs ?v ! q = (if q = p then (objs w ! p)\<lparr>self_ptr := False\<rparr> else objs w ! q)" for q
    using len by (simp add: resource_defs nth_upd)
  have h: "hist ?v = Fired cb_close p # hist w" by (simp add: resource_defs)
  have np: "pending (hist w) p = 0"
    using core_libuv [OF assms(1), of p] ok(2) by (auto simp: libuv_ok_def)
  show "live_ok ?v q" if "live ?v q" for q
    using core_live [OF assms(1), of q] that
    unfolding live_ok_def refs_ok_def forward_ok_def slots_ok_def owner_ok_def lv o h by auto
  show "libuv_ok ?v q" for q
    using core_libuv [OF assms(1), of q] np
    unfolding libuv_ok_def kept_def lv o h by (auto simp: resource_defs)
qed

lemma core_completed:
  assumes "core w" and "0 < pending (hist w) p" and "request_cb cb" and "live w p"
  shows "core (self_reset p (fire cb p w))"
proof (rule coreI)
  let ?v = "self_reset p (fire cb p w)"
  have nh: "\<not> handle_kind (kind (objs w ! p))"
    and one: "\<not> fs_kind_of (kind (objs w ! p)) \<longrightarrow> pending (hist w) p = 1"
    using core_libuv [OF assms(1), of p] assms(2) by (auto simp: libuv_ok_def)
  have no: "\<not> is_open (hist w) p"
    using core_libuv [OF assms(1), of p] nh by (auto simp: libuv_ok_def)
  have len: "p < length (objs w)" using assms(4) by (rule live_length)
  have lv: "live ?v = live w"
    by (auto simp: resource_defs live_def nth_upd fun_eq_iff)
  have o: "objs ?v ! q = (if q = p then (objs w ! p)\<lparr>self_ptr := False\<rparr> else objs w ! q)" for q
    using len by (simp add: resource_defs nth_upd)
  have h: "hist ?v = Fired cb p # hist w" by (simp add: resource_defs)
  show "live_ok ?v q" if "live ?v q" for q
    using core_live [OF assms(1), of q] that assms(3)
    unfolding live_ok_def refs_ok_def forward_ok_def slots_ok_def owner_ok_def lv o h by auto
  show "libuv_ok ?v q" for q
    using core_libuv [OF assms(1), of q] nh one no assms(3) len
    unfolding libuv_ok_def kept_def lv o h by (auto simp: resource_defs)
qed

lemma core_reported:
  assumes "core w" and "\<not> request_cb cb" and "cb \<noteq> cb_close"
  shows "core (fire cb p w)"
  by (rule same_view_core [OF _ assms(1)]) (use assms(2,3) in \<open>auto simp: same_view_def fire_def\<close>)

section \<open>Allocation and listeners\<close>

lemma alloc_simps [simp]:
  "fst (alloc k own w) = length (objs w)"
  "hist (snd (alloc k own w)) = hist w"
  "length (objs (snd (alloc k own w))) = Suc (length (objs w))"
  by (simp_all add: alloc_def)

lemma map_fst_make: "map fst (slots_make ts) = ts"
  by (simp add: slots_make_def comp_def)

lemma core_alloc:
  assumes "core w"
    and "case own of None \<Rightarrow> ownerless k | Some l \<Rightarrow> live w l \<and> is_loop_kind (kind (objs w ! l))"
  shows "core (snd (alloc k own w))"
proof (rule coreI)
  let ?v = "snd (alloc k own w)" and ?n = "length (objs w)"
  have o: "q < ?n \<Longrightarrow> objs ?v ! q = objs w ! q" and n: "objs ?v ! ?n = new_obj k own" for q
    by (simp_all add: alloc_def nth_append)
  have lv: "live ?v q \<longleftrightarrow> live w q \<or> q = ?n" for q
    by (auto simp: live_def alloc_def nth_append new_obj_def less_Suc_eq)
  show "live_ok ?v q" if "live ?v q" for q
  proof (cases "q = ?n")
    case True
    then show ?thesis
      using n assms(2) live_length lv o
      by (auto simp: live_ok_def refs_ok_def forward_ok_def slots_ok_def owner_ok_def new_obj_def
          refs_of_def map_fst_make split: option.splits)
  next
    case False
    then have "live w q" using that lv by simp
    then have ok: "live_ok w q" and q: "q < ?n"
      using core_live [OF assms(1)] live_length by auto
    then have r: "r < ?n" if "r \<in> set (refs_of (objs w ! q))" for r
      using that by (auto simp: live_ok_def refs_ok_def dest: live_length)
    have "owner_ok ?v q"
      using ok o [OF q] r owner_in_refs o
      by (fastforce simp: live_ok_def owner_ok_def split: option.splits)
    then show ?thesis
      using ok o [OF q] r forward_in_refs lv o
      unfolding live_ok_def refs_ok_def forward_ok_def slots_ok_def by fastforce
  qed
  show "libuv_ok ?v q" for q
    using core_libuv [OF assms(1), of q] o [of q] lv live_length
    by (fastforce simp: libuv_ok_def kept_def)
qed

lemma listeners_assign_map_fst: "map fst (slots_on t f s) = map fst s"
  by (simp add: slots_on_def)

lemma core_assign:
  assumes "core w" and "live w p"
    and "\<And>l q. f = Some l \<Longrightarrow> q \<in> set (captures l) \<Longrightarrow> live w q"
    and "\<And>q. f = Some (Forward q) \<Longrightarrow>
          internal_kind (kind (objs w ! p)) \<and> \<not> internal_kind (kind (objs w ! q))"
  shows "core (assign_handler t f p w)"
proof (rule coreI)
  let ?v = "assign_handler t f p w"
  have len: "p < length (objs w)" using assms(2) by (rule live_length)
  have lv: "live ?v = live w"
    by (auto simp: assign_handler_def live_def nth_upd fun_eq_iff)
  have o: "objs ?v ! q = (if q = p then (objs w ! p)\<lparr>handlers := slots_on t f (handlers (objs w ! p))\<rparr>
      else objs w ! q)" for q
    using len by (simp add: assign_handler_def nth_upd)
  have ls: "set (listeners (slots_on t f s)) \<subseteq> set_option f \<union> set (listeners s)" for s
    by (simp add: slots_on_def listeners_assign_subset)
  have rf: "set (refs_of ((objs w ! p)\<lparr>handlers := slots_on t f (handlers (objs w ! p))\<rparr>)) \<subseteq>
      set (refs_of (objs w ! p)) \<union> (case f of None \<Rightarrow> {} | Some l \<Rightarrow> set (captures l))"
    using ls [of "handlers (objs w ! p)"] by (fastforce simp: refs_of_def split: option.splits)
  have k: "kind (objs ?v ! q) = kind (objs w ! q)" for q
    by (simp add: o)
  show "live_ok ?v q" if "live ?v q" for q
  proof -
    have ok: "live_ok w q" using core_live [OF assms(1)] that lv by simp
    have "refs_ok ?v q"
      using ok rf assms(3) unfolding live_ok_def refs_ok_def lv o
      by (fastforce split: option.splits if_splits)
    moreover have "forward_ok ?v q"
      unfolding forward_ok_def k
    proof (intro allI impI)
      fix r assume r: "Forward r \<in> set (listeners (handlers (objs ?v ! q)))"
      show "internal_kind (kind (objs w ! q)) \<and> \<not> internal_kind (kind (objs w ! r))"
      proof (cases "q = p \<and> f = Some (Forward r)")
        case True
        then show ?thesis using assms(4) by blast
      next
        case False
        then have "Forward r \<in> set (listeners (handlers (objs w ! q)))"
          using r ls [of "handlers (objs w ! p)"] by (auto simp: o split: if_splits)
        then show ?thesis using ok by (simp add: live_ok_def forward_ok_def)
      qed
    qed
    moreover have "slots_ok ?v q" "owner_ok ?v q"
      using ok k unfolding live_ok_def slots_ok_def owner_ok_def
      by (auto simp: o listeners_assign_map_fst split: option.splits)
    moreover have "hist ?v = hist w" "self_ptr (objs ?v ! q) = self_ptr (objs w ! q)"
      by (simp_all add: assign_handler_def nth_upd)
    ultimately show ?thesis using ok by (simp add: live_ok_def)
  qed
  show "libuv_ok ?v q" for q
    using core_libuv [OF assms(1), of q] unfolding libuv_ok_def kept_def lv
    by (auto simp: assign_handler_def nth_upd)
qed

section \<open>Destruction\<close>

text \<open>What a step may do to the objects: kill some, and change what their classes leave open.\<close>

definition same_obj :: "obj \<Rightarrow> obj \<Rightarrow> bool" where
  "same_obj b c \<longleftrightarrow> owner c = owner b \<and> handlers c = handlers b \<and> user_data c = user_data b \<and>
     self_ptr c = self_ptr b \<and> members c = members b \<and> ext c = ext b \<and> hold c = hold b \<and>
     class_of (kind c) = class_of (kind b)"

definition only_kills :: "world \<Rightarrow> world \<Rightarrow> bool" where
  "only_kills w v \<longleftrightarrow> length (objs v) = length (objs w) \<and>
     (\<forall>p < length (objs w). same_obj (objs w ! p) (objs v ! p) \<and> (alive (objs v ! p) \<longrightarrow> alive (objs w ! p))) \<and>
     (\<forall>p. is_open (hist v) p = is_open (hist w) p \<and> pending (hist v) p = pending (hist w) p \<and>
          is_closing (hist v) p = is_closing (hist w) p)"

lemma same_obj_refl [simp]: "same_obj b b"
  by (simp add: same_obj_def)

lemma same_obj_trans: "same_obj a b \<Longrightarrow> same_obj b c \<Longrightarrow> same_obj a c"
  by (simp add: same_obj_def)

lemma only_kills_refl [simp]: "only_kills w w"
  by (simp add: only_kills_def)

lemma only_kills_trans: "only_kills u v \<Longrightarrow> only_kills v w \<Longrightarrow> only_kills u w"
  unfolding only_kills_def by (auto intro: same_obj_trans)

lemma neutral_destructors [simp]:
  "neutral (C_loop c)" "neutral (C_fs (uv_fs_req_cleanup p))" "neutral (C_tty uv_tty_reset_mode)"
  by (simp_all add: neutral_def call_defs)

lemma class_of_loop [simp]: "class_of (K_loop a) = class_of (K_loop b)"
  by (simp add: class_of_def handle_kind_def stream_kind_def fs_kind_of_def internal_kind_def
      is_loop_kind_def ownerless_def events_of_def own_tags_def)

text \<open>A step that makes neutral calls and leaves every object as it was, but for a loop's pointer.\<close>

lemma only_kills_uvcall: "neutral c \<Longrightarrow> only_kills w (snd (uvcall uv c w))"
  by (auto simp: only_kills_def uvcall_def Let_def neutral_def)

lemma only_kills_kind:
  "class_of (k (objs w ! p)) = class_of (kind (objs w ! p)) \<Longrightarrow>
   only_kills w (upd p (\<lambda>b. b\<lparr>kind := k b\<rparr>) w)"
  by (auto simp: only_kills_def nth_upd same_obj_def)

lemma loop_close_kills: "only_kills w (snd (loop_close uv l w))"
proof (cases "uv_loop_of w l")
  case (Some p)
  then obtain q where k: "kind (objs w ! l) = K_loop q"
    by (auto simp: uv_loop_of_def split: kind.splits)
  let ?u = "snd (uvcall uv (C_loop (uv_loop_close (Some p))) w)"
  have "only_kills w ?u" by (rule only_kills_uvcall) simp
  moreover have "only_kills ?u (upd l (\<lambda>b. b\<lparr>kind := K_loop None\<rparr>) ?u)"
    by (rule only_kills_kind) (simp add: k class_of_loop [of None q])
  moreover have "snd (loop_close uv l w) = upd l (\<lambda>b. b\<lparr>kind := K_loop None\<rparr>) ?u"
    using Some by (simp add: loop_close_def case_prod_beta)
  ultimately show ?thesis
    by (metis only_kills_trans)
qed (simp add: loop_close_def)

lemma loop_close_alive [simp]: "alive (objs (snd (loop_close uv l w)) ! p) = alive (objs w ! p)"
  by (auto simp: loop_close_def Let_def case_prod_beta nth_upd split: option.splits)

lemma destructor_kills: "only_kills w (destructor uv p w)"
  unfolding destructor_def
  by (cases "kind (objs w ! p)") (auto simp: loop_close_kills only_kills_uvcall)

lemma destroy_kills: "only_kills w (destroy uv p w)"
proof -
  have "only_kills v (upd p (\<lambda>b. b\<lparr>alive := False\<rparr>) v)" for v
    by (auto simp: only_kills_def nth_upd same_obj_def)
  then show ?thesis
    unfolding destroy_def using destructor_kills only_kills_trans by blast
qed

lemma destroy_live:
  assumes "p < length (objs w)"
  shows "live (destroy uv p w) q \<longleftrightarrow> live w q \<and> q \<noteq> p"
proof -
  have l: "length (objs (destroy uv p w)) = length (objs w)"
    using destroy_kills by (simp add: only_kills_def)
  have "map alive (objs (destroy uv p w)) ! q = ((map alive (objs w))[p := False]) ! q"
    using destroy_alive [OF assms] by simp
  moreover have "((map alive (objs w))[p := False]) ! q = (q \<noteq> p \<and> alive (objs w ! q))"
    if "q < length (objs w)"
    using that assms by (simp add: nth_list_update)
  ultimately show ?thesis
    using l by (auto simp: live_def)
qed

text \<open>Nobody refers to an object without a strong pointer.\<close>

lemma held_by_objs_0:
  assumes "held_by_objs bs p = 0" and "b \<in> set bs" and "alive b"
  shows "p \<notin> set (refs_of b)"
proof -
  have "(if alive b then count_list (refs_of b) p else 0) = 0"
    using assms(1,2) by (simp add: held_by_objs_def del: if_image_distrib)
  with assms(3) show ?thesis by (simp add: count_list_0_iff')
qed

lemma strong_0_unreferenced:
  assumes "strong w p = 0" and "live w q"
  shows "p \<notin> set (refs_of (objs w ! q))"
  using assms held_by_objs_0 [of "objs w" p "objs w ! q"] by (auto simp: strong_def live_def)

lemma strong_0_self: "strong w p = 0 \<Longrightarrow> \<not> self_ptr (objs w ! p) \<and> hold (objs w ! p) = 0 \<and> ext (objs w ! p) = 0"
  by (auto simp: strong_def own_count_def split: if_splits)

lemma core_destroy:
  assumes "core w" and g: "p < length (objs w)" "strong w p = 0"
  shows "core (destroy uv p w)"
proof (rule coreI)
  let ?v = "destroy uv p w"
  have k: "only_kills w ?v" by (rule destroy_kills)
  have so: "same_obj (objs w ! q) (objs ?v ! q)" if "q < length (objs w)" for q
    using k that by (simp add: only_kills_def)
  have h: "is_open (hist ?v) = is_open (hist w)" "pending (hist ?v) = pending (hist w)"
    using k by (simp_all add: only_kills_def fun_eq_iff)
  show "live_ok ?v q" if v: "live ?v q" for q
  proof -
    have lq: "live w q" and ne: "q \<noteq> p" using v destroy_live [OF g(1)] by auto
    then have ok: "live_ok w q" and len: "q < length (objs w)"
      using core_live [OF assms(1)] live_length by auto
    have rs: "refs_of (objs ?v ! q) = refs_of (objs w ! q)"
      using so [OF len] by (simp add: refs_of_def same_obj_def)
    have r: "live w r \<and> r \<noteq> p \<and> r < length (objs w)" if "r \<in> set (refs_of (objs w ! q))" for r
      using ok that strong_0_unreferenced [OF g(2) lq] by (auto simp: live_ok_def refs_ok_def live_def)
    have kr: "class_of (kind (objs ?v ! r)) = class_of (kind (objs w ! r))" if "r < length (objs w)" for r
      using so [OF that] by (simp add: same_obj_def)
    have "refs_ok ?v q"
      using r by (simp add: refs_ok_def rs destroy_live [OF g(1)])
    moreover have "forward_ok ?v q"
      using ok so [OF len] r forward_in_refs class_of_eq(3) [OF kr] len
      by (simp add: live_ok_def forward_ok_def same_obj_def)
    moreover have "owner_ok ?v q" "slots_ok ?v q"
      using ok so [OF len] r owner_in_refs class_of_eq(4,5,6) [OF kr] len
      by (simp_all add: live_ok_def owner_ok_def slots_ok_def same_obj_def split: option.splits)
    ultimately show ?thesis
      using ok so [OF len] h by (simp add: live_ok_def same_obj_def)
  qed
  show "libuv_ok ?v q" for q
  proof (cases "q < length (objs w)")
    case True
    have "kept ?v q = kept w q"
      using so [OF True] strong_0_self [OF g(2)] destroy_live [OF g(1)]
      by (auto simp: kept_def same_obj_def)
    moreover have "length (objs ?v) = length (objs w)"
      using k by (simp add: only_kills_def)
    moreover have c: "class_of (kind (objs ?v ! q)) = class_of (kind (objs w ! q))"
      using so [OF True] by (simp add: same_obj_def)
    ultimately show ?thesis
      using core_libuv [OF assms(1), of q] h by (simp add: libuv_ok_def class_of_eq(1,2) [OF c])
  next
    case False
    then show ?thesis
      using core_libuv [OF assms(1), of q] h by (auto simp: libuv_ok_def kept_def dest: live_length)
  qed
qed

lemma collect_kills: "only_kills w (collect uv w)"
proof (induction uv w rule: collect.induct)
  case (1 uv w)
  show ?case
  proof (cases "garbage w")
    case Nil
    then show ?thesis by (simp add: collect.simps [of uv w])
  next
    case (Cons p ps)
    then have "only_kills (destroy uv p w) (collect uv (destroy uv p w))" by (rule 1)
    then show ?thesis
      using Cons only_kills_trans [OF destroy_kills] by (simp add: collect.simps [of uv w])
  qed
qed

lemma core_collect: "core w \<Longrightarrow> core (collect uv w)"
proof (induction uv w rule: collect.induct)
  case (1 uv w)
  show ?case
  proof (cases "garbage w")
    case Nil
    with 1 show ?thesis by (simp add: collect.simps [of uv w])
  next
    case (Cons p ps)
    with 1 have "core (collect uv (destroy uv p w))"
      using garbage_in [OF Cons] by (simp add: core_destroy)
    with Cons show ?thesis by (simp add: collect.simps [of uv w])
  qed
qed

lemma all_held_iff: "all_held w \<longleftrightarrow> garbage w = []"
  by (auto simp: all_held_def garbage_def filter_empty_conv live_def)

lemma collect_all_held: "all_held (collect uv w)"
proof (induction uv w rule: collect.induct)
  case (1 uv w)
  show ?case
  proof (cases "garbage w")
    case Nil
    then show ?thesis by (simp add: collect.simps [of uv w] all_held_iff)
  next
    case (Cons p ps)
    with 1 show ?thesis by (simp add: collect.simps [of uv w])
  qed
qed

lemma inv_collect [uvw_inv]: "core w \<Longrightarrow> invar (collect uv w)"
  by (simp add: invar_def core_collect collect_all_held)

lemma inv_core: "invar w \<Longrightarrow> core w"
  by (simp add: invar_def)

text \<open>An object with a pointer outside the store, or that an object kept refers to, is not collected.\<close>

lemma collect_keeps:
  "live w p \<Longrightarrow> 0 < own_count (objs w ! p) \<Longrightarrow> live (collect uv w) p"
proof (induction uv w rule: collect.induct)
  case (1 uv w)
  show ?case
  proof (cases "garbage w")
    case Nil
    with 1 show ?thesis by (simp add: collect.simps [of uv w])
  next
    case (Cons q qs)
    have q: "q < length (objs w)" "strong w q = 0" using garbage_in [OF Cons] by auto
    then have ne: "p \<noteq> q" using 1(3) by (auto simp: strong_def)
    have "p < length (objs w)" using 1(2) by (rule live_length)
    then have "own_count (objs (destroy uv q w) ! p) = own_count (objs w ! p)"
      using destroy_kills [of w uv q] by (simp add: only_kills_def same_obj_def own_count_def)
    then have "live (collect uv (destroy uv q w)) p"
      using 1 Cons ne by (intro 1(1)) (auto simp: destroy_live [OF q(1)])
    with Cons show ?thesis by (simp add: collect.simps [of uv w])
  qed
qed

lemma collect_only_kills_obj:
  assumes "p < length (objs w)"
  shows "same_obj (objs w ! p) (objs (collect uv w) ! p)"
  using collect_kills [of w uv] assms by (simp add: only_kills_def)

lemma collect_length [simp]: "length (objs (collect uv w)) = length (objs w)"
  using collect_kills [of w uv] by (simp add: only_kills_def)

lemma collect_hist [simp]:
  "is_open (hist (collect uv w)) = is_open (hist w)"
  "pending (hist (collect uv w)) = pending (hist w)"
  "is_closing (hist (collect uv w)) = is_closing (hist w)"
  using collect_kills [of w uv] by (simp_all add: only_kills_def fun_eq_iff)

lemma collect_live: "live (collect uv w) p \<Longrightarrow> live w p"
  using collect_kills [of w uv] by (auto simp: only_kills_def live_def)

lemma collect_nothing: "all_held w \<Longrightarrow> collect uv w = w"
  by (simp add: collect.simps [of uv w] all_held_iff)

section \<open>Every object is held\<close>

lemma held_by_objs_pos: "0 < held_by_objs bs p \<longleftrightarrow> (\<exists>b \<in> set bs. alive b \<and> p \<in> set (refs_of b))"
proof
  assume "\<exists>b \<in> set bs. alive b \<and> p \<in> set (refs_of b)"
  then show "0 < held_by_objs bs p" using held_by_objs_0 by blast
next
  assume "0 < held_by_objs bs p"
  then show "\<exists>b \<in> set bs. alive b \<and> p \<in> set (refs_of b)"
    by (induction bs) (auto simp: held_by_objs_def count_list_pos_iff split: if_splits)
qed

lemma bex_nth: "(\<exists>b \<in> set bs. P b) \<longleftrightarrow> (\<exists>i < length bs. P (bs ! i))"
  by (metis in_set_conv_nth)

lemma strong_pos_iff:
  "0 < strong w p \<longleftrightarrow>
     0 < own_count (objs w ! p) \<or> (\<exists>q. live w q \<and> p \<in> set (refs_of (objs w ! q)))"
proof -
  have "(\<exists>b \<in> set (objs w). alive b \<and> p \<in> set (refs_of b)) \<longleftrightarrow>
      (\<exists>q. live w q \<and> p \<in> set (refs_of (objs w ! q)))"
    by (simp add: bex_nth live_def conj_assoc)
  then show ?thesis
    by (simp add: strong_def held_by_objs_pos)
qed

lemma all_held_def': "all_held w \<longleftrightarrow> (\<forall>p. live w p \<longrightarrow>
    0 < own_count (objs w ! p) \<or> (\<exists>q. live w q \<and> p \<in> set (refs_of (objs w ! q))))"
  by (simp add: all_held_def strong_pos_iff)

lemma all_held_same:
  assumes "all_held w" and "length (objs v) = length (objs w)"
    and "\<And>p. p < length (objs w) \<Longrightarrow> alive (objs v ! p) = alive (objs w ! p) \<and>
          set (refs_of (objs v ! p)) = set (refs_of (objs w ! p)) \<and>
          own_count (objs w ! p) \<le> own_count (objs v ! p)"
  shows "all_held v"
proof -
  have lv: "live v = live w" using assms(2,3) by (auto simp: live_def fun_eq_iff)
  show ?thesis
    unfolding all_held_def' lv
  proof (intro allI impI)
    fix p assume p: "live w p"
    have "0 < own_count (objs w ! p) \<or> (\<exists>q. live w q \<and> p \<in> set (refs_of (objs w ! q)))"
      using assms(1) p by (simp add: all_held_def')
    then consider "0 < own_count (objs w ! p)" | q where "live w q" "p \<in> set (refs_of (objs w ! q))"
      by auto
    then show "0 < own_count (objs v ! p) \<or> (\<exists>q. live w q \<and> p \<in> set (refs_of (objs v ! q)))"
    proof cases
      case 1
      then show ?thesis using assms(3) live_length [OF p] by (meson less_le_trans)
    next
      case 2
      then show ?thesis using assms(3) live_length by blast
    qed
  qed
qed

lemma all_held_hist [simp]: "all_held (w\<lparr>hist := h\<rparr>) = all_held w"
  by (simp add: all_held_def')

lemma all_held_upd:
  assumes "all_held w" and "\<And>b. alive (f b) = alive b" and "\<And>b. refs_of (f b) = refs_of b"
    and "own_count (objs w ! p) \<le> own_count (f (objs w ! p))"
  shows "all_held (upd p f w)"
  by (rule all_held_same [OF assms(1)]) (auto simp: nth_upd assms(2-4))

section \<open>What user code may do\<close>

text \<open>
  An operation keeps the local pointers of the library as they were, keeps the classes, and
  destroys nothing that a local pointer holds.
\<close>

definition user_frame :: "world \<Rightarrow> world \<Rightarrow> bool" where
  "user_frame w v \<longleftrightarrow> length (objs w) \<le> length (objs v) \<and>
     (\<forall>p < length (objs w).
        hold (objs v ! p) = hold (objs w ! p) \<and>
        class_of (kind (objs v ! p)) = class_of (kind (objs w ! p)) \<and>
        (live v p \<longrightarrow> live w p) \<and> (live w p \<and> 0 < hold (objs w ! p) \<longrightarrow> live v p)) \<and>
     (\<forall>p. length (objs w) \<le> p \<and> p < length (objs v) \<longrightarrow> hold (objs v ! p) = 0)"

definition good :: "world \<Rightarrow> world \<Rightarrow> bool" where
  "good w v \<longleftrightarrow> invar v \<and> user_frame w v"

lemma user_frame_refl [simp]: "user_frame w w"
  by (simp add: user_frame_def)

lemma user_frame_trans:
  assumes "user_frame u v" and "user_frame v w"
  shows "user_frame u w"
  unfolding user_frame_def
proof (intro conjI allI impI)
  show "length (objs u) \<le> length (objs w)" using assms by (auto simp: user_frame_def)
  fix p assume p: "p < length (objs u)"
  then have p': "p < length (objs v)" using assms(1) by (auto simp: user_frame_def)
  have uv: "hold (objs v ! p) = hold (objs u ! p)" "class_of (kind (objs v ! p)) = class_of (kind (objs u ! p))"
    "live v p \<longrightarrow> live u p" "live u p \<and> 0 < hold (objs u ! p) \<longrightarrow> live v p"
    using assms(1) p by (simp_all add: user_frame_def)
  have vw: "hold (objs w ! p) = hold (objs v ! p)" "class_of (kind (objs w ! p)) = class_of (kind (objs v ! p))"
    "live w p \<longrightarrow> live v p" "live v p \<and> 0 < hold (objs v ! p) \<longrightarrow> live w p"
    using assms(2) p' by (simp_all add: user_frame_def)
  show "hold (objs w ! p) = hold (objs u ! p)"
    using uv(1) vw(1) by (rule trans [rotated])
  show "class_of (kind (objs w ! p)) = class_of (kind (objs u ! p))"
    using uv(2) vw(2) by (rule trans [rotated])
  show "live u p" if "live w p"
    using uv(3) vw(3) that by blast
  show "live w p" if "live u p \<and> 0 < hold (objs u ! p)"
    using uv(1,4) vw(4) that by metis
next
  fix p assume p: "length (objs u) \<le> p \<and> p < length (objs w)"
  show "hold (objs w ! p) = 0"
  proof (cases "p < length (objs v)")
    case True
    then have "hold (objs w ! p) = hold (objs v ! p)" "hold (objs v ! p) = 0"
      using assms p by (simp_all add: user_frame_def)
    then show ?thesis by simp
  next
    case False
    then show ?thesis using assms(2) p by (simp add: user_frame_def)
  qed
qed

lemma good_refl: "invar w \<Longrightarrow> good w w"
  by (simp add: good_def)

lemma good_trans: "good u v \<Longrightarrow> good v w \<Longrightarrow> good u w"
  unfolding good_def by (blast intro: user_frame_trans)

lemma good_inv: "good w v \<Longrightarrow> invar v"
  by (simp add: good_def)

lemma user_frame_same:
  "length (objs v) = length (objs w) \<Longrightarrow>
   (\<And>p. p < length (objs w) \<Longrightarrow> hold (objs v ! p) = hold (objs w ! p) \<and>
      class_of (kind (objs v ! p)) = class_of (kind (objs w ! p)) \<and>
      alive (objs v ! p) = alive (objs w ! p)) \<Longrightarrow> user_frame w v"
  by (auto simp: user_frame_def live_def)

lemma user_frame_upd:
  "(\<And>b. alive (f b) = alive b) \<Longrightarrow> (\<And>b. hold (f b) = hold b) \<Longrightarrow>
   class_of (kind (f (objs w ! p))) = class_of (kind (objs w ! p)) \<Longrightarrow> user_frame w (upd p f w)"
  by (rule user_frame_same) (auto simp: nth_upd)

lemma user_frame_hist [simp]: "user_frame w (w\<lparr>hist := h\<rparr>)"
  by (rule user_frame_same) auto

lemma user_frame_collect: "user_frame w (collect uv w)"
proof -
  have "hold (objs (collect uv w) ! p) = hold (objs w ! p) \<and>
      class_of (kind (objs (collect uv w) ! p)) = class_of (kind (objs w ! p))"
    if "p < length (objs w)" for p
    using collect_only_kills_obj [OF that, of uv] by (simp add: same_obj_def)
  moreover have "live (collect uv w) p" if "live w p" "0 < hold (objs w ! p)" for p
    using that by (intro collect_keeps) (auto simp: own_count_def)
  ultimately show ?thesis
    by (auto simp: user_frame_def dest: collect_live)
qed

lemma good_quiet: "invar w \<Longrightarrow> quiet c r \<Longrightarrow> good w (w\<lparr>hist := Called c r # hist w\<rparr>)"
  by (simp add: good_def invar_def core_quiet)

lemma good_uvcall:
  "invar w \<Longrightarrow> quiet c (ret uv (hist w) c) \<Longrightarrow> good w (snd (uvcall uv c w))"
  by (simp add: uvcall_def Let_def good_quiet)

lemma good_neutral: "invar w \<Longrightarrow> neutral c \<Longrightarrow> good w (snd (uvcall uv c w))"
  by (simp add: good_uvcall neutral_quiet)

lemma good_collect: "core w \<Longrightarrow> user_frame u w \<Longrightarrow> good u (collect uv w)"
  by (simp add: good_def inv_collect) (blast intro: user_frame_trans user_frame_collect)

lemma good_kind:
  "invar w \<Longrightarrow> class_of (k (objs w ! p)) = class_of (kind (objs w ! p)) \<Longrightarrow>
   good w (upd p (\<lambda>b. b\<lparr>kind := k b\<rparr>) w)"
  by (simp add: good_def invar_def core_kind all_held_upd user_frame_upd own_count_def)

lemma good_user_data: "invar w \<Longrightarrow> good w (set_data d p w)"
  by (simp add: set_data_def good_def invar_def all_held_upd user_frame_upd own_count_def)

lemma good_acquire: "invar w \<Longrightarrow> good w (acquire p w)"
  by (simp add: acquire_def good_def invar_def all_held_upd user_frame_upd own_count_def)

lemma good_release: "invar w \<Longrightarrow> good w (release uv p w)"
  unfolding release_def by (rule good_collect) (simp_all add: inv_core user_frame_upd)

lemma good_emitter_on:
  assumes "invar w" and "live w p"
    and "\<And>l q. f = Some l \<Longrightarrow> q \<in> set (captures l) \<Longrightarrow> live w q"
    and "\<And>q. f = Some (Forward q) \<Longrightarrow>
          internal_kind (kind (objs w ! p)) \<and> \<not> internal_kind (kind (objs w ! q))"
  shows "good w (emitter_on uv t f p w)"
  unfolding emitter_on_def
proof (rule good_collect)
  show "core (assign_handler t f p w)"
    using assms by (intro core_assign) (simp_all add: inv_core)
  show "user_frame w (assign_handler t f p w)"
    by (simp add: assign_handler_def user_frame_upd)
qed

lemma core_fewer_handlers:
  assumes "core w" and "\<And>s. map fst (g s) = map fst s" and "\<And>s. set (listeners (g s)) \<subseteq> set (listeners s)"
  shows "core (upd p (\<lambda>b. b\<lparr>handlers := g (handlers b)\<rparr>) w)"
proof (rule same_view_core [OF _ assms(1)])
  have "set (refs_of (b\<lparr>handlers := g (handlers b)\<rparr>)) \<subseteq> set (refs_of b)" for b :: obj
    using assms(3) [of "handlers b"] by (auto simp: refs_of_def)
  then show "same_view w (upd p (\<lambda>b. b\<lparr>handlers := g (handlers b)\<rparr>) w)"
    using assms(2,3) by (auto simp: same_view_def nth_upd)
qed

lemma listeners_clear_subset: "set (listeners (handler_assign t None s)) \<subseteq> set (listeners s)"
  using listeners_assign_subset [of t None s] by simp

lemma good_emitter_reset: "invar w \<Longrightarrow> good w (emitter_reset uv t p w)"
  unfolding emitter_reset_def
proof (rule good_collect)
  show "invar w \<Longrightarrow> core (upd p (\<lambda>o1. o1\<lparr>handlers := slots_reset t (handlers o1)\<rparr>) w)"
    by (intro core_fewer_handlers) (simp_all add: inv_core slots_reset_def listeners_clear_subset)
qed (simp add: user_frame_upd)

lemma good_emitter_reset_all: "invar w \<Longrightarrow> good w (emitter_reset_all uv p w)"
  unfolding emitter_reset_all_def
proof (rule good_collect)
  show "invar w \<Longrightarrow> core (upd p (\<lambda>o1. o1\<lparr>handlers := slots_reset_all (handlers o1)\<rparr>) w)"
    by (intro core_fewer_handlers)
      (simp_all add: inv_core listeners_reset_all_subset slots_reset_all_def fold_reset_dom listeners_fold_reset)
qed (simp add: user_frame_upd)

section \<open>Initialisation and submission\<close>

lemma user_frame_set_self: "user_frame w (set_self b p (w\<lparr>hist := h\<rparr>))"
  by (rule user_frame_same) (auto simp: set_self_def nth_upd)

lemma all_held_set_self: "all_held w \<Longrightarrow> all_held (set_self True p (w\<lparr>hist := h\<rparr>))"
  by (auto simp: set_self_def own_count_def intro: all_held_upd)

lemma leak_if_call_eq:
  "leak_if_call uv p c w =
     (let r = ret uv (hist w) c; v = w\<lparr>hist := Called c r # hist w\<rparr>
      in (r, if r = 0 then set_self True p v else v))"
  by (simp add: leak_if_call_def leak_if_def uvcall_def Let_def)

text \<open>A handle's \<^verbatim>\<open>init\<close> hands the handle to libuv and keeps it, or does neither.\<close>

lemma good_init:
  assumes "invar w" and "live w p" and "handle_kind (kind (objs w ! p))"
    and "opens c 0 = Some p" and "submits c 0 = None" and "\<And>r. r \<noteq> 0 \<Longrightarrow> quiet c r"
  shows "good w (snd (leak_if_call uv p c w))"
proof (cases "ret uv (hist w) c = 0")
  case True
  have "core (set_self True p (w\<lparr>hist := Called c 0 # hist w\<rparr>))"
    using assms by (intro core_open) (auto simp: inv_core)
  with True assms(1) show ?thesis
    by (simp add: leak_if_call_eq Let_def good_def invar_def all_held_set_self user_frame_set_self)
next
  case False
  with assms show ?thesis
    by (simp add: leak_if_call_eq Let_def good_quiet)
qed

lemma good_submit:
  assumes "invar w" and "live w p" and "\<not> handle_kind (kind (objs w ! p))"
    and "pending (hist w) p = 0"
    and "submits c 0 = Some p" and "opens c 0 = None" and "\<And>r. r \<noteq> 0 \<Longrightarrow> quiet c r"
  shows "good w (snd (leak_if_call uv p c w))"
proof (cases "ret uv (hist w) c = 0")
  case True
  have "core (set_self True p (w\<lparr>hist := Called c 0 # hist w\<rparr>))"
    using assms by (intro core_submit) (auto simp: inv_core)
  with True assms(1) show ?thesis
    by (simp add: leak_if_call_eq Let_def good_def invar_def all_held_set_self user_frame_set_self)
next
  case False
  with assms show ?thesis
    by (simp add: leak_if_call_eq Let_def good_quiet)
qed

lemma good_fs_call:
  assumes "invar w" and "live w p" and "fs_kind_of (kind (objs w ! p))"
    and "opens c r = None" and "submits c r = Some p \<or> submits c r = None"
    and "r = ret uv (hist w) c"
  shows "good w (snd (uvcall uv c w))"
proof (cases "submits c r = None")
  case True
  with assms show ?thesis by (intro good_uvcall) (auto simp: quiet_def)
next
  case False
  then have "core (w\<lparr>hist := Called c r # hist w\<rparr>)"
    using assms by (intro core_fs_submit [of w p]) (auto simp: inv_core live_def)
  with assms show ?thesis
    by (simp add: good_def invar_def uvcall_def Let_def)
qed

end
