(* ===== verification/Loop.thy ===== *)
theory Loop
  imports Invariant Util
begin

text \<open>
  \<^verbatim>\<open>src/uvw/loop.h\<close> and \<^verbatim>\<open>loop.ipp\<close>: creating a loop and the default loop, creating the resources of
  a loop, running it, and walking its handles. The destructor and \<^verbatim>\<open>close\<close> are in the theory Objects,
  where destruction needs them.
\<close>

section \<open>Definitions\<close>

datatype (plugins only: code) loop_option = BLOCK_SIGNAL | IDLE_TIME
datatype (plugins only: code) run_mode = RUN_DEFAULT | RUN_ONCE | RUN_NOWAIT

definition loop_option_value :: "loop_option \<Rightarrow> nat" where
  "loop_option_value f = (case f of BLOCK_SIGNAL \<Rightarrow> 0 | IDLE_TIME \<Rightarrow> 1)"

definition run_mode_value :: "run_mode \<Rightarrow> nat" where
  "run_mode_value m = (case m of RUN_DEFAULT \<Rightarrow> 0 | RUN_ONCE \<Rightarrow> 1 | RUN_NOWAIT \<Rightarrow> 2)"

text \<open>A local pointer that the function returns goes to the caller.\<close>

definition to_user :: "oid \<Rightarrow> world \<Rightarrow> world" where
  "to_user p w = upd p (\<lambda>b. b\<lparr>hold := hold b - 1, ext := Suc (ext b)\<rparr>) w"

text \<open>\<^verbatim>\<open>loop::create()\<close>: when \<^verbatim>\<open>uv_loop_init\<close> fails, the only pointer is overwritten.\<close>

definition loop_create :: "libuv \<Rightarrow> world \<Rightarrow> oid option \<times> world" where
  "loop_create uv w =
     (let curr = length (objs w);
          w1 = snd (alloc (K_loop (Some (Own_loop curr))) None w);
          (err, w2) = uvcall uv (C_loop (uv_loop_init (uv_loop_of w1 curr))) w1
      in if err \<noteq> 0 then (None, drop_hold uv curr w2) else (Some curr, to_user curr w2))"

definition loop_create_from :: "lptr \<Rightarrow> world \<Rightarrow> oid option \<times> world" where
  "loop_create_from res w =
     (let (curr, w1) = alloc (K_loop res) None w in (Some curr, to_user curr w1))"

text \<open>\<^verbatim>\<open>std::weak_ptr::expired\<close>.\<close>

definition expired :: "oid option \<Rightarrow> world \<Rightarrow> bool" where
  "expired r w = (case r of None \<Rightarrow> True | Some p \<Rightarrow> \<not> live w p)"

definition loop_get_default :: "libuv \<Rightarrow> world \<Rightarrow> oid option \<times> world" where
  "loop_get_default uv w =
     (if expired (default_ref w) w then
        let (def, w1) = uvcall uv (C_loop uv_default_loop) w
        in if def \<noteq> 0 then
             (let (curr, w2) = alloc (K_loop (Some Default_loop)) None w1
              in (Some curr, to_user curr (w2\<lparr>default_ref := Some curr\<rparr>)))
           else (None, w1\<lparr>default_ref := None\<rparr>)
      else (default_ref w, (case default_ref w of None \<Rightarrow> w | Some p \<Rightarrow> acquire p w)))"

text \<open>
  The constructor of a resource. A TTY handle shares one \<^verbatim>\<open>reset_mode_memo\<close> with the others
  (\<^verbatim>\<open>tty_handle::mode_memo_handler\<close>); the other constructors only initialise members.
\<close>

definition mode_memo_handler :: "world \<Rightarrow> oid \<times> world" where
  "mode_memo_handler w =
     (case memo_ref w of
        Some m \<Rightarrow>
          if live w m then (m, take_hold m w)
          else (let (n, w1) = alloc K_reset_memo None w in (n, w1\<lparr>memo_ref := Some n\<rparr>))
      | None \<Rightarrow> (let (n, w1) = alloc K_reset_memo None w in (n, w1\<lparr>memo_ref := Some n\<rparr>)))"

definition has_memo :: "kind \<Rightarrow> bool" where
  "has_memo k = (case k of K_tty f r \<Rightarrow> True | _ \<Rightarrow> False)"

definition make_resource :: "kind \<Rightarrow> oid \<Rightarrow> world \<Rightarrow> oid \<times> world" where
  "make_resource k l w =
     (if has_memo k then
        let (m, w1) = mode_memo_handler w; (p, w2) = alloc k (Some l) w1
        in (p, upd m (\<lambda>b. b\<lparr>hold := hold b - 1\<rparr>) (upd p (\<lambda>b. b\<lparr>members := [m]\<rparr>) w2))
      else alloc k (Some l) w)"

definition uninitialized_resource :: "kind \<Rightarrow> oid \<Rightarrow> world \<Rightarrow> oid \<times> world" where
  "uninitialized_resource k l w = (let (p, w1) = make_resource k l w in (p, to_user p w1))"

text \<open>
  \<^verbatim>\<open>(init(0, *ptr) == 0) ? ptr : nullptr\<close>; \<^verbatim>\<open>init\<close> is the class's, or returns 0 where it has none. The
  pointer returned is a local of the caller, which is the library itself or, through
  \<^verbatim>\<open>user_resource\<close>, the user.
\<close>

definition no_init :: "oid \<Rightarrow> world \<Rightarrow> int \<times> world" where
  "no_init p w = (0, w)"

definition loop_resource ::
  "libuv \<Rightarrow> (oid \<Rightarrow> world \<Rightarrow> int \<times> world) \<Rightarrow> kind \<Rightarrow> oid \<Rightarrow> world \<Rightarrow> oid option \<times> world" where
  "loop_resource uv init k l w =
     (let (p, w1) = make_resource k l w; (err, w2) = init p w1
      in if err = 0 then (Some p, w2) else (None, drop_hold uv p w2))"

definition user_resource ::
  "libuv \<Rightarrow> (oid \<Rightarrow> world \<Rightarrow> int \<times> world) \<Rightarrow> kind \<Rightarrow> oid \<Rightarrow> world \<Rightarrow> oid option \<times> world" where
  "user_resource uv init k l w =
     (case loop_resource uv init k l w of
        (Some p, v) \<Rightarrow> (Some p, to_user p v)
      | (None, v) \<Rightarrow> (None, v))"

definition loop_configure :: "libuv \<Rightarrow> oid \<Rightarrow> loop_option \<Rightarrow> int list \<Rightarrow> world \<Rightarrow> int \<times> world" where
  "loop_configure uv l flag args w =
     uvcall uv (C_loop (uv_loop_configure (uv_loop_of w l) (loop_option_value flag) args)) w"

definition loop_run :: "libuv \<Rightarrow> oid \<Rightarrow> run_mode \<Rightarrow> world \<Rightarrow> int \<times> world" where
  "loop_run uv l mode w = uvcall uv (C_loop (uv_run (uv_loop_of w l) (run_mode_value mode))) w"

definition loop_alive :: "libuv \<Rightarrow> oid \<Rightarrow> world \<Rightarrow> bool \<times> world" where
  "loop_alive uv l w = (let (r, v) = uvcall uv (C_loop (uv_loop_alive (uv_loop_of w l))) w in (r \<noteq> 0, v))"

definition loop_stop :: "libuv \<Rightarrow> oid \<Rightarrow> world \<Rightarrow> int \<times> world" where
  "loop_stop uv l w = uvcall uv (C_loop (uv_stop (uv_loop_of w l))) w"

definition loop_descriptor :: "libuv \<Rightarrow> oid \<Rightarrow> world \<Rightarrow> int \<times> world" where
  "loop_descriptor uv l w = uvcall uv (C_loop (uv_backend_fd (uv_loop_of w l))) w"

text \<open>\<^verbatim>\<open>std::make_pair(to == -1, time{to})\<close>, where \<^verbatim>\<open>time\<close> counts in \<^verbatim>\<open>uint64_t\<close>.\<close>

definition loop_timeout :: "libuv \<Rightarrow> oid \<Rightarrow> world \<Rightarrow> (bool \<times> u64) \<times> world" where
  "loop_timeout uv l w =
     (let (to, v) = uvcall uv (C_loop (uv_backend_timeout (uv_loop_of w l))) w
      in ((to = -1, word_of_int to), v))"

definition loop_idle_time :: "libuv \<Rightarrow> oid \<Rightarrow> world \<Rightarrow> u64 \<times> world" where
  "loop_idle_time uv l w =
     (let (t, v) = uvcall uv (C_loop (uv_metrics_idle_time (uv_loop_of w l))) w in (word_of_int t, v))"

text \<open>\<^verbatim>\<open>metrics\<close>: the struct is zeroed first; the error code of \<^verbatim>\<open>uv_metrics_info\<close> is dropped.\<close>

definition loop_metrics :: "libuv \<Rightarrow> oid \<Rightarrow> world \<Rightarrow> bytes \<times> world" where
  "loop_metrics uv l w =
     (let c = C_loop (uv_metrics_info (uv_loop_of w l))
      in (case out_bytes uv (hist w) c of None \<Rightarrow> replicate 128 0 | Some m \<Rightarrow> m, snd (uvcall uv c w)))"

definition loop_now :: "libuv \<Rightarrow> oid \<Rightarrow> world \<Rightarrow> u64 \<times> world" where
  "loop_now uv l w =
     (let (t, v) = uvcall uv (C_loop (uv_now (uv_loop_of w l))) w in (word_of_int t, v))"

definition loop_update :: "libuv \<Rightarrow> oid \<Rightarrow> world \<Rightarrow> int \<times> world" where
  "loop_update uv l w = uvcall uv (C_loop (uv_update_time (uv_loop_of w l))) w"

definition loop_fork :: "libuv \<Rightarrow> oid \<Rightarrow> world \<Rightarrow> int \<times> world" where
  "loop_fork uv l w = uvcall uv (C_loop (uv_loop_fork (uv_loop_of w l))) w"

definition loop_set_data :: "nat option \<Rightarrow> oid \<Rightarrow> world \<Rightarrow> world" where
  "loop_set_data ud l w = set_data ud l w"

definition loop_data :: "world \<Rightarrow> oid \<Rightarrow> nat option" where
  "loop_data w l = data w l"

definition loop_raw :: "world \<Rightarrow> oid \<Rightarrow> lptr" where
  "loop_raw w l = uv_loop_of w l"

text \<open>
  \<^verbatim>\<open>walk\<close>: what the function handed to \<^verbatim>\<open>uv_walk\<close> does with one handle: the class it casts the
  handle's \<^verbatim>\<open>data\<close> to, or nothing for a handle that is not managed by the library.
\<close>

definition walk_class :: "uv_handle_type \<Rightarrow> handle_type option" where
  "walk_class t =
     (case guess_handle t of
        HT_ASYNC \<Rightarrow> Some HT_ASYNC
      | HT_CHECK \<Rightarrow> Some HT_CHECK
      | HT_FS_EVENT \<Rightarrow> Some HT_FS_EVENT
      | HT_FS_POLL \<Rightarrow> Some HT_FS_POLL
      | HT_IDLE \<Rightarrow> Some HT_IDLE
      | HT_PIPE \<Rightarrow> Some HT_PIPE
      | HT_POLL \<Rightarrow> Some HT_POLL
      | HT_PREPARE \<Rightarrow> Some HT_PREPARE
      | HT_PROCESS \<Rightarrow> Some HT_PROCESS
      | HT_SIGNAL \<Rightarrow> Some HT_SIGNAL
      | HT_TCP \<Rightarrow> Some HT_TCP
      | HT_TIMER \<Rightarrow> Some HT_TIMER
      | HT_TTY \<Rightarrow> Some HT_TTY
      | HT_UDP \<Rightarrow> Some HT_UDP
      | _ \<Rightarrow> None)"

text \<open>
  \<^verbatim>\<open>visit t p w\<close> is the state the user's function leaves when it is called with the handle \<^verbatim>\<open>p\<close> as a
  \<^verbatim>\<open>t\<close>; the list is what \<^verbatim>\<open>uv_walk\<close> passes, each handle with its type and its \<^verbatim>\<open>data\<close>.
\<close>

fun walk_handles ::
  "(handle_type \<Rightarrow> oid \<Rightarrow> world \<Rightarrow> world) \<Rightarrow> (uv_handle_type \<times> oid option) list \<Rightarrow> world \<Rightarrow> ub + world"
where
  "walk_handles visit [] w = Inr w"
| "walk_handles visit ((t, d) # hs) w =
     (case d of
        None \<Rightarrow> walk_handles visit hs w
      | Some p \<Rightarrow>
          (case walk_class t of
             None \<Rightarrow> walk_handles visit hs w
           | Some c \<Rightarrow> if live w p then walk_handles visit hs (visit c p w)
                      else Inl (Use_after_free p)))"

definition loop_walk ::
  "libuv \<Rightarrow> (handle_type \<Rightarrow> oid \<Rightarrow> world \<Rightarrow> world) \<Rightarrow> (uv_handle_type \<times> oid option) list \<Rightarrow>
   oid \<Rightarrow> world \<Rightarrow> ub + world" where
  "loop_walk uv visit hs l w =
     walk_handles visit hs (snd (uvcall uv (C_loop (uv_walk (uv_loop_of w l))) w))"

text \<open>The \<^verbatim>\<open>uv_handle_t::type\<close> of a handle of each class, as its initialisation sets it.\<close>

definition uv_type_of :: "kind \<Rightarrow> uv_handle_type" where
  "uv_type_of k =
     (case k of
        K_async \<Rightarrow> UV_ASYNC | K_check \<Rightarrow> UV_CHECK | K_idle \<Rightarrow> UV_IDLE | K_prepare \<Rightarrow> UV_PREPARE
      | K_timer \<Rightarrow> UV_TIMER | K_signal \<Rightarrow> UV_SIGNAL | K_poll d \<Rightarrow> UV_POLL
      | K_fs_event \<Rightarrow> UV_FS_EVENT | K_fs_poll \<Rightarrow> UV_FS_POLL | K_tcp t f \<Rightarrow> UV_TCP
      | K_pipe b \<Rightarrow> UV_NAMED_PIPE | K_tty f r \<Rightarrow> UV_TTY | K_udp t f \<Rightarrow> UV_UDP
      | K_process d \<Rightarrow> UV_PROCESS | _ \<Rightarrow> UV_UNKNOWN_HANDLE)"

text \<open>The public interface of a loop, less the operations that create objects and \<^verbatim>\<open>walk\<close>.\<close>

datatype (plugins only: code) loop_op =
    Loop_configure loop_option "int list" | Loop_close | Loop_run run_mode | Loop_alive | Loop_stop
  | Loop_descriptor | Loop_timeout | Loop_idle_time | Loop_metrics | Loop_now | Loop_update
  | Loop_fork | Loop_data "nat option"

definition loop_exec :: "libuv \<Rightarrow> loop_op \<Rightarrow> oid \<Rightarrow> world \<Rightarrow> world" where
  "loop_exec uv op l w =
     (case op of
        Loop_configure f a \<Rightarrow> snd (loop_configure uv l f a w)
      | Loop_close \<Rightarrow> snd (loop_close uv l w)
      | Loop_run m \<Rightarrow> snd (loop_run uv l m w)
      | Loop_alive \<Rightarrow> snd (loop_alive uv l w)
      | Loop_stop \<Rightarrow> snd (loop_stop uv l w)
      | Loop_descriptor \<Rightarrow> snd (loop_descriptor uv l w)
      | Loop_timeout \<Rightarrow> snd (loop_timeout uv l w)
      | Loop_idle_time \<Rightarrow> snd (loop_idle_time uv l w)
      | Loop_metrics \<Rightarrow> snd (loop_metrics uv l w)
      | Loop_now \<Rightarrow> snd (loop_now uv l w)
      | Loop_update \<Rightarrow> snd (loop_update uv l w)
      | Loop_fork \<Rightarrow> snd (loop_fork uv l w)
      | Loop_data d \<Rightarrow> loop_set_data d l w)"

section \<open>Lemmas\<close>

lemma neutral_loop_calls [simp]: "neutral (C_loop c)"
  by simp

lemma core_to_user: "core w \<Longrightarrow> core (to_user p w)"
  by (simp add: to_user_def core_upd_view)

lemma core_uvcall: "core w \<Longrightarrow> neutral c \<Longrightarrow> core (snd (uvcall uv c w))"
  by (simp add: uvcall_def Let_def core_quiet neutral_quiet)

lemma core_drop_hold: "core w \<Longrightarrow> invar (drop_hold uv p w)"
  by (simp add: drop_hold_def inv_collect)

lemma core_default_ref [simp]: "core (w\<lparr>default_ref := r\<rparr>) = core w"
  and core_memo_ref [simp]: "core (w\<lparr>memo_ref := r\<rparr>) = core w"
proof -
  have "same_view (w\<lparr>default_ref := r\<rparr>) w" "same_view w (w\<lparr>default_ref := r\<rparr>)"
    "same_view (w\<lparr>memo_ref := r\<rparr>) w" "same_view w (w\<lparr>memo_ref := r\<rparr>)"
    by (simp_all add: same_view_def)
  then show "core (w\<lparr>default_ref := r\<rparr>) = core w" "core (w\<lparr>memo_ref := r\<rparr>) = core w"
    using same_view_core by blast+
qed

text \<open>
  Between its allocation and the end of the function that allocates it, an object is held by one
  local pointer.
\<close>

definition extends :: "world \<Rightarrow> oid \<Rightarrow> world \<Rightarrow> bool" where
  "extends w p v \<longleftrightarrow> length (objs w) \<le> p \<and> live v p \<and> hold (objs v ! p) = 1 \<and>
     (\<forall>q < length (objs w). hold (objs v ! q) = hold (objs w ! q) \<and>
        class_of (kind (objs v ! q)) = class_of (kind (objs w ! q)) \<and>
        alive (objs v ! q) = alive (objs w ! q)) \<and>
     (\<forall>q < length (objs v). length (objs w) \<le> q \<and> q \<noteq> p \<longrightarrow> hold (objs v ! q) = 0)"

lemma extends_frame:
  assumes e: "extends w p v" and f: "user_frame v u"
    and "\<And>b. alive (g b) = alive b" "\<And>b. hold (g b) = hold b - 1" "\<And>b. kind (g b) = kind b"
  shows "user_frame w (upd p g u)"
proof -
  have len: "length (objs w) \<le> p" "p < length (objs v)" "length (objs v) \<le> length (objs u)"
    using e f by (auto simp: extends_def user_frame_def live_def)
  have lv: "live (upd p g u) = live u"
    using assms(3) by (rule live_upd)
  have "hold (objs (upd p g u) ! q) = hold (objs w ! q) \<and>
      class_of (kind (objs (upd p g u) ! q)) = class_of (kind (objs w ! q)) \<and>
      (live u q \<longrightarrow> live w q) \<and> (live w q \<and> 0 < hold (objs w ! q) \<longrightarrow> live u q)"
    if q: "q < length (objs w)" for q
  proof -
    have ne: "q \<noteq> p" and qv: "q < length (objs v)" using q len by auto
    have "hold (objs v ! q) = hold (objs w ! q)"
      and "class_of (kind (objs v ! q)) = class_of (kind (objs w ! q))" and "live v q = live w q"
      using e q qv by (simp_all add: extends_def live_def)
    moreover have "hold (objs u ! q) = hold (objs v ! q)"
      and "class_of (kind (objs u ! q)) = class_of (kind (objs v ! q))"
      and "live u q \<longrightarrow> live v q" and "live v q \<and> 0 < hold (objs v ! q) \<longrightarrow> live u q"
      using f qv by (simp_all add: user_frame_def)
    moreover have "objs (upd p g u) ! q = objs u ! q" using ne by (simp add: nth_upd)
    ultimately show ?thesis by metis
  qed
  moreover have "hold (objs (upd p g u) ! q) = 0"
    if q: "length (objs w) \<le> q" "q < length (objs u)" for q
  proof (cases "q < length (objs v)")
    case True
    then have "hold (objs u ! q) = hold (objs v ! q)" using f by (simp add: user_frame_def)
    then show ?thesis
      using e q True len assms(4) by (auto simp: extends_def nth_upd)
  next
    case False
    then show ?thesis using f q len by (auto simp: user_frame_def nth_upd)
  qed
  ultimately show ?thesis
    using len by (auto simp: user_frame_def lv)
qed

lemma good_drop_hold:
  assumes "extends w p v" and "good v u"
  shows "good w (drop_hold uv p u)"
  unfolding drop_hold_def
proof (rule good_collect)
  show "core (upd p (\<lambda>o1. o1\<lparr>hold := hold o1 - 1\<rparr>) u)"
    using assms(2) by (simp add: good_def inv_core)
  show "user_frame w (upd p (\<lambda>o1. o1\<lparr>hold := hold o1 - 1\<rparr>) u)"
    using assms by (intro extends_frame) (auto simp: good_def)
qed

lemma good_to_user:
  assumes "extends w p v" and "good v u"
  shows "good w (to_user p u)"
proof -
  have "invar u" using assms(2) by (rule good_inv)
  then have "core (to_user p u)" by (simp add: inv_core core_to_user)
  moreover have "all_held (to_user p u)"
    unfolding to_user_def
    by (rule all_held_upd) (use \<open>invar u\<close> in \<open>auto simp: invar_def own_count_def refs_of_def\<close>)
  moreover have "user_frame w (to_user p u)"
    unfolding to_user_def using assms by (intro extends_frame) (auto simp: good_def)
  ultimately show ?thesis by (simp add: good_def invar_def)
qed

text \<open>The constructors.\<close>

lemma alloc_nth:
  "objs (snd (alloc k own w)) ! q = (if q = length (objs w) then new_obj k own else objs w ! q)"
  if "q \<le> length (objs w)"
  using that by (auto simp: alloc_def nth_append)

lemma alloc_live: "live (snd (alloc k own w)) q \<longleftrightarrow> live w q \<or> q = length (objs w)"
  by (auto simp: live_def alloc_def nth_append new_obj_def less_Suc_eq)

lemma invar_alloc:
  assumes "invar w"
    and "case own of None \<Rightarrow> ownerless k | Some l \<Rightarrow> live w l \<and> is_loop_kind (kind (objs w ! l))"
  shows "invar (snd (alloc k own w))"
proof -
  let ?v = "snd (alloc k own w)"
  have "0 < own_count (objs ?v ! p) \<or> (\<exists>q. live ?v q \<and> p \<in> set (refs_of (objs ?v ! q)))"
    if p: "live ?v p" for p
  proof (cases "p = length (objs w)")
    case True
    then show ?thesis by (simp add: alloc_nth new_obj_def own_count_def)
  next
    case False
    with p have "live w p" by (simp add: alloc_live)
    then have "0 < own_count (objs w ! p) \<or> (\<exists>q. live w q \<and> p \<in> set (refs_of (objs w ! q)))"
      using assms(1) by (simp add: invar_def all_held_def')
    moreover have "objs ?v ! q = objs w ! q" if "live w q" for q
      using live_length [OF that] by (simp add: alloc_nth)
    ultimately show ?thesis
      using \<open>live w p\<close> by (metis alloc_live)
  qed
  then show ?thesis
    using assms core_alloc [of w k own] by (simp add: invar_def all_held_def')
qed

lemma extends_alloc: "extends w (length (objs w)) (snd (alloc k own w))"
  unfolding extends_def alloc_live by (auto simp: alloc_def nth_append new_obj_def)

lemma good_loop_create: "invar w \<Longrightarrow> good w (snd (loop_create uv w))"
proof -
  assume w: "invar w"
  let ?p = "length (objs w)" and ?k = "K_loop (Some (Own_loop (length (objs w))))"
  let ?v = "snd (alloc ?k None w)"
  let ?u = "snd (uvcall uv (C_loop (uv_loop_init (uv_loop_of ?v ?p))) ?v)"
  have g: "good ?v ?u" using w by (intro good_neutral invar_alloc) (auto simp: ownerless_def)
  have "snd (loop_create uv w) = drop_hold uv ?p ?u \<or> snd (loop_create uv w) = to_user ?p ?u"
    by (simp add: loop_create_def Let_def case_prod_beta)
  then show ?thesis
    using good_drop_hold [OF extends_alloc g] good_to_user [OF extends_alloc g] by auto
qed

lemma good_loop_create_from: "invar w \<Longrightarrow> good w (snd (loop_create_from r w))"
  using good_to_user [OF extends_alloc good_refl [OF invar_alloc]]
  by (simp add: loop_create_from_def case_prod_beta Let_def ownerless_def)

lemma invar_default_ref [simp]: "invar (w\<lparr>default_ref := r\<rparr>) = invar w"
  and invar_memo_ref [simp]: "invar (w\<lparr>memo_ref := r\<rparr>) = invar w"
  by (simp_all add: invar_def all_held_def' live_def)

lemma good_ref:
  "good w (v\<lparr>default_ref := r\<rparr>) = good w v" "good w (v\<lparr>memo_ref := r\<rparr>) = good w v"
  by (simp_all add: good_def user_frame_def live_def)

lemma good_loop_get_default: "invar w \<Longrightarrow> good w (snd (loop_get_default uv w))"
proof -
  assume w: "invar w"
  let ?v = "snd (uvcall uv (C_loop uv_default_loop) w)"
  let ?a = "snd (alloc (K_loop (Some Default_loop)) None ?v)"
  have v: "good w ?v" using w by (simp add: good_neutral)
  have "invar ?a"
    using good_inv [OF v] by (rule invar_alloc) (simp add: ownerless_def)
  then have "good ?v (to_user (length (objs ?v)) ?a)"
    by (rule good_to_user [OF extends_alloc good_refl])
  then have "good w (to_user (length (objs w)) ?a)"
    using good_trans [OF v] by simp
  moreover have "to_user p (u\<lparr>default_ref := r\<rparr>) = (to_user p u)\<lparr>default_ref := r\<rparr>" for p u r
    by (simp add: to_user_def upd_def)
  ultimately show ?thesis
    using v w by (simp add: loop_get_default_def case_prod_beta Let_def good_ref good_acquire good_refl
        split: option.splits)
qed

section \<open>Resources\<close>

lemma core_members:
  assumes "core w" and "live w p" and "live w m"
  shows "core (upd p (\<lambda>b. b\<lparr>members := [m]\<rparr>) w)"
proof (rule coreI)
  let ?v = "upd p (\<lambda>b. b\<lparr>members := [m]\<rparr>) w"
  have len: "p < length (objs w)" using assms(2) by (rule live_length)
  have lv: "live ?v = live w" by (rule live_upd) simp
  have o: "objs ?v ! q = (if q = p then (objs w ! p)\<lparr>members := [m]\<rparr> else objs w ! q)" for q
    using len by (simp add: nth_upd)
  have "refs_ok ?v q" if "live w q" for q
    using core_live [OF assms(1) that] assms(3)
    unfolding refs_ok_def lv o by (auto simp: live_ok_def refs_ok_def refs_of_def)
  then show "live_ok ?v q" if "live ?v q" for q
    using core_live [OF assms(1), of q] that
    unfolding live_ok_def forward_ok_def slots_ok_def owner_ok_def lv by (auto simp: o)
  show "libuv_ok ?v q" for q
    using core_libuv [OF assms(1), of q] unfolding libuv_ok_def kept_def lv by (auto simp: o)
qed

text \<open>The memo gets a reference from the new handle in place of the local pointer.\<close>

lemma invar_share:
  assumes "invar w" and "live w p" and "live w m" and "p \<noteq> m" and "members (objs w ! p) = []"
  shows "invar (upd m (\<lambda>b. b\<lparr>hold := hold b - 1\<rparr>) (upd p (\<lambda>b. b\<lparr>members := [m]\<rparr>) w))" (is "invar ?v")
proof -
  have lv: "live ?v = live w" by (simp add: live_upd)
  have len: "p < length (objs w)" "m < length (objs w)" using assms(2,3) live_length by auto
  have refs: "set (refs_of (objs ?v ! q)) = set (refs_of (objs w ! q)) \<union> (if q = p then {m} else {})"
    for q using assms(4,5) len by (auto simp: nth_upd refs_of_def)
  have own: "q \<noteq> m \<Longrightarrow> own_count (objs ?v ! q) = own_count (objs w ! q)" for q
    using len assms(4) by (simp add: nth_upd own_count_def)
  have "0 < own_count (objs ?v ! q) \<or> (\<exists>r. live w r \<and> q \<in> set (refs_of (objs ?v ! r)))"
    if "live w q" for q
  proof (cases "q = m")
    case True
    then show ?thesis using refs [of p] assms(2) by auto
  next
    case False
    have "0 < own_count (objs w ! q) \<or> (\<exists>r. live w r \<and> q \<in> set (refs_of (objs w ! r)))"
      using assms(1) that by (simp add: invar_def all_held_def')
    moreover have "q \<in> set (refs_of (objs ?v ! r))" if "q \<in> set (refs_of (objs w ! r))" for r
      using that by (simp only: refs Un_iff simp_thms)
    ultimately show ?thesis using own [OF False] by auto
  qed
  then have "all_held ?v" unfolding all_held_def' lv by blast
  moreover have "core ?v" using assms by (simp add: core_members inv_core)
  ultimately show ?thesis by (simp add: invar_def)
qed

lemma invar_take_hold: "invar w \<Longrightarrow> invar (take_hold p w)"
  by (simp add: take_hold_def invar_def all_held_upd own_count_def)

text \<open>What \<^verbatim>\<open>mode_memo_handler\<close> returns is alive and has one local pointer more.\<close>

lemma mode_memo_handler_props:
  assumes "invar w" and "mode_memo_handler w = (m, v)"
  shows "invar v" and "live v m" and "length (objs w) \<le> length (objs v)"
    and "\<And>q. live w q \<Longrightarrow> live v q"
    and "\<And>q. q < length (objs w) \<Longrightarrow> objs v ! q =
          (if q = m then (objs w ! q)\<lparr>hold := Suc (hold (objs w ! q))\<rparr> else objs w ! q)"
    and "\<And>q. length (objs w) \<le> q \<Longrightarrow> q < length (objs v) \<Longrightarrow> q = m \<and> hold (objs v ! m) = 1"
proof -
  have "(live w m \<and> v = take_hold m w) \<or>
      (m = length (objs w) \<and> v = (snd (alloc K_reset_memo None w))\<lparr>memo_ref := Some m\<rparr>)"
    using assms(2) by (auto simp: mode_memo_handler_def alloc_def Let_def split: option.splits if_splits)
  then consider (old) "live w m" "v = take_hold m w"
    | (new) "m = length (objs w)" "v = (snd (alloc K_reset_memo None w))\<lparr>memo_ref := Some m\<rparr>"
    by blast
  note cases = this
  show "invar v"
    by (cases rule: cases) (use assms(1) in \<open>simp_all add: invar_take_hold invar_alloc ownerless_def\<close>)
  show "live v m"
    by (cases rule: cases) (auto simp: take_hold_def live_def nth_upd alloc_def nth_append new_obj_def)
  show "length (objs w) \<le> length (objs v)"
    by (cases rule: cases) (auto simp: take_hold_def)
  show "\<And>q. live w q \<Longrightarrow> live v q"
    by (cases rule: cases) (auto simp: take_hold_def live_def nth_upd alloc_def nth_append)
  show "\<And>q. q < length (objs w) \<Longrightarrow> objs v ! q =
          (if q = m then (objs w ! q)\<lparr>hold := Suc (hold (objs w ! q))\<rparr> else objs w ! q)"
    by (cases rule: cases) (auto simp: take_hold_def nth_upd alloc_def nth_append)
  show "\<And>q. length (objs w) \<le> q \<Longrightarrow> q < length (objs v) \<Longrightarrow> q = m \<and> hold (objs v ! m) = 1"
    by (cases rule: cases) (auto simp: take_hold_def alloc_def nth_append new_obj_def less_Suc_eq)
qed

lemma make_resource_props:
  assumes "invar w" and "live w l" and "is_loop_kind (kind (objs w ! l))"
    and "make_resource k l w = (p, v)"
  shows "invar v \<and> extends w p v \<and> kind (objs v ! p) = k \<and> hist v = hist w \<and>
    owner (objs v ! p) = Some l \<and> handlers (objs v ! p) = slots_make (events_of k)"
proof (cases "has_memo k")
  case False
  then have "p = length (objs w)" "v = snd (alloc k (Some l) w)"
    using assms(4) by (auto simp: make_resource_def alloc_def)
  then show ?thesis
    using assms extends_alloc [of w k "Some l"] invar_alloc [of w k "Some l"]
    by (simp add: alloc_nth new_obj_def)
next
  case True
  obtain m u where mu: "mode_memo_handler w = (m, u)" by (cases "mode_memo_handler w")
  note pr = mode_memo_handler_props [OF assms(1) mu]
  let ?a = "snd (alloc k (Some l) u)"
  let ?f = "\<lambda>x. upd m (\<lambda>b. b\<lparr>hold := hold b - 1\<rparr>) (upd p (\<lambda>b. b\<lparr>members := [m]\<rparr>) x)"
  have p: "p = length (objs u)" and v: "v = ?f ?a"
    using assms(4) True mu by (auto simp: make_resource_def alloc_def Let_def)
  have m: "m < length (objs u)" using pr(2) by (rule live_length)
  have l: "live u l" "is_loop_kind (kind (objs u ! l))"
    using pr(4,5) assms(2,3) live_length [OF assms(2)] by auto
  have a: "invar ?a" using pr(1) l by (intro invar_alloc) auto
  have "invar v"
    unfolding v using a pr(2) m p
    by (intro invar_share) (auto simp: alloc_live alloc_nth new_obj_def)
  moreover have pv: "kind (objs v ! p) = k" "hold (objs v ! p) = 1" "live v p"
    "owner (objs v ! p) = Some l" "handlers (objs v ! p) = slots_make (events_of k)"
    using p m by (simp_all add: v nth_upd alloc_nth new_obj_def live_def)
  moreover have "hist v = hist w"
    using mu by (auto simp: v mode_memo_handler_def take_hold_def alloc_def Let_def split: option.splits if_splits)
  moreover have old: "objs v ! q = objs w ! q" if "q < length (objs w)" for q
    using that pr(3,5) p m by (auto simp: v nth_upd alloc_nth)
  moreover have "hold (objs v ! q) = 0" if "length (objs w) \<le> q" "q < length (objs v)" "q \<noteq> p" for q
    using that pr(6) [of q] p m by (auto simp: v nth_upd alloc_nth less_Suc_eq)
  ultimately show ?thesis
    using pr(3) p by (auto simp: extends_def)
qed

text \<open>A class's \<^verbatim>\<open>init\<close> is sound when it keeps the invariant on a fresh object of the class.\<close>

definition init_sound :: "(oid \<Rightarrow> world \<Rightarrow> int \<times> world) \<Rightarrow> kind \<Rightarrow> bool" where
  "init_sound init k \<longleftrightarrow>
     (\<forall>w p. invar w \<and> live w p \<and> kind (objs w ! p) = k \<longrightarrow> good w (snd (init p w)))"

lemma init_sound_none: "init_sound no_init k"
  by (simp add: init_sound_def no_init_def good_refl)

lemma good_user_resource:
  assumes "invar w" and "live w l" and "is_loop_kind (kind (objs w ! l))" and "init_sound init k"
  shows "good w (snd (user_resource uv init k l w))"
proof -
  obtain p v where mk: "make_resource k l w = (p, v)" by (cases "make_resource k l w")
  have pr: "invar v" "extends w p v" "kind (objs v ! p) = k"
    using make_resource_props [OF assms(1-3) mk] by auto
  then have g: "good v (snd (init p v))"
    using assms(4) by (simp add: init_sound_def extends_def)
  have "snd (user_resource uv init k l w) = to_user p (snd (init p v)) \<or>
      snd (user_resource uv init k l w) = drop_hold uv p (snd (init p v))"
    using mk by (simp add: user_resource_def loop_resource_def case_prod_beta Let_def)
  then show ?thesis
    using good_to_user [OF pr(2) g] good_drop_hold [OF pr(2) g] by auto
qed

lemma good_uninitialized_resource:
  assumes "invar w" and "live w l" and "is_loop_kind (kind (objs w ! l))"
  shows "good w (snd (uninitialized_resource k l w))"
proof -
  obtain p v where mk: "make_resource k l w = (p, v)" by (cases "make_resource k l w")
  have "invar v" "extends w p v" using make_resource_props [OF assms mk] by auto
  then show ?thesis
    using good_to_user [OF _ good_refl] mk by (simp add: uninitialized_resource_def)
qed

lemma good_loop_close: "invar w \<Longrightarrow> good w (snd (loop_close uv l w))"
proof (cases "uv_loop_of w l")
  case None
  then show "invar w \<Longrightarrow> ?thesis" by (simp add: loop_close_def good_refl)
next
  case (Some p)
  then obtain q where k: "kind (objs w ! l) = K_loop q"
    by (auto simp: uv_loop_of_def split: kind.splits)
  let ?u = "snd (uvcall uv (C_loop (uv_loop_close (Some p))) w)"
  assume w: "invar w"
  have g: "good w ?u" using w by (simp add: good_neutral)
  have "good ?u (upd l (\<lambda>b. b\<lparr>kind := K_loop None\<rparr>) ?u)"
    using good_inv [OF g] by (rule good_kind) (simp add: k class_of_loop [of None q])
  then show ?thesis
    using good_trans [OF g] Some by (simp add: loop_close_def case_prod_beta)
qed

lemma loop_exec_good: "invar w \<Longrightarrow> good w (loop_exec uv op l w)"
  by (cases op)
    (simp_all add: loop_exec_def loop_configure_def loop_run_def loop_alive_def loop_stop_def
      loop_descriptor_def loop_timeout_def loop_idle_time_def loop_metrics_def loop_now_def
      loop_update_def loop_fork_def loop_set_data_def good_neutral good_loop_close good_user_data
      case_prod_beta Let_def)

section \<open>Properties\<close>

text \<open>
  C33. The default loop is one object: \<^verbatim>\<open>get_default\<close> returns an object that is alive and remembers it,
  and as long as that object is alive every later call returns it again, without a call to libuv,
  as one more pointer for the caller.
\<close>

theorem get_default_shared:
  assumes "loop_get_default uv w = (Some p, v)"
  shows "default_ref v = Some p \<and> live v p \<and>
    (\<forall>u. default_ref u = Some p \<and> live u p \<longrightarrow>
      fst (loop_get_default uv u) = Some p \<and> hist (snd (loop_get_default uv u)) = hist u \<and>
      ext (objs (snd (loop_get_default uv u)) ! p) = Suc (ext (objs u ! p)))"
proof -
  have "default_ref v = Some p \<and> live v p"
  proof (cases "expired (default_ref w) w")
    case True
    then show ?thesis
      using assms
      by (auto simp: loop_get_default_def Let_def case_prod_beta alloc_def to_user_def upd_def live_def
          new_obj_def split: if_splits)
  next
    case False
    then show ?thesis
      using assms
      by (auto simp: loop_get_default_def expired_def acquire_def live_upd upd_def live_def
          nth_list_update split: option.splits)
  qed
  moreover have "ext (objs (acquire p u) ! p) = Suc (ext (objs u ! p))" if "live u p" for u
    using that by (simp add: acquire_def nth_upd live_def)
  moreover have "hist (acquire p u) = hist u" for u by (simp add: acquire_def)
  ultimately show ?thesis by (simp add: loop_get_default_def expired_def)
qed

theorem get_default_shared_witness:
  "fst (loop_get_default (refusing (\<lambda>c. True) 1)
     (snd (loop_get_default (refusing (\<lambda>c. True) 1) start_world))) = Some 0"
proof -
  let ?uv = "refusing (\<lambda>c. True) 1"
  have "fst (loop_get_default ?uv start_world) = Some 0"
    by (simp add: loop_get_default_def expired_def start_world_def uvcall_def refusing_def alloc_def Let_def)
  then have "loop_get_default ?uv start_world = (Some 0, snd (loop_get_default ?uv start_world))"
    by (metis prod.collapse)
  from get_default_shared [OF this] show ?thesis by blast
qed

text \<open>
  \<^verbatim>\<open>close\<close> gives the loop up whatever \<^verbatim>\<open>uv_loop_close\<close> returns: after a first call, be it one that
  failed because handles are still open, a second one does nothing and reports success.
\<close>

lemma loop_close_gives_up:
  assumes "l < length (objs w)" and "loop_close uv l w = (r, v)"
  shows "uv_loop_of v l = None \<and> loop_close uv l v = (0, v)"
proof -
  have "uv_loop_of v l = None"
    using assms
    by (auto simp: loop_close_def uv_loop_of_def Let_def case_prod_beta nth_upd split: option.splits kind.splits)
  then show ?thesis by (simp add: loop_close_def)
qed

lemma walk_class_handle: "handle_kind k \<Longrightarrow> walk_class (uv_type_of k) = Some (guess_handle (uv_type_of k))"
  by (cases k) (simp_all add: handle_kind_def stream_kind_def walk_class_def uv_type_of_def guess_handle_def)

lemma walk_skips:
  "walk_handles visit ((t, None) # hs) w = walk_handles visit hs w"
  "walk_class t = None \<Longrightarrow> walk_handles visit ((t, Some p) # hs) w = walk_handles visit hs w"
  by simp_all

text \<open>
  C18. \<^verbatim>\<open>walk\<close> calls the visitor once for each handle of the library that libuv lists, in that order,
  with the handle as an object of its own class, and skips handles without \<^verbatim>\<open>data\<close>; \<^verbatim>\<open>ok\<close> is any
  condition that the visitor keeps and under which the listed handles are alive.
\<close>

theorem walk_visits_all:
  assumes "ok w" and "\<forall>c p v. ok v \<longrightarrow> ok (visit c p v)"
    and "\<forall>v t p. ok v \<and> (t, Some p) \<in> set hs \<longrightarrow> live v p \<and> (\<exists>k. handle_kind k \<and> t = uv_type_of k)"
  shows "walk_handles visit hs w =
    Inr (fold (\<lambda>(t, p). visit (guess_handle t) p) (List.map_filter (\<lambda>(t, d). map_option (Pair t) d) hs) w)"
  using assms(1,3)
proof (induction hs arbitrary: w)
  case (Cons h hs)
  obtain t d where h: "h = (t, d)" by (cases h)
  have rest: "\<forall>v t p. ok v \<and> (t, Some p) \<in> set hs \<longrightarrow> live v p \<and> (\<exists>k. handle_kind k \<and> t = uv_type_of k)"
    using Cons.prems(2) by (metis list.set_intros(2))
  note IH = Cons.IH [OF _ rest]
  show ?case
  proof (cases d)
    case None
    then show ?thesis using IH [OF Cons.prems(1)] h by (simp add: map_filter_simps)
  next
    case (Some p)
    then obtain k where k: "live w p" "handle_kind k" "t = uv_type_of k"
      using Cons.prems h by (metis list.set_intros(1))
    have "ok (visit (guess_handle t) p w)" using assms(2) Cons.prems(1) by blast
    from IH [OF this] show ?thesis using h k Some by (simp add: map_filter_simps walk_class_handle)
  qed
qed (simp add: map_filter_simps)

theorem walk_visits_all_witness:
  "walk_handles (\<lambda>c p v. v) [(UV_TIMER, Some 0), (UV_TCP, None)] (snd (alloc K_timer None start_world)) =
     Inr (snd (alloc K_timer None start_world))"
proof -
  have "handle_kind K_timer" "uv_type_of K_timer = UV_TIMER"
    by (simp_all add: handle_kind_def uv_type_of_def)
  then have "\<exists>k. handle_kind k \<and> UV_TIMER = uv_type_of k" by metis
  then show ?thesis
    by (subst walk_visits_all [of "\<lambda>v. live v 0"])
      (auto simp: alloc_live start_world_def map_filter_simps simp del: walk_handles.simps)
qed

end
