(* ===== verification/Handle.thy ===== *)
theory Handle
  imports Loop
begin

text \<open>
  \<^verbatim>\<open>src/uvw/handle.hpp\<close> and \<^verbatim>\<open>request.hpp\<close>: closing a handle, reserving a request in its callback, and
  the queries both base classes forward to libuv. The lemmas show that a callback that libuv is
  entitled to fire finds its object alive and leaves the invariant, whatever the user's listeners do
  with the library's operations. The requests a handle makes on its own behalf (\<^verbatim>\<open>connect\<close>,
  \<^verbatim>\<open>shutdown\<close>, \<^verbatim>\<open>write\<close>, \<^verbatim>\<open>send\<close>) share the shape \<^verbatim>\<open>forward_request\<close>.
\<close>

section \<open>Handles\<close>

definition close_callback :: "libuv \<Rightarrow> behaviour \<Rightarrow> oid \<Rightarrow> world \<Rightarrow> ub + world" where
  "close_callback uv beh p w =
     deref p (fire cb_close p w) (\<lambda>w1.
       case publish beh Ev_close p (self_reset p (take_hold p w1)) of
         Inl e \<Rightarrow> Inl e
       | Inr w2 \<Rightarrow> Inr (drop_hold uv p w2))"

text \<open>\<^verbatim>\<open>as_uv_handle()->type\<close>: zero until the handle is initialised.\<close>

definition handle_category :: "world \<Rightarrow> oid \<Rightarrow> uv_handle_type" where
  "handle_category w p =
     (if was_opened (hist w) p then uv_type_of (kind (objs w ! p)) else UV_UNKNOWN_HANDLE)"

definition handle_type_of :: "world \<Rightarrow> oid \<Rightarrow> handle_type" where
  "handle_type_of w p = guess_handle (handle_category w p)"

definition handle_active :: "libuv \<Rightarrow> oid \<Rightarrow> world \<Rightarrow> bool \<times> world" where
  "handle_active uv p w = (let (r, v) = uvcall uv (C_handle (uv_is_active p)) w in (r \<noteq> 0, v))"

definition handle_closing :: "libuv \<Rightarrow> oid \<Rightarrow> world \<Rightarrow> bool \<times> world" where
  "handle_closing uv p w = (let (r, v) = uvcall uv (C_handle (uv_is_closing p)) w in (r \<noteq> 0, v))"

definition handle_close :: "libuv \<Rightarrow> oid \<Rightarrow> world \<Rightarrow> world" where
  "handle_close uv p w =
     (let (c, v) = handle_closing uv p w
      in if \<not> c then snd (uvcall uv (C_handle (uv_close p cb_close)) v) else v)"

definition handle_reference :: "libuv \<Rightarrow> oid \<Rightarrow> world \<Rightarrow> world" where
  "handle_reference uv p w = snd (uvcall uv (C_handle (uv_ref p)) w)"

definition handle_unreference :: "libuv \<Rightarrow> oid \<Rightarrow> world \<Rightarrow> world" where
  "handle_unreference uv p w = snd (uvcall uv (C_handle (uv_unref p)) w)"

definition handle_referenced :: "libuv \<Rightarrow> oid \<Rightarrow> world \<Rightarrow> bool \<times> world" where
  "handle_referenced uv p w = (let (r, v) = uvcall uv (C_handle (uv_has_ref p)) w in (r \<noteq> 0, v))"

definition handle_size :: "libuv \<Rightarrow> oid \<Rightarrow> world \<Rightarrow> int \<times> world" where
  "handle_size uv p w = uvcall uv (C_handle (uv_handle_size (handle_category w p))) w"

text \<open>
  \<^verbatim>\<open>int value = 0; auto err = uv_send_buffer_size(..., &value); return err ? err : value;\<close> and the
  overloads that pass the value.
\<close>

definition send_buffer_size :: "libuv \<Rightarrow> oid \<Rightarrow> world \<Rightarrow> int \<times> world" where
  "send_buffer_size uv p w =
     (let c = C_handle (uv_send_buffer_size p 0);
          value = (case out_int uv (hist w) c of None \<Rightarrow> 0 | Some x \<Rightarrow> x);
          (err, v) = uvcall uv c w
      in (if err \<noteq> 0 then err else value, v))"

definition set_send_buffer_size :: "libuv \<Rightarrow> int \<Rightarrow> oid \<Rightarrow> world \<Rightarrow> int \<times> world" where
  "set_send_buffer_size uv value p w = uvcall uv (C_handle (uv_send_buffer_size p value)) w"

definition recv_buffer_size :: "libuv \<Rightarrow> oid \<Rightarrow> world \<Rightarrow> int \<times> world" where
  "recv_buffer_size uv p w =
     (let c = C_handle (uv_recv_buffer_size p 0);
          value = (case out_int uv (hist w) c of None \<Rightarrow> 0 | Some x \<Rightarrow> x);
          (err, v) = uvcall uv c w
      in (if err \<noteq> 0 then err else value, v))"

definition set_recv_buffer_size :: "libuv \<Rightarrow> int \<Rightarrow> oid \<Rightarrow> world \<Rightarrow> int \<times> world" where
  "set_recv_buffer_size uv value p w = uvcall uv (C_handle (uv_recv_buffer_size p value)) w"

text \<open>\<^verbatim>\<open>fd\<close>: the local has no initialiser and the error code is dropped.\<close>

definition handle_fd :: "libuv \<Rightarrow> oid \<Rightarrow> world \<Rightarrow> ub + (int \<times> world)" where
  "handle_fd uv p w =
     (let c = C_handle (uv_fileno p) in
      case out_int uv (hist w) c of
        None \<Rightarrow> Inl Indeterminate_value
      | Some f \<Rightarrow> Inr (f, snd (uvcall uv c w)))"

text \<open>The public interface of every handle.\<close>

datatype (plugins only: code) handle_op =
    Handle_active | Handle_closing | Handle_close | Handle_reference | Handle_unreference
  | Handle_referenced | Handle_size | Handle_send_buffer_size | Handle_set_send_buffer_size int
  | Handle_recv_buffer_size | Handle_set_recv_buffer_size int | Handle_fd

definition handle_exec :: "libuv \<Rightarrow> handle_op \<Rightarrow> oid \<Rightarrow> world \<Rightarrow> ub + world" where
  "handle_exec uv op p w =
     (case op of
        Handle_active \<Rightarrow> Inr (snd (handle_active uv p w))
      | Handle_closing \<Rightarrow> Inr (snd (handle_closing uv p w))
      | Handle_close \<Rightarrow> Inr (handle_close uv p w)
      | Handle_reference \<Rightarrow> Inr (handle_reference uv p w)
      | Handle_unreference \<Rightarrow> Inr (handle_unreference uv p w)
      | Handle_referenced \<Rightarrow> Inr (snd (handle_referenced uv p w))
      | Handle_size \<Rightarrow> Inr (snd (handle_size uv p w))
      | Handle_send_buffer_size \<Rightarrow> Inr (snd (send_buffer_size uv p w))
      | Handle_set_send_buffer_size n \<Rightarrow> Inr (snd (set_send_buffer_size uv n p w))
      | Handle_recv_buffer_size \<Rightarrow> Inr (snd (recv_buffer_size uv p w))
      | Handle_set_recv_buffer_size n \<Rightarrow> Inr (snd (set_recv_buffer_size uv n p w))
      | Handle_fd \<Rightarrow> map_sum id snd (handle_fd uv p w))"

section \<open>Requests\<close>

definition reserve :: "oid \<Rightarrow> world \<Rightarrow> ub + world" where
  "reserve p w = deref p w (\<lambda>v. Inr (self_reset p (take_hold p v)))"

text \<open>A callback that reserves its request, does \<^verbatim>\<open>body\<close>, and drops the local pointer at its end.\<close>

definition with_reserve :: "libuv \<Rightarrow> uv_cb \<Rightarrow> oid \<Rightarrow> (world \<Rightarrow> ub + world) \<Rightarrow> world \<Rightarrow> ub + world" where
  "with_reserve uv cb p body w =
     (case reserve p (fire cb p w) of
        Inl e \<Rightarrow> Inl e
      | Inr w1 \<Rightarrow> (case body w1 of Inl e \<Rightarrow> Inl e | Inr w2 \<Rightarrow> Inr (drop_hold uv p w2)))"

text \<open>\<^verbatim>\<open>if(status) publish(error_event{status}) else publish(...)\<close>.\<close>

definition status_event :: "int \<Rightarrow> event \<Rightarrow> event" where
  "status_event status e = (if status \<noteq> 0 then Ev_error (make_error_event status) else e)"

definition request_cancel :: "libuv \<Rightarrow> oid \<Rightarrow> world \<Rightarrow> int \<times> world" where
  "request_cancel uv p w = uvcall uv (C_handle (uv_cancel p)) w"

definition request_size :: "libuv \<Rightarrow> oid \<Rightarrow> world \<Rightarrow> int \<times> world" where
  "request_size uv p w = uvcall uv (C_handle (uv_req_size p)) w"

text \<open>
  A request made on behalf of the handle \<^verbatim>\<open>p\<close>: a new request of class \<^verbatim>\<open>k\<close> whose listeners for errors
  and for its own event publish on \<^verbatim>\<open>p\<close>, then the request's own operation \<^verbatim>\<open>act\<close>. The local pointer to
  the request goes at the end of the function.
\<close>

definition forward_with ::
  "libuv \<Rightarrow> kind \<Rightarrow> tag \<Rightarrow> (oid \<Rightarrow> world \<Rightarrow> int \<times> world) \<Rightarrow> oid \<Rightarrow> world \<Rightarrow> ub + (int \<times> world)" where
  "forward_with uv k t act p w =
     (case parent w p of
        None \<Rightarrow> Inl Null_dereference
      | Some l \<Rightarrow>
          (case loop_resource uv no_init k l w of
             (None, w1) \<Rightarrow> Inl Null_dereference
           | (Some q, w1) \<Rightarrow>
               let w2 = emitter_on uv T_error (Some (Forward p)) q w1;
                   w3 = emitter_on uv t (Some (Forward p)) q w2;
                   (err, w4) = act q w3
               in Inr (err, drop_hold uv q w4)))"

text \<open>The operations of these requests all are a libuv call under \<^verbatim>\<open>leak_if\<close>.\<close>

definition forward_request ::
  "libuv \<Rightarrow> kind \<Rightarrow> tag \<Rightarrow> (oid \<Rightarrow> uv_call) \<Rightarrow> oid \<Rightarrow> world \<Rightarrow> ub + (int \<times> world)" where
  "forward_request uv k t call p w = forward_with uv k t (\<lambda>q. leak_if_call uv q (call q)) p w"

lemmas forward_fold = forward_request_def [symmetric]

section \<open>Publishing is defined\<close>

text \<open>A listener that uses the library as a user may keeps the invariant.\<close>

definition respectful :: "behaviour \<Rightarrow> bool" where
  "respectful beh \<longleftrightarrow> (\<forall>u p e w. invar w \<and> live w p \<longrightarrow> good w (beh u p e w))"

lemma invar_live: "invar w \<Longrightarrow> live w p \<Longrightarrow> live_ok w p"
  by (simp add: inv_core core_live)

lemma publish_user:
  assumes "invar w" and "live w p" and "\<not> internal_kind (kind (objs w ! p))"
  shows "publish_fuel (Suc n) beh e p w =
    Inr (case handler (tag_of e) (handlers (objs w ! p)) of Some (User u cs) \<Rightarrow> beh u p e w | _ \<Rightarrow> w)"
proof -
  have "handler (tag_of e) (handlers (objs w ! p)) \<noteq> Some (Forward q)" for q
    using invar_live [OF assms(1,2)] assms(3) handler_in_listeners
    by (fastforce simp: live_ok_def forward_ok_def)
  then show ?thesis
    using assms(2) by (auto split: option.splits listener.splits)
qed

lemma publish_defined:
  assumes "invar w" and "live w p" and "respectful beh"
  shows "\<exists>v. publish beh e p w = Inr v \<and> good w v"
proof -
  have two: "\<exists>n. length (objs w) = Suc n" using live_length [OF assms(2)] by (cases "length (objs w)") auto
  have user: "\<exists>v. publish_fuel (Suc n) beh e q w = Inr v \<and> good w v"
    if q: "live w q" "\<not> internal_kind (kind (objs w ! q))" for n q
    using assms(1,3) q
    by (simp add: publish_user respectful_def good_refl del: publish_fuel.simps
        split: option.splits listener.splits)
  show ?thesis
  proof (cases "handler (tag_of e) (handlers (objs w ! p))")
    case None
    with assms show ?thesis by (simp add: publish_def good_refl)
  next
    case (Some l)
    show ?thesis
    proof (cases l)
      case (User u cs)
      with Some assms show ?thesis by (simp add: publish_def respectful_def)
    next
      case (Forward q)
      with Some have f: "Forward q \<in> set (listeners (handlers (objs w ! p)))"
        by (simp add: handler_in_listeners)
      then have "live w q" "\<not> internal_kind (kind (objs w ! q))"
        using invar_live [OF assms(1,2)] forward_in_refs
        by (auto simp: live_ok_def forward_ok_def refs_ok_def)
      then obtain v where "publish_fuel (length (objs w)) beh e q w = Inr v" "good w v"
        using user two by metis
      with Some Forward assms(2) show ?thesis by (simp add: publish_def)
    qed
  qed
qed

section \<open>Callbacks\<close>

lemma plain_callback_defined:
  assumes "invar w" and "is_open (hist w) p" and "respectful beh"
    and "\<not> request_cb cb" and "cb \<noteq> cb_close"
  shows "\<exists>v. plain_callback beh cb e p w = Inr v \<and> good w v"
proof -
  have p: "live w p"
    using core_libuv [OF inv_core [OF assms(1)], of p] assms(2) by (simp add: libuv_ok_def kept_def)
  have f: "invar (fire cb p w)" "live (fire cb p w) p"
    using assms p core_reported [OF inv_core [OF assms(1)]] by (simp_all add: invar_def fire_def)
  then obtain v where v: "publish beh e p (fire cb p w) = Inr v" "good (fire cb p w) v"
    using publish_defined assms(3) by blast
  moreover have "user_frame w (fire cb p w)" by (simp add: fire_def)
  ultimately show ?thesis
    using f(2) by (auto simp: plain_callback_def deref_def good_def intro: user_frame_trans)
qed

text \<open>The state in which a callback that takes a local pointer publishes.\<close>

lemma self_take_commute: "self_reset p (take_hold p w) = take_hold p (self_reset p w)"
  by (cases "objs w ! p") (simp add: self_reset_def set_self_def take_hold_def upd_def)

lemma invar_held:
  assumes "invar w" and "live w p" and "core (self_reset p (fire cb p w))"
  shows "invar (self_reset p (take_hold p (fire cb p w)))" (is "invar ?v")
proof -
  have lv: "live ?v = live w"
    by (simp add: self_reset_def set_self_def take_hold_def live_upd fire_def)
  have own: "q \<noteq> p \<Longrightarrow> objs ?v ! q = objs w ! q" for q
    by (simp add: self_reset_def set_self_def take_hold_def nth_upd fire_def)
  have "0 < own_count (objs ?v ! p)" "refs_of (objs ?v ! p) = refs_of (objs w ! p)"
    using live_length [OF assms(2)]
    by (simp_all add: self_reset_def set_self_def take_hold_def nth_upd fire_def own_count_def)
  then have "0 < own_count (objs ?v ! q) \<or> (\<exists>r. live w r \<and> q \<in> set (refs_of (objs ?v ! r)))"
    if "live w q" for q
    using assms(1) that own by (metis all_held_def' invar_def)
  then have "all_held ?v" unfolding all_held_def' lv by blast
  moreover have "core ?v"
    using assms(3) by (simp add: self_take_commute) (simp add: take_hold_def)
  ultimately show ?thesis by (simp add: invar_def)
qed

lemma good_held:
  assumes "live w p" and "good (self_reset p (take_hold p (fire cb p w))) u"
  shows "good w (drop_hold uv p u)"
proof -
  let ?v = "self_reset p (take_hold p (fire cb p w))"
  have f: "user_frame ?v u" using assms(2) by (simp add: good_def)
  have lv: "live ?v = live w"
    by (simp add: self_reset_def set_self_def take_hold_def live_upd fire_def)
  have len: "length (objs ?v) = length (objs w)" "p < length (objs w)"
    using live_length [OF assms(1)] by (simp_all add: self_reset_def set_self_def take_hold_def fire_def)
  have v: "hold (objs ?v ! q) = hold (objs w ! q) + (if q = p then 1 else 0)"
    "kind (objs ?v ! q) = kind (objs w ! q)" for q
    using len(2) by (simp_all add: self_reset_def set_self_def take_hold_def nth_upd fire_def)
  let ?d = "upd p (\<lambda>o1. o1\<lparr>hold := hold o1 - 1\<rparr>) u"
  have ld: "live ?d = live u" by (rule live_upd) simp
  have "user_frame w ?d"
    unfolding user_frame_def ld
  proof (intro conjI allI impI)
    show "length (objs w) \<le> length (objs ?d)" using f len by (simp add: user_frame_def)
    fix q assume q: "q < length (objs w)"
    have u: "hold (objs u ! q) = hold (objs ?v ! q)"
      "class_of (kind (objs u ! q)) = class_of (kind (objs ?v ! q))"
      "live u q \<longrightarrow> live w q" "live w q \<and> 0 < hold (objs ?v ! q) \<longrightarrow> live u q"
      using f q len lv by (simp_all add: user_frame_def)
    have pu: "p < length (objs u)" using f len by (simp add: user_frame_def)
    show "hold (objs ?d ! q) = hold (objs w ! q)"
      using u(1) v(1) [of q] pu by (auto simp: nth_upd)
    show "class_of (kind (objs ?d ! q)) = class_of (kind (objs w ! q))"
      using u(2) v(2) [of q] by (auto simp: nth_upd)
    show "live w q" if "live u q" using u(3) that by blast
    show "live u q" if "live w q \<and> 0 < hold (objs w ! q)"
      using u(4) v(1) [of q] that by simp
  next
    fix q assume "length (objs w) \<le> q \<and> q < length (objs ?d)"
    then show "hold (objs ?d ! q) = 0" using f len by (simp add: user_frame_def nth_upd)
  qed
  then show ?thesis
    unfolding drop_hold_def
    using assms(2) by (intro good_collect) (simp_all add: good_def inv_core)
qed

lemma close_callback_defined:
  assumes "invar w" and "is_open (hist w) p" and "respectful beh"
  shows "\<exists>v. close_callback uv beh p w = Inr v \<and> good w v"
proof -
  have p: "live w p"
    using core_libuv [OF inv_core [OF assms(1)], of p] assms(2) by (simp add: libuv_ok_def kept_def)
  let ?v = "self_reset p (take_hold p (fire cb_close p w))"
  have "invar ?v"
    using assms p core_closed [OF inv_core] by (intro invar_held) auto
  moreover have "live ?v p"
    using p by (simp add: self_reset_def set_self_def take_hold_def live_upd fire_def)
  ultimately obtain u where "publish beh Ev_close p ?v = Inr u" "good ?v u"
    using publish_defined assms(3) by blast
  then show ?thesis
    using p good_held [OF p] by (auto simp: close_callback_def deref_def fire_def)
qed

lemma with_reserve_defined:
  assumes "invar w" and "0 < pending (hist w) p" and "request_cb cb" and "live w p"
    and "\<And>v. invar v \<Longrightarrow> live v p \<Longrightarrow> class_of (kind (objs v ! p)) = class_of (kind (objs w ! p)) \<Longrightarrow>
           \<exists>u. body v = Inr u \<and> good v u"
  shows "\<exists>v. with_reserve uv cb p body w = Inr v \<and> good w v"
proof -
  let ?v = "self_reset p (take_hold p (fire cb p w))"
  have "invar ?v"
    using assms(1-4) core_completed [OF inv_core] by (intro invar_held) auto
  moreover have "live ?v p"
    using assms(4) by (simp add: self_reset_def set_self_def take_hold_def live_upd fire_def)
  moreover have "kind (objs ?v ! p) = kind (objs w ! p)"
    by (simp add: self_reset_def set_self_def take_hold_def nth_upd fire_def)
  ultimately obtain u where "body ?v = Inr u" "good ?v u"
    using assms(5) by metis
  then show ?thesis
    using assms(4) good_held [OF assms(4)]
    by (auto simp: with_reserve_def reserve_def deref_def fire_def)
qed

lemma pending_live:
  assumes "invar w" and "0 < pending (hist w) p" and "\<not> fs_kind_of (kind (objs w ! p))"
  shows "live w p" and "self_ptr (objs w ! p)"
  using core_libuv [OF inv_core [OF assms(1)], of p] assms(2,3)
  by (simp_all add: libuv_ok_def kept_def)

section \<open>Requests on behalf of a handle\<close>

lemma emitter_on_stored:
  assumes "p < length (objs w)" and "declares (handlers (objs w ! p)) t"
  shows "handler u (handlers (objs (emitter_on uv t f p w) ! p)) =
    (if u = t then f else handler u (handlers (objs w ! p)))"
proof -
  let ?v = "assign_handler t f p w"
  have "same_obj (objs ?v ! p) (objs (collect uv ?v) ! p)"
    using assms(1) by (intro collect_only_kills_obj) (simp add: assign_handler_def)
  then show ?thesis
    using assms by (simp add: emitter_on_def same_obj_def assign_handler_def nth_upd tuple.get_on)
qed

lemma user_frame_hold_live: "user_frame w v \<Longrightarrow> live w p \<Longrightarrow> 0 < hold (objs w ! p) \<Longrightarrow> live v p"
  using live_length by (auto simp: user_frame_def)

lemma user_frame_class:
  "user_frame w v \<Longrightarrow> p < length (objs w) \<Longrightarrow> class_of (kind (objs v ! p)) = class_of (kind (objs w ! p))"
  by (simp add: user_frame_def)

lemma forwarded_live:
  "invar w \<Longrightarrow> live w q \<Longrightarrow> handler t (handlers (objs w ! q)) = Some (Forward p) \<Longrightarrow> live w p"
  using invar_live [of w q] handler_in_listeners forward_in_refs
  by (fastforce simp: live_ok_def refs_ok_def)

lemma invar_slots:
  "invar w \<Longrightarrow> live w p \<Longrightarrow> declares (handlers (objs w ! p)) t \<longleftrightarrow> t \<in> set (events_of (kind (objs w ! p)))"
  using invar_live [of w p] by (simp add: live_ok_def slots_ok_def declares_def flip: set_map)

lemma good_emitter_forward:
  assumes "invar w" and "live w q" and "live w p"
    and "internal_kind (kind (objs w ! q))" and "\<not> internal_kind (kind (objs w ! p))"
  shows "good w (emitter_on uv t (Some (Forward p)) q w)"
  using assms by (intro good_emitter_on) (auto simp: captures_def)

lemma user_frame_hold: "user_frame w v \<Longrightarrow> p < length (objs w) \<Longrightarrow> hold (objs v ! p) = hold (objs w ! p)"
  by (simp add: user_frame_def)

lemma declares_make: "declares (slots_make ts) t \<longleftrightarrow> t \<in> set ts"
  by (force simp: declares_def slots_make_def)

lemma same_obj_refs: "same_obj a b \<Longrightarrow> refs_of b = refs_of a"
  and same_obj_own: "same_obj a b \<Longrightarrow> own_count b = own_count a"
  by (simp_all add: same_obj_def refs_of_def own_count_def)

text \<open>An object without a pointer of its own, that no live object refers to, is collected.\<close>

lemma collect_frees:
  assumes "p < length (objs w)" and "own_count (objs w ! p) = 0"
    and "\<And>s. live w s \<Longrightarrow> p \<notin> set (refs_of (objs w ! s))"
  shows "\<not> live (collect uv w) p"
proof
  let ?v = "collect uv w"
  assume p: "live ?v p"
  have "own_count (objs ?v ! p) = 0"
    using assms(2) same_obj_own [OF collect_only_kills_obj [OF assms(1)]] by simp
  then obtain s where s: "live ?v s" "p \<in> set (refs_of (objs ?v ! s))"
    using collect_all_held [of uv w] p unfolding all_held_def' by (metis less_irrefl)
  then have "live w s" by (rule_tac collect_live)
  moreover from this have "refs_of (objs ?v ! s) = refs_of (objs w ! s)"
    by (intro same_obj_refs collect_only_kills_obj live_length)
  ultimately show False using assms(3) s(2) by simp
qed

text \<open>
  A request that forwards to a handle with a listener of the user: the listener sees the event as
  one of the handle's.
\<close>

lemma forwarded_completion:
  assumes "live w q" and "live w p" and "p \<noteq> q"
    and "handler (tag_of ev) (handlers (objs w ! q)) = Some (Forward p)"
    and "handler (tag_of ev) (handlers (objs w ! p)) = Some (User u cs)"
  shows "with_reserve uv cb q (publish beh ev q) w =
    Inr (drop_hold uv q (beh u p ev (self_reset q (take_hold q (fire cb q w)))))"
proof -
  let ?v = "self_reset q (take_hold q (fire cb q w))"
  have lv: "live ?v = live w"
    by (simp add: self_reset_def set_self_def take_hold_def live_upd fire_def)
  have h: "handlers (objs ?v ! r) = handlers (objs w ! r)" for r
    by (simp add: self_reset_def set_self_def take_hold_def nth_upd fire_def)
  have n: "length (objs ?v) = length (objs w)"
    by (simp add: self_reset_def set_self_def take_hold_def fire_def)
  obtain m where m: "length (objs w) = Suc m"
    using live_length [OF assms(1)] by (cases "length (objs w)") auto
  have "publish beh ev q ?v = Inr (beh u p ev ?v)"
    unfolding publish_def n m using assms by (simp add: lv h)
  moreover have "reserve q (fire cb q w) = Inr ?v"
    using assms(1) by (simp add: reserve_def deref_def fire_def)
  ultimately show ?thesis by (simp add: with_reserve_def)
qed

lemma emitter_on_obj:
  assumes "r < length (objs w)"
  shows "same_obj (if r = p then (objs w ! p)\<lparr>handlers := slots_on t f (handlers (objs w ! p))\<rparr> else objs w ! r)
    (objs (emitter_on uv t f p w) ! r)"
proof -
  have "same_obj (objs (assign_handler t f p w) ! r) (objs (emitter_on uv t f p w) ! r)"
    using assms unfolding emitter_on_def
    by (intro collect_only_kills_obj) (simp add: assign_handler_def)
  then show ?thesis
    using assms by (auto simp: assign_handler_def nth_upd)
qed

lemma emitter_on_hist [simp]:
  "pending (hist (emitter_on uv t f p w)) = pending (hist w)"
  "is_open (hist (emitter_on uv t f p w)) = is_open (hist w)"
  "length (objs (emitter_on uv t f p w)) = length (objs w)"
  by (simp_all add: emitter_on_def assign_handler_def)

lemma refs_of_on:
  "set (refs_of (b\<lparr>handlers := slots_on t (Some (Forward p)) (handlers b)\<rparr>)) \<subseteq> insert p (set (refs_of b))"
  using listeners_assign_subset [of t "Some (Forward p)" "handlers b"]
  by (fastforce simp: refs_of_def slots_on_def captures_def)

text \<open>The request with its two listeners, before the libuv call.\<close>

definition forward_prepare :: "libuv \<Rightarrow> kind \<Rightarrow> tag \<Rightarrow> oid \<Rightarrow> oid \<Rightarrow> world \<Rightarrow> world" where
  "forward_prepare uv k t l p w =
     (let q = length (objs w)
      in emitter_on uv t (Some (Forward p)) q
           (emitter_on uv T_error (Some (Forward p)) q (snd (alloc k (Some l) w))))"

lemma forward_request_eq:
  assumes "parent w p = Some l" and "\<not> has_memo k"
  shows "forward_request uv k t call p w =
    (let q = length (objs w); x = leak_if_call uv q (call q) (forward_prepare uv k t l p w)
     in Inr (fst x, drop_hold uv q (snd x)))"
  using assms
  by (simp add: forward_request_def forward_with_def loop_resource_def make_resource_def no_init_def alloc_def
      case_prod_beta Let_def forward_prepare_def)

lemma handle_owner:
  assumes "invar w" and "live w p" and "handle_kind (kind (objs w ! p))"
  shows "\<exists>l. parent w p = Some l \<and> live w l \<and> is_loop_kind (kind (objs w ! l)) \<and>
    \<not> internal_kind (kind (objs w ! p))"
proof -
  have np: "\<not> internal_kind (kind (objs w ! p))" and ow: "\<not> ownerless (kind (objs w ! p))"
    using assms(3)
    by (auto simp: handle_kind_def stream_kind_def internal_kind_def ownerless_def split: kind.splits)
  have ok: "owner_ok w p" "refs_ok w p" using invar_live [OF assms(1,2)] by (simp_all add: live_ok_def)
  then obtain l where "owner (objs w ! p) = Some l" "is_loop_kind (kind (objs w ! l))"
    using ow by (auto simp: owner_ok_def)
  then show ?thesis
    using ok np owner_in_refs by (auto simp: refs_ok_def parent_def)
qed

lemma forward_prepare_good:
  fixes uv :: libuv and t :: tag
  assumes inv: "invar w" and p: "live w p" "\<not> internal_kind (kind (objs w ! p))"
    and l: "live w l" "is_loop_kind (kind (objs w ! l))" and k: "internal_kind k"
  defines "q \<equiv> length (objs w)" and "u \<equiv> forward_prepare uv k t l p w"
  shows "good (snd (alloc k (Some l) w)) u" and "live u q" and "class_of (kind (objs u ! q)) = class_of k"
    and "hold (objs u ! q) = 1"
proof -
  let ?w1 = "snd (alloc k (Some l) w)"
  let ?w2 = "emitter_on uv T_error (Some (Forward p)) q ?w1"
  have u: "u = emitter_on uv t (Some (Forward p)) q ?w2"
    by (simp add: u_def forward_prepare_def q_def Let_def)
  have w1: "invar ?w1" "live ?w1 p" "live ?w1 q"
    using inv l p(1) by (simp_all add: invar_alloc alloc_live q_def)
  have w1o: "kind (objs ?w1 ! q) = k" "hold (objs ?w1 ! q) = 1" "objs ?w1 ! p = objs w ! p"
    "handlers (objs ?w1 ! q) = slots_make (events_of k)"
    using live_length [OF p(1)] by (simp_all add: alloc_nth new_obj_def q_def)
  have g2: "good ?w1 ?w2"
    using w1 w1o k p(2) by (intro good_emitter_forward) simp_all
  then have f2: "user_frame ?w1 ?w2" by (simp add: good_def)
  have w2: "invar ?w2" "live ?w2 q" "hold (objs ?w2 ! q) = 1"
    using good_inv [OF g2] w1o user_frame_hold_live [OF f2 w1(3)]
      user_frame_hold [OF f2 live_length [OF w1(3)]] by simp_all
  have "handler T_error (handlers (objs ?w2 ! q)) = Some (Forward p)"
    using emitter_on_stored [OF live_length [OF w1(3)], of T_error T_error uv "Some (Forward p)"] w1o
    by (simp add: declares_def slots_make_def events_of_def)
  then have p2: "live ?w2 p" using forwarded_live w2 by blast
  have c2: "class_of (kind (objs ?w2 ! q)) = class_of k"
    "class_of (kind (objs ?w2 ! p)) = class_of (kind (objs w ! p))"
    using user_frame_class [OF f2 live_length [OF w1(3)]] user_frame_class [OF f2 live_length [OF w1(2)]] w1o
    by simp_all
  have g3: "good ?w2 u"
    unfolding u using w2 p2 k p(2)
    by (intro good_emitter_forward) (simp_all add: class_of_eq(3) [OF c2(1)] class_of_eq(3) [OF c2(2)])
  then have f3: "user_frame ?w2 u" by (simp add: good_def)
  show "good ?w1 u" using g2 g3 by (rule good_trans)
  show "live u q" using user_frame_hold_live [OF f3 w2(2)] w2(3) by simp
  show "class_of (kind (objs u ! q)) = class_of k" "hold (objs u ! q) = 1"
    using user_frame_class [OF f3 live_length [OF w2(2)]] c2(1)
      user_frame_hold [OF f3 live_length [OF w2(2)]] w2(3) by simp_all
qed

lemma forward_prepare_fresh:
  fixes uv :: libuv
  assumes inv: "invar w" and p: "live w p" and l: "live w l"
    and t: "t \<noteq> T_error" "t \<in> set (events_of k)"
  defines "q \<equiv> length (objs w)" and "u \<equiv> forward_prepare uv k t l p w"
  shows "pending (hist u) q = 0" and "ext (objs u ! q) = 0" and "\<not> self_ptr (objs u ! q)"
    and "handler T_error (handlers (objs u ! q)) = Some (Forward p)"
    and "handler t (handlers (objs u ! q)) = Some (Forward p)"
    and "live u r \<Longrightarrow> q \<notin> set (refs_of (objs u ! r))"
    and "length (objs u) = Suc (length (objs w))"
proof -
  let ?w1 = "snd (alloc k (Some l) w)"
  let ?w2 = "emitter_on uv T_error (Some (Forward p)) q ?w1"
  have u: "u = emitter_on uv t (Some (Forward p)) q ?w2"
    by (simp add: u_def forward_prepare_def q_def Let_def)
  have q1: "q < length (objs ?w1)" "q < length (objs ?w2)" by (simp_all add: q_def)
  have b1: "objs ?w1 ! q = new_obj k (Some l)" by (simp add: alloc_nth q_def)
  have e2: "same_obj ((objs ?w1 ! q)\<lparr>handlers := slots_on T_error (Some (Forward p)) (handlers (objs ?w1 ! q))\<rparr>)
      (objs ?w2 ! q)"
    using emitter_on_obj [OF q1(1), of q] by simp
  have e3: "same_obj ((objs ?w2 ! q)\<lparr>handlers := slots_on t (Some (Forward p)) (handlers (objs ?w2 ! q))\<rparr>)
      (objs u ! q)"
    unfolding u using emitter_on_obj [OF q1(2), of q] by simp
  show "ext (objs u ! q) = 0" "\<not> self_ptr (objs u ! q)"
    using e2 e3 b1 by (simp_all add: same_obj_def new_obj_def)
  have h2: "handler x (handlers (objs ?w2 ! q)) = (if x = T_error then Some (Forward p) else None)" for x
  proof -
    have "declares (handlers (objs ?w1 ! q)) T_error"
      by (simp add: b1 new_obj_def declares_def slots_make_def events_of_def)
    then show ?thesis
      using emitter_on_stored [OF q1(1), of T_error x uv "Some (Forward p)"] b1
      by (simp add: new_obj_def)
  qed
  have "declares (handlers (objs ?w2 ! q)) t"
    using e2 b1 t(2) by (simp add: same_obj_def new_obj_def slots_on_def declares_assign declares_make)
  then have h3: "handler x (handlers (objs u ! q)) =
      (if x = t then Some (Forward p) else handler x (handlers (objs ?w2 ! q)))" for x
    unfolding u by (rule emitter_on_stored [OF q1(2)])
  show "handler T_error (handlers (objs u ! q)) = Some (Forward p)"
    "handler t (handlers (objs u ! q)) = Some (Forward p)"
    using h2 h3 t(1) by auto
  have "pending (hist w) q = 0"
    using core_libuv [OF inv_core [OF inv], of q] by (auto simp: libuv_ok_def q_def)
  then show "pending (hist u) q = 0" by (simp add: u)
  show len: "length (objs u) = Suc (length (objs w))" by (simp add: u)
  show "q \<notin> set (refs_of (objs u ! r))" if "live u r"
  proof (cases "r = q")
    case True
    have "set (refs_of (objs u ! q)) \<subseteq> insert p (insert p (set (refs_of (objs ?w1 ! q))))"
      using same_obj_refs [OF e2] same_obj_refs [OF e3]
        refs_of_on [of T_error p "objs ?w1 ! q"] refs_of_on [of t p "objs ?w2 ! q"] by auto
    moreover have "set (refs_of (objs ?w1 ! q)) = {l}"
      by (simp add: b1 new_obj_def refs_of_def)
    ultimately show ?thesis
      using True live_length [OF p] live_length [OF l] by (auto simp: q_def)
  next
    case False
    have r: "r < length (objs w)" using live_length [OF that] len False by (simp add: q_def)
    have "same_obj (objs w ! r) (objs u ! r)"
      using emitter_on_obj [of r ?w1 q T_error "Some (Forward p)" uv]
        emitter_on_obj [of r ?w2 q t "Some (Forward p)" uv] r False
      unfolding u by (auto simp: alloc_nth q_def intro: same_obj_trans)
    then have rf: "refs_of (objs u ! r) = refs_of (objs w ! r)" by (rule same_obj_refs)
    have "live w r"
      using that r False unfolding u emitter_on_def
      by (auto dest!: collect_live simp: assign_handler_def live_upd alloc_live q_def)
    then show ?thesis
      using invar_live [OF inv, of r] rf by (auto simp: live_ok_def refs_ok_def q_def dest: live_length)
  qed
qed

lemma forward_request_good:
  assumes inv: "invar w" and p: "live w p" "handle_kind (kind (objs w ! p))"
    and k: "internal_kind k" "\<not> handle_kind k" "\<not> has_memo k"
    and t: "t \<noteq> T_error" "t \<in> set (events_of k)"
    and call: "\<And>q. submits (call q) 0 = Some q" "\<And>q. opens (call q) 0 = None"
      "\<And>q r. r \<noteq> 0 \<Longrightarrow> quiet (call q) r"
  shows "\<exists>r v. forward_request uv k t call p w = Inr (r, v) \<and> good w v"
proof -
  obtain l where l: "parent w p = Some l" "live w l" "is_loop_kind (kind (objs w ! l))"
    "\<not> internal_kind (kind (objs w ! p))" using handle_owner [OF inv p] by blast
  let ?q = "length (objs w)" and ?u = "forward_prepare uv k t l p w"
  note g = forward_prepare_good [OF inv p(1) l(4,2,3) k(1), of uv t]
  note f = forward_prepare_fresh [OF inv p(1) l(2) t, of uv]
  have "good ?u (snd (leak_if_call uv ?q (call ?q) ?u))"
    using good_inv [OF g(1)] g(2) f(1) k(2) call class_of_eq(1) [OF g(3)]
    by (intro good_submit) auto
  then have "good (snd (alloc k (Some l) w)) (snd (leak_if_call uv ?q (call ?q) ?u))"
    by (rule good_trans [OF g(1)])
  then have "good w (drop_hold uv ?q (snd (leak_if_call uv ?q (call ?q) ?u)))"
    by (rule good_drop_hold [OF extends_alloc])
  then show ?thesis
    using forward_request_eq [OF l(1) k(3)] by (simp add: Let_def)
qed

section \<open>Every operation keeps the invariant\<close>

lemma quiet_handle_calls [simp]: "quiet (C_handle c) r"
  by (simp add: quiet_def opens_def submits_def)

lemma good_handle_call: "invar w \<Longrightarrow> good w (snd (uvcall uv (C_handle c) w))"
  by (simp add: good_uvcall)

lemma good_handle_close: "invar w \<Longrightarrow> good w (handle_close uv p w)"
  unfolding handle_close_def handle_closing_def
  using good_handle_call good_inv good_trans by (simp add: case_prod_beta Let_def) blast

lemma handle_exec_good:
  assumes "invar w" and "handle_exec uv op p w = Inr v"
  shows "good w v"
  using assms
  by (cases op)
    (auto simp: handle_exec_def handle_active_def handle_closing_def good_handle_close
      handle_reference_def handle_unreference_def handle_referenced_def handle_size_def
      send_buffer_size_def set_send_buffer_size_def recv_buffer_size_def set_recv_buffer_size_def
      handle_fd_def good_handle_call case_prod_beta Let_def split: option.splits)

text \<open>The callback's result, when it has one, keeps the invariant, for any class of request.\<close>

lemma with_reserve_good:
  assumes "invar w" and "0 < pending (hist w) p" and "request_cb cb"
    and "\<And>v u. invar v \<Longrightarrow> live v p \<Longrightarrow> body v = Inr u \<Longrightarrow> good v u"
    and "with_reserve uv cb p body w = Inr x"
  shows "good w x"
proof -
  have p: "live w p"
    using assms(5) by (auto simp: with_reserve_def reserve_def deref_def fire_def split: if_splits)
  let ?v = "self_reset p (take_hold p (fire cb p w))"
  have v: "invar ?v"
    using assms(1-3) p core_completed [OF inv_core] by (intro invar_held) auto
  have l: "live ?v p"
    using p by (simp add: self_reset_def set_self_def take_hold_def live_upd fire_def)
  have "with_reserve uv cb p body w =
      (case body ?v of Inl e \<Rightarrow> Inl e | Inr u \<Rightarrow> Inr (drop_hold uv p u))"
    using p by (simp add: with_reserve_def reserve_def deref_def fire_def)
  then obtain u where u: "body ?v = Inr u" "x = drop_hold uv p u"
    using assms(5) by (auto split: sum.splits)
  then show ?thesis
    using good_held [OF p assms(4) [OF v l u(1)]] by simp
qed

lemma publish_good:
  assumes "invar w" and "live w p" and "respectful beh" and "publish beh e p w = Inr v"
  shows "good w v"
  using publish_defined [OF assms(1-3), of e] assms(4) by auto

section \<open>Properties\<close>

text \<open>How often a handle was passed to \<^verbatim>\<open>uv_close\<close>.\<close>

fun close_calls :: "history \<Rightarrow> oid \<Rightarrow> nat" where
  "close_calls [] p = 0"
| "close_calls (Called (C_handle (uv_close q cb)) r # h) p =
     (if q = p then Suc (close_calls h p) else close_calls h p)"
| "close_calls (e # h) p = close_calls h p"

lemma handle_close_calls:
  assumes "documented_is_closing uv"
  shows "is_closing (hist (handle_close uv p w)) p"
    and "close_calls (hist (handle_close uv p w)) p =
      close_calls (hist w) p + (if is_closing (hist w) p then 0 else 1)"
proof -
  have "ret uv (hist w) (C_handle (uv_is_closing p)) \<noteq> 0 \<longleftrightarrow> is_closing (hist w) p"
    using assms by (simp add: documented_is_closing_def)
  then show "is_closing (hist (handle_close uv p w)) p"
    and "close_calls (hist (handle_close uv p w)) p =
      close_calls (hist w) p + (if is_closing (hist w) p then 0 else 1)"
    by (auto simp: handle_close_def handle_closing_def uvcall_def Let_def opens_def closes_def)
qed

text \<open>
  C8. However often a program calls \<^verbatim>\<open>close\<close> on a handle, \<^verbatim>\<open>uv_close\<close> is called once, and not at all
  when the handle is already closing: a second call would abort the process.
\<close>

theorem close_once:
  assumes "documented_is_closing uv"
  shows "close_calls (hist ((handle_close uv p ^^ n) w)) p =
    close_calls (hist w) p + (if n = 0 \<or> is_closing (hist w) p then 0 else 1)"
proof (induction n arbitrary: w)
  case (Suc n)
  then show ?case
    using handle_close_calls [OF assms, of p w] by (simp add: funpow_Suc_right del: funpow.simps(2))
qed simp

theorem close_once_witness: "close_calls (hist ((handle_close sample_libuv 1 ^^ 3) start_world)) 1 = 1"
  using close_once [OF sample_is_closing, where p = 1 and n = 3 and w = start_world] by (simp add: start_world_def)

end
