(* ===== verification/Watchers.thy ===== *)
theory Watchers
  imports Handle
begin

text \<open>
  The handles that watch something: \<^verbatim>\<open>async\<close>, \<^verbatim>\<open>check\<close>, \<^verbatim>\<open>idle\<close>, \<^verbatim>\<open>prepare\<close>, \<^verbatim>\<open>timer\<close>, \<^verbatim>\<open>signal\<close>,
  \<^verbatim>\<open>poll\<close>, \<^verbatim>\<open>fs_event\<close> and \<^verbatim>\<open>fs_poll\<close>, each with its header and \<^verbatim>\<open>.ipp\<close> file under \<^verbatim>\<open>src/uvw\<close>. A class
  has its operations, a datatype of its public interface with the function that runs a member of
  it, and its callback. The locale \<^verbatim>\<open>handle_init\<close> is the contract of \<^verbatim>\<open>init\<close>, which every class
  implements.
\<close>

section \<open>The contract of \<^verbatim>\<open>init\<close>\<close>

locale handle_init =
  fixes init :: "libuv \<Rightarrow> oid \<Rightarrow> world \<Rightarrow> int \<times> world"
    and call :: "oid \<Rightarrow> world \<Rightarrow> uv_call"
    and is_kind :: "kind \<Rightarrow> bool"
  assumes init_eq: "init uv p w = leak_if_call uv p (call p w) w"
    and kind_handle: "is_kind k \<Longrightarrow> handle_kind k"
    and call_opens: "opens (call p w) r = (if r = 0 then Some p else None)"
    and call_submits: "submits (call p w) r = None"
    and call_closes: "closes (call p w) r = None"
begin

lemma init_returns: "fst (init uv p w) = ret uv (hist w) (call p w)"
  by (simp add: init_eq leak_if_call_eq Let_def)

lemma init_keeps:
  assumes "invar w" and "live w p" and "is_kind (kind (objs w ! p))"
  shows "good w (snd (init uv p w))"
  unfolding init_eq
  using assms by (intro good_init) (auto simp: kind_handle call_opens call_submits quiet_def)

lemma init_is_sound: "is_kind k \<Longrightarrow> init_sound (init uv) k"
  by (simp add: init_sound_def init_keeps)

lemma init_opens:
  "\<exists>c. init uv p w = leak_if_call uv p c w \<and> (\<forall>r. opens c r = (if r = 0 then Some p else None)) \<and>
     (\<forall>r. submits c r = None)"
  using init_eq call_opens call_submits by blast

text \<open>Success: libuv has the handle and the handle has itself. Failure: neither.\<close>

lemma init_registers:
  assumes "p < length (objs w)" and "fst (init uv p w) = 0"
  shows "is_open (hist (snd (init uv p w))) p \<and> self_ptr (objs (snd (init uv p w)) ! p) \<and>
    \<not> is_closing (hist (snd (init uv p w))) p"
  using assms
  by (simp add: init_eq leak_if_call_eq Let_def call_opens set_self_def nth_upd split: if_splits)

lemma init_refuses:
  assumes "fst (init uv p w) \<noteq> 0"
  shows "objs (snd (init uv p w)) = objs w \<and> is_open (hist (snd (init uv p w))) = is_open (hist w) \<and>
    pending (hist (snd (init uv p w))) = pending (hist w)"
  using assms
  by (simp add: init_eq leak_if_call_eq Let_def call_opens call_submits fun_eq_iff split: if_splits)

end

section \<open>\<^verbatim>\<open>async.h\<close>, \<^verbatim>\<open>async.ipp\<close>\<close>

datatype (plugins only: code) async_op = Async_init | Async_send

definition async_init :: "libuv \<Rightarrow> oid \<Rightarrow> world \<Rightarrow> int \<times> world" where
  "async_init uv p w = leak_if_call uv p (C_tick (uv_async_init (parent_raw w p) p cb_async)) w"

definition async_send :: "libuv \<Rightarrow> oid \<Rightarrow> world \<Rightarrow> int \<times> world" where
  "async_send uv p w = uvcall uv (C_tick (uv_async_send p)) w"

definition async_send_callback :: "behaviour \<Rightarrow> oid \<Rightarrow> world \<Rightarrow> ub + world" where
  "async_send_callback beh p w = plain_callback beh cb_async Ev_async p w"

definition async_exec :: "libuv \<Rightarrow> async_op \<Rightarrow> oid \<Rightarrow> world \<Rightarrow> world" where
  "async_exec uv op p w =
     (case op of Async_init \<Rightarrow> snd (async_init uv p w) | Async_send \<Rightarrow> snd (async_send uv p w))"

section \<open>\<^verbatim>\<open>check.h\<close>, \<^verbatim>\<open>check.ipp\<close>\<close>

datatype (plugins only: code) check_op = Check_init | Check_start | Check_stop

definition check_init :: "libuv \<Rightarrow> oid \<Rightarrow> world \<Rightarrow> int \<times> world" where
  "check_init uv p w = leak_if_call uv p (C_tick (uv_check_init (parent_raw w p) p)) w"

definition check_start :: "libuv \<Rightarrow> oid \<Rightarrow> world \<Rightarrow> int \<times> world" where
  "check_start uv p w = uvcall uv (C_tick (uv_check_start p cb_check)) w"

definition check_stop :: "libuv \<Rightarrow> oid \<Rightarrow> world \<Rightarrow> int \<times> world" where
  "check_stop uv p w = uvcall uv (C_tick (uv_check_stop p)) w"

definition check_start_callback :: "behaviour \<Rightarrow> oid \<Rightarrow> world \<Rightarrow> ub + world" where
  "check_start_callback beh p w = plain_callback beh cb_check Ev_check p w"

definition check_exec :: "libuv \<Rightarrow> check_op \<Rightarrow> oid \<Rightarrow> world \<Rightarrow> world" where
  "check_exec uv op p w =
     (case op of
        Check_init \<Rightarrow> snd (check_init uv p w)
      | Check_start \<Rightarrow> snd (check_start uv p w)
      | Check_stop \<Rightarrow> snd (check_stop uv p w))"

section \<open>\<^verbatim>\<open>idle.h\<close>, \<^verbatim>\<open>idle.ipp\<close>\<close>

datatype (plugins only: code) idle_op = Idle_init | Idle_start | Idle_stop

definition idle_init :: "libuv \<Rightarrow> oid \<Rightarrow> world \<Rightarrow> int \<times> world" where
  "idle_init uv p w = leak_if_call uv p (C_tick (uv_idle_init (parent_raw w p) p)) w"

definition idle_start :: "libuv \<Rightarrow> oid \<Rightarrow> world \<Rightarrow> int \<times> world" where
  "idle_start uv p w = uvcall uv (C_tick (uv_idle_start p cb_idle)) w"

definition idle_stop :: "libuv \<Rightarrow> oid \<Rightarrow> world \<Rightarrow> int \<times> world" where
  "idle_stop uv p w = uvcall uv (C_tick (uv_idle_stop p)) w"

definition idle_start_callback :: "behaviour \<Rightarrow> oid \<Rightarrow> world \<Rightarrow> ub + world" where
  "idle_start_callback beh p w = plain_callback beh cb_idle Ev_idle p w"

definition idle_exec :: "libuv \<Rightarrow> idle_op \<Rightarrow> oid \<Rightarrow> world \<Rightarrow> world" where
  "idle_exec uv op p w =
     (case op of
        Idle_init \<Rightarrow> snd (idle_init uv p w)
      | Idle_start \<Rightarrow> snd (idle_start uv p w)
      | Idle_stop \<Rightarrow> snd (idle_stop uv p w))"

section \<open>\<^verbatim>\<open>prepare.h\<close>, \<^verbatim>\<open>prepare.ipp\<close>\<close>

datatype (plugins only: code) prepare_op = Prepare_init | Prepare_start | Prepare_stop

definition prepare_init :: "libuv \<Rightarrow> oid \<Rightarrow> world \<Rightarrow> int \<times> world" where
  "prepare_init uv p w = leak_if_call uv p (C_tick (uv_prepare_init (parent_raw w p) p)) w"

definition prepare_start :: "libuv \<Rightarrow> oid \<Rightarrow> world \<Rightarrow> int \<times> world" where
  "prepare_start uv p w = uvcall uv (C_tick (uv_prepare_start p cb_prepare)) w"

definition prepare_stop :: "libuv \<Rightarrow> oid \<Rightarrow> world \<Rightarrow> int \<times> world" where
  "prepare_stop uv p w = uvcall uv (C_tick (uv_prepare_stop p)) w"

definition prepare_start_callback :: "behaviour \<Rightarrow> oid \<Rightarrow> world \<Rightarrow> ub + world" where
  "prepare_start_callback beh p w = plain_callback beh cb_prepare Ev_prepare p w"

definition prepare_exec :: "libuv \<Rightarrow> prepare_op \<Rightarrow> oid \<Rightarrow> world \<Rightarrow> world" where
  "prepare_exec uv op p w =
     (case op of
        Prepare_init \<Rightarrow> snd (prepare_init uv p w)
      | Prepare_start \<Rightarrow> snd (prepare_start uv p w)
      | Prepare_stop \<Rightarrow> snd (prepare_stop uv p w))"

section \<open>\<^verbatim>\<open>timer.h\<close>, \<^verbatim>\<open>timer.ipp\<close>\<close>

text \<open>A \<^verbatim>\<open>timer_handle::time\<close> counts milliseconds in \<^verbatim>\<open>uint64_t\<close>.\<close>

datatype (plugins only: code) timer_op =
    Timer_init | Timer_start u64 u64 | Timer_stop | Timer_again | Timer_set_repeat u64
  | Timer_repeat | Timer_due_in

definition timer_init :: "libuv \<Rightarrow> oid \<Rightarrow> world \<Rightarrow> int \<times> world" where
  "timer_init uv p w = leak_if_call uv p (C_tick (uv_timer_init (parent_raw w p) p)) w"

definition timer_start :: "libuv \<Rightarrow> u64 \<Rightarrow> u64 \<Rightarrow> oid \<Rightarrow> world \<Rightarrow> int \<times> world" where
  "timer_start uv timeout repeat p w = uvcall uv (C_tick (uv_timer_start p cb_timer timeout repeat)) w"

definition timer_stop :: "libuv \<Rightarrow> oid \<Rightarrow> world \<Rightarrow> int \<times> world" where
  "timer_stop uv p w = uvcall uv (C_tick (uv_timer_stop p)) w"

definition timer_again :: "libuv \<Rightarrow> oid \<Rightarrow> world \<Rightarrow> int \<times> world" where
  "timer_again uv p w = uvcall uv (C_tick (uv_timer_again p)) w"

definition timer_set_repeat :: "libuv \<Rightarrow> u64 \<Rightarrow> oid \<Rightarrow> world \<Rightarrow> world" where
  "timer_set_repeat uv repeat p w = snd (uvcall uv (C_tick (uv_timer_set_repeat p repeat)) w)"

definition timer_repeat :: "libuv \<Rightarrow> oid \<Rightarrow> world \<Rightarrow> u64 \<times> world" where
  "timer_repeat uv p w =
     (let (t, v) = uvcall uv (C_tick (uv_timer_get_repeat p)) w in (word_of_int t, v))"

definition timer_due_in :: "libuv \<Rightarrow> oid \<Rightarrow> world \<Rightarrow> u64 \<times> world" where
  "timer_due_in uv p w =
     (let (t, v) = uvcall uv (C_tick (uv_timer_get_due_in p)) w in (word_of_int t, v))"

definition timer_start_callback :: "behaviour \<Rightarrow> oid \<Rightarrow> world \<Rightarrow> ub + world" where
  "timer_start_callback beh p w = plain_callback beh cb_timer Ev_timer p w"

definition timer_exec :: "libuv \<Rightarrow> timer_op \<Rightarrow> oid \<Rightarrow> world \<Rightarrow> world" where
  "timer_exec uv op p w =
     (case op of
        Timer_init \<Rightarrow> snd (timer_init uv p w)
      | Timer_start t r \<Rightarrow> snd (timer_start uv t r p w)
      | Timer_stop \<Rightarrow> snd (timer_stop uv p w)
      | Timer_again \<Rightarrow> snd (timer_again uv p w)
      | Timer_set_repeat r \<Rightarrow> timer_set_repeat uv r p w
      | Timer_repeat \<Rightarrow> snd (timer_repeat uv p w)
      | Timer_due_in \<Rightarrow> snd (timer_due_in uv p w))"

section \<open>\<^verbatim>\<open>signal.h\<close>, \<^verbatim>\<open>signal.ipp\<close>\<close>

datatype (plugins only: code) signal_op =
    Signal_init | Signal_start int | Signal_one_shot int | Signal_stop | Signal_signal

definition signal_init :: "libuv \<Rightarrow> oid \<Rightarrow> world \<Rightarrow> int \<times> world" where
  "signal_init uv p w = leak_if_call uv p (C_watch (uv_signal_init (parent_raw w p) p)) w"

definition signal_start :: "libuv \<Rightarrow> int \<Rightarrow> oid \<Rightarrow> world \<Rightarrow> int \<times> world" where
  "signal_start uv signum p w = uvcall uv (C_watch (uv_signal_start p cb_signal signum)) w"

definition signal_one_shot :: "libuv \<Rightarrow> int \<Rightarrow> oid \<Rightarrow> world \<Rightarrow> int \<times> world" where
  "signal_one_shot uv signum p w = uvcall uv (C_watch (uv_signal_start_oneshot p cb_signal signum)) w"

definition signal_stop :: "libuv \<Rightarrow> oid \<Rightarrow> world \<Rightarrow> int \<times> world" where
  "signal_stop uv p w = uvcall uv (C_watch (uv_signal_stop p)) w"

definition signal_signal :: "libuv \<Rightarrow> oid \<Rightarrow> world \<Rightarrow> int" where
  "signal_signal uv p w = raw_signum uv (hist w) p"

definition signal_start_callback :: "behaviour \<Rightarrow> int \<Rightarrow> oid \<Rightarrow> world \<Rightarrow> ub + world" where
  "signal_start_callback beh signum p w = plain_callback beh cb_signal (Ev_signal signum) p w"

definition signal_exec :: "libuv \<Rightarrow> signal_op \<Rightarrow> oid \<Rightarrow> world \<Rightarrow> world" where
  "signal_exec uv op p w =
     (case op of
        Signal_init \<Rightarrow> snd (signal_init uv p w)
      | Signal_start n \<Rightarrow> snd (signal_start uv n p w)
      | Signal_one_shot n \<Rightarrow> snd (signal_one_shot uv n p w)
      | Signal_stop \<Rightarrow> snd (signal_stop uv p w)
      | Signal_signal \<Rightarrow> w)"

section \<open>\<^verbatim>\<open>poll.h\<close>, \<^verbatim>\<open>poll.ipp\<close>\<close>

datatype (plugins only: code) poll_event_flag = POLL_READABLE | POLL_WRITABLE | POLL_DISCONNECT | POLL_PRIORITIZED

definition poll_flag :: "poll_event_flag \<Rightarrow> flags" where
  "poll_flag f =
     (case f of POLL_READABLE \<Rightarrow> 1 | POLL_WRITABLE \<Rightarrow> 2 | POLL_DISCONNECT \<Rightarrow> 4 | POLL_PRIORITIZED \<Rightarrow> 8)"

datatype (plugins only: code) poll_op = Poll_init | Poll_start flags | Poll_stop

text \<open>The constructors set \<^verbatim>\<open>tag\<close> with the member of the union it selects.\<close>

definition poll_handle_fd :: "int \<Rightarrow> kind" where
  "poll_handle_fd desc = K_poll (Poll_fd desc)"

definition poll_handle_socket :: "int \<Rightarrow> kind" where
  "poll_handle_socket sock = K_poll (Poll_socket sock)"

definition poll_init_call :: "oid \<Rightarrow> world \<Rightarrow> uv_call" where
  "poll_init_call p w =
     (case kind (objs w ! p) of
        K_poll (Poll_socket s) \<Rightarrow> C_watch (uv_poll_init_socket (parent_raw w p) p s)
      | K_poll (Poll_fd d) \<Rightarrow> C_watch (uv_poll_init (parent_raw w p) p d)
      | _ \<Rightarrow> C_watch (uv_poll_init (parent_raw w p) p 0))"

definition poll_init :: "libuv \<Rightarrow> oid \<Rightarrow> world \<Rightarrow> int \<times> world" where
  "poll_init uv p w = leak_if_call uv p (poll_init_call p w) w"

definition poll_start :: "libuv \<Rightarrow> flags \<Rightarrow> oid \<Rightarrow> world \<Rightarrow> int \<times> world" where
  "poll_start uv f p w = uvcall uv (C_watch (uv_poll_start p f cb_poll)) w"

definition poll_stop :: "libuv \<Rightarrow> oid \<Rightarrow> world \<Rightarrow> int \<times> world" where
  "poll_stop uv p w = uvcall uv (C_watch (uv_poll_stop p)) w"

definition poll_start_callback :: "behaviour \<Rightarrow> int \<Rightarrow> int \<Rightarrow> oid \<Rightarrow> world \<Rightarrow> ub + world" where
  "poll_start_callback beh status events p w =
     plain_callback beh cb_poll (status_event status (Ev_poll (word_of_int events))) p w"

definition poll_exec :: "libuv \<Rightarrow> poll_op \<Rightarrow> oid \<Rightarrow> world \<Rightarrow> world" where
  "poll_exec uv op p w =
     (case op of
        Poll_init \<Rightarrow> snd (poll_init uv p w)
      | Poll_start f \<Rightarrow> snd (poll_start uv f p w)
      | Poll_stop \<Rightarrow> snd (poll_stop uv p w))"

section \<open>\<^verbatim>\<open>fs_event.h\<close>, \<^verbatim>\<open>fs_event.ipp\<close>\<close>

datatype (plugins only: code) fs_event_flag = FS_EVENT_WATCH_ENTRY | FS_EVENT_STAT | FS_EVENT_RECURSIVE
datatype (plugins only: code) fs_event_watch = WATCH_RENAME | WATCH_CHANGE

definition fs_event_flag_value :: "fs_event_flag \<Rightarrow> flags" where
  "fs_event_flag_value f =
     (case f of FS_EVENT_WATCH_ENTRY \<Rightarrow> 1 | FS_EVENT_STAT \<Rightarrow> 2 | FS_EVENT_RECURSIVE \<Rightarrow> 4)"

definition fs_event_watch_value :: "fs_event_watch \<Rightarrow> flags" where
  "fs_event_watch_value f = (case f of WATCH_RENAME \<Rightarrow> 1 | WATCH_CHANGE \<Rightarrow> 2)"

datatype (plugins only: code) fs_event_op =
    Fs_event_init | Fs_event_start string flags | Fs_event_stop | Fs_event_path

definition fs_event_init :: "libuv \<Rightarrow> oid \<Rightarrow> world \<Rightarrow> int \<times> world" where
  "fs_event_init uv p w = leak_if_call uv p (C_watch (uv_fs_event_init (parent_raw w p) p)) w"

definition fs_event_start :: "libuv \<Rightarrow> string \<Rightarrow> flags \<Rightarrow> oid \<Rightarrow> world \<Rightarrow> int \<times> world" where
  "fs_event_start uv path f p w =
     uvcall uv (C_watch (uv_fs_event_start p cb_fs_event (c_str path) f)) w"

definition fs_event_stop :: "libuv \<Rightarrow> oid \<Rightarrow> world \<Rightarrow> int \<times> world" where
  "fs_event_stop uv p w = uvcall uv (C_watch (uv_fs_event_stop p)) w"

definition fs_event_path :: "libuv \<Rightarrow> oid \<Rightarrow> world \<Rightarrow> string" where
  "fs_event_path uv p w = try_read (UV_ENOBUFS uv) (query_name uv (hist w) Q_fs_event_path p)"

text \<open>The event copies the pointer libuv passes, which may be null.\<close>

definition fs_event_start_callback ::
  "behaviour \<Rightarrow> string option \<Rightarrow> int \<Rightarrow> int \<Rightarrow> oid \<Rightarrow> world \<Rightarrow> ub + world" where
  "fs_event_start_callback beh filename events status p w =
     plain_callback beh cb_fs_event (status_event status (Ev_fs_event filename (word_of_int events))) p w"

definition fs_event_exec :: "libuv \<Rightarrow> fs_event_op \<Rightarrow> oid \<Rightarrow> world \<Rightarrow> world" where
  "fs_event_exec uv op p w =
     (case op of
        Fs_event_init \<Rightarrow> snd (fs_event_init uv p w)
      | Fs_event_start path f \<Rightarrow> snd (fs_event_start uv path f p w)
      | Fs_event_stop \<Rightarrow> snd (fs_event_stop uv p w)
      | Fs_event_path \<Rightarrow> w)"

section \<open>\<^verbatim>\<open>fs_poll.h\<close>, \<^verbatim>\<open>fs_poll.ipp\<close>\<close>

datatype (plugins only: code) fs_poll_op =
    Fs_poll_init | Fs_poll_start string u32 | Fs_poll_stop | Fs_poll_path

definition fs_poll_init :: "libuv \<Rightarrow> oid \<Rightarrow> world \<Rightarrow> int \<times> world" where
  "fs_poll_init uv p w = leak_if_call uv p (C_watch (uv_fs_poll_init (parent_raw w p) p)) w"

definition fs_poll_start :: "libuv \<Rightarrow> string \<Rightarrow> u32 \<Rightarrow> oid \<Rightarrow> world \<Rightarrow> int \<times> world" where
  "fs_poll_start uv f interval p w =
     uvcall uv (C_watch (uv_fs_poll_start p cb_fs_poll (c_str f) interval)) w"

definition fs_poll_stop :: "libuv \<Rightarrow> oid \<Rightarrow> world \<Rightarrow> int \<times> world" where
  "fs_poll_stop uv p w = uvcall uv (C_watch (uv_fs_poll_stop p)) w"

definition fs_poll_path :: "libuv \<Rightarrow> oid \<Rightarrow> world \<Rightarrow> string" where
  "fs_poll_path uv p w = try_read (UV_ENOBUFS uv) (query_name uv (hist w) Q_fs_poll_path p)"

definition fs_poll_start_callback ::
  "behaviour \<Rightarrow> int \<Rightarrow> file_info \<Rightarrow> file_info \<Rightarrow> oid \<Rightarrow> world \<Rightarrow> ub + world" where
  "fs_poll_start_callback beh status prv cur p w =
     plain_callback beh cb_fs_poll (status_event status (Ev_fs_poll prv cur)) p w"

definition fs_poll_exec :: "libuv \<Rightarrow> fs_poll_op \<Rightarrow> oid \<Rightarrow> world \<Rightarrow> world" where
  "fs_poll_exec uv op p w =
     (case op of
        Fs_poll_init \<Rightarrow> snd (fs_poll_init uv p w)
      | Fs_poll_start f i \<Rightarrow> snd (fs_poll_start uv f i p w)
      | Fs_poll_stop \<Rightarrow> snd (fs_poll_stop uv p w)
      | Fs_poll_path \<Rightarrow> w)"

section \<open>Every class implements the contract\<close>

lemmas init_contract_defs = handle_kind_def opens_def opens_tick_def opens_watch_def submits_def closes_def

interpretation async_i: handle_init async_init
  "\<lambda>p w. C_tick (uv_async_init (parent_raw w p) p cb_async)" "\<lambda>k. k = K_async"
  by unfold_locales (simp_all add: async_init_def init_contract_defs)

interpretation check_i: handle_init check_init
  "\<lambda>p w. C_tick (uv_check_init (parent_raw w p) p)" "\<lambda>k. k = K_check"
  by unfold_locales (simp_all add: check_init_def init_contract_defs)

interpretation idle_i: handle_init idle_init
  "\<lambda>p w. C_tick (uv_idle_init (parent_raw w p) p)" "\<lambda>k. k = K_idle"
  by unfold_locales (simp_all add: idle_init_def init_contract_defs)

interpretation prepare_i: handle_init prepare_init
  "\<lambda>p w. C_tick (uv_prepare_init (parent_raw w p) p)" "\<lambda>k. k = K_prepare"
  by unfold_locales (simp_all add: prepare_init_def init_contract_defs)

interpretation timer_i: handle_init timer_init
  "\<lambda>p w. C_tick (uv_timer_init (parent_raw w p) p)" "\<lambda>k. k = K_timer"
  by unfold_locales (simp_all add: timer_init_def init_contract_defs)

interpretation signal_i: handle_init signal_init
  "\<lambda>p w. C_watch (uv_signal_init (parent_raw w p) p)" "\<lambda>k. k = K_signal"
  by unfold_locales (simp_all add: signal_init_def init_contract_defs)

interpretation poll_i: handle_init poll_init poll_init_call "\<lambda>k. \<exists>d. k = K_poll d"
  by unfold_locales
    (auto simp: poll_init_def poll_init_call_def init_contract_defs split: kind.splits poll_desc.splits)

interpretation fs_event_i: handle_init fs_event_init
  "\<lambda>p w. C_watch (uv_fs_event_init (parent_raw w p) p)" "\<lambda>k. k = K_fs_event"
  by unfold_locales (simp_all add: fs_event_init_def init_contract_defs)

interpretation fs_poll_i: handle_init fs_poll_init
  "\<lambda>p w. C_watch (uv_fs_poll_init (parent_raw w p) p)" "\<lambda>k. k = K_fs_poll"
  by unfold_locales (simp_all add: fs_poll_init_def init_contract_defs)

section \<open>Every operation keeps the invariant\<close>

lemma neutral_tick [simp]: "opens_tick c = None \<Longrightarrow> neutral (C_tick c)"
  by (simp add: neutral_def opens_def submits_def closes_def)

lemma neutral_watch [simp]: "opens_watch c = None \<Longrightarrow> neutral (C_watch c)"
  by (simp add: neutral_def opens_def submits_def closes_def)

lemmas watcher_defs =
  async_send_def check_start_def check_stop_def idle_start_def idle_stop_def prepare_start_def
  prepare_stop_def timer_start_def timer_stop_def timer_again_def timer_set_repeat_def
  timer_repeat_def timer_due_in_def signal_start_def signal_one_shot_def signal_stop_def
  poll_start_def poll_stop_def fs_event_start_def fs_event_stop_def fs_poll_start_def
  fs_poll_stop_def

lemma async_exec_good:
  "invar w \<Longrightarrow> live w p \<Longrightarrow> kind (objs w ! p) = K_async \<Longrightarrow> good w (async_exec uv op p w)"
  by (cases op) (simp_all add: async_exec_def watcher_defs async_i.init_keeps good_neutral opens_tick_def)

lemma check_exec_good:
  "invar w \<Longrightarrow> live w p \<Longrightarrow> kind (objs w ! p) = K_check \<Longrightarrow> good w (check_exec uv op p w)"
  by (cases op) (simp_all add: check_exec_def watcher_defs check_i.init_keeps good_neutral opens_tick_def)

lemma idle_exec_good:
  "invar w \<Longrightarrow> live w p \<Longrightarrow> kind (objs w ! p) = K_idle \<Longrightarrow> good w (idle_exec uv op p w)"
  by (cases op) (simp_all add: idle_exec_def watcher_defs idle_i.init_keeps good_neutral opens_tick_def)

lemma prepare_exec_good:
  "invar w \<Longrightarrow> live w p \<Longrightarrow> kind (objs w ! p) = K_prepare \<Longrightarrow> good w (prepare_exec uv op p w)"
  by (cases op)
    (simp_all add: prepare_exec_def watcher_defs prepare_i.init_keeps good_neutral opens_tick_def)

lemma timer_exec_good:
  "invar w \<Longrightarrow> live w p \<Longrightarrow> kind (objs w ! p) = K_timer \<Longrightarrow> good w (timer_exec uv op p w)"
  by (cases op)
    (simp_all add: timer_exec_def watcher_defs timer_i.init_keeps good_neutral opens_tick_def
      case_prod_beta)

lemma signal_exec_good:
  "invar w \<Longrightarrow> live w p \<Longrightarrow> kind (objs w ! p) = K_signal \<Longrightarrow> good w (signal_exec uv op p w)"
  by (cases op)
    (simp_all add: signal_exec_def watcher_defs signal_i.init_keeps good_neutral opens_watch_def good_refl)

lemma poll_exec_good:
  "invar w \<Longrightarrow> live w p \<Longrightarrow> kind (objs w ! p) = K_poll d \<Longrightarrow> good w (poll_exec uv op p w)"
  by (cases op)
    (simp_all add: poll_exec_def watcher_defs poll_i.init_keeps good_neutral opens_watch_def)

lemma fs_event_exec_good:
  "invar w \<Longrightarrow> live w p \<Longrightarrow> kind (objs w ! p) = K_fs_event \<Longrightarrow> good w (fs_event_exec uv op p w)"
  by (cases op)
    (simp_all add: fs_event_exec_def watcher_defs fs_event_i.init_keeps good_neutral opens_watch_def good_refl)

lemma fs_poll_exec_good:
  "invar w \<Longrightarrow> live w p \<Longrightarrow> kind (objs w ! p) = K_fs_poll \<Longrightarrow> good w (fs_poll_exec uv op p w)"
  by (cases op)
    (simp_all add: fs_poll_exec_def watcher_defs fs_poll_i.init_keeps good_neutral opens_watch_def good_refl)

end
