(* ===== verification/Streams.thy ===== *)
theory Streams
  imports Watchers
begin

text \<open>
  \<^verbatim>\<open>src/uvw/stream.h\<close> and \<^verbatim>\<open>stream.ipp\<close> with the three stream classes: \<^verbatim>\<open>tcp.h\<close>, \<^verbatim>\<open>pipe.h\<close>, \<^verbatim>\<open>tty.h\<close> and
  their \<^verbatim>\<open>.ipp\<close> files. \<^verbatim>\<open>connect\<close>, \<^verbatim>\<open>shutdown\<close> and \<^verbatim>\<open>write\<close> make a request that lives until libuv
  completes it and forwards its outcome to the handle; the locale \<^verbatim>\<open>forwarding\<close> is their contract.
\<close>

section \<open>The contract of a forwarding operation\<close>

locale forwarding =
  fixes op :: "libuv \<Rightarrow> oid \<Rightarrow> world \<Rightarrow> ub + (int \<times> world)"
    and k :: kind
    and t :: tag
    and call :: "oid \<Rightarrow> oid \<Rightarrow> uv_call"
  assumes op_eq: "op uv p w = forward_request uv k t (call p) p w"
    and k_internal: "internal_kind k" "\<not> handle_kind k" "\<not> has_memo k" "\<not> fs_kind_of k"
    and k_events: "events_of k = [T_error, t]"
    and t_own: "t \<noteq> T_error"
    and call_submits: "submits (call p q) r = (if r = 0 then Some q else None)"
    and call_opens: "opens (call p q) r = None"
begin

lemma op_keeps:
  assumes "invar w" and "live w p" and "handle_kind (kind (objs w ! p))"
  shows "\<exists>r v. op uv p w = Inr (r, v) \<and> good w v"
  unfolding op_eq using assms k_internal t_own
  by (intro forward_request_good) (auto simp: call_submits call_opens quiet_def k_events)

text \<open>The outcome: the error code of the call, and the state after the local pointer is gone.\<close>

lemma op_outcome:
  assumes "invar w" and "live w p" and "handle_kind (kind (objs w ! p))" and "op uv p w = Inr (r, v)"
  shows "\<exists>l. live w l \<and> is_loop_kind (kind (objs w ! l)) \<and> \<not> internal_kind (kind (objs w ! p)) \<and>
    (r, v) = (let q = length (objs w); u = forward_prepare uv k t l p w; c = call p q;
                  r = ret uv (hist u) c; x = u\<lparr>hist := Called c r # hist u\<rparr>
              in (r, drop_hold uv q (if r = 0 then set_self True q x else x)))"
proof -
  obtain l where l: "parent w p = Some l" "live w l" "is_loop_kind (kind (objs w ! l))"
    "\<not> internal_kind (kind (objs w ! p))" using handle_owner [OF assms(1-3)] by blast
  then show ?thesis
    using assms(4) forward_request_eq [OF l(1) k_internal(3), of uv t "call p"]
    by (intro exI [of _ l]) (auto simp: op_eq leak_if_call_eq Let_def)
qed

text \<open>
  When libuv takes the request, it lives, keeps itself, is pending once, and forwards to the handle,
  which its listeners keep alive. When libuv refuses, the request is gone.
\<close>

lemma op_pending:
  assumes "invar w" and "live w p" and "handle_kind (kind (objs w ! p))" and "op uv p w = Inr (0, v)"
  defines "q \<equiv> length (objs w)"
  shows "live v q \<and> self_ptr (objs v ! q) \<and> pending (hist v) q = 1 \<and> live v p \<and>
    handler T_error (handlers (objs v ! q)) = Some (Forward p) \<and>
    handler t (handlers (objs v ! q)) = Some (Forward p)"
proof -
  obtain l where l: "live w l" "is_loop_kind (kind (objs w ! l))" "\<not> internal_kind (kind (objs w ! p))"
    and out: "(0, v) = (let q = length (objs w); u = forward_prepare uv k t l p w; c = call p q;
                  r = ret uv (hist u) c; x = u\<lparr>hist := Called c r # hist u\<rparr>
              in (r, drop_hold uv q (if r = 0 then set_self True q x else x)))"
    using op_outcome [OF assms(1-4)] by blast
  let ?u = "forward_prepare uv k t l p w"
  let ?x = "set_self True q (?u\<lparr>hist := Called (call p q) 0 # hist ?u\<rparr>)"
  let ?y = "upd q (\<lambda>b. b\<lparr>hold := hold b - 1\<rparr>) ?x"
  note g = forward_prepare_good [OF assms(1,2) l(3,1,2) k_internal(1), of uv t, folded q_def]
  note f = forward_prepare_fresh [OF assms(1,2) l(1) t_own, of k uv, folded q_def]
  have t: "t \<in> set (events_of k)" by (simp add: k_events)
  have v: "v = collect uv ?y"
    using out by (simp add: Let_def drop_hold_def q_def split: if_splits)
  have q: "q < length (objs ?u)" using g(2) by (rule live_length)
  have y: "live ?y q" "self_ptr (objs ?y ! q)" "handlers (objs ?y ! q) = handlers (objs ?u ! q)"
    "hist ?y = Called (call p q) 0 # hist ?u"
    using g(2) q by (simp_all add: set_self_def live_def nth_upd)
  have s: "same_obj (objs ?y ! q) (objs v ! q)"
    unfolding v using q by (intro collect_only_kills_obj) (simp add: set_self_def)
  have lv: "live v q"
    unfolding v using y(1,2) by (intro collect_keeps) (simp_all add: own_count_def)
  have h: "handler T_error (handlers (objs v ! q)) = Some (Forward p)"
    "handler t (handlers (objs v ! q)) = Some (Forward p)"
    using s y(3) f(4,5) [OF t] by (simp_all add: same_obj_def)
  have "invar v"
    using op_keeps [OF assms(1-3), of uv] assms(4) by (auto dest: good_inv)
  then have "live v p" using forwarded_live lv h(1) by blast
  moreover have "pending (hist v) q = 1"
    using f(1) [OF t] by (simp add: v set_self_def call_submits)
  ultimately show ?thesis
    using s y(2) lv h by (simp add: same_obj_def)
qed

lemma op_refused:
  assumes "invar w" and "live w p" and "handle_kind (kind (objs w ! p))" and "op uv p w = Inr (r, v)"
    and "r \<noteq> 0"
  shows "\<not> live v (length (objs w)) \<and> pending (hist v) (length (objs w)) = 0"
proof -
  let ?q = "length (objs w)"
  obtain l where l: "live w l" "is_loop_kind (kind (objs w ! l))" "\<not> internal_kind (kind (objs w ! p))"
    and out: "(r, v) = (let q = ?q; u = forward_prepare uv k t l p w; c = call p q;
                  r = ret uv (hist u) c; x = u\<lparr>hist := Called c r # hist u\<rparr>
              in (r, drop_hold uv q (if r = 0 then set_self True q x else x)))"
    using op_outcome [OF assms(1-4)] by blast
  let ?u = "forward_prepare uv k t l p w"
  let ?x = "?u\<lparr>hist := Called (call p ?q) r # hist ?u\<rparr>"
  let ?y = "upd ?q (\<lambda>b. b\<lparr>hold := hold b - 1\<rparr>) ?x"
  have t: "t \<in> set (events_of k)" by (simp add: k_events)
  note g = forward_prepare_good [OF assms(1,2) l(3,1,2) k_internal(1), of uv t]
  note f = forward_prepare_fresh [OF assms(1,2) l(1) t_own t, of uv]
  have v: "v = collect uv ?y"
    using out assms(5) by (auto simp: Let_def drop_hold_def split: if_splits)
  have q: "?q < length (objs ?u)" using g(2) by (rule live_length)
  have own: "own_count (objs ?y ! ?q) = 0"
    using q f(2,3) g(4) by (simp add: nth_upd own_count_def)
  have lv: "live ?y = live ?u" by (simp add: live_upd)
  have refs: "refs_of (objs ?y ! s) = refs_of (objs ?u ! s)" for s by (simp add: nth_upd)
  have "\<not> live v ?q"
    unfolding v
  proof (rule collect_frees)
    show "?q < length (objs ?y)" using q by simp
    show "?q \<notin> set (refs_of (objs ?y ! s))" if "live ?y s" for s
    proof -
      have "live ?u s" using that lv by simp
      then show ?thesis unfolding refs by (rule f(6))
    qed
  qed (rule own)
  moreover have "pending (hist v) ?q = 0"
    using f(1) assms(5) by (simp add: v call_submits)
  ultimately show ?thesis by simp
qed

end

section \<open>\<^verbatim>\<open>stream.h\<close>, \<^verbatim>\<open>stream.ipp\<close>\<close>

definition DEFAULT_BACKLOG :: int where
  "DEFAULT_BACKLOG = 128"

datatype (plugins only: code) stream_op =
    Stream_shutdown | Stream_listen int | Stream_accept oid | Stream_read | Stream_read_alloc nat | Stream_stop
  | Stream_write bytes u32 | Stream_write_raw bytes u32
  | Stream_write_handle oid bytes u32 | Stream_write_handle_raw oid bytes u32
  | Stream_try_write bytes u32 | Stream_try_write_handle bytes u32 oid
  | Stream_try_write_raw bytes u32 | Stream_try_write_handle_raw bytes u32 oid
  | Stream_readable | Stream_writable | Stream_blocking bool | Stream_write_queue_size

definition connect_callback :: "libuv \<Rightarrow> behaviour \<Rightarrow> int \<Rightarrow> oid \<Rightarrow> world \<Rightarrow> ub + world" where
  "connect_callback uv beh status p w =
     with_reserve uv cb_connect p (publish beh (status_event status Ev_connect) p) w"

text \<open>
  The operations of the internal requests, each on the request \<^verbatim>\<open>q\<close>. \<^verbatim>\<open>connect_req::connect\<close> gets the call
  to make; its overload for a libuv function that returns nothing always makes the request hold
  itself, and no class of the library uses it.
\<close>

definition connect_req_connect :: "libuv \<Rightarrow> (oid \<Rightarrow> uv_call) \<Rightarrow> oid \<Rightarrow> world \<Rightarrow> int \<times> world" where
  "connect_req_connect uv call = (\<lambda>q. leak_if_call uv q (call q))"

definition connect_req_connect_void :: "libuv \<Rightarrow> (oid \<Rightarrow> uv_call) \<Rightarrow> oid \<Rightarrow> world \<Rightarrow> int \<times> world" where
  "connect_req_connect_void uv call = (\<lambda>q w. leak_if q 0 (snd (uvcall uv (call q) w)))"

definition shutdown_req_shutdown :: "libuv \<Rightarrow> oid \<Rightarrow> oid \<Rightarrow> world \<Rightarrow> int \<times> world" where
  "shutdown_req_shutdown uv p = (\<lambda>q. leak_if_call uv q (C_stream (uv_shutdown q p cb_shutdown)))"

text \<open>The constructor of a write request keeps the buffer, which its two operations pass on.\<close>

definition write_req :: "bytes \<Rightarrow> u32 \<Rightarrow> kind" where
  "write_req d n = K_write_req (uv_buf_init d n)"

definition write_buf :: "kind \<Rightarrow> uv_buf" where
  "write_buf k = (case k of K_write_req b \<Rightarrow> b | _ \<Rightarrow> uv_buf_init [] 0)"

definition write_req_write :: "libuv \<Rightarrow> kind \<Rightarrow> oid \<Rightarrow> oid \<Rightarrow> world \<Rightarrow> int \<times> world" where
  "write_req_write uv k p = (\<lambda>q. leak_if_call uv q (C_stream (uv_write q p (write_buf k) 1 cb_write)))"

definition write_req_write_send :: "libuv \<Rightarrow> kind \<Rightarrow> oid \<Rightarrow> oid \<Rightarrow> oid \<Rightarrow> world \<Rightarrow> int \<times> world" where
  "write_req_write_send uv k p send =
     (\<lambda>q. leak_if_call uv q (C_stream (uv_write2 q p (write_buf k) 1 send cb_write)))"

definition shutdown_callback :: "libuv \<Rightarrow> behaviour \<Rightarrow> int \<Rightarrow> oid \<Rightarrow> world \<Rightarrow> ub + world" where
  "shutdown_callback uv beh status p w =
     with_reserve uv cb_shutdown p (publish beh (status_event status Ev_shutdown) p) w"

definition write_callback :: "libuv \<Rightarrow> behaviour \<Rightarrow> int \<Rightarrow> oid \<Rightarrow> world \<Rightarrow> ub + world" where
  "write_callback uv beh status p w =
     with_reserve uv cb_write p (publish beh (status_event status Ev_write) p) w"

text \<open>\<^verbatim>\<open>read_callback\<close>: the end of the stream, data, an error, or nothing to report.\<close>

definition read_event :: "libuv \<Rightarrow> int \<Rightarrow> bytes \<Rightarrow> event option" where
  "read_event uv nread buf =
     (if nread = UV_EOF uv then Some Ev_end
      else if 0 < nread then Some (Ev_data buf (to_size nread))
      else if nread < 0 then Some (Ev_error (make_error_event nread))
      else None)"

definition read_callback :: "libuv \<Rightarrow> behaviour \<Rightarrow> int \<Rightarrow> bytes \<Rightarrow> oid \<Rightarrow> world \<Rightarrow> ub + world" where
  "read_callback uv beh nread buf p w =
     deref p (fire cb_read p w) (\<lambda>v.
       case read_event uv nread buf of None \<Rightarrow> Inr v | Some e \<Rightarrow> publish beh e p v)"

definition listen_callback :: "behaviour \<Rightarrow> int \<Rightarrow> oid \<Rightarrow> world \<Rightarrow> ub + world" where
  "listen_callback beh status p w = plain_callback beh cb_listen (status_event status Ev_listen) p w"

definition stream_shutdown :: "libuv \<Rightarrow> oid \<Rightarrow> world \<Rightarrow> ub + (int \<times> world)" where
  "stream_shutdown uv p w =
     forward_with uv K_shutdown_req T_shutdown (shutdown_req_shutdown uv p) p w"

definition stream_listen :: "libuv \<Rightarrow> int \<Rightarrow> oid \<Rightarrow> world \<Rightarrow> int \<times> world" where
  "stream_listen uv backlog p w = uvcall uv (C_stream (uv_listen p backlog cb_listen)) w"

definition stream_accept :: "libuv \<Rightarrow> oid \<Rightarrow> oid \<Rightarrow> world \<Rightarrow> int \<times> world" where
  "stream_accept uv client p w = uvcall uv (C_stream (uv_accept p client)) w"

definition stream_read :: "libuv \<Rightarrow> oid \<Rightarrow> world \<Rightarrow> int \<times> world" where
  "stream_read uv p w = uvcall uv (C_stream (uv_read_start p cb_alloc cb_read)) w"

text \<open>\<^verbatim>\<open>read<Alloc>()\<close>.\<close>

definition stream_read_alloc :: "libuv \<Rightarrow> nat \<Rightarrow> oid \<Rightarrow> world \<Rightarrow> int \<times> world" where
  "stream_read_alloc uv al p w = uvcall uv (C_stream (uv_read_start p (cb_custom_alloc al) cb_read)) w"

definition stream_stop :: "libuv \<Rightarrow> oid \<Rightarrow> world \<Rightarrow> int \<times> world" where
  "stream_stop uv p w = uvcall uv (C_stream (uv_read_stop p)) w"

text \<open>
  The four overloads of \<^verbatim>\<open>write\<close>: with or without a handle to send, taking the buffer over or
  borrowing it.
\<close>

definition stream_write :: "libuv \<Rightarrow> bytes \<Rightarrow> u32 \<Rightarrow> oid \<Rightarrow> world \<Rightarrow> ub + (int \<times> world)" where
  "stream_write uv d n p w =
     (let k = write_req d n in forward_with uv k T_write (write_req_write uv k p) p w)"

definition stream_write_raw :: "libuv \<Rightarrow> bytes \<Rightarrow> u32 \<Rightarrow> oid \<Rightarrow> world \<Rightarrow> ub + (int \<times> world)" where
  "stream_write_raw uv d n p w =
     (let k = write_req d n in forward_with uv k T_write (write_req_write uv k p) p w)"

definition stream_write_handle ::
  "libuv \<Rightarrow> oid \<Rightarrow> bytes \<Rightarrow> u32 \<Rightarrow> oid \<Rightarrow> world \<Rightarrow> ub + (int \<times> world)" where
  "stream_write_handle uv send d n p w =
     (let k = write_req d n in forward_with uv k T_write (write_req_write_send uv k p send) p w)"

definition stream_write_handle_raw ::
  "libuv \<Rightarrow> oid \<Rightarrow> bytes \<Rightarrow> u32 \<Rightarrow> oid \<Rightarrow> world \<Rightarrow> ub + (int \<times> world)" where
  "stream_write_handle_raw uv send d n p w =
     (let k = write_req d n in forward_with uv k T_write (write_req_write_send uv k p send) p w)"

definition stream_try_write :: "libuv \<Rightarrow> bytes \<Rightarrow> u32 \<Rightarrow> oid \<Rightarrow> world \<Rightarrow> int \<times> world" where
  "stream_try_write uv d n p w = uvcall uv (C_stream (uv_try_write p (uv_buf_init d n) 1)) w"

definition stream_try_write_handle ::
  "libuv \<Rightarrow> bytes \<Rightarrow> u32 \<Rightarrow> oid \<Rightarrow> oid \<Rightarrow> world \<Rightarrow> int \<times> world" where
  "stream_try_write_handle uv d n send p w =
     uvcall uv (C_stream (uv_try_write2 p (uv_buf_init d n) 1 send)) w"

text \<open>The overloads for a pointer that stays with the caller make the same calls.\<close>

definition stream_try_write_raw :: "libuv \<Rightarrow> bytes \<Rightarrow> u32 \<Rightarrow> oid \<Rightarrow> world \<Rightarrow> int \<times> world" where
  "stream_try_write_raw uv d n p w = uvcall uv (C_stream (uv_try_write p (uv_buf_init d n) 1)) w"

definition stream_try_write_handle_raw ::
  "libuv \<Rightarrow> bytes \<Rightarrow> u32 \<Rightarrow> oid \<Rightarrow> oid \<Rightarrow> world \<Rightarrow> int \<times> world" where
  "stream_try_write_handle_raw uv d n send p w =
     uvcall uv (C_stream (uv_try_write2 p (uv_buf_init d n) 1 send)) w"

definition stream_readable :: "libuv \<Rightarrow> oid \<Rightarrow> world \<Rightarrow> bool \<times> world" where
  "stream_readable uv p w = (let (r, v) = uvcall uv (C_stream (uv_is_readable p)) w in (r = 1, v))"

definition stream_writable :: "libuv \<Rightarrow> oid \<Rightarrow> world \<Rightarrow> bool \<times> world" where
  "stream_writable uv p w = (let (r, v) = uvcall uv (C_stream (uv_is_writable p)) w in (r = 1, v))"

definition stream_blocking :: "libuv \<Rightarrow> bool \<Rightarrow> oid \<Rightarrow> world \<Rightarrow> bool \<times> world" where
  "stream_blocking uv enable p w =
     (let (r, v) = uvcall uv (C_stream (uv_stream_set_blocking p enable)) w in (0 = r, v))"

definition stream_write_queue_size :: "libuv \<Rightarrow> oid \<Rightarrow> world \<Rightarrow> u64 \<times> world" where
  "stream_write_queue_size uv p w =
     (let (r, v) = uvcall uv (C_stream (uv_stream_get_write_queue_size p)) w in (word_of_int r, v))"

definition run_forward :: "ub + (int \<times> world) \<Rightarrow> ub + world" where
  "run_forward x = map_sum id snd x"

definition stream_exec :: "libuv \<Rightarrow> stream_op \<Rightarrow> oid \<Rightarrow> world \<Rightarrow> ub + world" where
  "stream_exec uv op p w =
     (case op of
        Stream_shutdown \<Rightarrow> run_forward (stream_shutdown uv p w)
      | Stream_listen b \<Rightarrow> Inr (snd (stream_listen uv b p w))
      | Stream_accept c \<Rightarrow> Inr (snd (stream_accept uv c p w))
      | Stream_read \<Rightarrow> Inr (snd (stream_read uv p w))
      | Stream_read_alloc al \<Rightarrow> Inr (snd (stream_read_alloc uv al p w))
      | Stream_stop \<Rightarrow> Inr (snd (stream_stop uv p w))
      | Stream_write d n \<Rightarrow> run_forward (stream_write uv d n p w)
      | Stream_write_raw d n \<Rightarrow> run_forward (stream_write_raw uv d n p w)
      | Stream_write_handle s d n \<Rightarrow> run_forward (stream_write_handle uv s d n p w)
      | Stream_write_handle_raw s d n \<Rightarrow> run_forward (stream_write_handle_raw uv s d n p w)
      | Stream_try_write d n \<Rightarrow> Inr (snd (stream_try_write uv d n p w))
      | Stream_try_write_handle d n s \<Rightarrow> Inr (snd (stream_try_write_handle uv d n s p w))
      | Stream_try_write_raw d n \<Rightarrow> Inr (snd (stream_try_write_raw uv d n p w))
      | Stream_try_write_handle_raw d n s \<Rightarrow> Inr (snd (stream_try_write_handle_raw uv d n s p w))
      | Stream_readable \<Rightarrow> Inr (snd (stream_readable uv p w))
      | Stream_writable \<Rightarrow> Inr (snd (stream_writable uv p w))
      | Stream_blocking b \<Rightarrow> Inr (snd (stream_blocking uv b p w))
      | Stream_write_queue_size \<Rightarrow> Inr (snd (stream_write_queue_size uv p w)))"

section \<open>\<^verbatim>\<open>tcp.h\<close>, \<^verbatim>\<open>tcp.ipp\<close>\<close>

datatype (plugins only: code) tcp_op =
    Tcp_init | Tcp_open int | Tcp_no_delay bool | Tcp_keep_alive bool u32
  | Tcp_simultaneous_accepts bool | Tcp_bind bytes flags | Tcp_bind_ip string u32 flags
  | Tcp_bind_address socket_address flags | Tcp_sock | Tcp_peer | Tcp_connect bytes
  | Tcp_connect_ip string u32 | Tcp_connect_address socket_address | Tcp_close_reset

datatype (plugins only: code) tcp_flag = TCP_IPV6ONLY

definition tcp_flag_value :: "tcp_flag \<Rightarrow> flags" where
  "tcp_flag_value f = (case f of TCP_IPV6ONLY \<Rightarrow> 1)"

definition tcp_handle :: "u32 \<Rightarrow> kind" where
  "tcp_handle f = K_tcp (if f \<noteq> 0 then FLAGS else DEFAULT) f"

definition tcp_init_call :: "oid \<Rightarrow> world \<Rightarrow> uv_call" where
  "tcp_init_call p w =
     (case kind (objs w ! p) of
        K_tcp FLAGS f \<Rightarrow> C_tcp (uv_tcp_init_ex (parent_raw w p) p f)
      | _ \<Rightarrow> C_tcp (uv_tcp_init (parent_raw w p) p))"

definition tcp_init :: "libuv \<Rightarrow> oid \<Rightarrow> world \<Rightarrow> int \<times> world" where
  "tcp_init uv p w = leak_if_call uv p (tcp_init_call p w) w"

definition tcp_open :: "libuv \<Rightarrow> int \<Rightarrow> oid \<Rightarrow> world \<Rightarrow> int \<times> world" where
  "tcp_open uv socket p w = uvcall uv (C_tcp (uv_tcp_open p socket)) w"

definition tcp_no_delay :: "libuv \<Rightarrow> bool \<Rightarrow> oid \<Rightarrow> world \<Rightarrow> bool \<times> world" where
  "tcp_no_delay uv value p w =
     (let (r, v) = uvcall uv (C_tcp (uv_tcp_nodelay p value)) w in (0 = r, v))"

definition tcp_keep_alive :: "libuv \<Rightarrow> bool \<Rightarrow> u32 \<Rightarrow> oid \<Rightarrow> world \<Rightarrow> bool \<times> world" where
  "tcp_keep_alive uv enable val p w =
     (let (r, v) = uvcall uv (C_tcp (uv_tcp_keepalive p enable val)) w in (0 = r, v))"

definition tcp_simultaneous_accepts :: "libuv \<Rightarrow> bool \<Rightarrow> oid \<Rightarrow> world \<Rightarrow> bool \<times> world" where
  "tcp_simultaneous_accepts uv enable p w =
     (let (r, v) = uvcall uv (C_tcp (uv_tcp_simultaneous_accepts p enable)) w in (0 = r, v))"

definition tcp_bind :: "libuv \<Rightarrow> bytes \<Rightarrow> flags \<Rightarrow> oid \<Rightarrow> world \<Rightarrow> int \<times> world" where
  "tcp_bind uv addr opts p w = uvcall uv (C_tcp (uv_tcp_bind p addr opts)) w"

definition tcp_bind_ip :: "libuv \<Rightarrow> netlib \<Rightarrow> string \<Rightarrow> u32 \<Rightarrow> flags \<Rightarrow> oid \<Rightarrow> world \<Rightarrow> int \<times> world" where
  "tcp_bind_ip uv net a pt opts p w = tcp_bind uv (ip_addr net (c_str a) pt) opts p w"

definition tcp_bind_address ::
  "libuv \<Rightarrow> netlib \<Rightarrow> socket_address \<Rightarrow> flags \<Rightarrow> oid \<Rightarrow> world \<Rightarrow> int \<times> world" where
  "tcp_bind_address uv net addr opts p w = tcp_bind_ip uv net (ip addr) (port addr) opts p w"

text \<open>
  \<^verbatim>\<open>sock\<close> and \<^verbatim>\<open>peer\<close>: the storage has no initialiser and the error code is dropped, so that the
  conversion reads what libuv stored, or an indeterminate value.
\<close>

definition tcp_sock :: "libuv \<Rightarrow> netlib \<Rightarrow> oid \<Rightarrow> world \<Rightarrow> ub + (socket_address \<times> world)" where
  "tcp_sock uv net p w =
     (let c = C_tcp (uv_tcp_getsockname p) in
      case out_bytes uv (hist w) c of
        None \<Rightarrow> Inl Indeterminate_value
      | Some storage \<Rightarrow> Inr (sock_addr_storage net storage, snd (uvcall uv c w)))"

definition tcp_peer :: "libuv \<Rightarrow> netlib \<Rightarrow> oid \<Rightarrow> world \<Rightarrow> ub + (socket_address \<times> world)" where
  "tcp_peer uv net p w =
     (let c = C_tcp (uv_tcp_getpeername p) in
      case out_bytes uv (hist w) c of
        None \<Rightarrow> Inl Indeterminate_value
      | Some storage \<Rightarrow> Inr (sock_addr_storage net storage, snd (uvcall uv c w)))"

definition tcp_connect :: "libuv \<Rightarrow> bytes \<Rightarrow> oid \<Rightarrow> world \<Rightarrow> ub + (int \<times> world)" where
  "tcp_connect uv addr p w =
     forward_with uv K_connect_req T_connect
       (connect_req_connect uv (\<lambda>q. C_tcp (uv_tcp_connect q p addr cb_connect))) p w"

definition tcp_connect_ip :: "libuv \<Rightarrow> netlib \<Rightarrow> string \<Rightarrow> u32 \<Rightarrow> oid \<Rightarrow> world \<Rightarrow> ub + (int \<times> world)" where
  "tcp_connect_ip uv net a pt p w = tcp_connect uv (ip_addr net (c_str a) pt) p w"

definition tcp_connect_address ::
  "libuv \<Rightarrow> netlib \<Rightarrow> socket_address \<Rightarrow> oid \<Rightarrow> world \<Rightarrow> ub + (int \<times> world)" where
  "tcp_connect_address uv net addr p w = tcp_connect_ip uv net (ip addr) (port addr) p w"

definition tcp_close_reset :: "libuv \<Rightarrow> oid \<Rightarrow> world \<Rightarrow> int \<times> world" where
  "tcp_close_reset uv p w = uvcall uv (C_tcp (uv_tcp_close_reset p cb_close)) w"

definition tcp_exec :: "libuv \<Rightarrow> netlib \<Rightarrow> tcp_op \<Rightarrow> oid \<Rightarrow> world \<Rightarrow> ub + world" where
  "tcp_exec uv net op p w =
     (case op of
        Tcp_init \<Rightarrow> Inr (snd (tcp_init uv p w))
      | Tcp_open s \<Rightarrow> Inr (snd (tcp_open uv s p w))
      | Tcp_no_delay b \<Rightarrow> Inr (snd (tcp_no_delay uv b p w))
      | Tcp_keep_alive b t \<Rightarrow> Inr (snd (tcp_keep_alive uv b t p w))
      | Tcp_simultaneous_accepts b \<Rightarrow> Inr (snd (tcp_simultaneous_accepts uv b p w))
      | Tcp_bind a f \<Rightarrow> Inr (snd (tcp_bind uv a f p w))
      | Tcp_bind_ip a pt f \<Rightarrow> Inr (snd (tcp_bind_ip uv net a pt f p w))
      | Tcp_bind_address a f \<Rightarrow> Inr (snd (tcp_bind_address uv net a f p w))
      | Tcp_sock \<Rightarrow> map_sum id snd (tcp_sock uv net p w)
      | Tcp_peer \<Rightarrow> map_sum id snd (tcp_peer uv net p w)
      | Tcp_connect a \<Rightarrow> run_forward (tcp_connect uv a p w)
      | Tcp_connect_ip a pt \<Rightarrow> run_forward (tcp_connect_ip uv net a pt p w)
      | Tcp_connect_address a \<Rightarrow> run_forward (tcp_connect_address uv net a p w)
      | Tcp_close_reset \<Rightarrow> Inr (snd (tcp_close_reset uv p w)))"

section \<open>\<^verbatim>\<open>pipe.h\<close>, \<^verbatim>\<open>pipe.ipp\<close>\<close>

datatype (plugins only: code) pipe_op =
    Pipe_init | Pipe_open int | Pipe_bind string bool | Pipe_connect string bool | Pipe_sock
  | Pipe_peer | Pipe_set_pending int | Pipe_pending | Pipe_receive | Pipe_chmod flags

datatype (plugins only: code) chmod_flag = CHMOD_READABLE | CHMOD_WRITABLE

definition chmod_flag_value :: "chmod_flag \<Rightarrow> flags" where
  "chmod_flag_value f = (case f of CHMOD_READABLE \<Rightarrow> 1 | CHMOD_WRITABLE \<Rightarrow> 2)"

definition UV_PIPE_NO_TRUNCATE :: u32 where
  "UV_PIPE_NO_TRUNCATE = 1"

definition pipe_handle :: "bool \<Rightarrow> kind" where
  "pipe_handle pass = K_pipe pass"

definition pipe_ipc :: "kind \<Rightarrow> bool" where
  "pipe_ipc k = (case k of K_pipe b \<Rightarrow> b | _ \<Rightarrow> False)"

definition pipe_init :: "libuv \<Rightarrow> oid \<Rightarrow> world \<Rightarrow> int \<times> world" where
  "pipe_init uv p w =
     leak_if_call uv p (C_pipe (uv_pipe_init (parent_raw w p) p (pipe_ipc (kind (objs w ! p))))) w"

definition pipe_open :: "libuv \<Rightarrow> int \<Rightarrow> oid \<Rightarrow> world \<Rightarrow> int \<times> world" where
  "pipe_open uv f p w = uvcall uv (C_pipe (uv_pipe_open p f)) w"

definition pipe_flags :: "bool \<Rightarrow> u32" where
  "pipe_flags no_truncate = of_bool no_truncate * UV_PIPE_NO_TRUNCATE"

definition pipe_bind :: "libuv \<Rightarrow> string \<Rightarrow> bool \<Rightarrow> oid \<Rightarrow> world \<Rightarrow> int \<times> world" where
  "pipe_bind uv name no_truncate p w =
     uvcall uv (C_pipe (uv_pipe_bind2 p name (length name) (pipe_flags no_truncate))) w"

definition pipe_connect :: "libuv \<Rightarrow> string \<Rightarrow> bool \<Rightarrow> oid \<Rightarrow> world \<Rightarrow> ub + (int \<times> world)" where
  "pipe_connect uv name no_truncate p w =
     forward_with uv K_connect_req T_connect
       (connect_req_connect uv
         (\<lambda>q. C_pipe (uv_pipe_connect2 q p name (length name) (pipe_flags no_truncate) cb_connect))) p w"

definition pipe_sock :: "libuv \<Rightarrow> oid \<Rightarrow> world \<Rightarrow> string" where
  "pipe_sock uv p w = try_read (UV_ENOBUFS uv) (query_name uv (hist w) Q_pipe_sockname p)"

definition pipe_peer :: "libuv \<Rightarrow> oid \<Rightarrow> world \<Rightarrow> string" where
  "pipe_peer uv p w = try_read (UV_ENOBUFS uv) (query_name uv (hist w) Q_pipe_peername p)"

definition pipe_set_pending :: "libuv \<Rightarrow> int \<Rightarrow> oid \<Rightarrow> world \<Rightarrow> world" where
  "pipe_set_pending uv n p w = snd (uvcall uv (C_pipe (uv_pipe_pending_instances p n)) w)"

definition pipe_pending :: "libuv \<Rightarrow> oid \<Rightarrow> world \<Rightarrow> int \<times> world" where
  "pipe_pending uv p w = uvcall uv (C_pipe (uv_pipe_pending_count p)) w"

definition pipe_receive :: "libuv \<Rightarrow> oid \<Rightarrow> world \<Rightarrow> handle_type \<times> world" where
  "pipe_receive uv p w =
     (guess_handle (pending_type uv (hist w) p), snd (uvcall uv (C_pipe (uv_pipe_pending_type p)) w))"

definition pipe_chmod :: "libuv \<Rightarrow> flags \<Rightarrow> oid \<Rightarrow> world \<Rightarrow> int \<times> world" where
  "pipe_chmod uv f p w = uvcall uv (C_pipe (uv_pipe_chmod p f)) w"

definition pipe_exec :: "libuv \<Rightarrow> pipe_op \<Rightarrow> oid \<Rightarrow> world \<Rightarrow> ub + world" where
  "pipe_exec uv op p w =
     (case op of
        Pipe_init \<Rightarrow> Inr (snd (pipe_init uv p w))
      | Pipe_open f \<Rightarrow> Inr (snd (pipe_open uv f p w))
      | Pipe_bind n b \<Rightarrow> Inr (snd (pipe_bind uv n b p w))
      | Pipe_connect n b \<Rightarrow> run_forward (pipe_connect uv n b p w)
      | Pipe_sock \<Rightarrow> Inr w
      | Pipe_peer \<Rightarrow> Inr w
      | Pipe_set_pending n \<Rightarrow> Inr (pipe_set_pending uv n p w)
      | Pipe_pending \<Rightarrow> Inr (snd (pipe_pending uv p w))
      | Pipe_receive \<Rightarrow> Inr (snd (pipe_receive uv p w))
      | Pipe_chmod f \<Rightarrow> Inr (snd (pipe_chmod uv f p w)))"

section \<open>\<^verbatim>\<open>tty.h\<close>, \<^verbatim>\<open>tty.ipp\<close>\<close>

datatype (plugins only: code) tty_mode = TTY_NORMAL | TTY_RAW | TTY_IO
datatype (plugins only: code) tty_vtermstate = VTERM_SUPPORTED | VTERM_UNSUPPORTED

definition tty_mode_value :: "tty_mode \<Rightarrow> nat" where
  "tty_mode_value m = (case m of TTY_NORMAL \<Rightarrow> 0 | TTY_RAW \<Rightarrow> 1 | TTY_IO \<Rightarrow> 2)"

datatype (plugins only: code) tty_op =
    Tty_init | Tty_mode tty_mode | Tty_reset_mode | Tty_get_win_size
  | Tty_set_vterm_state tty_vtermstate | Tty_vterm_state

record win_size =
  width :: int
  height :: int

definition tty_handle :: "int \<Rightarrow> bool \<Rightarrow> kind" where
  "tty_handle desc readable = K_tty desc readable"

definition tty_init_call :: "oid \<Rightarrow> world \<Rightarrow> uv_call" where
  "tty_init_call p w =
     (case kind (objs w ! p) of
        K_tty f r \<Rightarrow> C_tty (uv_tty_init (parent_raw w p) p f r)
      | _ \<Rightarrow> C_tty (uv_tty_init (parent_raw w p) p 0 False))"

definition tty_init :: "libuv \<Rightarrow> oid \<Rightarrow> world \<Rightarrow> int \<times> world" where
  "tty_init uv p w = leak_if_call uv p (tty_init_call p w) w"

definition tty_set_mode :: "libuv \<Rightarrow> tty_mode \<Rightarrow> oid \<Rightarrow> world \<Rightarrow> bool \<times> world" where
  "tty_set_mode uv m p w =
     (let (r, v) = uvcall uv (C_tty (uv_tty_set_mode p (tty_mode_value m))) w in (0 = r, v))"

definition tty_reset_mode :: "libuv \<Rightarrow> world \<Rightarrow> bool \<times> world" where
  "tty_reset_mode uv w = (let (r, v) = uvcall uv (C_tty uv_tty_reset_mode) w in (0 = r, v))"

text \<open>\<^verbatim>\<open>get_win_size\<close>: the members have no initialiser; -1 in case of errors.\<close>

definition tty_get_win_size :: "libuv \<Rightarrow> oid \<Rightarrow> world \<Rightarrow> ub + (win_size \<times> world)" where
  "tty_get_win_size uv p w =
     (let c = C_tty (uv_tty_get_winsize p); (r, v) = uvcall uv c w in
      if 0 \<noteq> r then Inr (\<lparr>width = -1, height = -1\<rparr>, v)
      else case out_pair uv (hist w) c of
             None \<Rightarrow> Inl Indeterminate_value
           | Some (x, y) \<Rightarrow> Inr (\<lparr>width = x, height = y\<rparr>, v))"

definition tty_set_vterm_state :: "libuv \<Rightarrow> tty_vtermstate \<Rightarrow> world \<Rightarrow> world" where
  "tty_set_vterm_state uv s w =
     (case s of
        VTERM_SUPPORTED \<Rightarrow> snd (uvcall uv (C_tty (uv_tty_set_vterm_state 0)) w)
      | VTERM_UNSUPPORTED \<Rightarrow> snd (uvcall uv (C_tty (uv_tty_set_vterm_state 1)) w))"

definition tty_vterm_state :: "libuv \<Rightarrow> world \<Rightarrow> ub + (int \<times> world)" where
  "tty_vterm_state uv w =
     (let c = C_tty uv_tty_get_vterm_state in
      case out_int uv (hist w) c of
        None \<Rightarrow> Inl Indeterminate_value
      | Some s \<Rightarrow> Inr (s, snd (uvcall uv c w)))"

definition tty_exec :: "libuv \<Rightarrow> tty_op \<Rightarrow> oid \<Rightarrow> world \<Rightarrow> ub + world" where
  "tty_exec uv op p w =
     (case op of
        Tty_init \<Rightarrow> Inr (snd (tty_init uv p w))
      | Tty_mode m \<Rightarrow> Inr (snd (tty_set_mode uv m p w))
      | Tty_reset_mode \<Rightarrow> Inr (snd (tty_reset_mode uv w))
      | Tty_get_win_size \<Rightarrow> map_sum id snd (tty_get_win_size uv p w)
      | Tty_set_vterm_state s \<Rightarrow> Inr (tty_set_vterm_state uv s w)
      | Tty_vterm_state \<Rightarrow> map_sum id snd (tty_vterm_state uv w))"

section \<open>The classes implement the contracts\<close>

lemmas request_op_defs =
  connect_req_connect_def shutdown_req_shutdown_def write_req_write_def write_req_write_send_def write_req_def
  write_buf_def kind.case Let_def

lemmas forward_contract_defs =
  forward_request_def request_op_defs
  internal_kind_def handle_kind_def stream_kind_def has_memo_def fs_kind_of_def events_of_def own_tags_def
  opens_def submits_def

interpretation shutdown_f: forwarding stream_shutdown K_shutdown_req T_shutdown
  "\<lambda>p q. C_stream (uv_shutdown q p cb_shutdown)"
  by unfold_locales (simp_all add: stream_shutdown_def forward_contract_defs)

interpretation write_f: forwarding "\<lambda>uv. stream_write uv d n" "K_write_req (uv_buf_init d n)" T_write
  "\<lambda>p q. C_stream (uv_write q p (uv_buf_init d n) 1 cb_write)" for d n
  by unfold_locales (simp_all add: stream_write_def forward_contract_defs)

interpretation write_raw_f: forwarding "\<lambda>uv. stream_write_raw uv d n" "K_write_req (uv_buf_init d n)" T_write
  "\<lambda>p q. C_stream (uv_write q p (uv_buf_init d n) 1 cb_write)" for d n
  by unfold_locales (simp_all add: stream_write_raw_def forward_contract_defs)

interpretation write_handle_f: forwarding "\<lambda>uv. stream_write_handle uv s d n"
  "K_write_req (uv_buf_init d n)" T_write
  "\<lambda>p q. C_stream (uv_write2 q p (uv_buf_init d n) 1 s cb_write)" for s d n
  by unfold_locales (simp_all add: stream_write_handle_def forward_contract_defs)

interpretation write_handle_raw_f: forwarding "\<lambda>uv. stream_write_handle_raw uv s d n"
  "K_write_req (uv_buf_init d n)" T_write
  "\<lambda>p q. C_stream (uv_write2 q p (uv_buf_init d n) 1 s cb_write)" for s d n
  by unfold_locales (simp_all add: stream_write_handle_raw_def forward_contract_defs)

interpretation tcp_connect_f: forwarding "\<lambda>uv. tcp_connect uv a" K_connect_req T_connect
  "\<lambda>p q. C_tcp (uv_tcp_connect q p a cb_connect)" for a
  by unfold_locales (simp_all add: tcp_connect_def forward_contract_defs)

interpretation pipe_connect_f: forwarding "\<lambda>uv. pipe_connect uv name b" K_connect_req T_connect
  "\<lambda>p q. C_pipe (uv_pipe_connect2 q p name (length name) (pipe_flags b) cb_connect)" for name b
  by unfold_locales (simp_all add: pipe_connect_def forward_contract_defs)

interpretation tcp_i: handle_init tcp_init tcp_init_call "\<lambda>k. \<exists>t f. k = K_tcp t f"
  by unfold_locales
    (auto simp: tcp_init_def tcp_init_call_def init_contract_defs stream_kind_def
      split: kind.splits init_tag.splits)

interpretation pipe_i: handle_init pipe_init
  "\<lambda>p w. C_pipe (uv_pipe_init (parent_raw w p) p (pipe_ipc (kind (objs w ! p))))" "\<lambda>k. \<exists>b. k = K_pipe b"
  by unfold_locales (auto simp: pipe_init_def init_contract_defs stream_kind_def)

interpretation tty_i: handle_init tty_init tty_init_call "\<lambda>k. \<exists>f r. k = K_tty f r"
  by unfold_locales
    (auto simp: tty_init_def tty_init_call_def init_contract_defs stream_kind_def split: kind.splits)

section \<open>Every operation keeps the invariant\<close>

lemma run_forward_good:
  assumes "\<exists>r u. x = Inr (r, u) \<and> good w u" and "run_forward x = Inr v"
  shows "good w v"
  using assms by (auto simp: run_forward_def)

lemma stream_handle_kind: "stream_kind k \<Longrightarrow> handle_kind k"
  by (simp add: handle_kind_def)

lemma quiet_calls:
  "quiet (C_stream (uv_listen p b cb)) r" "quiet (C_stream (uv_accept p q)) r"
  "quiet (C_stream (uv_read_start p cb cb2)) r" "quiet (C_stream (uv_read_stop p)) r"
  "quiet (C_stream (uv_try_write p x n)) r" "quiet (C_stream (uv_try_write2 p x n q)) r"
  "quiet (C_stream (uv_is_readable p)) r" "quiet (C_stream (uv_is_writable p)) r"
  "quiet (C_stream (uv_stream_set_blocking p f)) r"
  "quiet (C_stream (uv_stream_get_write_queue_size p)) r"
  "quiet (C_tcp (uv_tcp_open p s)) r" "quiet (C_tcp (uv_tcp_nodelay p f)) r"
  "quiet (C_tcp (uv_tcp_keepalive p f m)) r" "quiet (C_tcp (uv_tcp_simultaneous_accepts p f)) r"
  "quiet (C_tcp (uv_tcp_bind p a g)) r" "quiet (C_tcp (uv_tcp_getsockname p)) r"
  "quiet (C_tcp (uv_tcp_getpeername p)) r" "quiet (C_tcp (uv_tcp_close_reset p cb)) r"
  "quiet (C_pipe (uv_pipe_open p s)) r" "quiet (C_pipe (uv_pipe_bind2 p nm n g)) r"
  "quiet (C_pipe (uv_pipe_pending_instances p s)) r" "quiet (C_pipe (uv_pipe_pending_count p)) r"
  "quiet (C_pipe (uv_pipe_pending_type p)) r" "quiet (C_pipe (uv_pipe_chmod p g)) r"
  "quiet (C_tty (uv_tty_set_mode p n)) r" "quiet (C_tty uv_tty_reset_mode) r"
  "quiet (C_tty (uv_tty_get_winsize p)) r" "quiet (C_tty (uv_tty_set_vterm_state n)) r"
  "quiet (C_tty uv_tty_get_vterm_state) r"
  by (simp_all add: quiet_def opens_def submits_def)

lemmas stream_defs =
  stream_listen_def stream_accept_def stream_read_def stream_read_alloc_def stream_stop_def stream_try_write_def stream_try_write_raw_def
  stream_try_write_handle_raw_def
  stream_try_write_handle_def stream_readable_def stream_writable_def stream_blocking_def
  stream_write_queue_size_def

lemma stream_exec_good:
  assumes "invar w" and "live w p" and "stream_kind (kind (objs w ! p))"
    and "stream_exec uv op p w = Inr v"
  shows "good w v"
proof -
  have h: "handle_kind (kind (objs w ! p))" using assms(3) by (rule stream_handle_kind)
  note f = run_forward_good [OF shutdown_f.op_keeps [OF assms(1,2) h]]
    run_forward_good [OF write_f.op_keeps [OF assms(1,2) h]]
    run_forward_good [OF write_raw_f.op_keeps [OF assms(1,2) h]]
    run_forward_good [OF write_handle_f.op_keeps [OF assms(1,2) h]]
    run_forward_good [OF write_handle_raw_f.op_keeps [OF assms(1,2) h]]
  show ?thesis
    using assms(1,4) f
    by (cases op)
      (auto simp: stream_exec_def stream_defs good_uvcall quiet_calls case_prod_beta)
qed

lemma tcp_exec_good:
  assumes "invar w" and "live w p" and "kind (objs w ! p) = K_tcp t f"
    and "tcp_exec uv net op p w = Inr v"
  shows "good w v"
proof -
  have h: "handle_kind (kind (objs w ! p))" using assms(3) by (simp add: handle_kind_def stream_kind_def)
  show ?thesis
    using assms run_forward_good [OF tcp_connect_f.op_keeps [OF assms(1,2) h]]
    by (cases op)
      (auto simp: tcp_exec_def tcp_i.init_keeps tcp_open_def tcp_no_delay_def tcp_keep_alive_def
        tcp_simultaneous_accepts_def tcp_bind_def tcp_bind_ip_def tcp_bind_address_def tcp_sock_def
        tcp_peer_def tcp_connect_ip_def tcp_connect_address_def tcp_close_reset_def good_uvcall
        quiet_calls case_prod_beta Let_def split: option.splits)
qed

lemma pipe_exec_good:
  assumes "invar w" and "live w p" and "kind (objs w ! p) = K_pipe b"
    and "pipe_exec uv op p w = Inr v"
  shows "good w v"
proof -
  have h: "handle_kind (kind (objs w ! p))" using assms(3) by (simp add: handle_kind_def stream_kind_def)
  show ?thesis
    using assms run_forward_good [OF pipe_connect_f.op_keeps [OF assms(1,2) h]]
    by (cases op)
      (auto simp: pipe_exec_def pipe_i.init_keeps pipe_open_def pipe_bind_def pipe_set_pending_def
        pipe_pending_def pipe_receive_def pipe_chmod_def good_uvcall quiet_calls good_refl)
qed

lemma tty_exec_good:
  assumes "invar w" and "live w p" and "kind (objs w ! p) = K_tty f r"
    and "tty_exec uv op p w = Inr v"
  shows "good w v"
  using assms
  by (cases op)
    (auto simp: tty_exec_def tty_i.init_keeps tty_set_mode_def tty_reset_mode_def tty_get_win_size_def
      tty_set_vterm_state_def tty_vterm_state_def good_uvcall quiet_calls case_prod_beta Let_def
      split: option.splits if_splits tty_vtermstate.splits)

section \<open>Properties\<close>

text \<open>
  C19. What a read callback publishes: the end of the stream for \<^verbatim>\<open>UV_EOF\<close> and nothing else, data with
  the number of bytes read, any other negative value as an error with that code, and nothing when
  no bytes were read.
\<close>

theorem read_event_cases:
  assumes "int32_range nread" and "UV_EOF uv < 0"
  shows "(read_event uv nread buf = Some Ev_end \<longleftrightarrow> nread = UV_EOF uv) \<and>
    (\<forall>d n. read_event uv nread buf = Some (Ev_data d n) \<longleftrightarrow> 0 < nread \<and> d = buf \<and> uint n = nread) \<and>
    (\<forall>x. read_event uv nread buf = Some (Ev_error x) \<longleftrightarrow>
       nread < 0 \<and> nread \<noteq> UV_EOF uv \<and> error_code x = nread) \<and>
    (read_event uv nread buf = None \<longleftrightarrow> nread = 0)"
proof -
  have size: "to_size nread = n \<longleftrightarrow> uint n = nread" if "0 < nread" for n
    using that assms to_size_nonneg [of nread]
    by (auto simp: int32_range_def) (metis word_of_int_uint to_size_def)
  have err: "make_error_event nread = x \<longleftrightarrow> error_code x = nread" for x
    using assms by (cases x) (auto simp: make_error_event_def error_code_def)
  show ?thesis
    unfolding read_event_def using assms(2) by (auto simp: size err)
qed

theorem read_event_cases_witness: "read_event sample_libuv (-4095) [] = Some Ev_end"
  using read_event_cases [of "-4095" sample_libuv "[]"] by (simp add: int32_range_def sample_libuv_def)

end
