(* ===== verification/Udp.thy ===== *)
theory Udp
  imports Streams
begin

text \<open>
  \<^verbatim>\<open>src/uvw/udp.h\<close> and \<^verbatim>\<open>udp.ipp\<close>: the UDP handle and its internal \<^verbatim>\<open>send_req\<close>. \<^verbatim>\<open>send\<close> has the contract
  of a forwarding operation, \<^verbatim>\<open>init\<close> that of the other handles.
\<close>

section \<open>Definitions\<close>

datatype (plugins only: code) udp_flag =
    UDP_IPV6ONLY | UDP_PARTIAL | UDP_REUSEADDR | UDP_MMSG_CHUNK | UDP_MMSG_FREE
  | UDP_LINUX_RECVERR | UDP_RECVMMSG

definition udp_flag_value :: "udp_flag \<Rightarrow> flags" where
  "udp_flag_value f =
     (case f of
        UDP_IPV6ONLY \<Rightarrow> 1 | UDP_PARTIAL \<Rightarrow> 2 | UDP_REUSEADDR \<Rightarrow> 4 | UDP_MMSG_CHUNK \<Rightarrow> 8
      | UDP_MMSG_FREE \<Rightarrow> 16 | UDP_LINUX_RECVERR \<Rightarrow> 32 | UDP_RECVMMSG \<Rightarrow> 256)"

datatype (plugins only: code) membership = LEAVE_GROUP | JOIN_GROUP

definition membership_value :: "membership \<Rightarrow> nat" where
  "membership_value m = (case m of LEAVE_GROUP \<Rightarrow> 0 | JOIN_GROUP \<Rightarrow> 1)"

text \<open>The public members; an address is given as bytes, as an IP and a port, or as a pair of both.\<close>

datatype (plugins only: code) udp_dest = Dest_addr bytes | Dest_ip string u32 | Dest_address socket_address

datatype (plugins only: code) udp_op =
    Udp_init | Udp_open int | Udp_connect udp_dest | Udp_disconnect | Udp_peer
  | Udp_bind udp_dest flags | Udp_sock | Udp_multicast_membership string string membership
  | Udp_multicast_loop bool | Udp_multicast_ttl int | Udp_multicast_interface string
  | Udp_broadcast bool | Udp_ttl int | Udp_send udp_dest bytes u32 | Udp_send_raw udp_dest bytes u32
  | Udp_try_send udp_dest bytes u32 | Udp_recv | Udp_recv_alloc nat | Udp_stop | Udp_send_queue_size
  | Udp_send_queue_count

definition udp_handle :: "u32 \<Rightarrow> kind" where
  "udp_handle f = K_udp FLAGS f"

definition udp_init_call :: "oid \<Rightarrow> world \<Rightarrow> uv_call" where
  "udp_init_call p w =
     (case kind (objs w ! p) of
        K_udp FLAGS f \<Rightarrow> C_udp (uv_udp_init_ex (parent_raw w p) p f)
      | _ \<Rightarrow> C_udp (uv_udp_init (parent_raw w p) p))"

definition udp_init :: "libuv \<Rightarrow> oid \<Rightarrow> world \<Rightarrow> int \<times> world" where
  "udp_init uv p w = leak_if_call uv p (udp_init_call p w) w"

definition udp_open :: "libuv \<Rightarrow> int \<Rightarrow> oid \<Rightarrow> world \<Rightarrow> int \<times> world" where
  "udp_open uv socket p w = uvcall uv (C_udp (uv_udp_open p socket)) w"

definition udp_connect :: "libuv \<Rightarrow> bytes \<Rightarrow> oid \<Rightarrow> world \<Rightarrow> int \<times> world" where
  "udp_connect uv addr p w = uvcall uv (C_udp (uv_udp_connect p (Some addr))) w"

text \<open>The overloads convert an IP and a port with \<^verbatim>\<open>ip_addr\<close>, and a \<^verbatim>\<open>socket_address\<close> to these.\<close>

definition dest_addr :: "netlib \<Rightarrow> udp_dest \<Rightarrow> bytes" where
  "dest_addr net d =
     (case d of
        Dest_addr a \<Rightarrow> a
      | Dest_ip i pt \<Rightarrow> ip_addr net (c_str i) pt
      | Dest_address a \<Rightarrow> ip_addr net (c_str (ip a)) (port a))"

definition udp_disconnect :: "libuv \<Rightarrow> oid \<Rightarrow> world \<Rightarrow> int \<times> world" where
  "udp_disconnect uv p w = uvcall uv (C_udp (uv_udp_connect p None)) w"

definition udp_peer :: "libuv \<Rightarrow> netlib \<Rightarrow> oid \<Rightarrow> world \<Rightarrow> ub + (socket_address \<times> world)" where
  "udp_peer uv net p w =
     (let c = C_udp (uv_udp_getpeername p) in
      case out_bytes uv (hist w) c of
        None \<Rightarrow> Inl Indeterminate_value
      | Some storage \<Rightarrow> Inr (sock_addr_storage net storage, snd (uvcall uv c w)))"

definition udp_bind :: "libuv \<Rightarrow> bytes \<Rightarrow> flags \<Rightarrow> oid \<Rightarrow> world \<Rightarrow> int \<times> world" where
  "udp_bind uv addr opts p w = uvcall uv (C_udp (uv_udp_bind p addr opts)) w"

definition udp_sock :: "libuv \<Rightarrow> netlib \<Rightarrow> oid \<Rightarrow> world \<Rightarrow> ub + (socket_address \<times> world)" where
  "udp_sock uv net p w =
     (let c = C_udp (uv_udp_getsockname p) in
      case out_bytes uv (hist w) c of
        None \<Rightarrow> Inl Indeterminate_value
      | Some storage \<Rightarrow> Inr (sock_addr_storage net storage, snd (uvcall uv c w)))"

definition udp_multicast_membership ::
  "libuv \<Rightarrow> string \<Rightarrow> string \<Rightarrow> membership \<Rightarrow> oid \<Rightarrow> world \<Rightarrow> bool \<times> world" where
  "udp_multicast_membership uv multicast iface ms p w =
     (let (r, v) = uvcall uv (C_udp (uv_udp_set_membership p (c_str multicast) (c_str iface)
                                       (membership_value ms))) w in (0 = r, v))"

definition udp_multicast_loop :: "libuv \<Rightarrow> bool \<Rightarrow> oid \<Rightarrow> world \<Rightarrow> bool \<times> world" where
  "udp_multicast_loop uv enable p w =
     (let (r, v) = uvcall uv (C_udp (uv_udp_set_multicast_loop p enable)) w in (0 = r, v))"

definition clamp_ttl :: "int \<Rightarrow> int" where
  "clamp_ttl val = (if val > 255 then 255 else val)"

definition udp_multicast_ttl :: "libuv \<Rightarrow> int \<Rightarrow> oid \<Rightarrow> world \<Rightarrow> bool \<times> world" where
  "udp_multicast_ttl uv val p w =
     (let (r, v) = uvcall uv (C_udp (uv_udp_set_multicast_ttl p (clamp_ttl val))) w in (0 = r, v))"

definition udp_multicast_interface :: "libuv \<Rightarrow> string \<Rightarrow> oid \<Rightarrow> world \<Rightarrow> bool \<times> world" where
  "udp_multicast_interface uv iface p w =
     (let (r, v) = uvcall uv (C_udp (uv_udp_set_multicast_interface p (c_str iface))) w in (0 = r, v))"

definition udp_broadcast :: "libuv \<Rightarrow> bool \<Rightarrow> oid \<Rightarrow> world \<Rightarrow> bool \<times> world" where
  "udp_broadcast uv enable p w =
     (let (r, v) = uvcall uv (C_udp (uv_udp_set_broadcast p enable)) w in (0 = r, v))"

definition udp_ttl :: "libuv \<Rightarrow> int \<Rightarrow> oid \<Rightarrow> world \<Rightarrow> bool \<times> world" where
  "udp_ttl uv val p w =
     (let (r, v) = uvcall uv (C_udp (uv_udp_set_ttl p (clamp_ttl val))) w in (0 = r, v))"

text \<open>The request, with its buffer; \<^verbatim>\<open>send\<close>, taking the buffer over or borrowing it.\<close>

definition send_req :: "bytes \<Rightarrow> u32 \<Rightarrow> kind" where
  "send_req d n = K_send_req (uv_buf_init d n)"

definition send_buf :: "kind \<Rightarrow> uv_buf" where
  "send_buf k = (case k of K_send_req b \<Rightarrow> b | _ \<Rightarrow> uv_buf_init [] 0)"

definition send_req_send :: "libuv \<Rightarrow> kind \<Rightarrow> oid \<Rightarrow> bytes \<Rightarrow> oid \<Rightarrow> world \<Rightarrow> int \<times> world" where
  "send_req_send uv k p addr =
     (\<lambda>q. leak_if_call uv q (C_udp (uv_udp_send q p (send_buf k) 1 addr cb_send)))"

definition udp_send :: "libuv \<Rightarrow> bytes \<Rightarrow> bytes \<Rightarrow> u32 \<Rightarrow> oid \<Rightarrow> world \<Rightarrow> ub + (int \<times> world)" where
  "udp_send uv addr d n p w =
     (let k = send_req d n in forward_with uv k T_send (send_req_send uv k p addr) p w)"

definition udp_send_raw :: "libuv \<Rightarrow> bytes \<Rightarrow> bytes \<Rightarrow> u32 \<Rightarrow> oid \<Rightarrow> world \<Rightarrow> ub + (int \<times> world)" where
  "udp_send_raw uv addr d n p w =
     (let k = send_req d n in forward_with uv k T_send (send_req_send uv k p addr) p w)"

definition udp_try_send :: "libuv \<Rightarrow> bytes \<Rightarrow> bytes \<Rightarrow> u32 \<Rightarrow> oid \<Rightarrow> world \<Rightarrow> int \<times> world" where
  "udp_try_send uv addr d n p w = uvcall uv (C_udp (uv_udp_try_send p (uv_buf_init d n) 1 addr)) w"

definition udp_recv :: "libuv \<Rightarrow> oid \<Rightarrow> world \<Rightarrow> int \<times> world" where
  "udp_recv uv p w = uvcall uv (C_udp (uv_udp_recv_start p cb_alloc cb_recv)) w"

text \<open>\<^verbatim>\<open>recv<Alloc>()\<close>.\<close>

definition udp_recv_alloc :: "libuv \<Rightarrow> nat \<Rightarrow> oid \<Rightarrow> world \<Rightarrow> int \<times> world" where
  "udp_recv_alloc uv al p w = uvcall uv (C_udp (uv_udp_recv_start p (cb_custom_alloc al) cb_recv)) w"

definition udp_stop :: "libuv \<Rightarrow> oid \<Rightarrow> world \<Rightarrow> int \<times> world" where
  "udp_stop uv p w = uvcall uv (C_udp (uv_udp_recv_stop p)) w"

definition udp_send_queue_size :: "libuv \<Rightarrow> oid \<Rightarrow> world \<Rightarrow> u64 \<times> world" where
  "udp_send_queue_size uv p w =
     (let (r, v) = uvcall uv (C_udp (uv_udp_get_send_queue_size p)) w in (word_of_int r, v))"

definition udp_send_queue_count :: "libuv \<Rightarrow> oid \<Rightarrow> world \<Rightarrow> u64 \<times> world" where
  "udp_send_queue_count uv p w =
     (let (r, v) = uvcall uv (C_udp (uv_udp_get_send_queue_count p)) w in (word_of_int r, v))"

definition udp_send_callback :: "libuv \<Rightarrow> behaviour \<Rightarrow> int \<Rightarrow> oid \<Rightarrow> world \<Rightarrow> ub + world" where
  "udp_send_callback uv beh status p w =
     with_reserve uv cb_send p (publish beh (status_event status Ev_send) p) w"

text \<open>
  \<^verbatim>\<open>recv_callback\<close>: data (with the \<^verbatim>\<open>partial\<close> bit of the flags), nothing more to read, an empty
  datagram, or an error. Data without an address would dereference a null pointer.
\<close>

definition recv_event :: "netlib \<Rightarrow> int \<Rightarrow> bytes \<Rightarrow> bytes option \<Rightarrow> flags \<Rightarrow> ub + event option" where
  "recv_event net nread buf addr fl =
     (if 0 < nread then
        (case addr of
           None \<Rightarrow> Inl Null_dereference
         | Some a \<Rightarrow> Inr (Some (Ev_udp_data (sock_addr net a) buf (to_size nread)
                             (flag_test (udp_flag_value UDP_PARTIAL) fl))))
      else if nread = 0 then
        (case addr of
           None \<Rightarrow> Inr None
         | Some a \<Rightarrow> Inr (Some (Ev_udp_data (sock_addr net a) buf (to_size nread) False)))
      else Inr (Some (Ev_error (make_error_event nread))))"

definition recv_callback ::
  "behaviour \<Rightarrow> netlib \<Rightarrow> int \<Rightarrow> bytes \<Rightarrow> bytes option \<Rightarrow> flags \<Rightarrow> oid \<Rightarrow> world \<Rightarrow> ub + world" where
  "recv_callback beh net nread buf addr fl p w =
     deref p (fire cb_recv p w) (\<lambda>v.
       case recv_event net nread buf addr fl of
         Inl e \<Rightarrow> Inl e
       | Inr None \<Rightarrow> Inr v
       | Inr (Some e) \<Rightarrow> publish beh e p v)"

definition udp_exec :: "libuv \<Rightarrow> netlib \<Rightarrow> udp_op \<Rightarrow> oid \<Rightarrow> world \<Rightarrow> ub + world" where
  "udp_exec uv net op p w =
     (case op of
        Udp_init \<Rightarrow> Inr (snd (udp_init uv p w))
      | Udp_open s \<Rightarrow> Inr (snd (udp_open uv s p w))
      | Udp_connect a \<Rightarrow> Inr (snd (udp_connect uv (dest_addr net a) p w))
      | Udp_disconnect \<Rightarrow> Inr (snd (udp_disconnect uv p w))
      | Udp_peer \<Rightarrow> map_sum id snd (udp_peer uv net p w)
      | Udp_bind a f \<Rightarrow> Inr (snd (udp_bind uv (dest_addr net a) f p w))
      | Udp_sock \<Rightarrow> map_sum id snd (udp_sock uv net p w)
      | Udp_multicast_membership m i ms \<Rightarrow> Inr (snd (udp_multicast_membership uv m i ms p w))
      | Udp_multicast_loop b \<Rightarrow> Inr (snd (udp_multicast_loop uv b p w))
      | Udp_multicast_ttl n \<Rightarrow> Inr (snd (udp_multicast_ttl uv n p w))
      | Udp_multicast_interface i \<Rightarrow> Inr (snd (udp_multicast_interface uv i p w))
      | Udp_broadcast b \<Rightarrow> Inr (snd (udp_broadcast uv b p w))
      | Udp_ttl n \<Rightarrow> Inr (snd (udp_ttl uv n p w))
      | Udp_send a d n \<Rightarrow> run_forward (udp_send uv (dest_addr net a) d n p w)
      | Udp_send_raw a d n \<Rightarrow> run_forward (udp_send_raw uv (dest_addr net a) d n p w)
      | Udp_try_send a d n \<Rightarrow> Inr (snd (udp_try_send uv (dest_addr net a) d n p w))
      | Udp_recv \<Rightarrow> Inr (snd (udp_recv uv p w))
      | Udp_recv_alloc al \<Rightarrow> Inr (snd (udp_recv_alloc uv al p w))
      | Udp_stop \<Rightarrow> Inr (snd (udp_stop uv p w))
      | Udp_send_queue_size \<Rightarrow> Inr (snd (udp_send_queue_size uv p w))
      | Udp_send_queue_count \<Rightarrow> Inr (snd (udp_send_queue_count uv p w)))"

section \<open>The contracts\<close>

interpretation udp_i: handle_init udp_init udp_init_call "\<lambda>k. \<exists>t f. k = K_udp t f"
  by unfold_locales
    (auto simp: udp_init_def udp_init_call_def init_contract_defs split: kind.splits init_tag.splits)

interpretation udp_send_f: forwarding "\<lambda>uv. udp_send uv a d n" "K_send_req (uv_buf_init d n)" T_send
  "\<lambda>p q. C_udp (uv_udp_send q p (uv_buf_init d n) 1 a cb_send)" for a d n
  by unfold_locales (simp_all add: udp_send_def send_req_def send_buf_def send_req_send_def forward_contract_defs)

interpretation udp_send_raw_f: forwarding "\<lambda>uv. udp_send_raw uv a d n" "K_send_req (uv_buf_init d n)" T_send
  "\<lambda>p q. C_udp (uv_udp_send q p (uv_buf_init d n) 1 a cb_send)" for a d n
  by unfold_locales (simp_all add: udp_send_raw_def send_req_def send_buf_def send_req_send_def forward_contract_defs)

lemma quiet_udp_calls:
  "quiet (C_udp (uv_udp_open p s)) r" "quiet (C_udp (uv_udp_connect p o1)) r"
  "quiet (C_udp (uv_udp_getpeername p)) r" "quiet (C_udp (uv_udp_bind p a f)) r"
  "quiet (C_udp (uv_udp_getsockname p)) r" "quiet (C_udp (uv_udp_set_membership p s1 s2 n)) r"
  "quiet (C_udp (uv_udp_set_multicast_loop p b)) r" "quiet (C_udp (uv_udp_set_multicast_ttl p s)) r"
  "quiet (C_udp (uv_udp_set_multicast_interface p s1)) r" "quiet (C_udp (uv_udp_set_broadcast p b)) r"
  "quiet (C_udp (uv_udp_set_ttl p s)) r" "quiet (C_udp (uv_udp_try_send p x n a)) r"
  "quiet (C_udp (uv_udp_recv_start p cb cb2)) r" "quiet (C_udp (uv_udp_recv_stop p)) r"
  "quiet (C_udp (uv_udp_get_send_queue_size p)) r" "quiet (C_udp (uv_udp_get_send_queue_count p)) r"
  by (simp_all add: quiet_def opens_def submits_def)

lemmas udp_defs =
  udp_open_def udp_connect_def udp_disconnect_def udp_peer_def udp_bind_def udp_sock_def
  udp_multicast_membership_def udp_multicast_loop_def udp_multicast_ttl_def
  udp_multicast_interface_def udp_broadcast_def udp_ttl_def udp_try_send_def udp_recv_def udp_recv_alloc_def
  udp_stop_def udp_send_queue_size_def udp_send_queue_count_def

lemma udp_exec_good:
  assumes "invar w" and "live w p" and "kind (objs w ! p) = K_udp t f"
    and "udp_exec uv net op p w = Inr v"
  shows "good w v"
proof -
  have h: "handle_kind (kind (objs w ! p))" using assms(3) by (simp add: handle_kind_def)
  show ?thesis
    using assms run_forward_good [OF udp_send_f.op_keeps [OF assms(1,2) h]]
      run_forward_good [OF udp_send_raw_f.op_keeps [OF assms(1,2) h]]
    by (cases op)
      (auto simp: udp_exec_def udp_i.init_keeps udp_defs good_uvcall quiet_udp_calls case_prod_beta
        Let_def split: option.splits)
qed

section \<open>Properties\<close>

text \<open>
  C38. \<^verbatim>\<open>ttl\<close> and \<^verbatim>\<open>multicast_ttl\<close> make one call, with the caller's value cut at 255, and report
  whether it returned zero; only the upper bound is enforced, so what reaches libuv is in the
  documented range 1 to 255 exactly when the caller's value is positive.
\<close>

theorem ttl_range:
  "\<exists>n. n = min val 255 \<and> (1 \<le> n \<and> n \<le> 255 \<longleftrightarrow> 1 \<le> val) \<and>
     (\<exists>r. udp_ttl uv val p w = (r = 0, w\<lparr>hist := Called (C_udp (uv_udp_set_ttl p n)) r # hist w\<rparr>)) \<and>
     (\<exists>r. udp_multicast_ttl uv val p w = (r = 0, w\<lparr>hist := Called (C_udp (uv_udp_set_multicast_ttl p n)) r # hist w\<rparr>))"
  by (auto simp: udp_ttl_def udp_multicast_ttl_def uvcall_def Let_def clamp_ttl_def min_def)

text \<open>
  C20. What a receive callback publishes: data of the announced length with the sender's address and
  the \<^verbatim>\<open>partial\<close> bit, an empty datagram when there is an address and no data, nothing when there is
  neither, and otherwise the error with its code; the call is undefined exactly when libuv passes
  data without an address.
\<close>

theorem recv_event_cases:
  assumes "int32_range nread"
  shows "(\<exists>e. recv_event net nread buf addr fl = Inl e) = (0 < nread \<and> addr = None) \<and>
    (recv_event net nread buf addr fl = Inr None) = (nread = 0 \<and> addr = None) \<and>
    (\<forall>s d n b. recv_event net nread buf addr fl = Inr (Some (Ev_udp_data s d n b)) \<longleftrightarrow>
       (\<exists>a. addr = Some a \<and> s = sock_addr net a) \<and> 0 \<le> nread \<and> d = buf \<and> uint n = nread \<and>
       b = (0 < nread \<and> flag_test (udp_flag_value UDP_PARTIAL) fl)) \<and>
    (\<forall>x. recv_event net nread buf addr fl = Inr (Some (Ev_error x)) \<longleftrightarrow> nread < 0 \<and> error_code x = nread)"
proof -
  have size: "to_size nread = n \<longleftrightarrow> uint n = nread" if "0 \<le> nread" for n
    using that assms to_size_nonneg [of nread]
    by (auto simp: int32_range_def) (metis word_of_int_uint to_size_def)
  have err: "make_error_event nread = x \<longleftrightarrow> error_code x = nread" for x
    using assms by (cases x) (auto simp: make_error_event_def error_code_def)
  show ?thesis
    using size [of "to_size nread"] unfolding recv_event_def
    by (auto simp: size err split: option.splits if_splits) (metis word_uint_eq_iff)
qed

theorem recv_event_cases_witness:
  "recv_event sample_netlib (-4) [] None 0 \<noteq> Inr None"
  using recv_event_cases [of "-4" sample_netlib "[]" None 0] by (simp add: int32_range_def)

end
