(* ===== verification/Process.thy ===== *)
theory Process
  imports Udp
begin

text \<open>
  \<^verbatim>\<open>src/uvw/process.h\<close> and \<^verbatim>\<open>process.ipp\<close>: the process handle. The options are members that the setters
  fill and \<^verbatim>\<open>spawn\<close> hands to libuv. The abstract view of the descriptors is the map from a descriptor
  to its flags; \<^verbatim>\<open>stdio\<close> refines an update of that map.
\<close>

section \<open>Definitions\<close>

datatype (plugins only: code) process_flag =
    PROCESS_SETUID | PROCESS_SETGID | PROCESS_WINDOWS_VERBATIM_ARGUMENTS | PROCESS_DETACHED
  | PROCESS_WINDOWS_HIDE | PROCESS_WINDOWS_HIDE_CONSOLE | PROCESS_WINDOWS_HIDE_GUI
  | PROCESS_WINDOWS_FILE_PATH_EXACT_NAME

definition process_flag_value :: "process_flag \<Rightarrow> flags" where
  "process_flag_value f =
     (case f of
        PROCESS_SETUID \<Rightarrow> 1 | PROCESS_SETGID \<Rightarrow> 2 | PROCESS_WINDOWS_VERBATIM_ARGUMENTS \<Rightarrow> 4
      | PROCESS_DETACHED \<Rightarrow> 8 | PROCESS_WINDOWS_HIDE \<Rightarrow> 16 | PROCESS_WINDOWS_HIDE_CONSOLE \<Rightarrow> 32
      | PROCESS_WINDOWS_HIDE_GUI \<Rightarrow> 64 | PROCESS_WINDOWS_FILE_PATH_EXACT_NAME \<Rightarrow> 128)"

datatype (plugins only: code) stdio_flag =
    IGNORE_STREAM | CREATE_PIPE | INHERIT_FD | INHERIT_STREAM | READABLE_PIPE | WRITABLE_PIPE
  | OVERLAPPED_PIPE

definition stdio_flag_value :: "stdio_flag \<Rightarrow> flags" where
  "stdio_flag_value f =
     (case f of
        IGNORE_STREAM \<Rightarrow> 0 | CREATE_PIPE \<Rightarrow> 1 | INHERIT_FD \<Rightarrow> 2 | INHERIT_STREAM \<Rightarrow> 4
      | READABLE_PIPE \<Rightarrow> 16 | WRITABLE_PIPE \<Rightarrow> 32 | OVERLAPPED_PIPE \<Rightarrow> 64)"

datatype (plugins only: code) process_op =
    Process_init | Process_spawn string "string list" "string list option" | Process_kill int
  | Process_pid | Process_cwd string | Process_flags flags | Process_stdio_stream oid flags
  | Process_stdio_fd int flags | Process_uid u32 | Process_gid u32
  | Process_disable_stdio_inheritance | Process_kill_pid int int

text \<open>The constructor: \<^verbatim>\<open>po_flags\<close>, \<^verbatim>\<open>po_uid\<close> and \<^verbatim>\<open>po_gid\<close> stay indeterminate.\<close>

definition process_handle :: kind where
  "process_handle =
     K_process \<lparr>po_cwd = [], po_flags = None, po_fd_stdio = [], po_stream_stdio = [],
                po_uid = None, po_gid = None\<rparr>"

definition process_data_of :: "kind \<Rightarrow> process_data option" where
  "process_data_of k = (case k of K_process d \<Rightarrow> Some d | _ \<Rightarrow> None)"

definition process_update :: "(process_data \<Rightarrow> process_data) \<Rightarrow> oid \<Rightarrow> world \<Rightarrow> world" where
  "process_update f p w =
     upd p (\<lambda>b. b\<lparr>kind := (case kind b of K_process d \<Rightarrow> K_process (f d) | k \<Rightarrow> k)\<rparr>) w"

definition disable_stdio_inheritance :: "libuv \<Rightarrow> world \<Rightarrow> world" where
  "disable_stdio_inheritance uv w = snd (uvcall uv (C_process uv_disable_stdio_inheritance) w)"

definition process_kill_pid :: "libuv \<Rightarrow> int \<Rightarrow> int \<Rightarrow> world \<Rightarrow> bool \<times> world" where
  "process_kill_pid uv pid signum w =
     (let (r, v) = uvcall uv (C_process (uv_kill pid signum)) w in (0 = r, v))"

text \<open>Deferred initialisation: libuv initialises the handle in \<^verbatim>\<open>uv_spawn\<close>.\<close>

definition process_init :: "oid \<Rightarrow> world \<Rightarrow> int \<times> world" where
  "process_init p w = (0, w)"

definition process_options_of ::
  "process_data \<Rightarrow> string \<Rightarrow> string list \<Rightarrow> string list option \<Rightarrow> ub + process_options" where
  "process_options_of d path args env =
     (case (po_flags d, po_uid d, po_gid d) of
        (Some f, Some u, Some g) \<Rightarrow>
          (let poStdio = po_fd_stdio d @ po_stream_stdio d in
           Inr \<lparr>exit_cb = cb_exit, file_opt = path, args_opt = args, env_opt = env,
                cwd_opt = (if po_cwd d = [] then None else Some (po_cwd d)),
                flags_opt = f, uid_opt = u, gid_opt = g,
                stdio_count = length poStdio, stdio_opt = poStdio\<rparr>)
      | _ \<Rightarrow> Inl Indeterminate_value)"

definition process_spawn ::
  "libuv \<Rightarrow> string \<Rightarrow> string list \<Rightarrow> string list option \<Rightarrow> oid \<Rightarrow> world \<Rightarrow> ub + (int \<times> world)" where
  "process_spawn uv path args env p w =
     (case process_data_of (kind (objs w ! p)) of
        None \<Rightarrow> Inl Null_dereference
      | Some d \<Rightarrow>
          (case process_options_of d path args env of
             Inl e \<Rightarrow> Inl e
           | Inr po \<Rightarrow>
               let w1 = snd (leak_if p 0 w)
               in Inr (uvcall uv (C_process (uv_spawn (parent_raw w1 p) p po)) w1)))"

definition process_kill :: "libuv \<Rightarrow> int \<Rightarrow> oid \<Rightarrow> world \<Rightarrow> int \<times> world" where
  "process_kill uv signum p w = uvcall uv (C_process (uv_process_kill p signum)) w"

definition process_pid :: "libuv \<Rightarrow> oid \<Rightarrow> world \<Rightarrow> int" where
  "process_pid uv p w = raw_pid uv (hist w) p"

definition process_cwd :: "string \<Rightarrow> oid \<Rightarrow> world \<Rightarrow> world" where
  "process_cwd path p w = process_update (\<lambda>d. d\<lparr>po_cwd := path\<rparr>) p w"

definition process_flags :: "flags \<Rightarrow> oid \<Rightarrow> world \<Rightarrow> world" where
  "process_flags f p w = process_update (\<lambda>d. d\<lparr>po_flags := Some f\<rparr>) p w"

text \<open>The overload for streams appends the raw pointer.\<close>

definition stdio_add_stream :: "oid \<Rightarrow> flags \<Rightarrow> process_data \<Rightarrow> process_data" where
  "stdio_add_stream s f d =
     d\<lparr>po_stream_stdio := po_stream_stdio d @ [\<lparr>stdio_flags = f, stdio_data = Stdio_stream s\<rparr>]\<rparr>"

definition process_stdio_stream :: "oid \<Rightarrow> flags \<Rightarrow> oid \<Rightarrow> world \<Rightarrow> world" where
  "process_stdio_stream s f p w = process_update (stdio_add_stream s f) p w"

text \<open>The overload for descriptors: \<^verbatim>\<open>std::find_if\<close>, then push back or overwrite.\<close>

fun stdio_find :: "int \<Rightarrow> stdio_container list \<Rightarrow> nat option" where
  "stdio_find fd [] = None"
| "stdio_find fd (c # cs) =
     (if stdio_data c = Stdio_fd fd then Some 0 else map_option Suc (stdio_find fd cs))"

definition stdio_set_fd :: "int \<Rightarrow> flags \<Rightarrow> stdio_container list \<Rightarrow> stdio_container list" where
  "stdio_set_fd fd f cs =
     (case stdio_find fd cs of
        None \<Rightarrow> cs @ [\<lparr>stdio_flags = f, stdio_data = Stdio_fd fd\<rparr>]
      | Some i \<Rightarrow> cs[i := \<lparr>stdio_flags = f, stdio_data = Stdio_fd fd\<rparr>])"

definition process_stdio_fd :: "int \<Rightarrow> flags \<Rightarrow> oid \<Rightarrow> world \<Rightarrow> world" where
  "process_stdio_fd fd f p w = process_update (\<lambda>d. d\<lparr>po_fd_stdio := stdio_set_fd fd f (po_fd_stdio d)\<rparr>) p w"

definition process_uid :: "u32 \<Rightarrow> oid \<Rightarrow> world \<Rightarrow> world" where
  "process_uid i p w = process_update (\<lambda>d. d\<lparr>po_uid := Some i\<rparr>) p w"

definition process_gid :: "u32 \<Rightarrow> oid \<Rightarrow> world \<Rightarrow> world" where
  "process_gid i p w = process_update (\<lambda>d. d\<lparr>po_gid := Some i\<rparr>) p w"

definition exit_callback :: "behaviour \<Rightarrow> int \<Rightarrow> int \<Rightarrow> oid \<Rightarrow> world \<Rightarrow> ub + world" where
  "exit_callback beh exit_status term_signal p w =
     plain_callback beh cb_exit (Ev_exit exit_status term_signal) p w"

definition process_exec :: "libuv \<Rightarrow> process_op \<Rightarrow> oid \<Rightarrow> world \<Rightarrow> ub + world" where
  "process_exec uv op p w =
     (case op of
        Process_init \<Rightarrow> Inr (snd (process_init p w))
      | Process_spawn f a e \<Rightarrow> run_forward (process_spawn uv f a e p w)
      | Process_kill s \<Rightarrow> Inr (snd (process_kill uv s p w))
      | Process_pid \<Rightarrow> Inr w
      | Process_cwd s \<Rightarrow> Inr (process_cwd s p w)
      | Process_flags f \<Rightarrow> Inr (process_flags f p w)
      | Process_stdio_stream s f \<Rightarrow> Inr (process_stdio_stream s f p w)
      | Process_stdio_fd d f \<Rightarrow> Inr (process_stdio_fd d f p w)
      | Process_uid i \<Rightarrow> Inr (process_uid i p w)
      | Process_gid i \<Rightarrow> Inr (process_gid i p w)
      | Process_disable_stdio_inheritance \<Rightarrow> Inr (disable_stdio_inheritance uv w)
      | Process_kill_pid pid s \<Rightarrow> Inr (snd (process_kill_pid uv pid s w)))"

section \<open>The descriptors as a map\<close>

definition stdio_map :: "stdio_container list \<Rightarrow> int \<Rightarrow> flags option" where
  "stdio_map cs fd = map_option (\<lambda>i. stdio_flags (cs ! i)) (stdio_find fd cs)"

text \<open>One entry per descriptor.\<close>

definition stdio_wf :: "stdio_container list \<Rightarrow> bool" where
  "stdio_wf cs \<longleftrightarrow> distinct (map stdio_data cs)"

lemma stdio_find_None: "stdio_find fd cs = None \<longleftrightarrow> Stdio_fd fd \<notin> stdio_data ` set cs"
  by (induction cs) auto

lemma stdio_find_Some:
  "stdio_find fd cs = Some i \<Longrightarrow> i < length cs \<and> stdio_data (cs ! i) = Stdio_fd fd"
  by (induction cs arbitrary: i) (auto split: if_splits)

lemma stdio_find_append:
  "stdio_find fd (cs @ ds) =
     (case stdio_find fd cs of Some i \<Rightarrow> Some i | None \<Rightarrow> map_option (\<lambda>i. i + length cs) (stdio_find fd ds))"
  by (induction cs) (auto split: option.splits simp: option.map_comp comp_def option.map_ident)

lemma stdio_find_update:
  "stdio_find fd cs = Some i \<Longrightarrow> stdio_find e (cs[i := \<lparr>stdio_flags = f, stdio_data = Stdio_fd fd\<rparr>]) = stdio_find e cs"
proof (induction cs arbitrary: i)
  case (Cons c cs)
  then show ?case by (cases i) (auto split: if_splits)
qed simp

lemma stdio_set_fd_map: "stdio_map (stdio_set_fd fd f cs) = (stdio_map cs)(fd \<mapsto> f)"
proof
  fix e
  show "stdio_map (stdio_set_fd fd f cs) e = ((stdio_map cs)(fd \<mapsto> f)) e"
  proof (cases "stdio_find fd cs")
    case None
    have "(cs @ [\<lparr>stdio_flags = f, stdio_data = Stdio_fd fd\<rparr>]) ! i = cs ! i"
      if "stdio_find e cs = Some i" for i
      using stdio_find_Some [OF that] by (simp add: nth_append)
    with None show ?thesis
      by (auto simp: stdio_map_def stdio_set_fd_def stdio_find_append split: option.splits)
  next
    case (Some i)
    then have i: "i < length cs" "stdio_data (cs ! i) = Stdio_fd fd" by (auto dest: stdio_find_Some)
    have "j \<noteq> i" if "stdio_find e cs = Some j" "e \<noteq> fd" for j
      using stdio_find_Some [OF that(1)] that(2) i(2) by auto
    with Some i show ?thesis
      by (cases "stdio_find e cs")
        (auto simp: stdio_map_def stdio_set_fd_def stdio_find_update nth_list_update)
  qed
qed

lemma stdio_set_fd_wf: "stdio_wf cs \<Longrightarrow> stdio_wf (stdio_set_fd fd f cs)"
proof (cases "stdio_find fd cs")
  case None
  then have "Stdio_fd fd \<notin> stdio_data ` set cs" by (simp add: stdio_find_None)
  then show "stdio_wf cs \<Longrightarrow> ?thesis"
    by (simp add: stdio_wf_def stdio_set_fd_def None)
next
  case (Some i)
  then have "i < length cs" "map stdio_data cs ! i = Stdio_fd fd" by (auto dest: stdio_find_Some)
  then have "(map stdio_data cs)[i := Stdio_fd fd] = map stdio_data cs" by (metis list_update_id)
  then show "stdio_wf cs \<Longrightarrow> ?thesis"
    using Some by (simp add: stdio_wf_def stdio_set_fd_def map_update)
qed

section \<open>Every operation keeps the invariant\<close>

lemma class_of_process [simp]: "class_of (K_process a) = class_of (K_process b)"
  by (simp add: class_of_def handle_kind_def stream_kind_def fs_kind_of_def internal_kind_def
      is_loop_kind_def ownerless_def events_of_def own_tags_def)

lemma good_process_update: "invar w \<Longrightarrow> good w (process_update f p w)"
  unfolding process_update_def
  by (rule good_kind) (auto split: kind.splits intro: class_of_process)

lemma quiet_process_calls:
  "quiet (C_process uv_disable_stdio_inheritance) r" "quiet (C_process (uv_kill i s)) r"
  "quiet (C_process (uv_process_kill p s)) r"
  by (simp_all add: quiet_def opens_def submits_def)

lemma leak_then_call: "snd (uvcall uv c (set_self True p w)) =
    set_self True p (w\<lparr>hist := Called c (ret uv (hist w) c) # hist w\<rparr>)"
  by (simp add: uvcall_def set_self_def upd_def Let_def)

lemma good_spawn:
  assumes "invar w" and "live w p" and "handle_kind (kind (objs w ! p))"
    and "process_spawn uv path args env p w = Inr (r, v)"
  shows "good w v"
proof -
  obtain po l where v: "v = snd (uvcall uv (C_process (uv_spawn l p po)) (set_self True p w))"
    using assms(4)
    by (auto simp: process_spawn_def leak_if_def Let_def uvcall_def split: option.splits sum.splits)
  let ?c = "C_process (uv_spawn l p po)"
  let ?r = "ret uv (hist w) ?c"
  have "core (set_self True p (w\<lparr>hist := Called ?c ?r # hist w\<rparr>))"
    using assms(1-3) by (intro core_open) (auto simp: inv_core opens_def submits_def)
  then show ?thesis
    using assms(1) unfolding v leak_then_call
    by (simp add: good_def invar_def all_held_set_self user_frame_set_self)
qed

lemma process_exec_good:
  assumes "invar w" and "live w p" and "kind (objs w ! p) = K_process d"
    and "process_exec uv op p w = Inr v"
  shows "good w v"
proof -
  have h: "handle_kind (kind (objs w ! p))" using assms(3) by (simp add: handle_kind_def)
  show ?thesis
    using assms(1,4) good_spawn [OF assms(1,2) h]
    by (cases op)
      (auto simp: process_exec_def process_init_def process_kill_def process_cwd_def process_flags_def
        process_stdio_stream_def process_stdio_fd_def process_uid_def process_gid_def
        disable_stdio_inheritance_def process_kill_pid_def run_forward_def good_refl good_process_update
        good_uvcall quiet_process_calls case_prod_beta map_sum_def split: sum.splits)
qed

section \<open>Properties\<close>

text \<open>
  C25. The table of descriptors refines a map: after any sequence of calls of \<^verbatim>\<open>stdio\<close> with a
  descriptor, it has one entry for each descriptor named, with the flags of the last call for it.
\<close>

theorem stdio_refines_map:
  "stdio_wf (fold (\<lambda>(fd, f). stdio_set_fd fd f) calls []) \<and>
   stdio_map (fold (\<lambda>(fd, f). stdio_set_fd fd f) calls []) = map_of (rev calls)"
proof -
  have "stdio_wf (fold (\<lambda>(fd, f). stdio_set_fd fd f) calls cs) \<and>
    stdio_map (fold (\<lambda>(fd, f). stdio_set_fd fd f) calls cs) = stdio_map cs ++ map_of (rev calls)"
    if "stdio_wf cs" for cs
    using that
  proof (induction calls arbitrary: cs)
    case (Cons c calls)
    then show ?case
      using stdio_set_fd_wf [of cs "fst c" "snd c"]
      by (cases c) (simp add: stdio_set_fd_map map_add_def fun_eq_iff split: option.splits)
  qed simp
  moreover have "stdio_wf []" "stdio_map [] = Map.empty"
    by (simp_all add: stdio_wf_def stdio_map_def fun_eq_iff)
  ultimately show ?thesis by (metis empty_map_add)
qed

text \<open>
  \<^verbatim>\<open>spawn\<close> reads \<^verbatim>\<open>po_flags\<close>, \<^verbatim>\<open>po_uid\<close> and \<^verbatim>\<open>po_gid\<close>, which no constructor sets: it is defined
  exactly when the program has set all three, and on a new handle it never is.
\<close>

lemma spawn_needs_all_options:
  assumes "kind (objs w ! p) = K_process d"
  shows "((\<exists>x. process_spawn uv path args env p w = Inr x) \<longleftrightarrow>
      po_flags d \<noteq> None \<and> po_uid d \<noteq> None \<and> po_gid d \<noteq> None) \<and>
    (kind (objs w ! p) = process_handle \<longrightarrow>
      process_spawn uv path args env p w = Inl Indeterminate_value)"
  using assms
  by (auto simp: process_spawn_def process_options_of_def process_data_of_def process_handle_def Let_def
      split: option.splits)



end
