(* ===== verification/Work_Dns.thy ===== *)
theory Work_Dns
  imports Process
begin

text \<open>
  \<^verbatim>\<open>src/uvw/work.h\<close>, \<^verbatim>\<open>dns.h\<close> and their \<^verbatim>\<open>.ipp\<close> files: the requests the user creates. The locale
  \<^verbatim>\<open>request_submit\<close> is the contract of the operation that hands the request to libuv, \<^verbatim>\<open>completion\<close>
  that of the callback that ends it; the internal requests of the streams and of the UDP handle
  implement the second too.
\<close>

section \<open>The contracts of a request\<close>

locale request_submit =
  fixes submit :: "libuv \<Rightarrow> oid \<Rightarrow> world \<Rightarrow> int \<times> world"
    and call :: "oid \<Rightarrow> world \<Rightarrow> uv_call"
    and is_kind :: "kind \<Rightarrow> bool"
  assumes submit_eq: "submit uv p w = leak_if_call uv p (call p w) w"
    and kind_request: "is_kind k \<Longrightarrow> \<not> handle_kind k"
    and call_submits: "submits (call p w) r = (if r = 0 then Some p else None)"
    and call_opens: "opens (call p w) r = None"
begin

lemma submit_keeps:
  assumes "invar w" and "live w p" and "is_kind (kind (objs w ! p))" and "pending (hist w) p = 0"
  shows "good w (snd (submit uv p w))"
  unfolding submit_eq
  using assms by (intro good_submit) (auto simp: kind_request call_opens call_submits quiet_def)

lemma submit_registers:
  assumes "p < length (objs w)" and "fst (submit uv p w) = 0"
  shows "pending (hist (snd (submit uv p w))) p = Suc (pending (hist w) p) \<and>
    self_ptr (objs (snd (submit uv p w)) ! p)"
  using assms
  by (simp add: submit_eq leak_if_call_eq Let_def call_submits set_self_def nth_upd split: if_splits)

lemma submit_refuses:
  assumes "fst (submit uv p w) \<noteq> 0"
  shows "objs (snd (submit uv p w)) = objs w \<and> pending (hist (snd (submit uv p w))) = pending (hist w)"
  using assms
  by (simp add: submit_eq leak_if_call_eq Let_def call_submits fun_eq_iff split: if_splits)

end

locale completion =
  fixes callback :: "libuv \<Rightarrow> behaviour \<Rightarrow> int \<Rightarrow> oid \<Rightarrow> world \<Rightarrow> ub + world"
    and cb :: uv_cb
    and e :: event
  assumes callback_eq:
    "callback uv beh status p w = with_reserve uv cb p (publish beh (status_event status e) p) w"
    and completes: "request_cb cb"
begin

lemma callback_defined:
  assumes "invar w" and "0 < pending (hist w) p" and "\<not> fs_kind_of (kind (objs w ! p))"
    and "respectful beh"
  shows "\<exists>v. callback uv beh status p w = Inr v \<and> good w v"
  unfolding callback_eq
  using assms completes pending_live(1) [OF assms(1-3)] publish_defined
  by (intro with_reserve_defined) auto

text \<open>What the listener of the request sees, and what is left when it returns.\<close>

lemma callback_reports:
  assumes "live w p" and "handler (tag_of (status_event status e)) (handlers (objs w ! p)) = Some (User u cs)"
  shows "callback uv beh status p w =
    Inr (drop_hold uv p (beh u p (status_event status e) (self_reset p (take_hold p (fire cb p w)))))"
proof -
  let ?v = "self_reset p (take_hold p (fire cb p w))"
  have "live ?v p"
    using assms(1) by (simp add: self_reset_def set_self_def take_hold_def live_upd fire_def)
  moreover have "handlers (objs ?v ! p) = handlers (objs w ! p)"
    by (simp add: self_reset_def set_self_def take_hold_def nth_upd fire_def)
  ultimately show ?thesis
    using assms
    by (simp add: callback_eq with_reserve_def reserve_def deref_def fire_def publish_def)
qed

lemma callback_freed:
  assumes "\<not> live w p"
  shows "callback uv beh status p w = Inl (Use_after_free p)"
  using assms by (simp add: callback_eq with_reserve_def reserve_def deref_def fire_def)

end

section \<open>\<^verbatim>\<open>work.h\<close>, \<^verbatim>\<open>work.ipp\<close>\<close>

datatype (plugins only: code) work_op = Work_queue

definition work_req :: "nat \<Rightarrow> kind" where
  "work_req t = K_work t"

text \<open>The task runs on a thread of libuv's pool; \<^verbatim>\<open>run n w\<close> is the state task \<^verbatim>\<open>n\<close> leaves.\<close>

definition work_callback :: "(nat \<Rightarrow> world \<Rightarrow> world) \<Rightarrow> oid \<Rightarrow> world \<Rightarrow> ub + world" where
  "work_callback run p w =
     deref p (fire cb_work p w) (\<lambda>v. Inr (case kind (objs v ! p) of K_work n \<Rightarrow> run n v | _ \<Rightarrow> v))"

definition after_work_callback :: "libuv \<Rightarrow> behaviour \<Rightarrow> int \<Rightarrow> oid \<Rightarrow> world \<Rightarrow> ub + world" where
  "after_work_callback uv beh status p w =
     with_reserve uv cb_after_work p (publish beh (status_event status Ev_work) p) w"

definition work_queue :: "libuv \<Rightarrow> oid \<Rightarrow> world \<Rightarrow> int \<times> world" where
  "work_queue uv p w =
     leak_if_call uv p (C_work (uv_queue_work (parent_raw w p) p cb_work cb_after_work)) w"

definition work_exec :: "libuv \<Rightarrow> work_op \<Rightarrow> oid \<Rightarrow> world \<Rightarrow> world" where
  "work_exec uv op p w = (case op of Work_queue \<Rightarrow> snd (work_queue uv p w))"

section \<open>\<^verbatim>\<open>dns.h\<close>, \<^verbatim>\<open>dns.ipp\<close>\<close>

datatype (plugins only: code) addr_info_op =
    Node_addr_info string "nat option" | Node_addr_info_sync string "nat option"
  | Service_addr_info string "nat option" | Service_addr_info_sync string "nat option"
  | Addr_info string string "nat option" | Addr_info_sync string string "nat option"

text \<open>
  The private members take C strings or null; \<^verbatim>\<open>hints\<close> is a pointer of the caller. The result of the
  synchronous form is the request's \<^verbatim>\<open>addrinfo\<close> list.
\<close>

definition addr_info_call ::
  "string option \<Rightarrow> string option \<Rightarrow> nat option \<Rightarrow> uv_cb option \<Rightarrow> oid \<Rightarrow> world \<Rightarrow> uv_call" where
  "addr_info_call node service hints cb p w = C_work (uv_getaddrinfo (parent_raw w p) p cb node service hints)"

definition get_addr_info ::
  "libuv \<Rightarrow> string option \<Rightarrow> string option \<Rightarrow> nat option \<Rightarrow> oid \<Rightarrow> world \<Rightarrow> int \<times> world" where
  "get_addr_info uv node service hints p w =
     leak_if_call uv p (addr_info_call node service hints (Some cb_addr_info) p w) w"

definition get_addr_info_sync ::
  "libuv \<Rightarrow> string option \<Rightarrow> string option \<Rightarrow> nat option \<Rightarrow> oid \<Rightarrow> world \<Rightarrow> (bool \<times> nat option) \<times> world"
where
  "get_addr_info_sync uv node service hints p w =
     (let (err, v) = uvcall uv (addr_info_call node service hints None p w) w
      in ((err = 0, raw_addrinfo uv (hist v) p), v))"

definition node_addr_info :: "libuv \<Rightarrow> string \<Rightarrow> nat option \<Rightarrow> oid \<Rightarrow> world \<Rightarrow> int \<times> world" where
  "node_addr_info uv node hints p w = get_addr_info uv (Some (c_str node)) None hints p w"

definition node_addr_info_sync ::
  "libuv \<Rightarrow> string \<Rightarrow> nat option \<Rightarrow> oid \<Rightarrow> world \<Rightarrow> (bool \<times> nat option) \<times> world" where
  "node_addr_info_sync uv node hints p w = get_addr_info_sync uv (Some (c_str node)) None hints p w"

definition service_addr_info :: "libuv \<Rightarrow> string \<Rightarrow> nat option \<Rightarrow> oid \<Rightarrow> world \<Rightarrow> int \<times> world" where
  "service_addr_info uv service hints p w = get_addr_info uv None (Some (c_str service)) hints p w"

definition service_addr_info_sync ::
  "libuv \<Rightarrow> string \<Rightarrow> nat option \<Rightarrow> oid \<Rightarrow> world \<Rightarrow> (bool \<times> nat option) \<times> world" where
  "service_addr_info_sync uv service hints p w =
     get_addr_info_sync uv None (Some (c_str service)) hints p w"

definition addr_info :: "libuv \<Rightarrow> string \<Rightarrow> string \<Rightarrow> nat option \<Rightarrow> oid \<Rightarrow> world \<Rightarrow> int \<times> world" where
  "addr_info uv node service hints p w =
     get_addr_info uv (Some (c_str node)) (Some (c_str service)) hints p w"

definition addr_info_sync ::
  "libuv \<Rightarrow> string \<Rightarrow> string \<Rightarrow> nat option \<Rightarrow> oid \<Rightarrow> world \<Rightarrow> (bool \<times> nat option) \<times> world" where
  "addr_info_sync uv node service hints p w =
     get_addr_info_sync uv (Some (c_str node)) (Some (c_str service)) hints p w"

definition addr_info_callback :: "nat \<Rightarrow> libuv \<Rightarrow> behaviour \<Rightarrow> int \<Rightarrow> oid \<Rightarrow> world \<Rightarrow> ub + world" where
  "addr_info_callback res uv beh status p w =
     with_reserve uv cb_addr_info p (publish beh (status_event status (Ev_addr_info res)) p) w"

definition addr_info_exec :: "libuv \<Rightarrow> addr_info_op \<Rightarrow> oid \<Rightarrow> world \<Rightarrow> world" where
  "addr_info_exec uv op p w =
     (case op of
        Node_addr_info n h \<Rightarrow> snd (node_addr_info uv n h p w)
      | Node_addr_info_sync n h \<Rightarrow> snd (node_addr_info_sync uv n h p w)
      | Service_addr_info s h \<Rightarrow> snd (service_addr_info uv s h p w)
      | Service_addr_info_sync s h \<Rightarrow> snd (service_addr_info_sync uv s h p w)
      | Addr_info n s h \<Rightarrow> snd (addr_info uv n s h p w)
      | Addr_info_sync n s h \<Rightarrow> snd (addr_info_sync uv n s h p w))"

datatype (plugins only: code) name_info_op =
    Name_info udp_dest int | Name_info_sync udp_dest int

definition name_info :: "libuv \<Rightarrow> bytes \<Rightarrow> int \<Rightarrow> oid \<Rightarrow> world \<Rightarrow> int \<times> world" where
  "name_info uv addr fl p w =
     leak_if_call uv p (C_work (uv_getnameinfo (parent_raw w p) p (Some cb_name_info) addr fl)) w"

text \<open>The overloads that take an IP and a port, or a \<^verbatim>\<open>socket_address\<close>.\<close>

definition name_info_dest :: "libuv \<Rightarrow> netlib \<Rightarrow> udp_dest \<Rightarrow> int \<Rightarrow> oid \<Rightarrow> world \<Rightarrow> int \<times> world" where
  "name_info_dest uv net d fl p w = name_info uv (dest_addr net d) fl p w"

definition name_info_sync ::
  "libuv \<Rightarrow> bytes \<Rightarrow> int \<Rightarrow> oid \<Rightarrow> world \<Rightarrow> (bool \<times> string \<times> string) \<times> world" where
  "name_info_sync uv addr fl p w =
     (let (err, v) = uvcall uv (C_work (uv_getnameinfo (parent_raw w p) p None addr fl)) w
      in ((err = 0, raw_nameinfo uv (hist v) p), v))"

definition name_info_sync_dest ::
  "libuv \<Rightarrow> netlib \<Rightarrow> udp_dest \<Rightarrow> int \<Rightarrow> oid \<Rightarrow> world \<Rightarrow> (bool \<times> string \<times> string) \<times> world" where
  "name_info_sync_dest uv net d fl p w = name_info_sync uv (dest_addr net d) fl p w"

definition name_info_callback ::
  "string \<Rightarrow> string \<Rightarrow> libuv \<Rightarrow> behaviour \<Rightarrow> int \<Rightarrow> oid \<Rightarrow> world \<Rightarrow> ub + world" where
  "name_info_callback host service uv beh status p w =
     with_reserve uv cb_name_info p (publish beh (status_event status (Ev_name_info host service)) p) w"

definition name_info_exec :: "libuv \<Rightarrow> netlib \<Rightarrow> name_info_op \<Rightarrow> oid \<Rightarrow> world \<Rightarrow> world" where
  "name_info_exec uv net op p w =
     (case op of
        Name_info d f \<Rightarrow> snd (name_info_dest uv net d f p w)
      | Name_info_sync d f \<Rightarrow> snd (name_info_sync_dest uv net d f p w))"

section \<open>The classes implement the contracts\<close>

lemmas submit_contract_defs = handle_kind_def stream_kind_def opens_def submits_def

interpretation work_s: request_submit work_queue
  "\<lambda>p w. C_work (uv_queue_work (parent_raw w p) p cb_work cb_after_work)" "\<lambda>k. \<exists>n. k = K_work n"
  by unfold_locales (auto simp: work_queue_def submit_contract_defs)

interpretation addr_info_s: request_submit "\<lambda>uv. get_addr_info uv node service hints"
  "addr_info_call node service hints (Some cb_addr_info)" "\<lambda>k. k = K_getaddrinfo" for node service hints
  by unfold_locales (auto simp: get_addr_info_def addr_info_call_def submit_contract_defs)

interpretation name_info_s: request_submit "\<lambda>uv. name_info uv addr fl"
  "\<lambda>p w. C_work (uv_getnameinfo (parent_raw w p) p (Some cb_name_info) addr fl)"
  "\<lambda>k. k = K_getnameinfo" for addr fl
  by unfold_locales (auto simp: name_info_def submit_contract_defs)

interpretation after_work_c: completion after_work_callback cb_after_work Ev_work
  by unfold_locales (simp_all add: after_work_callback_def request_cb_def)

interpretation addr_info_c: completion "addr_info_callback res" cb_addr_info "Ev_addr_info res" for res
  by unfold_locales (simp_all add: addr_info_callback_def request_cb_def)

interpretation name_info_c: completion "name_info_callback host service" cb_name_info
  "Ev_name_info host service" for host service
  by unfold_locales (simp_all add: name_info_callback_def request_cb_def)

interpretation connect_c: completion connect_callback cb_connect Ev_connect
  by unfold_locales (simp_all add: connect_callback_def request_cb_def)

interpretation shutdown_c: completion shutdown_callback cb_shutdown Ev_shutdown
  by unfold_locales (simp_all add: shutdown_callback_def request_cb_def)

interpretation write_c: completion write_callback cb_write Ev_write
  by unfold_locales (simp_all add: write_callback_def request_cb_def)

interpretation send_c: completion udp_send_callback cb_send Ev_send
  by unfold_locales (simp_all add: udp_send_callback_def request_cb_def)

section \<open>Every operation keeps the invariant\<close>

lemma quiet_sync_calls:
  "quiet (C_work (uv_getaddrinfo l p None n s h)) r" "quiet (C_work (uv_getnameinfo l p None a f)) r"
  by (simp_all add: quiet_def opens_def submits_def)

lemma work_exec_good:
  "invar w \<Longrightarrow> live w p \<Longrightarrow> kind (objs w ! p) = K_work n \<Longrightarrow> pending (hist w) p = 0 \<Longrightarrow>
   good w (work_exec uv op p w)"
  by (cases op) (auto simp: work_exec_def work_s.submit_keeps)

lemma addr_info_exec_good:
  "invar w \<Longrightarrow> live w p \<Longrightarrow> kind (objs w ! p) = K_getaddrinfo \<Longrightarrow> pending (hist w) p = 0 \<Longrightarrow>
   good w (addr_info_exec uv op p w)"
  by (cases op)
    (simp_all add: addr_info_exec_def node_addr_info_def node_addr_info_sync_def service_addr_info_def
      service_addr_info_sync_def addr_info_def addr_info_sync_def get_addr_info_sync_def
      addr_info_s.submit_keeps case_prod_beta good_uvcall quiet_sync_calls addr_info_call_def)

lemma name_info_exec_good:
  "invar w \<Longrightarrow> live w p \<Longrightarrow> kind (objs w ! p) = K_getnameinfo \<Longrightarrow> pending (hist w) p = 0 \<Longrightarrow>
   good w (name_info_exec uv net op p w)"
  by (cases op)
    (simp_all add: name_info_exec_def name_info_dest_def name_info_sync_dest_def name_info_sync_def
      name_info_s.submit_keeps case_prod_beta good_uvcall quiet_sync_calls)

end
