(* ===== verification/Fs.thy ===== *)
theory Fs
  imports Work_Dns
begin

text \<open>
  \<^verbatim>\<open>src/uvw/fs.h\<close> and \<^verbatim>\<open>fs.ipp\<close>: the file request, which keeps a descriptor, and the file system request,
  which keeps a directory entry. Every operation first runs \<^verbatim>\<open>uv_fs_req_cleanup\<close>, then hands the
  embedded \<^verbatim>\<open>uv_fs_t\<close> to libuv, with a callback or, in the synchronous form, without. No operation
  calls \<^verbatim>\<open>leak_if\<close>: libuv holds the request without the request holding itself. What libuv leaves in
  the \<^verbatim>\<open>uv_fs_t\<close> is a parameter (\<^verbatim>\<open>raw_fs\<close>).
\<close>

section \<open>Events and callbacks\<close>

text \<open>The constructors of \<^verbatim>\<open>fs_event\<close>; a member that the request's type does not select is left unset.\<close>

definition fs_event_base :: "uv_fs_t \<Rightarrow> fs_event" where
  "fs_event_base req =
     \<lparr>ev_type = fs_kind req, ev_path = fs_path req, ev_result = to_size (fs_result req),
      ev_read = None, ev_readlink = None, ev_stat = None, ev_statfs = None, ev_dirent = None\<rparr>"

definition make_fs_event :: "uv_fs_t \<Rightarrow> ub + fs_event" where
  "make_fs_event req =
     (case fs_kind req of
        FS_STAT \<Rightarrow> (case fs_pointer req of Ptr_stat s \<Rightarrow> Inr ((fs_event_base req)\<lparr>ev_stat := Some s\<rparr>) | _ \<Rightarrow> Inl Null_dereference)
      | FS_LSTAT \<Rightarrow> (case fs_pointer req of Ptr_stat s \<Rightarrow> Inr ((fs_event_base req)\<lparr>ev_stat := Some s\<rparr>) | _ \<Rightarrow> Inl Null_dereference)
      | FS_FSTAT \<Rightarrow> (case fs_pointer req of Ptr_stat s \<Rightarrow> Inr ((fs_event_base req)\<lparr>ev_stat := Some s\<rparr>) | _ \<Rightarrow> Inl Null_dereference)
      | FS_READLINK \<Rightarrow> (case fs_pointer req of Ptr_chars s \<Rightarrow> Inr ((fs_event_base req)\<lparr>ev_readlink := Some s\<rparr>) | _ \<Rightarrow> Inr (fs_event_base req))
      | FS_READDIR \<Rightarrow>
          (case fs_pointer req of
             Ptr_dir n (d # ds) \<Rightarrow> Inr ((fs_event_base req)\<lparr>ev_dirent := Some (snd d, fst d, fs_result req = 0)\<rparr>)
           | _ \<Rightarrow> Inl Null_dereference)
      | FS_STATFS \<Rightarrow> (case fs_pointer req of Ptr_statfs s \<Rightarrow> Inr ((fs_event_base req)\<lparr>ev_statfs := Some s\<rparr>) | _ \<Rightarrow> Inl Null_dereference)
      | _ \<Rightarrow> Inr (fs_event_base req))"

definition make_fs_read_event :: "uv_fs_t \<Rightarrow> bytes option \<Rightarrow> ub + fs_event" where
  "make_fs_read_event req d = map_sum id (\<lambda>e. e\<lparr>ev_read := d\<rparr>) (make_fs_event req)"

definition publish_fs :: "behaviour \<Rightarrow> ub + fs_event \<Rightarrow> oid \<Rightarrow> world \<Rightarrow> ub + world" where
  "publish_fs beh e p w = (case e of Inl x \<Rightarrow> Inl x | Inr ev \<Rightarrow> publish beh (Ev_fs ev) p w)"

text \<open>\<^verbatim>\<open>*req\<close> in a callback is what libuv has left in the request.\<close>

definition fs_request_callback :: "libuv \<Rightarrow> behaviour \<Rightarrow> oid \<Rightarrow> world \<Rightarrow> ub + world" where
  "fs_request_callback uv beh p w =
     (let req = raw_fs uv (hist w) p in
      with_reserve uv cb_fs_request p (\<lambda>v.
        if fs_result req < 0 then publish beh (Ev_error (make_error_event (fs_result req))) p v
        else publish_fs beh (make_fs_event req) p v) w)"

section \<open>Enumerations\<close>

datatype (plugins only: code) entry_type =
    ENTRY_UNKNOWN | ENTRY_FILE | ENTRY_DIR | ENTRY_LINK | ENTRY_FIFO | ENTRY_SOCKET | ENTRY_CHAR | ENTRY_BLOCK

definition entry_type_value :: "entry_type \<Rightarrow> int" where
  "entry_type_value e =
     (case e of
        ENTRY_UNKNOWN \<Rightarrow> 0 | ENTRY_FILE \<Rightarrow> 1 | ENTRY_DIR \<Rightarrow> 2 | ENTRY_LINK \<Rightarrow> 3
      | ENTRY_FIFO \<Rightarrow> 4 | ENTRY_SOCKET \<Rightarrow> 5 | ENTRY_CHAR \<Rightarrow> 6 | ENTRY_BLOCK \<Rightarrow> 7)"

text \<open>
  The flags of \<^verbatim>\<open>open\<close> are libuv's names for the flags of the system, here those of Linux on x86-64; a
  flag that the system does not have is 0.
\<close>

datatype (plugins only: code) file_open_flag =
    OPEN_APPEND | OPEN_CREAT | OPEN_DIRECT | OPEN_DIRECTORY | OPEN_DSYNC | OPEN_EXCL | OPEN_EXLOCK
  | OPEN_FILEMAP | OPEN_NOATIME | OPEN_NOCTTY | OPEN_NOFOLLOW | OPEN_NONBLOCK | OPEN_RANDOM
  | OPEN_RDONLY | OPEN_RDWR | OPEN_SEQUENTIAL | OPEN_SHORT_LIVED | OPEN_SYMLINK | OPEN_SYNC
  | OPEN_TEMPORARY | OPEN_TRUNC | OPEN_WRONLY

definition file_open_flag_value :: "file_open_flag \<Rightarrow> flags" where
  "file_open_flag_value f =
     (case f of
        OPEN_APPEND \<Rightarrow> 0x400 | OPEN_CREAT \<Rightarrow> 0x40 | OPEN_DIRECT \<Rightarrow> 0x4000 | OPEN_DIRECTORY \<Rightarrow> 0x10000
      | OPEN_DSYNC \<Rightarrow> 0x1000 | OPEN_EXCL \<Rightarrow> 0x80 | OPEN_EXLOCK \<Rightarrow> 0 | OPEN_FILEMAP \<Rightarrow> 0
      | OPEN_NOATIME \<Rightarrow> 0x40000 | OPEN_NOCTTY \<Rightarrow> 0x100 | OPEN_NOFOLLOW \<Rightarrow> 0x20000
      | OPEN_NONBLOCK \<Rightarrow> 0x800 | OPEN_RANDOM \<Rightarrow> 0 | OPEN_RDONLY \<Rightarrow> 0 | OPEN_RDWR \<Rightarrow> 2
      | OPEN_SEQUENTIAL \<Rightarrow> 0 | OPEN_SHORT_LIVED \<Rightarrow> 0 | OPEN_SYMLINK \<Rightarrow> 0 | OPEN_SYNC \<Rightarrow> 0x101000
      | OPEN_TEMPORARY \<Rightarrow> 0 | OPEN_TRUNC \<Rightarrow> 0x200 | OPEN_WRONLY \<Rightarrow> 1)"

datatype (plugins only: code) copy_file_flag = COPY_EXCL | COPY_FICLONE | COPY_FICLONE_FORCE
datatype (plugins only: code) symlink_flag = SYMLINK_DIR | SYMLINK_JUNCTION

definition copy_file_flag_value :: "copy_file_flag \<Rightarrow> flags" where
  "copy_file_flag_value f = (case f of COPY_EXCL \<Rightarrow> 1 | COPY_FICLONE \<Rightarrow> 2 | COPY_FICLONE_FORCE \<Rightarrow> 4)"

definition symlink_flag_value :: "symlink_flag \<Rightarrow> flags" where
  "symlink_flag_value f = (case f of SYMLINK_DIR \<Rightarrow> 1 | SYMLINK_JUNCTION \<Rightarrow> 2)"

section \<open>The file request\<close>

definition BAD_FD :: int where
  "BAD_FD = -1"

definition file_req :: kind where
  "file_req = K_file \<lparr>current = None, buffer = None, file_desc = BAD_FD\<rparr>"

definition file_data_of :: "world \<Rightarrow> oid \<Rightarrow> file_data" where
  "file_data_of w p =
     (case kind (objs w ! p) of K_file d \<Rightarrow> d | _ \<Rightarrow> \<lparr>current = None, buffer = None, file_desc = BAD_FD\<rparr>)"

definition file_update :: "(file_data \<Rightarrow> file_data) \<Rightarrow> oid \<Rightarrow> world \<Rightarrow> world" where
  "file_update f p w =
     upd p (\<lambda>b. b\<lparr>kind := (case kind b of K_file d \<Rightarrow> K_file (f d) | k \<Rightarrow> k)\<rparr>) w"

definition file_set :: "int \<Rightarrow> oid \<Rightarrow> world \<Rightarrow> world" where
  "file_set fd p w = file_update (\<lambda>d. d\<lparr>file_desc := fd\<rparr>) p w"

text \<open>\<^verbatim>\<open>operator file_handle\<close>.\<close>

definition file_handle :: "world \<Rightarrow> oid \<Rightarrow> int" where
  "file_handle w p = file_desc (file_data_of w p)"

definition fs_open_callback :: "libuv \<Rightarrow> behaviour \<Rightarrow> oid \<Rightarrow> world \<Rightarrow> ub + world" where
  "fs_open_callback uv beh p w =
     (let req = raw_fs uv (hist w) p in
      with_reserve uv cb_fs_open p (\<lambda>v.
        if fs_result req < 0 then publish beh (Ev_error (make_error_event (fs_result req))) p v
        else publish_fs beh (make_fs_event req) p (file_set (to_int32 (fs_result req)) p v)) w)"

definition fs_close_callback :: "libuv \<Rightarrow> behaviour \<Rightarrow> oid \<Rightarrow> world \<Rightarrow> ub + world" where
  "fs_close_callback uv beh p w =
     (let req = raw_fs uv (hist w) p in
      with_reserve uv cb_fs_close p (\<lambda>v.
        if fs_result req < 0 then publish beh (Ev_error (make_error_event (fs_result req))) p v
        else publish_fs beh (make_fs_event req) p (file_set BAD_FD p v)) w)"

text \<open>\<^verbatim>\<open>std::move(ptr->current)\<close> leaves a null pointer behind; \<^verbatim>\<open>d\<close> is what libuv has put into the buffer.\<close>

definition fs_read_callback :: "libuv \<Rightarrow> behaviour \<Rightarrow> bytes \<Rightarrow> oid \<Rightarrow> world \<Rightarrow> ub + world" where
  "fs_read_callback uv beh d p w =
     (let req = raw_fs uv (hist w) p in
      with_reserve uv cb_fs_read p (\<lambda>v.
        if fs_result req < 0 then publish beh (Ev_error (make_error_event (fs_result req))) p v
        else publish_fs beh (make_fs_read_event req (map_option (\<lambda>_. d) (current (file_data_of v p)))) p
               (file_update (\<lambda>x. x\<lparr>current := None\<rparr>) p v)) w)"

text \<open>\<^verbatim>\<open>uv_fs_req_cleanup(raw()); uv_fs_...(parent().raw(), raw(), ..., callback)\<close>.\<close>

definition fs_cleanup :: "libuv \<Rightarrow> oid \<Rightarrow> world \<Rightarrow> world" where
  "fs_cleanup uv p w = snd (uvcall uv (C_fs (uv_fs_req_cleanup p)) w)"

definition fs_async :: "libuv \<Rightarrow> fs_op \<Rightarrow> uv_cb \<Rightarrow> oid \<Rightarrow> world \<Rightarrow> world" where
  "fs_async uv op cb p w =
     (let v = fs_cleanup uv p w in snd (uvcall uv (C_fs (uv_fs (parent_raw v p) p op (Some cb))) v))"

text \<open>The synchronous form, with the request as libuv leaves it.\<close>

definition fs_sync :: "libuv \<Rightarrow> fs_op \<Rightarrow> oid \<Rightarrow> world \<Rightarrow> uv_fs_t \<times> world" where
  "fs_sync uv op p w =
     (let v = fs_cleanup uv p w; u = snd (uvcall uv (C_fs (uv_fs (parent_raw v p) p op None)) v)
      in (raw_fs uv (hist u) p, u))"

text \<open>\<^verbatim>\<open>return !(req->result < 0)\<close>, and \<^verbatim>\<open>std::make_pair(!err, err ? 0 : std::size_t(req->result))\<close>.\<close>

definition fs_sync_ok :: "libuv \<Rightarrow> fs_op \<Rightarrow> oid \<Rightarrow> world \<Rightarrow> bool \<times> world" where
  "fs_sync_ok uv op p w = (let (req, v) = fs_sync uv op p w in (\<not> fs_result req < 0, v))"

definition fs_sync_size :: "libuv \<Rightarrow> fs_op \<Rightarrow> oid \<Rightarrow> world \<Rightarrow> (bool \<times> u64) \<times> world" where
  "fs_sync_size uv op p w =
     (let (req, v) = fs_sync uv op p w; err = fs_result req < 0
      in ((\<not> err, if err then 0 else to_size (fs_result req)), v))"

definition fs_sync_stat :: "libuv \<Rightarrow> fs_op \<Rightarrow> oid \<Rightarrow> world \<Rightarrow> (bool \<times> file_info) \<times> world" where
  "fs_sync_stat uv op p w =
     (let (req, v) = fs_sync uv op p w in ((\<not> fs_result req < 0, fs_statbuf req), v))"

definition fs_sync_path :: "libuv \<Rightarrow> fs_op \<Rightarrow> oid \<Rightarrow> world \<Rightarrow> (bool \<times> string) \<times> world" where
  "fs_sync_path uv op p w =
     (let (req, v) = fs_sync uv op p w in ((\<not> fs_result req < 0, fs_path req), v))"

definition file_close :: "libuv \<Rightarrow> oid \<Rightarrow> world \<Rightarrow> world" where
  "file_close uv p w = fs_async uv (uv_fs_close (file_handle w p)) cb_fs_close p w"

definition file_close_sync :: "libuv \<Rightarrow> oid \<Rightarrow> world \<Rightarrow> bool \<times> world" where
  "file_close_sync uv p w =
     (let (req, v) = fs_sync uv (uv_fs_close (file_handle w p)) p w
      in (\<not> fs_result req < 0, if 0 \<le> fs_result req then file_set BAD_FD p v else v))"

definition file_open :: "libuv \<Rightarrow> string \<Rightarrow> flags \<Rightarrow> int \<Rightarrow> oid \<Rightarrow> world \<Rightarrow> world" where
  "file_open uv path fl mode p w = fs_async uv (uv_fs_open (c_str path) fl mode) cb_fs_open p w"

definition file_open_sync :: "libuv \<Rightarrow> string \<Rightarrow> flags \<Rightarrow> int \<Rightarrow> oid \<Rightarrow> world \<Rightarrow> bool \<times> world" where
  "file_open_sync uv path fl mode p w =
     (let (req, v) = fs_sync uv (uv_fs_open (c_str path) fl mode) p w
      in (\<not> fs_result req < 0,
          if 0 \<le> fs_result req then file_set (to_int32 (fs_result req)) p v else v))"

text \<open>\<^verbatim>\<open>std::make_unique<char[]>(len)\<close> is zeroed.\<close>

definition file_new_buffer :: "u32 \<Rightarrow> oid \<Rightarrow> world \<Rightarrow> world" where
  "file_new_buffer n p w =
     file_update (\<lambda>d. d\<lparr>current := Some (replicate (unat n) 0),
                        buffer := Some (uv_buf_init (replicate (unat n) 0) n)\<rparr>) p w"

definition read_op :: "u32 \<Rightarrow> int \<Rightarrow> int \<Rightarrow> fs_op" where
  "read_op n fd offset = uv_fs_read fd (uv_buf_init (replicate (unat n) 0) n) 1 offset"

definition file_read :: "libuv \<Rightarrow> int \<Rightarrow> u32 \<Rightarrow> oid \<Rightarrow> world \<Rightarrow> world" where
  "file_read uv offset n p w =
     (let v = file_new_buffer n p w
      in fs_async uv (read_op n (file_handle v p) offset) cb_fs_read p v)"

definition file_read_sync ::
  "libuv \<Rightarrow> bytes \<Rightarrow> int \<Rightarrow> u32 \<Rightarrow> oid \<Rightarrow> world \<Rightarrow> (bool \<times> bytes \<times> u64) \<times> world" where
  "file_read_sync uv filled offset n p w =
     (let v = file_new_buffer n p w;
          (req, u) = fs_sync uv (read_op n (file_handle v p) offset) p v;
          err = fs_result req < 0
      in ((\<not> err, filled, if err then 0 else to_size (fs_result req)),
          file_update (\<lambda>d. d\<lparr>current := None\<rparr>) p u))"

definition file_write :: "libuv \<Rightarrow> bytes \<Rightarrow> u32 \<Rightarrow> int \<Rightarrow> oid \<Rightarrow> world \<Rightarrow> world" where
  "file_write uv b n offset p w =
     (let v = file_update (\<lambda>d. d\<lparr>current := Some b\<rparr>) p w
      in fs_async uv (uv_fs_write (file_handle v p) (uv_buf_init b n) 1 offset) cb_fs_request p v)"

definition file_write_raw :: "libuv \<Rightarrow> bytes \<Rightarrow> u32 \<Rightarrow> int \<Rightarrow> oid \<Rightarrow> world \<Rightarrow> world" where
  "file_write_raw uv b n offset p w =
     fs_async uv (uv_fs_write (file_handle w p) (uv_buf_init b n) 1 offset) cb_fs_request p w"

definition file_write_sync ::
  "libuv \<Rightarrow> bytes \<Rightarrow> u32 \<Rightarrow> int \<Rightarrow> oid \<Rightarrow> world \<Rightarrow> (bool \<times> u64) \<times> world" where
  "file_write_sync uv b n offset p w =
     (let v = file_update (\<lambda>d. d\<lparr>current := Some b\<rparr>) p w
      in fs_sync_size uv (uv_fs_write (file_handle v p) (uv_buf_init b n) 1 offset) p v)"

definition file_stat :: "libuv \<Rightarrow> oid \<Rightarrow> world \<Rightarrow> world" where
  "file_stat uv p w = fs_async uv (uv_fs_fstat (file_handle w p)) cb_fs_request p w"

definition file_stat_sync :: "libuv \<Rightarrow> oid \<Rightarrow> world \<Rightarrow> (bool \<times> file_info) \<times> world" where
  "file_stat_sync uv p w = fs_sync_stat uv (uv_fs_fstat (file_handle w p)) p w"

definition file_sync :: "libuv \<Rightarrow> oid \<Rightarrow> world \<Rightarrow> world" where
  "file_sync uv p w = fs_async uv (uv_fs_fsync (file_handle w p)) cb_fs_request p w"

definition file_sync_sync :: "libuv \<Rightarrow> oid \<Rightarrow> world \<Rightarrow> bool \<times> world" where
  "file_sync_sync uv p w = fs_sync_ok uv (uv_fs_fsync (file_handle w p)) p w"

definition file_datasync :: "libuv \<Rightarrow> oid \<Rightarrow> world \<Rightarrow> world" where
  "file_datasync uv p w = fs_async uv (uv_fs_fdatasync (file_handle w p)) cb_fs_request p w"

definition file_datasync_sync :: "libuv \<Rightarrow> oid \<Rightarrow> world \<Rightarrow> bool \<times> world" where
  "file_datasync_sync uv p w = fs_sync_ok uv (uv_fs_fdatasync (file_handle w p)) p w"

definition file_truncate :: "libuv \<Rightarrow> int \<Rightarrow> oid \<Rightarrow> world \<Rightarrow> world" where
  "file_truncate uv offset p w = fs_async uv (uv_fs_ftruncate (file_handle w p) offset) cb_fs_request p w"

definition file_truncate_sync :: "libuv \<Rightarrow> int \<Rightarrow> oid \<Rightarrow> world \<Rightarrow> bool \<times> world" where
  "file_truncate_sync uv offset p w = fs_sync_ok uv (uv_fs_ftruncate (file_handle w p) offset) p w"

definition file_sendfile :: "libuv \<Rightarrow> int \<Rightarrow> int \<Rightarrow> u64 \<Rightarrow> oid \<Rightarrow> world \<Rightarrow> world" where
  "file_sendfile uv out offset n p w = fs_async uv (uv_fs_sendfile out (file_handle w p) offset n) cb_fs_request p w"

definition file_sendfile_sync :: "libuv \<Rightarrow> int \<Rightarrow> int \<Rightarrow> u64 \<Rightarrow> oid \<Rightarrow> world \<Rightarrow> (bool \<times> u64) \<times> world" where
  "file_sendfile_sync uv out offset n p w = fs_sync_size uv (uv_fs_sendfile out (file_handle w p) offset n) p w"

definition file_chmod :: "libuv \<Rightarrow> int \<Rightarrow> oid \<Rightarrow> world \<Rightarrow> world" where
  "file_chmod uv mode p w = fs_async uv (uv_fs_fchmod (file_handle w p) mode) cb_fs_request p w"

definition file_chmod_sync :: "libuv \<Rightarrow> int \<Rightarrow> oid \<Rightarrow> world \<Rightarrow> bool \<times> world" where
  "file_chmod_sync uv mode p w = fs_sync_ok uv (uv_fs_fchmod (file_handle w p) mode) p w"

definition file_futime :: "libuv \<Rightarrow> double \<Rightarrow> double \<Rightarrow> oid \<Rightarrow> world \<Rightarrow> world" where
  "file_futime uv atime mtime p w = fs_async uv (uv_fs_futime (file_handle w p) atime mtime) cb_fs_request p w"

definition file_futime_sync :: "libuv \<Rightarrow> double \<Rightarrow> double \<Rightarrow> oid \<Rightarrow> world \<Rightarrow> bool \<times> world" where
  "file_futime_sync uv atime mtime p w = fs_sync_ok uv (uv_fs_futime (file_handle w p) atime mtime) p w"

definition file_chown :: "libuv \<Rightarrow> u32 \<Rightarrow> u32 \<Rightarrow> oid \<Rightarrow> world \<Rightarrow> world" where
  "file_chown uv uid gid p w = fs_async uv (uv_fs_fchown (file_handle w p) uid gid) cb_fs_request p w"

definition file_chown_sync :: "libuv \<Rightarrow> u32 \<Rightarrow> u32 \<Rightarrow> oid \<Rightarrow> world \<Rightarrow> bool \<times> world" where
  "file_chown_sync uv uid gid p w = fs_sync_ok uv (uv_fs_fchown (file_handle w p) uid gid) p w"

text \<open>The public interface: an operation, in the asynchronous or the synchronous form.\<close>

datatype (plugins only: code) file_cmd =
    F_close | F_open string flags int | F_read int u32 | F_write bytes u32 int | F_write_raw bytes u32 int
  | F_stat | F_sync | F_datasync | F_truncate int | F_sendfile int int u64 | F_chmod int
  | F_futime double double | F_chown u32 u32

definition file_exec :: "libuv \<Rightarrow> file_cmd \<Rightarrow> oid \<Rightarrow> world \<Rightarrow> world" where
  "file_exec uv c p w =
     (case c of
        F_close \<Rightarrow> file_close uv p w
      | F_open s f m \<Rightarrow> file_open uv s f m p w
      | F_read i n \<Rightarrow> file_read uv i n p w
      | F_write b n i \<Rightarrow> file_write uv b n i p w
      | F_write_raw b n i \<Rightarrow> file_write_raw uv b n i p w
      | F_stat \<Rightarrow> file_stat uv p w
      | F_sync \<Rightarrow> file_sync uv p w
      | F_datasync \<Rightarrow> file_datasync uv p w
      | F_truncate i \<Rightarrow> file_truncate uv i p w
      | F_sendfile f i n \<Rightarrow> file_sendfile uv f i n p w
      | F_chmod m \<Rightarrow> file_chmod uv m p w
      | F_futime a m \<Rightarrow> file_futime uv a m p w
      | F_chown u g \<Rightarrow> file_chown uv u g p w)"

text \<open>\<^verbatim>\<open>write(char *)\<close> has no synchronous form of its own.\<close>

definition file_exec_sync :: "libuv \<Rightarrow> bytes \<Rightarrow> file_cmd \<Rightarrow> oid \<Rightarrow> world \<Rightarrow> world" where
  "file_exec_sync uv filled c p w =
     (case c of
        F_close \<Rightarrow> snd (file_close_sync uv p w)
      | F_open s f m \<Rightarrow> snd (file_open_sync uv s f m p w)
      | F_read i n \<Rightarrow> snd (file_read_sync uv filled i n p w)
      | F_write b n i \<Rightarrow> snd (file_write_sync uv b n i p w)
      | F_write_raw b n i \<Rightarrow> w
      | F_stat \<Rightarrow> snd (file_stat_sync uv p w)
      | F_sync \<Rightarrow> snd (file_sync_sync uv p w)
      | F_datasync \<Rightarrow> snd (file_datasync_sync uv p w)
      | F_truncate i \<Rightarrow> snd (file_truncate_sync uv i p w)
      | F_sendfile f i n \<Rightarrow> snd (file_sendfile_sync uv f i n p w)
      | F_chmod m \<Rightarrow> snd (file_chmod_sync uv m p w)
      | F_futime a m \<Rightarrow> snd (file_futime_sync uv a m p w)
      | F_chown u g \<Rightarrow> snd (file_chown_sync uv u g p w))"

section \<open>The file system request\<close>

definition fs_req :: kind where
  "fs_req = K_fs None"

definition dirents_of :: "world \<Rightarrow> oid \<Rightarrow> dirent option" where
  "dirents_of w p = (case kind (objs w ! p) of K_fs d \<Rightarrow> d | _ \<Rightarrow> None)"

definition set_dirents :: "dirent option \<Rightarrow> oid \<Rightarrow> world \<Rightarrow> world" where
  "set_dirents d p w =
     upd p (\<lambda>b. b\<lparr>kind := (case kind b of K_fs x \<Rightarrow> K_fs d | k \<Rightarrow> k)\<rparr>) w"

definition fs_unlink :: "libuv \<Rightarrow> string \<Rightarrow> oid \<Rightarrow> world \<Rightarrow> world" where
  "fs_unlink uv path p w = fs_async uv (uv_fs_unlink (c_str path)) cb_fs_request p w"

definition fs_unlink_sync :: "libuv \<Rightarrow> string \<Rightarrow> oid \<Rightarrow> world \<Rightarrow> bool \<times> world" where
  "fs_unlink_sync uv path p w = fs_sync_ok uv (uv_fs_unlink (c_str path)) p w"

definition fs_mkdir :: "libuv \<Rightarrow> string \<Rightarrow> int \<Rightarrow> oid \<Rightarrow> world \<Rightarrow> world" where
  "fs_mkdir uv path mode p w = fs_async uv (uv_fs_mkdir (c_str path) mode) cb_fs_request p w"

definition fs_mkdir_sync :: "libuv \<Rightarrow> string \<Rightarrow> int \<Rightarrow> oid \<Rightarrow> world \<Rightarrow> bool \<times> world" where
  "fs_mkdir_sync uv path mode p w = fs_sync_ok uv (uv_fs_mkdir (c_str path) mode) p w"

definition fs_mkdtemp :: "libuv \<Rightarrow> string \<Rightarrow> oid \<Rightarrow> world \<Rightarrow> world" where
  "fs_mkdtemp uv tpl p w = fs_async uv (uv_fs_mkdtemp (c_str tpl)) cb_fs_request p w"

definition fs_mkdtemp_sync :: "libuv \<Rightarrow> string \<Rightarrow> oid \<Rightarrow> world \<Rightarrow> (bool \<times> string) \<times> world" where
  "fs_mkdtemp_sync uv tpl p w = fs_sync_path uv (uv_fs_mkdtemp (c_str tpl)) p w"

definition fs_mkstemp :: "libuv \<Rightarrow> string \<Rightarrow> oid \<Rightarrow> world \<Rightarrow> world" where
  "fs_mkstemp uv tpl p w = fs_async uv (uv_fs_mkstemp (c_str tpl)) cb_fs_request p w"

text \<open>\<^verbatim>\<open>ret{false, {}}\<close>, filled only in case of success.\<close>

definition fs_mkstemp_sync :: "libuv \<Rightarrow> string \<Rightarrow> oid \<Rightarrow> world \<Rightarrow> (bool \<times> string \<times> u64) \<times> world" where
  "fs_mkstemp_sync uv tpl p w =
     (let (req, v) = fs_sync uv (uv_fs_mkstemp (c_str tpl)) p w
      in (if \<not> fs_result req < 0 then (True, fs_path req, to_size (fs_result req)) else (False, [], 0), v))"

definition fs_lutime :: "libuv \<Rightarrow> string \<Rightarrow> double \<Rightarrow> double \<Rightarrow> oid \<Rightarrow> world \<Rightarrow> world" where
  "fs_lutime uv path atime mtime p w = fs_async uv (uv_fs_lutime (c_str path) atime mtime) cb_fs_request p w"

definition fs_lutime_sync :: "libuv \<Rightarrow> string \<Rightarrow> double \<Rightarrow> double \<Rightarrow> oid \<Rightarrow> world \<Rightarrow> bool \<times> world" where
  "fs_lutime_sync uv path atime mtime p w = fs_sync_ok uv (uv_fs_lutime (c_str path) atime mtime) p w"

definition fs_rmdir :: "libuv \<Rightarrow> string \<Rightarrow> oid \<Rightarrow> world \<Rightarrow> world" where
  "fs_rmdir uv path p w = fs_async uv (uv_fs_rmdir (c_str path)) cb_fs_request p w"

definition fs_rmdir_sync :: "libuv \<Rightarrow> string \<Rightarrow> oid \<Rightarrow> world \<Rightarrow> bool \<times> world" where
  "fs_rmdir_sync uv path p w = fs_sync_ok uv (uv_fs_rmdir (c_str path)) p w"

definition fs_scandir :: "libuv \<Rightarrow> string \<Rightarrow> int \<Rightarrow> oid \<Rightarrow> world \<Rightarrow> world" where
  "fs_scandir uv path fl p w = fs_async uv (uv_fs_scandir (c_str path) fl) cb_fs_request p w"

definition fs_scandir_sync :: "libuv \<Rightarrow> string \<Rightarrow> int \<Rightarrow> oid \<Rightarrow> world \<Rightarrow> (bool \<times> u64) \<times> world" where
  "fs_scandir_sync uv path fl p w = fs_sync_size uv (uv_fs_scandir (c_str path) fl) p w"

text \<open>\<^verbatim>\<open>scandir_next\<close>: the request is cleaned up first, and anything but \<^verbatim>\<open>UV_EOF\<close> counts as an entry.\<close>

definition fs_scandir_next :: "libuv \<Rightarrow> oid \<Rightarrow> world \<Rightarrow> (bool \<times> dirent option) \<times> world" where
  "fs_scandir_next uv p w =
     (let v = fs_cleanup uv p w; c = C_fs (uv_fs_scandir_next p);
          d = (case out_dirent uv (hist v) c of None \<Rightarrow> dirents_of v p | Some e \<Rightarrow> Some e);
          (res, u) = uvcall uv c v; x = set_dirents d p u
      in (if res \<noteq> UV_EOF uv then (True, d) else (False, None), x))"

definition fs_stat :: "libuv \<Rightarrow> string \<Rightarrow> oid \<Rightarrow> world \<Rightarrow> world" where
  "fs_stat uv path p w = fs_async uv (uv_fs_stat (c_str path)) cb_fs_request p w"

definition fs_stat_sync :: "libuv \<Rightarrow> string \<Rightarrow> oid \<Rightarrow> world \<Rightarrow> (bool \<times> file_info) \<times> world" where
  "fs_stat_sync uv path p w = fs_sync_stat uv (uv_fs_stat (c_str path)) p w"

definition fs_lstat :: "libuv \<Rightarrow> string \<Rightarrow> oid \<Rightarrow> world \<Rightarrow> world" where
  "fs_lstat uv path p w = fs_async uv (uv_fs_lstat (c_str path)) cb_fs_request p w"

definition fs_lstat_sync :: "libuv \<Rightarrow> string \<Rightarrow> oid \<Rightarrow> world \<Rightarrow> (bool \<times> file_info) \<times> world" where
  "fs_lstat_sync uv path p w = fs_sync_stat uv (uv_fs_lstat (c_str path)) p w"

definition fs_statfs :: "libuv \<Rightarrow> string \<Rightarrow> oid \<Rightarrow> world \<Rightarrow> world" where
  "fs_statfs uv path p w = fs_async uv (uv_fs_statfs (c_str path)) cb_fs_request p w"

text \<open>\<^verbatim>\<open>*static_cast<uv_statfs_t *>(req->ptr)\<close> is evaluated in case of errors too.\<close>

definition fs_statfs_sync :: "libuv \<Rightarrow> string \<Rightarrow> oid \<Rightarrow> world \<Rightarrow> ub + ((bool \<times> fs_info) \<times> world)" where
  "fs_statfs_sync uv path p w =
     (let (req, v) = fs_sync uv (uv_fs_statfs (c_str path)) p w
      in case fs_pointer req of
           Ptr_statfs s \<Rightarrow> Inr ((\<not> fs_result req < 0, s), v)
         | _ \<Rightarrow> Inl Null_dereference)"

definition fs_rename :: "libuv \<Rightarrow> string \<Rightarrow> string \<Rightarrow> oid \<Rightarrow> world \<Rightarrow> world" where
  "fs_rename uv old path p w = fs_async uv (uv_fs_rename (c_str old) (c_str path)) cb_fs_request p w"

definition fs_rename_sync :: "libuv \<Rightarrow> string \<Rightarrow> string \<Rightarrow> oid \<Rightarrow> world \<Rightarrow> bool \<times> world" where
  "fs_rename_sync uv old path p w = fs_sync_ok uv (uv_fs_rename (c_str old) (c_str path)) p w"

definition fs_copyfile :: "libuv \<Rightarrow> string \<Rightarrow> string \<Rightarrow> flags \<Rightarrow> oid \<Rightarrow> world \<Rightarrow> world" where
  "fs_copyfile uv old path fl p w = fs_async uv (uv_fs_copyfile (c_str old) (c_str path) fl) cb_fs_request p w"

definition fs_copyfile_sync :: "libuv \<Rightarrow> string \<Rightarrow> string \<Rightarrow> flags \<Rightarrow> oid \<Rightarrow> world \<Rightarrow> bool \<times> world" where
  "fs_copyfile_sync uv old path fl p w = fs_sync_ok uv (uv_fs_copyfile (c_str old) (c_str path) fl) p w"

definition fs_access :: "libuv \<Rightarrow> string \<Rightarrow> int \<Rightarrow> oid \<Rightarrow> world \<Rightarrow> world" where
  "fs_access uv path mode p w = fs_async uv (uv_fs_access (c_str path) mode) cb_fs_request p w"

definition fs_access_sync :: "libuv \<Rightarrow> string \<Rightarrow> int \<Rightarrow> oid \<Rightarrow> world \<Rightarrow> bool \<times> world" where
  "fs_access_sync uv path mode p w = fs_sync_ok uv (uv_fs_access (c_str path) mode) p w"

definition fs_chmod :: "libuv \<Rightarrow> string \<Rightarrow> int \<Rightarrow> oid \<Rightarrow> world \<Rightarrow> world" where
  "fs_chmod uv path mode p w = fs_async uv (uv_fs_chmod (c_str path) mode) cb_fs_request p w"

definition fs_chmod_sync :: "libuv \<Rightarrow> string \<Rightarrow> int \<Rightarrow> oid \<Rightarrow> world \<Rightarrow> bool \<times> world" where
  "fs_chmod_sync uv path mode p w = fs_sync_ok uv (uv_fs_chmod (c_str path) mode) p w"

definition fs_utime :: "libuv \<Rightarrow> string \<Rightarrow> double \<Rightarrow> double \<Rightarrow> oid \<Rightarrow> world \<Rightarrow> world" where
  "fs_utime uv path atime mtime p w = fs_async uv (uv_fs_utime (c_str path) atime mtime) cb_fs_request p w"

definition fs_utime_sync :: "libuv \<Rightarrow> string \<Rightarrow> double \<Rightarrow> double \<Rightarrow> oid \<Rightarrow> world \<Rightarrow> bool \<times> world" where
  "fs_utime_sync uv path atime mtime p w = fs_sync_ok uv (uv_fs_utime (c_str path) atime mtime) p w"

definition fs_link :: "libuv \<Rightarrow> string \<Rightarrow> string \<Rightarrow> oid \<Rightarrow> world \<Rightarrow> world" where
  "fs_link uv old path p w = fs_async uv (uv_fs_link (c_str old) (c_str path)) cb_fs_request p w"

definition fs_link_sync :: "libuv \<Rightarrow> string \<Rightarrow> string \<Rightarrow> oid \<Rightarrow> world \<Rightarrow> bool \<times> world" where
  "fs_link_sync uv old path p w = fs_sync_ok uv (uv_fs_link (c_str old) (c_str path)) p w"

definition fs_symlink :: "libuv \<Rightarrow> string \<Rightarrow> string \<Rightarrow> flags \<Rightarrow> oid \<Rightarrow> world \<Rightarrow> world" where
  "fs_symlink uv old path fl p w = fs_async uv (uv_fs_symlink (c_str old) (c_str path) fl) cb_fs_request p w"

definition fs_symlink_sync :: "libuv \<Rightarrow> string \<Rightarrow> string \<Rightarrow> flags \<Rightarrow> oid \<Rightarrow> world \<Rightarrow> bool \<times> world" where
  "fs_symlink_sync uv old path fl p w = fs_sync_ok uv (uv_fs_symlink (c_str old) (c_str path) fl) p w"

definition fs_readlink :: "libuv \<Rightarrow> string \<Rightarrow> oid \<Rightarrow> world \<Rightarrow> world" where
  "fs_readlink uv path p w = fs_async uv (uv_fs_readlink (c_str path)) cb_fs_request p w"

definition fs_readlink_sync ::
  "libuv \<Rightarrow> string \<Rightarrow> oid \<Rightarrow> world \<Rightarrow> (bool \<times> fs_ptr \<times> u64) \<times> world" where
  "fs_readlink_sync uv path p w =
     (let (req, v) = fs_sync uv (uv_fs_readlink (c_str path)) p w; err = fs_result req < 0
      in ((\<not> err, fs_pointer req, if err then 0 else to_size (fs_result req)), v))"

definition fs_realpath :: "libuv \<Rightarrow> string \<Rightarrow> oid \<Rightarrow> world \<Rightarrow> world" where
  "fs_realpath uv path p w = fs_async uv (uv_fs_realpath (c_str path)) cb_fs_request p w"

definition fs_realpath_sync :: "libuv \<Rightarrow> string \<Rightarrow> oid \<Rightarrow> world \<Rightarrow> (bool \<times> string) \<times> world" where
  "fs_realpath_sync uv path p w = fs_sync_path uv (uv_fs_realpath (c_str path)) p w"

definition fs_chown :: "libuv \<Rightarrow> string \<Rightarrow> u32 \<Rightarrow> u32 \<Rightarrow> oid \<Rightarrow> world \<Rightarrow> world" where
  "fs_chown uv path uid gid p w = fs_async uv (uv_fs_chown (c_str path) uid gid) cb_fs_request p w"

definition fs_chown_sync :: "libuv \<Rightarrow> string \<Rightarrow> u32 \<Rightarrow> u32 \<Rightarrow> oid \<Rightarrow> world \<Rightarrow> bool \<times> world" where
  "fs_chown_sync uv path uid gid p w = fs_sync_ok uv (uv_fs_chown (c_str path) uid gid) p w"

definition fs_lchown :: "libuv \<Rightarrow> string \<Rightarrow> u32 \<Rightarrow> u32 \<Rightarrow> oid \<Rightarrow> world \<Rightarrow> world" where
  "fs_lchown uv path uid gid p w = fs_async uv (uv_fs_lchown (c_str path) uid gid) cb_fs_request p w"

definition fs_lchown_sync :: "libuv \<Rightarrow> string \<Rightarrow> u32 \<Rightarrow> u32 \<Rightarrow> oid \<Rightarrow> world \<Rightarrow> bool \<times> world" where
  "fs_lchown_sync uv path uid gid p w = fs_sync_ok uv (uv_fs_lchown (c_str path) uid gid) p w"

definition fs_opendir :: "libuv \<Rightarrow> string \<Rightarrow> oid \<Rightarrow> world \<Rightarrow> world" where
  "fs_opendir uv path p w = fs_async uv (uv_fs_opendir (c_str path)) cb_fs_request p w"

definition fs_opendir_sync :: "libuv \<Rightarrow> string \<Rightarrow> oid \<Rightarrow> world \<Rightarrow> bool \<times> world" where
  "fs_opendir_sync uv path p w = fs_sync_ok uv (uv_fs_opendir (c_str path)) p w"

text \<open>\<^verbatim>\<open>static_cast<uv_dir_t *>(req->ptr)\<close>, read before the request is cleaned up.\<close>

definition dir_of :: "libuv \<Rightarrow> oid \<Rightarrow> world \<Rightarrow> nat option" where
  "dir_of uv p w = (case fs_pointer (raw_fs uv (hist w) p) of Ptr_dir n ds \<Rightarrow> Some n | _ \<Rightarrow> None)"

definition fs_closedir :: "libuv \<Rightarrow> oid \<Rightarrow> world \<Rightarrow> world" where
  "fs_closedir uv p w = fs_async uv (uv_fs_closedir (dir_of uv p w)) cb_fs_request p w"

definition fs_closedir_sync :: "libuv \<Rightarrow> oid \<Rightarrow> world \<Rightarrow> bool \<times> world" where
  "fs_closedir_sync uv p w = fs_sync_ok uv (uv_fs_closedir (dir_of uv p w)) p w"

text \<open>\<^verbatim>\<open>dir->dirents = &dirents\<close> writes through the pointer, whatever it is.\<close>

definition fs_readdir :: "libuv \<Rightarrow> oid \<Rightarrow> world \<Rightarrow> ub + world" where
  "fs_readdir uv p w =
     (case dir_of uv p w of
        None \<Rightarrow> Inl Null_dereference
      | Some dir \<Rightarrow> Inr (fs_async uv (uv_fs_readdir (Some dir)) cb_fs_request p w))"

definition fs_readdir_sync :: "libuv \<Rightarrow> oid \<Rightarrow> world \<Rightarrow> ub + ((bool \<times> dirent option) \<times> world)" where
  "fs_readdir_sync uv p w =
     (case dir_of uv p w of
        None \<Rightarrow> Inl Null_dereference
      | Some dir \<Rightarrow>
          (let (req, v) = fs_sync uv (uv_fs_readdir (Some dir)) p w;
               d = (case fs_pointer req of Ptr_dir n (e # es) \<Rightarrow> Some e | _ \<Rightarrow> dirents_of v p)
           in Inr ((fs_result req \<noteq> 0, d), set_dirents d p v)))"

text \<open>\<^verbatim>\<open>fs_helper\<close>: both functions return what libuv returns.\<close>

definition fs_helper_handle :: "(int \<Rightarrow> int) \<Rightarrow> int \<Rightarrow> int" where
  "fs_helper_handle uv_get_osfhandle f = uv_get_osfhandle f"

definition fs_helper_open :: "(int \<Rightarrow> int) \<Rightarrow> int \<Rightarrow> int" where
  "fs_helper_open uv_open_osfhandle d = uv_open_osfhandle d"

datatype (plugins only: code) fs_cmd =
    S_unlink string | S_mkdir string int | S_mkdtemp string | S_mkstemp string
  | S_lutime string double double | S_rmdir string | S_scandir string int | S_stat string
  | S_lstat string | S_statfs string | S_rename string string
  | S_copyfile string string flags | S_access string int | S_chmod string int
  | S_utime string double double | S_link string string | S_symlink string string flags
  | S_readlink string | S_realpath string | S_chown string u32 u32 | S_lchown string u32 u32
  | S_opendir string | S_closedir

definition fs_exec :: "libuv \<Rightarrow> fs_cmd \<Rightarrow> oid \<Rightarrow> world \<Rightarrow> world" where
  "fs_exec uv c p w =
     (case c of
        S_unlink path \<Rightarrow> fs_unlink uv path p w
      | S_mkdir path mode \<Rightarrow> fs_mkdir uv path mode p w
      | S_mkdtemp tpl \<Rightarrow> fs_mkdtemp uv tpl p w
      | S_mkstemp tpl \<Rightarrow> fs_mkstemp uv tpl p w
      | S_lutime path atime mtime \<Rightarrow> fs_lutime uv path atime mtime p w
      | S_rmdir path \<Rightarrow> fs_rmdir uv path p w
      | S_scandir path fl \<Rightarrow> fs_scandir uv path fl p w
      | S_stat path \<Rightarrow> fs_stat uv path p w
      | S_lstat path \<Rightarrow> fs_lstat uv path p w
      | S_statfs path \<Rightarrow> fs_statfs uv path p w
      | S_rename old path \<Rightarrow> fs_rename uv old path p w
      | S_copyfile old path fl \<Rightarrow> fs_copyfile uv old path fl p w
      | S_access path mode \<Rightarrow> fs_access uv path mode p w
      | S_chmod path mode \<Rightarrow> fs_chmod uv path mode p w
      | S_utime path atime mtime \<Rightarrow> fs_utime uv path atime mtime p w
      | S_link old path \<Rightarrow> fs_link uv old path p w
      | S_symlink old path fl \<Rightarrow> fs_symlink uv old path fl p w
      | S_readlink path \<Rightarrow> fs_readlink uv path p w
      | S_realpath path \<Rightarrow> fs_realpath uv path p w
      | S_chown path uid gid \<Rightarrow> fs_chown uv path uid gid p w
      | S_lchown path uid gid \<Rightarrow> fs_lchown uv path uid gid p w
      | S_opendir path \<Rightarrow> fs_opendir uv path p w
      | S_closedir \<Rightarrow> fs_closedir uv p w)"

definition fs_exec_sync :: "libuv \<Rightarrow> fs_cmd \<Rightarrow> oid \<Rightarrow> world \<Rightarrow> ub + world" where
  "fs_exec_sync uv c p w =
     (case c of
        S_unlink path \<Rightarrow> Inr (snd (fs_unlink_sync uv path p w))
      | S_mkdir path mode \<Rightarrow> Inr (snd (fs_mkdir_sync uv path mode p w))
      | S_mkdtemp tpl \<Rightarrow> Inr (snd (fs_mkdtemp_sync uv tpl p w))
      | S_mkstemp tpl \<Rightarrow> Inr (snd (fs_mkstemp_sync uv tpl p w))
      | S_lutime path atime mtime \<Rightarrow> Inr (snd (fs_lutime_sync uv path atime mtime p w))
      | S_rmdir path \<Rightarrow> Inr (snd (fs_rmdir_sync uv path p w))
      | S_scandir path fl \<Rightarrow> Inr (snd (fs_scandir_sync uv path fl p w))
      | S_stat path \<Rightarrow> Inr (snd (fs_stat_sync uv path p w))
      | S_lstat path \<Rightarrow> Inr (snd (fs_lstat_sync uv path p w))
      | S_statfs path \<Rightarrow> map_sum id snd (fs_statfs_sync uv path p w)
      | S_rename old path \<Rightarrow> Inr (snd (fs_rename_sync uv old path p w))
      | S_copyfile old path fl \<Rightarrow> Inr (snd (fs_copyfile_sync uv old path fl p w))
      | S_access path mode \<Rightarrow> Inr (snd (fs_access_sync uv path mode p w))
      | S_chmod path mode \<Rightarrow> Inr (snd (fs_chmod_sync uv path mode p w))
      | S_utime path atime mtime \<Rightarrow> Inr (snd (fs_utime_sync uv path atime mtime p w))
      | S_link old path \<Rightarrow> Inr (snd (fs_link_sync uv old path p w))
      | S_symlink old path fl \<Rightarrow> Inr (snd (fs_symlink_sync uv old path fl p w))
      | S_readlink path \<Rightarrow> Inr (snd (fs_readlink_sync uv path p w))
      | S_realpath path \<Rightarrow> Inr (snd (fs_realpath_sync uv path p w))
      | S_chown path uid gid \<Rightarrow> Inr (snd (fs_chown_sync uv path uid gid p w))
      | S_lchown path uid gid \<Rightarrow> Inr (snd (fs_lchown_sync uv path uid gid p w))
      | S_opendir path \<Rightarrow> Inr (snd (fs_opendir_sync uv path p w))
      | S_closedir \<Rightarrow> Inr (snd (fs_closedir_sync uv p w)))"

section \<open>Every operation keeps the invariant\<close>

lemma class_of_file [simp]: "class_of (K_file a) = class_of (K_file b)"
  and class_of_fs [simp]: "class_of (K_fs c) = class_of (K_fs d)"
  by (simp_all add: class_of_def handle_kind_def stream_kind_def fs_kind_of_def internal_kind_def
      is_loop_kind_def ownerless_def events_of_def own_tags_def)

lemma good_file_update: "invar w \<Longrightarrow> good w (file_update f p w)"
  unfolding file_update_def by (rule good_kind) (auto split: kind.splits intro: class_of_file)

lemma good_set_dirents: "invar w \<Longrightarrow> good w (set_dirents d p w)"
  unfolding set_dirents_def by (rule good_kind) (auto split: kind.splits intro: class_of_fs)

lemma good_fs_cleanup: "invar w \<Longrightarrow> good w (fs_cleanup uv p w)"
  unfolding fs_cleanup_def by (rule good_neutral) simp_all

lemma fs_cleanup_objs [simp]: "objs (fs_cleanup uv p w) = objs w"
  and fs_cleanup_live [simp]: "live (fs_cleanup uv p w) = live w"
  by (simp_all add: fs_cleanup_def live_def fun_eq_iff)

lemma good_fs_async:
  assumes "invar w" and "live w p" and "fs_kind_of (kind (objs w ! p))"
  shows "good w (fs_async uv op cb p w)"
proof -
  let ?v = "fs_cleanup uv p w"
  let ?c = "C_fs (uv_fs (parent_raw ?v p) p op (Some cb))"
  have g: "good w ?v" using assms(1) by (rule good_fs_cleanup)
  have "good ?v (snd (uvcall uv ?c ?v))"
    using assms good_inv [OF g]
    by (intro good_fs_call [where r = "ret uv (hist ?v) ?c"]) (auto simp: opens_def submits_def)
  then show ?thesis
    using good_trans [OF g] by (simp add: fs_async_def Let_def)
qed

lemma good_fs_sync: "invar w \<Longrightarrow> good w (snd (fs_sync uv op p w))"
proof -
  assume w: "invar w"
  let ?v = "fs_cleanup uv p w"
  have g: "good w ?v" using w by (rule good_fs_cleanup)
  have "good ?v (snd (uvcall uv (C_fs (uv_fs (parent_raw ?v p) p op None)) ?v))"
    using good_inv [OF g] by (intro good_uvcall) (auto simp: quiet_def opens_def submits_def)
  then show ?thesis
    using good_trans [OF g] by (simp add: fs_sync_def Let_def)
qed

lemmas fs_sync_defs = fs_sync_ok_def fs_sync_size_def fs_sync_stat_def fs_sync_path_def

lemma good_then_file_update: "good w v \<Longrightarrow> good w (file_update f p v)"
  using good_file_update good_inv good_trans by blast

lemma file_update_live [simp]: "live (file_update f p w) = live w"
  by (simp add: file_update_def live_upd)

lemma file_update_fs_kind:
  "fs_kind_of (kind (objs (file_update f p w) ! q)) = fs_kind_of (kind (objs w ! q))"
  by (auto simp: file_update_def nth_upd fs_kind_of_def split: kind.splits)

lemma file_async_good:
  assumes "invar w" and "live w p" and "fs_kind_of (kind (objs w ! p))"
  shows "good w (fs_async uv op cb p (file_update f p w))"
proof -
  have g: "good w (file_update f p w)" using assms(1) by (rule good_file_update)
  have "good (file_update f p w) (fs_async uv op cb p (file_update f p w))"
    using good_inv [OF g] assms by (intro good_fs_async) (simp_all add: file_update_fs_kind)
  then show ?thesis by (rule good_trans [OF g])
qed

lemma file_exec_good:
  assumes "invar w" and "live w p" and "fs_kind_of (kind (objs w ! p))"
  shows "good w (file_exec uv c p w)"
  using good_fs_async [OF assms] file_async_good [OF assms]
  by (cases c)
    (simp_all add: file_exec_def file_close_def file_open_def file_read_def file_new_buffer_def
      file_write_def file_write_raw_def file_stat_def file_sync_def file_datasync_def file_truncate_def
      file_sendfile_def file_chmod_def file_futime_def file_chown_def Let_def)

lemma file_exec_sync_good:
  assumes "invar w"
  shows "good w (file_exec_sync uv filled c p w)"
proof -
  have s: "good w (snd (fs_sync uv op p w))" for op using assms by (rule good_fs_sync)
  have u: "good w (snd (fs_sync uv op p (file_update f p w)))" for op f
    using good_trans [OF good_file_update [OF assms] good_fs_sync [OF good_inv [OF good_file_update [OF assms]]]] .
  show ?thesis
    using s u assms
    by (cases c)
      (simp_all add: file_exec_sync_def file_close_sync_def file_open_sync_def file_read_sync_def
        file_new_buffer_def file_write_sync_def file_stat_sync_def file_sync_sync_def
        file_datasync_sync_def file_truncate_sync_def file_sendfile_sync_def file_chmod_sync_def
        file_futime_sync_def file_chown_sync_def fs_sync_defs file_set_def good_then_file_update
        case_prod_beta Let_def good_refl)
qed

lemma fs_exec_good:
  assumes "invar w" and "live w p" and "fs_kind_of (kind (objs w ! p))"
  shows "good w (fs_exec uv c p w)"
  using good_fs_async [OF assms]
  by (cases c)
    (simp_all add:
      fs_exec_def fs_unlink_def fs_mkdir_def fs_mkdtemp_def fs_mkstemp_def fs_lutime_def
      fs_rmdir_def fs_scandir_def fs_stat_def fs_lstat_def fs_statfs_def fs_rename_def
      fs_copyfile_def fs_access_def fs_chmod_def fs_utime_def fs_link_def fs_symlink_def
      fs_readlink_def fs_realpath_def fs_chown_def fs_lchown_def fs_opendir_def fs_closedir_def)

lemma fs_exec_sync_good:
  assumes "invar w" and "fs_exec_sync uv c p w = Inr v"
  shows "good w v"
  using assms(2) good_fs_sync [OF assms(1)]
  by (cases c)
    (auto simp:
      fs_exec_sync_def fs_unlink_sync_def fs_mkdir_sync_def fs_mkdtemp_sync_def
      fs_mkstemp_sync_def fs_lutime_sync_def fs_rmdir_sync_def fs_scandir_sync_def
      fs_stat_sync_def fs_lstat_sync_def fs_statfs_sync_def fs_rename_sync_def
      fs_copyfile_sync_def fs_access_sync_def fs_chmod_sync_def fs_utime_sync_def
      fs_link_sync_def fs_symlink_sync_def fs_readlink_sync_def fs_realpath_sync_def
      fs_chown_sync_def fs_lchown_sync_def fs_opendir_sync_def fs_closedir_sync_def fs_sync_defs
      case_prod_beta Let_def
      split: fs_ptr.splits)

lemma fs_readdir_good:
  assumes "invar w" and "live w p" and "fs_kind_of (kind (objs w ! p))" and "fs_readdir uv p w = Inr v"
  shows "good w v"
  using assms good_fs_async [OF assms(1-3)] by (auto simp: fs_readdir_def split: option.splits)

lemma fs_readdir_sync_good:
  assumes "invar w" and "fs_readdir_sync uv p w = Inr (x, v)"
  shows "good w v"
proof -
  have "good w (set_dirents d p (snd (fs_sync uv op p w)))" for d op
    using good_fs_sync [OF assms(1)] good_set_dirents good_inv good_trans by blast
  then show ?thesis
    using assms(2) by (auto simp: fs_readdir_sync_def case_prod_beta Let_def split: option.splits)
qed

lemma fs_scandir_next_good: "invar w \<Longrightarrow> good w (snd (fs_scandir_next uv p w))"
proof -
  assume w: "invar w"
  let ?v = "fs_cleanup uv p w"
  have g: "good w ?v" using w by (rule good_fs_cleanup)
  have "good w (snd (uvcall uv (C_fs (uv_fs_scandir_next p)) ?v))"
    using good_trans [OF g good_uvcall [OF good_inv [OF g]]]
    by (simp add: quiet_def opens_def submits_def)
  then have "good w (set_dirents d p (snd (uvcall uv (C_fs (uv_fs_scandir_next p)) ?v)))" for d
    using good_set_dirents good_inv good_trans by blast
  then show ?thesis
    by (simp add: fs_scandir_next_def case_prod_beta Let_def)
qed

section \<open>Properties\<close>

lemma file_handle_set: "p < length (objs w) \<Longrightarrow> kind (objs w ! p) = K_file d \<Longrightarrow> file_handle (file_set i p w) p = i"
  by (simp add: file_handle_def file_data_of_def file_set_def file_update_def nth_upd)

lemma file_set_hist [simp]: "hist (file_set i p w) = hist w"
  by (simp add: file_set_def file_update_def)

lemma fs_sync_frame:
  "objs (snd (fs_sync uv op p w)) = objs w"
  "fst (fs_sync uv op p w) = raw_fs uv (hist (snd (fs_sync uv op p w))) p"
  by (simp_all add: fs_sync_def Let_def fs_cleanup_def)

lemma file_handle_objs: "objs v = objs w \<Longrightarrow> file_handle v p = file_handle w p"
  by (simp add: file_handle_def file_data_of_def)


definition new_file_world :: world where
  "new_file_world = snd (alloc file_req None start_world)"


text \<open>
  No asynchronous operation on a file or on the file system makes its request keep itself alive:
  the objects are as they were before, while libuv has the request when the call succeeds.
\<close>

lemma fs_async_unheld:
  "objs (fs_exec uv c p w) = objs w \<and>
   (\<exists>l op r s. hist (fs_exec uv c p w) =
      Called (C_fs (uv_fs l p op (Some cb_fs_request))) r # Called (C_fs (uv_fs_req_cleanup p)) s # hist w \<and>
      pending (hist (fs_exec uv c p w)) p = pending (hist w) p + (if r = 0 then 1 else 0))"
proof -
  have "\<exists>op. fs_exec uv c p w = fs_async uv op cb_fs_request p w"
    by (cases c) (auto simp: fs_exec_def fs_unlink_def fs_mkdir_def fs_mkdtemp_def fs_mkstemp_def
      fs_lutime_def fs_rmdir_def fs_scandir_def fs_stat_def fs_lstat_def fs_statfs_def fs_rename_def
      fs_copyfile_def fs_access_def fs_chmod_def fs_utime_def fs_link_def fs_symlink_def fs_readlink_def
      fs_realpath_def fs_chown_def fs_lchown_def fs_opendir_def fs_closedir_def)
  then obtain op where op: "fs_exec uv c p w = fs_async uv op cb_fs_request p w" by blast
  have "\<exists>r s l. hist (fs_async uv op cb_fs_request p w) =
      Called (C_fs (uv_fs l p op (Some cb_fs_request))) r # Called (C_fs (uv_fs_req_cleanup p)) s # hist w"
    by (simp add: fs_async_def fs_cleanup_def uvcall_def Let_def)
  then obtain l r s where h: "hist (fs_async uv op cb_fs_request p w) =
      Called (C_fs (uv_fs l p op (Some cb_fs_request))) r # Called (C_fs (uv_fs_req_cleanup p)) s # hist w"
    by blast
  moreover have "objs (fs_async uv op cb_fs_request p w) = objs w"
    by (simp add: fs_async_def fs_cleanup_def Let_def)
  moreover have "pending (hist (fs_async uv op cb_fs_request p w)) p =
      pending (hist w) p + (if r = 0 then 1 else 0)"
    unfolding h by (simp add: submits_def)
  ultimately show ?thesis unfolding op by blast
qed

text \<open>
  \<^verbatim>\<open>readdir_sync\<close> takes an error for an entry: its flag is true for every result but zero, where
  the other synchronous operations report a negative result as a failure.
\<close>

lemma readdir_sync_hides_errors:
  assumes "dir_of uv p w = Some dir" and "fs_readdir_sync uv p w = Inr ((entry, e), v)"
    and "fs_result (raw_fs uv (hist v) p) < 0"
  shows "entry \<and> \<not> fst (fs_sync_ok uv (uv_fs_readdir (Some dir)) p w)"
proof -
  obtain req u where s: "fs_sync uv (uv_fs_readdir (Some dir)) p w = (req, u)"
    by (cases "fs_sync uv (uv_fs_readdir (Some dir)) p w")
  then have "hist v = hist u" "entry = (fs_result req \<noteq> 0)"
    using assms(1,2) by (auto simp: fs_readdir_sync_def Let_def set_dirents_def)
  then show ?thesis
    using assms(3) s fs_sync_frame(2) [of uv "uv_fs_readdir (Some dir)" p w] by (simp add: fs_sync_ok_def)
qed

text \<open>
  \<^verbatim>\<open>statfs_sync\<close> dereferences \<^verbatim>\<open>ptr\<close> before it looks at the result: when the operation fails, and
  libuv has left a null pointer, the call is undefined, and it is defined only when \<^verbatim>\<open>ptr\<close> is set.
\<close>

lemma statfs_sync_undefined_on_failure:
  assumes "fs_sync uv (uv_fs_statfs (c_str path)) p w = (req, v)"
    and "fs_result req < 0 \<longrightarrow> fs_pointer req = Ptr_null"
  shows "(fs_result req < 0 \<longrightarrow> fs_statfs_sync uv path p w = Inl Null_dereference) \<and>
    (\<forall>ok s u. fs_statfs_sync uv path p w = Inr ((ok, s), u) \<longrightarrow> ok \<and> fs_pointer req = Ptr_statfs s)"
  using assms by (auto simp: fs_statfs_sync_def Let_def split: fs_ptr.splits)

text \<open>
  \<^verbatim>\<open>realpath_sync\<close> returns the member \<^verbatim>\<open>path\<close> of the request, which libuv sets to the path it was
  given, and not \<^verbatim>\<open>ptr\<close>, where it puts the result: the caller gets its own argument back, whatever
  the file system says.
\<close>

lemma realpath_sync_returns_argument:
  assumes "\<forall>h l r s. fs_path (raw_fs uv (Called (C_fs (uv_fs l p (uv_fs_realpath s) None)) r # h) p) = s"
  shows "snd (fst (fs_realpath_sync uv path p w)) = c_str path"
  using assms
  by (simp add: fs_realpath_sync_def fs_sync_path_def fs_sync_def Let_def uvcall_def)

text \<open>
  What \<^verbatim>\<open>ptr\<close> holds after a successful operation, as libuv documents it for the operations whose
  results the events carry.
\<close>

definition documented_ptr :: "uv_fs_t \<Rightarrow> bool" where
  "documented_ptr req =
     (case fs_kind req of
        FS_STAT \<Rightarrow> (case fs_pointer req of Ptr_stat s \<Rightarrow> True | _ \<Rightarrow> False)
      | FS_LSTAT \<Rightarrow> (case fs_pointer req of Ptr_stat s \<Rightarrow> True | _ \<Rightarrow> False)
      | FS_FSTAT \<Rightarrow> (case fs_pointer req of Ptr_stat s \<Rightarrow> True | _ \<Rightarrow> False)
      | FS_READLINK \<Rightarrow> (case fs_pointer req of Ptr_chars s \<Rightarrow> True | _ \<Rightarrow> False)
      | FS_READDIR \<Rightarrow> (case fs_pointer req of Ptr_dir n (d # ds) \<Rightarrow> True | _ \<Rightarrow> False)
      | FS_STATFS \<Rightarrow> (case fs_pointer req of Ptr_statfs s \<Rightarrow> True | _ \<Rightarrow> False)
      | _ \<Rightarrow> True)"



end
