(* ===== verification/Lifetime.thy ===== *)
theory Lifetime
  imports Fs
begin

text \<open>
  The program as a whole: a state machine whose steps are the user's calls and the callbacks that
  libuv fires. The user's program is arbitrary: between callbacks it makes any calls on objects that
  are alive, and so do its listeners. The invariant of the theory Invariant holds in every reachable
  state, by rule induction over the steps.
\<close>

section \<open>What the user does\<close>

datatype (plugins only: code) user_op =
    U_create_loop | U_create_loop_from lptr | U_default_loop
  | U_resource kind oid | U_uninitialized kind oid
  | U_acquire oid | U_release oid
  | U_on oid tag nat "oid list" | U_reset oid tag | U_reset_all oid | U_data oid "nat option"
  | U_loop oid loop_op | U_handle oid handle_op | U_cancel oid | U_stream oid stream_op
  | U_async oid async_op | U_check oid check_op | U_idle oid idle_op | U_prepare oid prepare_op
  | U_timer oid timer_op | U_signal oid signal_op | U_poll oid poll_op
  | U_fs_event oid fs_event_op | U_fs_poll oid fs_poll_op
  | U_tcp oid tcp_op | U_pipe oid pipe_op | U_tty oid tty_op | U_udp oid udp_op
  | U_process oid process_op | U_work oid work_op | U_addr_info oid addr_info_op
  | U_name_info oid name_info_op
  | U_file oid file_cmd | U_file_sync oid bytes file_cmd
  | U_fs oid fs_cmd | U_fs_sync oid fs_cmd | U_readdir oid | U_readdir_sync oid | U_scandir_next oid

text \<open>The \<^verbatim>\<open>init\<close> that \<^verbatim>\<open>loop::resource\<close> finds for a class.\<close>

definition init_of :: "libuv \<Rightarrow> kind \<Rightarrow> oid \<Rightarrow> world \<Rightarrow> int \<times> world" where
  "init_of uv k =
     (case k of
        K_async \<Rightarrow> async_init uv | K_check \<Rightarrow> check_init uv | K_idle \<Rightarrow> idle_init uv
      | K_prepare \<Rightarrow> prepare_init uv | K_timer \<Rightarrow> timer_init uv | K_signal \<Rightarrow> signal_init uv
      | K_poll d \<Rightarrow> poll_init uv | K_fs_event \<Rightarrow> fs_event_init uv | K_fs_poll \<Rightarrow> fs_poll_init uv
      | K_tcp t f \<Rightarrow> tcp_init uv | K_pipe b \<Rightarrow> pipe_init uv | K_tty f r \<Rightarrow> tty_init uv
      | K_udp t f \<Rightarrow> udp_init uv | K_process d \<Rightarrow> process_init
      | _ \<Rightarrow> no_init)"

definition exec_create :: "libuv \<Rightarrow> user_op \<Rightarrow> world \<Rightarrow> world" where
  "exec_create uv op w =
     (case op of
        U_create_loop \<Rightarrow> snd (loop_create uv w)
      | U_create_loop_from r \<Rightarrow> snd (loop_create_from r w)
      | U_default_loop \<Rightarrow> snd (loop_get_default uv w)
      | U_resource k l \<Rightarrow> snd (user_resource uv (init_of uv k) k l w)
      | U_uninitialized k l \<Rightarrow> snd (uninitialized_resource k l w)
      | U_acquire p \<Rightarrow> acquire p w
      | U_release p \<Rightarrow> release uv p w
      | U_on p t u cs \<Rightarrow> emitter_on uv t (Some (User u cs)) p w
      | U_reset p t \<Rightarrow> emitter_reset uv t p w
      | U_reset_all p \<Rightarrow> emitter_reset_all uv p w
      | U_data p d \<Rightarrow> set_data d p w
      | U_loop l c \<Rightarrow> loop_exec uv c l w
      | U_cancel p \<Rightarrow> snd (request_cancel uv p w)
      | _ \<Rightarrow> w)"

definition exec_watcher :: "libuv \<Rightarrow> user_op \<Rightarrow> world \<Rightarrow> world" where
  "exec_watcher uv op w =
     (case op of
        U_async p c \<Rightarrow> async_exec uv c p w
      | U_check p c \<Rightarrow> check_exec uv c p w
      | U_idle p c \<Rightarrow> idle_exec uv c p w
      | U_prepare p c \<Rightarrow> prepare_exec uv c p w
      | U_timer p c \<Rightarrow> timer_exec uv c p w
      | U_signal p c \<Rightarrow> signal_exec uv c p w
      | U_poll p c \<Rightarrow> poll_exec uv c p w
      | U_fs_event p c \<Rightarrow> fs_event_exec uv c p w
      | U_fs_poll p c \<Rightarrow> fs_poll_exec uv c p w
      | _ \<Rightarrow> w)"

definition exec_op :: "libuv \<Rightarrow> netlib \<Rightarrow> user_op \<Rightarrow> world \<Rightarrow> ub + world" where
  "exec_op uv net op w =
     (case op of
        U_handle p c \<Rightarrow> handle_exec uv c p w
      | U_stream p c \<Rightarrow> stream_exec uv c p w
      | U_tcp p c \<Rightarrow> tcp_exec uv net c p w
      | U_pipe p c \<Rightarrow> pipe_exec uv c p w
      | U_tty p c \<Rightarrow> tty_exec uv c p w
      | U_udp p c \<Rightarrow> udp_exec uv net c p w
      | U_process p c \<Rightarrow> process_exec uv c p w
      | U_work p c \<Rightarrow> Inr (work_exec uv c p w)
      | U_addr_info p c \<Rightarrow> Inr (addr_info_exec uv c p w)
      | U_name_info p c \<Rightarrow> Inr (name_info_exec uv net c p w)
      | U_file p c \<Rightarrow> Inr (file_exec uv c p w)
      | U_file_sync p b c \<Rightarrow> Inr (file_exec_sync uv b c p w)
      | U_fs p c \<Rightarrow> Inr (fs_exec uv c p w)
      | U_fs_sync p c \<Rightarrow> fs_exec_sync uv c p w
      | U_readdir p \<Rightarrow> fs_readdir uv p w
      | U_readdir_sync p \<Rightarrow> map_sum id snd (fs_readdir_sync uv p w)
      | U_scandir_next p \<Rightarrow> Inr (snd (fs_scandir_next uv p w))
      | _ \<Rightarrow> Inr (exec_watcher uv op (exec_create uv op w)))"

text \<open>
  What a program may call: a method of an object that is alive and has the class; a pointer it drops
  is one it has; a listener captures pointers to objects that are alive; a request is not submitted
  again before it completes.
\<close>

definition has_class :: "(kind \<Rightarrow> bool) \<Rightarrow> oid \<Rightarrow> world \<Rightarrow> bool" where
  "has_class c p w \<longleftrightarrow> live w p \<and> c (kind (objs w ! p))"

definition idle_request :: "(kind \<Rightarrow> bool) \<Rightarrow> oid \<Rightarrow> world \<Rightarrow> bool" where
  "idle_request c p w \<longleftrightarrow> has_class c p w \<and> pending (hist w) p = 0"

definition same_class :: "kind \<Rightarrow> kind \<Rightarrow> bool" where
  "same_class k j \<longleftrightarrow>
     (case (k, j) of
        (K_poll a, K_poll b) \<Rightarrow> True | (K_tcp a b, K_tcp c d) \<Rightarrow> True | (K_pipe a, K_pipe b) \<Rightarrow> True
      | (K_tty a b, K_tty c d) \<Rightarrow> True | (K_udp a b, K_udp c d) \<Rightarrow> True
      | (K_process a, K_process b) \<Rightarrow> True | (K_work a, K_work b) \<Rightarrow> True
      | (K_file a, K_file b) \<Rightarrow> True | (K_fs a, K_fs b) \<Rightarrow> True | _ \<Rightarrow> k = j)"

definition allowed :: "user_op \<Rightarrow> world \<Rightarrow> bool" where
  "allowed op w =
     (case op of
        U_create_loop \<Rightarrow> True
      | U_create_loop_from r \<Rightarrow> True
      | U_default_loop \<Rightarrow> True
      | U_resource k l \<Rightarrow> has_class is_loop_kind l w
      | U_uninitialized k l \<Rightarrow> has_class is_loop_kind l w
      | U_acquire p \<Rightarrow> live w p
      | U_release p \<Rightarrow> live w p \<and> 0 < ext (objs w ! p)
      | U_on p t u cs \<Rightarrow> live w p \<and> list_all (live w) cs
      | U_reset p t \<Rightarrow> live w p
      | U_reset_all p \<Rightarrow> live w p
      | U_data p d \<Rightarrow> live w p
      | U_loop l c \<Rightarrow> has_class is_loop_kind l w
      | U_handle p c \<Rightarrow> has_class handle_kind p w
      | U_cancel p \<Rightarrow> live w p
      | U_stream p c \<Rightarrow> has_class stream_kind p w
      | U_async p c \<Rightarrow> has_class (same_class K_async) p w
      | U_check p c \<Rightarrow> has_class (same_class K_check) p w
      | U_idle p c \<Rightarrow> has_class (same_class K_idle) p w
      | U_prepare p c \<Rightarrow> has_class (same_class K_prepare) p w
      | U_timer p c \<Rightarrow> has_class (same_class K_timer) p w
      | U_signal p c \<Rightarrow> has_class (same_class K_signal) p w
      | U_poll p c \<Rightarrow> has_class (same_class (K_poll (Poll_fd 0))) p w
      | U_fs_event p c \<Rightarrow> has_class (same_class K_fs_event) p w
      | U_fs_poll p c \<Rightarrow> has_class (same_class K_fs_poll) p w
      | U_tcp p c \<Rightarrow> has_class (same_class (tcp_handle 0)) p w
      | U_pipe p c \<Rightarrow> has_class (same_class (pipe_handle False)) p w
      | U_tty p c \<Rightarrow> has_class (same_class (tty_handle 0 False)) p w
      | U_udp p c \<Rightarrow> has_class (same_class (udp_handle 0)) p w
      | U_process p c \<Rightarrow> has_class (same_class process_handle) p w
      | U_work p c \<Rightarrow> idle_request (same_class (work_req 0)) p w
      | U_addr_info p c \<Rightarrow> idle_request (same_class K_getaddrinfo) p w
      | U_name_info p c \<Rightarrow> idle_request (same_class K_getnameinfo) p w
      | U_file p c \<Rightarrow> has_class (same_class file_req) p w
      | U_file_sync p b c \<Rightarrow> has_class (same_class file_req) p w
      | U_fs p c \<Rightarrow> has_class (same_class fs_req) p w
      | U_fs_sync p c \<Rightarrow> has_class (same_class fs_req) p w
      | U_readdir p \<Rightarrow> has_class (same_class fs_req) p w
      | U_readdir_sync p \<Rightarrow> has_class (same_class fs_req) p w
      | U_scandir_next p \<Rightarrow> has_class (same_class fs_req) p w)"

inductive user_step :: "libuv \<Rightarrow> netlib \<Rightarrow> world \<Rightarrow> world \<Rightarrow> bool" for uv net where
  call: "allowed op w \<Longrightarrow> exec_op uv net op w = Inr v \<Longrightarrow> user_step uv net w v"

definition user_steps :: "libuv \<Rightarrow> netlib \<Rightarrow> world \<Rightarrow> world \<Rightarrow> bool" where
  "user_steps uv net = (user_step uv net)\<^sup>*\<^sup>*"

section \<open>What libuv does\<close>

text \<open>The arguments a callback gets besides its handle or request.\<close>

record cb_args =
  a_status :: int
  a_events :: int
  a_buf :: bytes
  a_addr :: "bytes option"
  a_flags :: flags
  a_name :: "string option"
  a_host :: string
  a_service :: string
  a_prev :: file_info
  a_curr :: file_info
  a_res :: nat

text \<open>The function behind each callback that the source registers. The default allocation callback does
  not look at the handle; a custom one passes it to the user's function, which is one of \<^verbatim>\<open>run\<close>.\<close>

definition dispatch ::
  "libuv \<Rightarrow> netlib \<Rightarrow> behaviour \<Rightarrow> (nat \<Rightarrow> world \<Rightarrow> world) \<Rightarrow> uv_cb \<Rightarrow> cb_args \<Rightarrow> oid \<Rightarrow> world \<Rightarrow> ub + world"
where
  "dispatch uv net beh run cb a p w =
     (case cb of
        cb_close \<Rightarrow> close_callback uv beh p w
      | cb_async \<Rightarrow> async_send_callback beh p w
      | cb_check \<Rightarrow> check_start_callback beh p w
      | cb_idle \<Rightarrow> idle_start_callback beh p w
      | cb_prepare \<Rightarrow> prepare_start_callback beh p w
      | cb_timer \<Rightarrow> timer_start_callback beh p w
      | cb_signal \<Rightarrow> signal_start_callback beh (a_events a) p w
      | cb_poll \<Rightarrow> poll_start_callback beh (a_status a) (a_events a) p w
      | cb_fs_event \<Rightarrow> fs_event_start_callback beh (a_name a) (a_events a) (a_status a) p w
      | cb_fs_poll \<Rightarrow> fs_poll_start_callback beh (a_status a) (a_prev a) (a_curr a) p w
      | cb_exit \<Rightarrow> exit_callback beh (a_status a) (a_events a) p w
      | cb_listen \<Rightarrow> listen_callback beh (a_status a) p w
      | cb_read \<Rightarrow> read_callback uv beh (a_status a) (a_buf a) p w
      | cb_recv \<Rightarrow> recv_callback beh net (a_status a) (a_buf a) (a_addr a) (a_flags a) p w
      | cb_alloc \<Rightarrow> Inr (fire cb_alloc p w)
      | cb_custom_alloc n \<Rightarrow> deref p (fire cb p w) (\<lambda>v. Inr (run n v))
      | cb_connect \<Rightarrow> connect_callback uv beh (a_status a) p w
      | cb_shutdown \<Rightarrow> shutdown_callback uv beh (a_status a) p w
      | cb_write \<Rightarrow> write_callback uv beh (a_status a) p w
      | cb_send \<Rightarrow> udp_send_callback uv beh (a_status a) p w
      | cb_work \<Rightarrow> work_callback run p w
      | cb_after_work \<Rightarrow> after_work_callback uv beh (a_status a) p w
      | cb_addr_info \<Rightarrow> addr_info_callback (a_res a) uv beh (a_status a) p w
      | cb_name_info \<Rightarrow> name_info_callback (a_host a) (a_service a) uv beh (a_status a) p w
      | cb_fs_open \<Rightarrow> fs_open_callback uv beh p w
      | cb_fs_close \<Rightarrow> fs_close_callback uv beh p w
      | cb_fs_read \<Rightarrow> fs_read_callback uv beh (a_buf a) p w
      | cb_fs_request \<Rightarrow> fs_request_callback uv beh p w)"

text \<open>A datagram with data comes with the address of its sender.\<close>

definition documented_args :: "uv_cb \<Rightarrow> cb_args \<Rightarrow> bool" where
  "documented_args cb a \<longleftrightarrow> (cb = cb_recv \<and> 0 < a_status a \<longrightarrow> a_addr a \<noteq> None)"

definition fs_callback :: "uv_cb \<Rightarrow> bool" where
  "fs_callback cb \<longleftrightarrow> cb \<in> {cb_fs_open, cb_fs_close, cb_fs_read, cb_fs_request}"

section \<open>The state machine\<close>

text \<open>
  The parameters: libuv's functions and its choice of callbacks, the user's listeners and tasks. The
  user's code uses the library through its operations.
\<close>

definition well_behaved ::
  "libuv \<Rightarrow> netlib \<Rightarrow> behaviour \<Rightarrow> (nat \<Rightarrow> world \<Rightarrow> world) \<Rightarrow> bool" where
  "well_behaved uv net beh run \<longleftrightarrow>
     (\<forall>u p e w. user_steps uv net w (beh u p e w)) \<and> (\<forall>n w. user_steps uv net w (run n w))"

inductive step ::
  "libuv \<Rightarrow> netlib \<Rightarrow> behaviour \<Rightarrow> (nat \<Rightarrow> world \<Rightarrow> world) \<Rightarrow> (history \<Rightarrow> uv_cb \<Rightarrow> oid \<Rightarrow> bool) \<Rightarrow>
   world \<Rightarrow> world \<Rightarrow> bool"
  for uv net beh run fires where
  by_user: "user_step uv net w v \<Longrightarrow> step uv net beh run fires w v"
| by_libuv: "fires (hist w) cb p \<Longrightarrow> dispatch uv net beh run cb a p w = Inr v \<Longrightarrow>
    step uv net beh run fires w v"

inductive reachable ::
  "libuv \<Rightarrow> netlib \<Rightarrow> behaviour \<Rightarrow> (nat \<Rightarrow> world \<Rightarrow> world) \<Rightarrow> (history \<Rightarrow> uv_cb \<Rightarrow> oid \<Rightarrow> bool) \<Rightarrow>
   world \<Rightarrow> bool"
  for uv net beh run fires where
  start: "reachable uv net beh run fires start_world"
| more: "reachable uv net beh run fires w \<Longrightarrow> step uv net beh run fires w v \<Longrightarrow>
    reachable uv net beh run fires v"

text \<open>A program that makes a list of calls; \<^verbatim>\<open>None\<close> when one of them is not allowed or undefined.\<close>

fun run_ops :: "libuv \<Rightarrow> netlib \<Rightarrow> user_op list \<Rightarrow> world \<Rightarrow> world option" where
  "run_ops uv net [] w = Some w"
| "run_ops uv net (op # ops) w =
     (if allowed op w then case exec_op uv net op w of Inl e \<Rightarrow> None | Inr v \<Rightarrow> run_ops uv net ops v
      else None)"

text \<open>A user whose listeners and tasks do nothing.\<close>

definition idle_user :: behaviour where
  "idle_user = (\<lambda>u p e w. w)"

definition idle_task :: "nat \<Rightarrow> world \<Rightarrow> world" where
  "idle_task = (\<lambda>n w. w)"

inductive_cases user_stepE: "user_step uv net w v"
inductive_cases stepE: "step uv net beh run fires w v"

section \<open>Every step keeps the invariant\<close>

lemma invar_start: "invar start_world"
  by (simp add: invar_def core_def all_held_def libuv_ok_def live_def start_world_def)

lemma init_sound_process: "init_sound process_init k"
  by (simp add: init_sound_def process_init_def good_refl)

lemma init_of_sound: "init_sound (init_of uv k) k"
  by (cases k)
    (simp_all add: init_of_def init_sound_none init_sound_process async_i.init_is_sound
      check_i.init_is_sound idle_i.init_is_sound prepare_i.init_is_sound timer_i.init_is_sound
      signal_i.init_is_sound poll_i.init_is_sound fs_event_i.init_is_sound fs_poll_i.init_is_sound
      tcp_i.init_is_sound pipe_i.init_is_sound tty_i.init_is_sound udp_i.init_is_sound)

lemma same_class_simps:
  "same_class K_async k \<longleftrightarrow> k = K_async" "same_class K_check k \<longleftrightarrow> k = K_check"
  "same_class K_idle k \<longleftrightarrow> k = K_idle" "same_class K_prepare k \<longleftrightarrow> k = K_prepare"
  "same_class K_timer k \<longleftrightarrow> k = K_timer" "same_class K_signal k \<longleftrightarrow> k = K_signal"
  "same_class K_fs_event k \<longleftrightarrow> k = K_fs_event" "same_class K_fs_poll k \<longleftrightarrow> k = K_fs_poll"
  "same_class K_getaddrinfo k \<longleftrightarrow> k = K_getaddrinfo" "same_class K_getnameinfo k \<longleftrightarrow> k = K_getnameinfo"
  by (auto simp: same_class_def split: kind.splits)

lemma same_class_data:
  "same_class (K_poll x) k \<longleftrightarrow> (\<exists>d. k = K_poll d)" "same_class (tcp_handle f) k \<longleftrightarrow> (\<exists>t f. k = K_tcp t f)"
  "same_class (pipe_handle b) k \<longleftrightarrow> (\<exists>b. k = K_pipe b)" "same_class (tty_handle i b) k \<longleftrightarrow> (\<exists>f r. k = K_tty f r)"
  "same_class (udp_handle f) k \<longleftrightarrow> (\<exists>t f. k = K_udp t f)" "same_class process_handle k \<longleftrightarrow> (\<exists>d. k = K_process d)"
  "same_class (work_req n) k \<longleftrightarrow> (\<exists>n. k = K_work n)" "same_class file_req k \<longleftrightarrow> (\<exists>d. k = K_file d)"
  "same_class fs_req k \<longleftrightarrow> (\<exists>d. k = K_fs d)"
  by (auto simp: same_class_def tcp_handle_def pipe_handle_def tty_handle_def udp_handle_def process_handle_def
      work_req_def file_req_def fs_req_def split: kind.splits)

lemma fs_kind_of_simps [simp]: "fs_kind_of (K_file d)" "fs_kind_of (K_fs e)"
  by (simp_all add: fs_kind_of_def)

lemmas allowed_defs = allowed_def has_class_def idle_request_def same_class_simps same_class_data

lemma exec_create_good:
  assumes "invar w" and "allowed op w"
  shows "good w (exec_create uv op w)"
  using assms
  by (cases op)
    (auto simp: exec_create_def allowed_defs good_refl good_loop_create good_loop_create_from
      good_loop_get_default good_user_resource init_of_sound good_uninitialized_resource good_acquire
      good_release good_emitter_reset good_emitter_reset_all good_user_data loop_exec_good
      request_cancel_def good_handle_call captures_def list_all_iff intro!: good_emitter_on)

lemma exec_watcher_good:
  assumes "invar w" and "allowed op w"
  shows "good w (exec_watcher uv op w)"
  using assms
  by (cases op)
    (auto simp: exec_watcher_def allowed_defs good_refl async_exec_good check_exec_good idle_exec_good
      prepare_exec_good timer_exec_good signal_exec_good poll_exec_good fs_event_exec_good fs_poll_exec_good)

text \<open>The two groups do not overlap.\<close>

lemma exec_groups: "exec_watcher uv op w = w \<or> exec_create uv op w = w"
  by (cases op) (simp_all add: exec_watcher_def exec_create_def)

lemma exec_watcher_id: "exec_create uv op w \<noteq> w \<Longrightarrow> exec_watcher uv op v = v"
  by (cases op) (simp_all add: exec_watcher_def exec_create_def)

lemma exec_both_good:
  assumes "invar w" and "allowed op w"
  shows "good w (exec_watcher uv op (exec_create uv op w))"
proof (cases "exec_create uv op w = w")
  case True
  then show ?thesis using exec_watcher_good [OF assms] by simp
next
  case False
  then show ?thesis using exec_create_good [OF assms] exec_watcher_id by simp
qed

lemma readdir_exec_good:
  assumes "invar w" and "map_sum id snd (fs_readdir_sync uv p w) = Inr u"
  shows "good w u"
  using assms fs_readdir_sync_good [OF assms(1), of uv p] by (cases "fs_readdir_sync uv p w") auto

lemma exec_op_good:
  assumes "invar w" and "allowed op w" and "exec_op uv net op w = Inr v"
  shows "good w v"
  using assms exec_both_good [OF assms(1,2), of uv]
  by (cases op)
    (auto simp: exec_op_def allowed_defs
      intro: handle_exec_good stream_exec_good tcp_exec_good pipe_exec_good tty_exec_good udp_exec_good
        process_exec_good work_exec_good addr_info_exec_good name_info_exec_good file_exec_good
        file_exec_sync_good fs_exec_good fs_exec_sync_good fs_readdir_good fs_readdir_sync_good
        fs_scandir_next_good readdir_exec_good)

lemma user_step_good: "invar w \<Longrightarrow> user_step uv net w v \<Longrightarrow> good w v"
  by (auto elim: user_stepE intro: exec_op_good)

lemma user_steps_good:
  assumes "user_steps uv net w v" and "invar w"
  shows "good w v"
  using assms(1) unfolding user_steps_def
proof (induction rule: rtranclp_induct)
  case base
  then show ?case using assms(2) by (rule good_refl)
next
  case (step u v)
  then show ?case using user_step_good good_inv good_trans by blast
qed

lemma well_behaved_respectful:
  assumes "well_behaved uv net beh run"
  shows "respectful beh" and "invar w \<Longrightarrow> good w (run n w)"
  using assms user_steps_good unfolding well_behaved_def respectful_def by blast+

section \<open>Every callback keeps the invariant\<close>

lemma fire_invar:
  assumes "invar w" and "\<not> request_cb cb" and "cb \<noteq> cb_close"
  shows "good w (fire cb p w)"
  using assms core_reported [OF inv_core] by (simp add: good_def invar_def fire_def)

lemma fire_live [simp]: "live (fire cb p w) = live w"
  by (simp add: fire_def)

lemma deref_fire_good:
  assumes "invar w" and "\<not> request_cb cb" and "cb \<noteq> cb_close"
    and "\<And>v u. invar v \<Longrightarrow> live v p \<Longrightarrow> k v = Inr u \<Longrightarrow> good v u"
    and "deref p (fire cb p w) k = Inr x"
  shows "good w x"
proof -
  have g: "good w (fire cb p w)" using assms(1-3) by (rule fire_invar)
  have "live (fire cb p w) p" "k (fire cb p w) = Inr x"
    using assms(5) by (auto simp: deref_def split: if_splits)
  then show ?thesis using good_trans [OF g] assms(4) good_inv [OF g] by blast
qed

lemma deref_fire_defined:
  assumes "invar w" and "live w p" and "\<not> request_cb cb" and "cb \<noteq> cb_close"
    and "\<And>v. invar v \<Longrightarrow> live v p \<Longrightarrow> \<exists>u. k v = Inr u"
  shows "\<exists>x. deref p (fire cb p w) k = Inr x"
  using assms(2,5) good_inv [OF fire_invar [OF assms(1,3,4)]] by (simp add: deref_def)

lemma publish_fs_good:
  "invar w \<Longrightarrow> live w p \<Longrightarrow> respectful beh \<Longrightarrow> publish_fs beh e p w = Inr v \<Longrightarrow> good w v"
  by (auto simp: publish_fs_def publish_good split: sum.splits)

lemma publish_fs_update_good:
  assumes "invar w" and "live w p" and "respectful beh" and "publish_fs beh e p (file_update f p w) = Inr v"
  shows "good w v"
proof -
  have g: "good w (file_update f p w)" using assms(1) by (rule good_file_update)
  have "good (file_update f p w) v"
    using good_inv [OF g] assms(2-4) by (intro publish_fs_good) simp_all
  then show ?thesis by (rule good_trans [OF g])
qed

lemma not_request_cbs [simp]:
  "\<not> request_cb cb_async" "\<not> request_cb cb_check" "\<not> request_cb cb_idle" "\<not> request_cb cb_prepare"
  "\<not> request_cb cb_timer" "\<not> request_cb cb_signal" "\<not> request_cb cb_poll" "\<not> request_cb cb_fs_event"
  "\<not> request_cb cb_fs_poll" "\<not> request_cb cb_exit" "\<not> request_cb cb_listen" "\<not> request_cb cb_read"
  "\<not> request_cb cb_recv" "\<not> request_cb cb_alloc"
  "\<not> request_cb (cb_custom_alloc n)" "\<not> request_cb cb_work"
  by (simp_all add: request_cb_def)

lemma request_cbs [simp]:
  "request_cb cb_connect" "request_cb cb_shutdown" "request_cb cb_write" "request_cb cb_send"
  "request_cb cb_after_work" "request_cb cb_addr_info" "request_cb cb_name_info" "request_cb cb_fs_open"
  "request_cb cb_fs_close" "request_cb cb_fs_read" "request_cb cb_fs_request"
  by (simp_all add: request_cb_def)

lemmas report_defs =
  async_send_callback_def check_start_callback_def idle_start_callback_def prepare_start_callback_def
  timer_start_callback_def signal_start_callback_def poll_start_callback_def fs_event_start_callback_def
  fs_poll_start_callback_def exit_callback_def listen_callback_def plain_callback_def

lemmas complete_defs =
  connect_callback_def shutdown_callback_def write_callback_def udp_send_callback_def
  after_work_callback_def addr_info_callback_def name_info_callback_def

lemma read_body_good:
  assumes "invar v" and "live v p" and "respectful beh"
    and "(case e of None \<Rightarrow> Inr v | Some x \<Rightarrow> publish beh x p v) = Inr u"
  shows "good v u"
  using assms by (auto simp: good_refl publish_good split: option.splits)

lemma recv_body_good:
  assumes "invar v" and "live v p" and "respectful beh"
    and "(case e of Inl x \<Rightarrow> Inl x | Inr None \<Rightarrow> Inr v | Inr (Some x) \<Rightarrow> publish beh x p v) = Inr u"
  shows "good v u"
  using assms by (auto simp: good_refl publish_good split: option.splits sum.splits)

lemma fs_body_good:
  assumes "invar v" and "live v p" and "respectful beh"
    and "(if b then publish beh e p v else publish_fs beh x p v) = Inr u"
  shows "good v u"
  using assms by (auto simp: publish_good publish_fs_good split: if_splits)

lemma fs_update_body_good:
  assumes "invar v" and "live v p" and "respectful beh"
    and "(if b then publish beh e p v else publish_fs beh x p (file_update f p v)) = Inr u"
  shows "good v u"
  using assms by (auto simp: publish_good publish_fs_update_good split: if_splits)

lemma fs_set_body_good:
  assumes "invar v" and "live v p" and "respectful beh"
    and "(if b then publish beh e p v else publish_fs beh x p (file_set i p v)) = Inr u"
  shows "good v u"
  using fs_update_body_good [OF assms(1-3)] assms(4) unfolding file_set_def by blast

lemma dispatch_report_good:
  assumes "invar w" and "well_behaved uv net beh run" and "\<not> request_cb cb" and "cb \<noteq> cb_close"
    and "dispatch uv net beh run cb a p w = Inr v"
  shows "good w v"
proof -
  have r: "respectful beh" and t: "\<And>n w. invar w \<Longrightarrow> good w (run n w)"
    using assms(2) by (rule well_behaved_respectful)+
  have d: "good w x" if "deref p (fire c p w) k = Inr x" "\<not> request_cb c" "c \<noteq> cb_close"
    "\<And>v u. invar v \<Longrightarrow> live v p \<Longrightarrow> k v = Inr u \<Longrightarrow> good v u" for c k x
    using deref_fire_good [OF assms(1)] that by blast
  show ?thesis
    using assms(3-5) publish_good [OF _ _ r] read_body_good [OF _ _ r] recv_body_good [OF _ _ r]
    by (cases cb)
      (auto simp: dispatch_def report_defs read_callback_def recv_callback_def work_callback_def t good_refl
        fire_invar [OF assms(1)]
        elim!: d split: kind.splits)
qed

lemma dispatch_close_good:
  assumes "invar w" and "well_behaved uv net beh run" and "is_open (hist w) p"
    and "dispatch uv net beh run cb_close a p w = Inr v"
  shows "good w v"
  using close_callback_defined [OF assms(1,3) well_behaved_respectful(1) [OF assms(2)], of uv] assms(4)
  by (auto simp: dispatch_def)

lemma dispatch_request_good:
  assumes "invar w" and "well_behaved uv net beh run" and "request_cb cb" and "0 < pending (hist w) p"
    and "dispatch uv net beh run cb a p w = Inr v"
  shows "good w v"
proof -
  have r: "respectful beh" using assms(2) by (rule well_behaved_respectful)
  have d: "good w x" if "with_reserve uv c p body w = Inr x" "request_cb c"
    "\<And>v u. invar v \<Longrightarrow> live v p \<Longrightarrow> body v = Inr u \<Longrightarrow> good v u" for c body x
    using with_reserve_good [OF assms(1,4)] that by blast
  show ?thesis
    using assms(3,5) publish_good [OF _ _ r] fs_body_good [OF _ _ r] fs_update_body_good [OF _ _ r]
      fs_set_body_good [OF _ _ r]
    by (cases cb)
      (auto simp: dispatch_def complete_defs fs_open_callback_def fs_close_callback_def
        fs_read_callback_def fs_request_callback_def Let_def elim!: d)
qed

lemma dispatch_good:
  assumes "invar w" and "well_behaved uv net beh run" and "may_fire (hist w) cb p"
    and "dispatch uv net beh run cb a p w = Inr v"
  shows "good w v"
proof (cases "cb = cb_close")
  case True
  then show ?thesis using assms dispatch_close_good by (auto simp: may_fire_def)
next
  case False
  then show ?thesis
    using assms dispatch_request_good dispatch_report_good
    by (cases "request_cb cb") (auto simp: may_fire_def)
qed

lemma step_good:
  assumes "invar w" and "well_behaved uv net beh run" and "documented_callbacks fires"
    and "step uv net beh run fires w v"
  shows "good w v"
  using assms(4)
proof (rule stepE)
  assume "user_step uv net w v"
  with assms(1) show ?thesis by (rule user_step_good)
next
  fix cb p a assume "fires (hist w) cb p" "dispatch uv net beh run cb a p w = Inr v"
  with assms(1-3) show ?thesis by (auto simp: documented_callbacks_def intro: dispatch_good)
qed

text \<open>
  The reachable states: the invariant, and no local pointer of the library outlives the function
  that took it.
\<close>

lemma reachable_invar:
  assumes "reachable uv net beh run fires w"
    and "well_behaved uv net beh run" and "documented_callbacks fires"
  shows "invar w \<and> (\<forall>p < length (objs w). hold (objs w ! p) = 0)"
  using assms(1)
proof (induction rule: reachable.induct)
  case start
  then show ?case by (simp add: invar_start) (simp add: start_world_def)
next
  case (more w v)
  then have g: "good w v" using step_good assms(2,3) by blast
  have "hold (objs v ! p) = 0" if "p < length (objs v)" for p
    using g more.IH that by (cases "p < length (objs w)") (auto simp: good_def user_frame_def)
  with g show ?case by (simp add: good_inv)
qed

section \<open>Every callback of a kept object is defined\<close>

lemma dispatch_report_defined:
  assumes "invar w" and "well_behaved uv net beh run" and "\<not> request_cb cb" and "cb \<noteq> cb_close"
    and "live w p" and "documented_args cb a"
  shows "\<exists>v. dispatch uv net beh run cb a p w = Inr v"
proof -
  have r: "respectful beh" using assms(2) by (rule well_behaved_respectful)
  have pub: "\<exists>u. publish beh e p v = Inr u" if "invar v" "live v p" for v e
    using publish_defined [OF that r] by blast
  note d = deref_fire_defined [OF assms(1,5)]
  have recv: "recv_event net (a_status a) (a_buf a) (a_addr a) (a_flags a) \<noteq> Inl e"
    if "cb = cb_recv" for e
    using assms(6) that by (auto simp: recv_event_def documented_args_def split: option.splits)
  show ?thesis
    using assms(3,4) pub recv
    by (cases cb)
      (auto simp: dispatch_def report_defs read_callback_def recv_callback_def work_callback_def
        intro!: d split: option.splits sum.splits)
qed

lemma dispatch_defined:
  assumes "invar w" and "well_behaved uv net beh run" and "may_fire (hist w) cb p"
    and "\<not> fs_kind_of (kind (objs w ! p))" and "\<not> fs_callback cb" and "documented_args cb a"
  shows "\<exists>v. dispatch uv net beh run cb a p w = Inr v"
proof -
  have r: "respectful beh" using assms(2) by (rule well_behaved_respectful)
  consider "cb = cb_close" "is_open (hist w) p"
    | "request_cb cb" "0 < pending (hist w) p"
    | "cb \<noteq> cb_close" "\<not> request_cb cb" "live w p"
    using assms(1,3,4) pending_live(1) core_libuv [OF inv_core [OF assms(1)], of p]
    by (auto simp: may_fire_def libuv_ok_def kept_def split: if_splits)
  then show ?thesis
  proof cases
    case 1
    then show ?thesis
      using close_callback_defined [OF assms(1) _ r] by (auto simp: dispatch_def)
  next
    case 2
    note c = connect_c.callback_defined [OF assms(1) 2(2) assms(4) r]
      shutdown_c.callback_defined [OF assms(1) 2(2) assms(4) r]
      write_c.callback_defined [OF assms(1) 2(2) assms(4) r]
      send_c.callback_defined [OF assms(1) 2(2) assms(4) r]
      after_work_c.callback_defined [OF assms(1) 2(2) assms(4) r]
      addr_info_c.callback_defined [OF assms(1) 2(2) assms(4) r]
      name_info_c.callback_defined [OF assms(1) 2(2) assms(4) r]
    show ?thesis
      using 2(1) assms(5)
      by (cases cb) (simp_all add: dispatch_def fs_callback_def, (use c in blast)+)
  next
    case 3
    then show ?thesis using dispatch_report_defined assms by blast
  qed
qed

section \<open>What a call of the user may do wrong\<close>

text \<open>
  A call on an object that is alive never uses a freed one: what is left are the output variables
  that libuv may leave unset and the pointers of file system requests that it may leave null.
\<close>

lemma run_forward_defined: "\<exists>r v. x = Inr (r, v) \<and> P v \<Longrightarrow> run_forward x \<noteq> Inl e"
  by (auto simp: run_forward_def)

lemma map_sum_Inl: "map_sum id f x = Inl e \<longleftrightarrow> x = Inl e"
  by (cases x) simp_all

lemma stream_exec_errors:
  assumes "invar w" and "live w p" and "stream_kind (kind (objs w ! p))"
  shows "stream_exec uv op p w \<noteq> Inl e"
  using assms stream_handle_kind [OF assms(3)]
  by (cases op)
    (simp_all add: stream_exec_def run_forward_defined [OF shutdown_f.op_keeps]
      run_forward_defined [OF write_f.op_keeps] run_forward_defined [OF write_raw_f.op_keeps]
      run_forward_defined [OF write_handle_f.op_keeps] run_forward_defined [OF write_handle_raw_f.op_keeps])

lemma tcp_exec_errors:
  assumes "invar w" and "live w p" and "handle_kind (kind (objs w ! p))" and "tcp_exec uv net op p w = Inl e"
  shows "e = Indeterminate_value"
  using assms
  by (cases op)
    (auto simp: tcp_exec_def map_sum_Inl tcp_sock_def tcp_peer_def tcp_connect_ip_def tcp_connect_address_def
      run_forward_defined [OF tcp_connect_f.op_keeps] Let_def split: option.splits)

lemma pipe_exec_errors:
  assumes "invar w" and "live w p" and "handle_kind (kind (objs w ! p))"
  shows "pipe_exec uv op p w \<noteq> Inl e"
  using assms by (cases op) (auto simp: pipe_exec_def run_forward_defined [OF pipe_connect_f.op_keeps])

lemma udp_exec_errors:
  assumes "invar w" and "live w p" and "handle_kind (kind (objs w ! p))" and "udp_exec uv net op p w = Inl e"
  shows "e = Indeterminate_value"
  using assms
  by (cases op)
    (auto simp: udp_exec_def map_sum_Inl udp_sock_def udp_peer_def run_forward_defined [OF udp_send_f.op_keeps]
      run_forward_defined [OF udp_send_raw_f.op_keeps] Let_def split: option.splits)

lemma tty_exec_errors: "tty_exec uv c p w = Inl e \<Longrightarrow> e = Indeterminate_value"
  by (cases c)
    (auto simp: tty_exec_def map_sum_Inl tty_get_win_size_def tty_vterm_state_def Let_def
      split: option.splits prod.splits if_splits)

lemma handle_exec_errors: "handle_exec uv c p w = Inl e \<Longrightarrow> e = Indeterminate_value"
  by (cases c) (auto simp: handle_exec_def map_sum_Inl handle_fd_def Let_def split: option.splits)

lemma process_exec_errors:
  "process_exec uv c p w = Inl e \<Longrightarrow> e = Indeterminate_value \<or> e = Null_dereference"
  by (cases c)
    (auto simp: process_exec_def run_forward_def map_sum_Inl process_spawn_def process_options_of_def Let_def
      split: option.splits)

lemma fs_exec_errors:
  "fs_exec_sync uv c p w = Inl e \<Longrightarrow> e = Null_dereference"
  "fs_readdir uv p w = Inl e \<Longrightarrow> e = Null_dereference"
  "fs_readdir_sync uv p w = Inl e \<Longrightarrow> e = Null_dereference"
proof -
  show "fs_exec_sync uv c p w = Inl e \<Longrightarrow> e = Null_dereference"
    by (cases c)
      (auto simp: fs_exec_sync_def map_sum_Inl fs_statfs_sync_def Let_def split: prod.splits fs_ptr.splits)
qed (auto simp: fs_readdir_def fs_readdir_sync_def Let_def split: option.splits prod.splits)

lemma exec_op_errors:
  assumes "invar w" and "allowed op w" and "exec_op uv net op w = Inl e"
  shows "e = Indeterminate_value \<or> e = Null_dereference"
proof -
  have h: "handle_kind (K_tcp t f)" "handle_kind (K_pipe b)" "handle_kind (K_udp t f)" for t f b
    by (simp_all add: handle_kind_def stream_kind_def)
  show ?thesis
    using assms
    by (cases op)
      (auto simp: exec_op_def allowed_defs map_sum_Inl stream_exec_errors pipe_exec_errors h
        dest: tcp_exec_errors udp_exec_errors tty_exec_errors handle_exec_errors process_exec_errors
          fs_exec_errors)
qed

section \<open>Initialisation\<close>

text \<open>No object refers to one that is about to be allocated.\<close>

lemma fresh_unreferenced:
  assumes "invar w" and "live w l" and "live (snd (alloc k (Some l) w)) s"
  shows "length (objs w) \<notin> set (refs_of (objs (snd (alloc k (Some l) w)) ! s))"
proof (cases "s = length (objs w)")
  case True
  then show ?thesis using live_length [OF assms(2)] by (simp add: alloc_nth new_obj_def refs_of_def)
next
  case False
  with assms(3) have s: "live w s" by (simp add: alloc_live)
  then have "\<forall>q \<in> set (refs_of (objs w ! s)). q < length (objs w)"
    using invar_live [OF assms(1)] live_length by (auto simp: live_ok_def refs_ok_def)
  then show ?thesis using live_length [OF s] by (auto simp: alloc_nth)
qed

lemma init_of_opens:
  assumes "handle_kind k" and "\<forall>d. k \<noteq> K_process d"
  shows "\<exists>c. init_of uv k p w = leak_if_call uv p c w \<and> (\<forall>r. opens c r = (if r = 0 then Some p else None)) \<and>
    (\<forall>r. submits c r = None)"
  using assms
  by (cases k)
    (simp_all add: init_of_def handle_kind_def stream_kind_def async_i.init_opens check_i.init_opens
      idle_i.init_opens prepare_i.init_opens timer_i.init_opens signal_i.init_opens poll_i.init_opens
      fs_event_i.init_opens fs_poll_i.init_opens tcp_i.init_opens pipe_i.init_opens tty_i.init_opens
      udp_i.init_opens)

section \<open>Programs\<close>

lemma run_ops_reachable:
  assumes "reachable uv net beh run fires w" and "run_ops uv net ops w = Some v"
  shows "reachable uv net beh run fires v"
  using assms
proof (induction ops arbitrary: w)
  case (Cons op ops)
  then obtain u where "allowed op w" "exec_op uv net op w = Inr u" "run_ops uv net ops u = Some v"
    by (auto split: if_splits sum.splits)
  moreover from this Cons.prems(1) have "reachable uv net beh run fires u"
    by (blast intro: reachable.more step.by_user user_step.call)
  ultimately show ?case using Cons.IH by blast
qed simp

lemma idle_well_behaved: "well_behaved uv net idle_user idle_task"
  by (simp add: well_behaved_def idle_user_def idle_task_def user_steps_def)

lemma run_start_reachable:
  "run_ops uv net ops start_world = Some v \<Longrightarrow> reachable uv net beh run fires v"
  using run_ops_reachable reachable.start by blast

end
