(* ===== verification/Samples.thy ===== *)
theory Samples
  imports Lifetime
begin

text \<open>
  Small programs and the states they lead to, evaluated by the simplifier: the concrete inputs at
  which the theorems about the state machine are shown to apply. \<^verbatim>\<open>sample_libuv\<close> accepts every call.
\<close>

section \<open>Evaluation\<close>

lemmas eval_store =
  alloc_def new_obj_def uv_loop_of_def uvcall_def sample_libuv_def to_user_def upd_def start_world_def
  live_def leak_if_call_def leak_if_def set_self_def parent_raw_def parent_def collect.simps
  garbage_def strong_def own_count_def held_by_objs_def refs_of_def captures_def listeners_def
  drop_hold_def take_hold_def emitter_on_def assign_handler_def destroy_def destructor_def
  slots_make_def slots_on_def events_of_def own_tags_def stream_tags_def handle_kind_def
  stream_kind_def is_loop_kind_def map_filter_simps upt_rec Let_def loop_close_def release_def

lemma same_class_members:
  "same_class (K_poll c) (K_poll d)" "same_class (K_tcp a b) (K_tcp x y)" "same_class (K_pipe p) (K_pipe q)"
  "same_class (K_tty i p) (K_tty j q)" "same_class (K_udp a b) (K_udp x y)"
  "same_class (K_process e) (K_process f)" "same_class (K_work m) (K_work n)"
  "same_class (K_file g) (K_file h)" "same_class (K_fs r) (K_fs s)"
  by (simp_all add: same_class_def)

lemma forward_request_eval:
  "\<not> has_memo k \<Longrightarrow> forward_request uv k t call p w =
     (case parent w p of
        None \<Rightarrow> Inl Null_dereference
      | Some l \<Rightarrow>
          (let q = length (objs w); x = leak_if_call uv q (call q) (forward_prepare uv k t l p w)
           in Inr (fst x, drop_hold uv q (snd x))))"
  by (cases "parent w p") (simp_all add: forward_request_eq, simp add: forward_request_def forward_with_def)

lemmas eval_calls =
  allowed_defs exec_op_def exec_create_def exec_watcher_def loop_create_def user_resource_def
  loop_resource_def make_resource_def has_memo_def init_of_def no_init_def forward_request_eval
  forward_prepare_def
  run_forward_def handle_exec_def handle_close_def handle_closing_def call_defs
  timer_init_def tcp_handle_def tcp_init_def tcp_init_call_def tcp_exec_def tcp_connect_def connect_req_connect_def forward_fold
  file_req_def file_exec_def file_stat_def fs_async_def fs_cleanup_def file_handle_def
  file_data_of_def same_class_members

lemmas eval_congs = let_weak_cong prod.case_cong_weak

section \<open>Programs\<close>

text \<open>
  A connection in progress on a handle that is being closed and that the user has dropped: object
  0 is the loop, 1 the handle, 2 the request.
\<close>

definition tcp_calls :: "user_op list" where
  "tcp_calls = [U_create_loop, U_resource (tcp_handle 0) 0, U_on 1 T_connect 7 [],
     U_tcp 1 (Tcp_connect (replicate 16 0)), U_handle 1 Handle_close, U_release 1]"

definition tcp_world :: world where
  "tcp_world = the (run_ops sample_libuv sample_netlib tcp_calls start_world)"

text \<open>A timer that is being closed and that the user has dropped.\<close>

definition timer_calls :: "user_op list" where
  "timer_calls = [U_create_loop, U_resource K_timer 0, U_handle 1 Handle_close, U_release 1]"

definition timer_world :: world where
  "timer_world = the (run_ops sample_libuv sample_netlib timer_calls start_world)"

text \<open>A file request that the user drops while libuv works on it.\<close>

definition file_calls :: "user_op list" where
  "file_calls = [U_create_loop, U_resource file_req 0, U_file 1 F_stat, U_release 1]"

definition file_world :: world where
  "file_world = the (run_ops sample_libuv sample_netlib file_calls start_world)"

section \<open>Their states\<close>

lemmas worlds = tcp_world_def tcp_calls_def timer_world_def timer_calls_def file_world_def file_calls_def

lemma tcp_world_run: "run_ops sample_libuv sample_netlib tcp_calls start_world = Some tcp_world"
  by (simp add: worlds eval_store eval_calls cong: eval_congs split del: if_split)

lemma tcp_world_at:
  "is_open (hist tcp_world) 1" "is_closing (hist tcp_world) 1" "pending (hist tcp_world) 2 = 1"
  "kind (objs tcp_world ! 1) = K_tcp DEFAULT 0" "kind (objs tcp_world ! 2) = K_connect_req"
  "live tcp_world 1" "live tcp_world 2"
  by (simp_all add: worlds eval_store eval_calls request_cb_def cong: eval_congs split del: if_split)

lemma timer_world_run: "run_ops sample_libuv sample_netlib timer_calls start_world = Some timer_world"
  by (simp add: worlds eval_store eval_calls cong: eval_congs split del: if_split)

lemma timer_world_at:
  "is_open (hist timer_world) 1" "is_closing (hist timer_world) 1" "live timer_world 1"
  "kind (objs timer_world ! 1) = K_timer" "live timer_world 0"
  "kind (objs timer_world ! 0) = K_loop (Some (Own_loop 0))"
  by (simp_all add: worlds eval_store eval_calls cong: eval_congs split del: if_split)

lemma file_world_run: "run_ops sample_libuv sample_netlib file_calls start_world = Some file_world"
  by (simp add: worlds eval_store eval_calls cong: eval_congs split del: if_split)

lemma file_world_at:
  "\<not> live file_world 1" "pending (hist file_world) 1 = 1"
  by (simp_all add: worlds eval_store eval_calls cong: eval_congs split del: if_split)

text \<open>The simplifier writes \<^verbatim>\<open>1\<close> as \<^verbatim>\<open>Suc 0\<close>: both forms.\<close>

lemmas tcp_world_facts = tcp_world_at tcp_world_at [unfolded One_nat_def]
lemmas timer_world_facts = timer_world_at timer_world_at [unfolded One_nat_def]
lemmas file_world_facts = file_world_at file_world_at [unfolded One_nat_def]

lemmas sample_reachable =
  run_start_reachable [OF tcp_world_run] run_start_reachable [OF timer_world_run]
  run_start_reachable [OF file_world_run]

end
