(* ===== verification/Ownership.thy ===== *)
theory Ownership
  imports Samples
begin

text \<open>
  Who keeps what alive, over the whole program: which objects survive when pointers go, that
  publishing an event ends, that a program that has closed its handles and dropped its pointers
  leaves no object behind, and what is left of safety for the requests that do not hold themselves.
\<close>

section \<open>Survivors\<close>

text \<open>
  A set of objects that keep each other alive: each is alive, and has a pointer outside the store or
  a member of the set that refers to it.
\<close>

definition supported :: "world \<Rightarrow> oid set \<Rightarrow> bool" where
  "supported w S \<longleftrightarrow>
     (\<forall>s \<in> S. live w s \<and> (0 < own_count (objs w ! s) \<or> (\<exists>r \<in> S. s \<in> set (refs_of (objs w ! r)))))"

lemma supported_strong: "supported w S \<Longrightarrow> s \<in> S \<Longrightarrow> 0 < strong w s"
  unfolding supported_def strong_pos_iff by blast

lemma supported_same:
  assumes "supported w S" and "\<And>s. s \<in> S \<Longrightarrow> live v s"
    and "\<And>s. s \<in> S \<Longrightarrow> same_obj (objs w ! s) (objs v ! s)"
  shows "supported v S"
  using assms same_obj_refs same_obj_own unfolding supported_def by metis

lemma supported_destroy:
  assumes "supported w S" and "garbage w = p # ps"
  shows "supported (destroy uv p w) S"
proof -
  have p: "p < length (objs w)" "strong w p = 0" using garbage_in [OF assms(2)] by auto
  then have "p \<notin> S" using supported_strong [OF assms(1)] by fastforce
  moreover have "live w s" if "s \<in> S" for s using assms(1) that by (simp add: supported_def)
  ultimately show ?thesis
    using destroy_kills [of w uv p] live_length
    by (intro supported_same [OF assms(1)]) (auto simp: destroy_live [OF p(1)] only_kills_def)
qed

lemma supported_collect: "supported w S \<Longrightarrow> supported (collect uv w) S"
proof (induction uv w rule: collect.induct)
  case (1 uv w)
  then show ?case
    using supported_destroy by (cases "garbage w") (simp_all add: collect.simps [of uv w])
qed

lemma survivors_supported: "supported w {p. live (collect uv w) p}"
proof -
  let ?v = "collect uv w"
  have same: "refs_of (objs ?v ! s) = refs_of (objs w ! s)" "own_count (objs ?v ! s) = own_count (objs w ! s)"
    if "live ?v s" for s
    using collect_only_kills_obj [OF live_length [OF collect_live [OF that]]] same_obj_refs same_obj_own
    by metis+
  then show ?thesis
    using collect_all_held [of uv w] collect_live unfolding supported_def all_held_def' by fastforce
qed

text \<open>
  The objects that survive are those of the largest such set: the order in which the destructors run
  does not matter.
\<close>

lemma collect_survivors: "live (collect uv w) p \<longleftrightarrow> (\<exists>S. p \<in> S \<and> supported w S)"
proof
  assume "live (collect uv w) p"
  then show "\<exists>S. p \<in> S \<and> supported w S" using survivors_supported by blast
next
  assume "\<exists>S. p \<in> S \<and> supported w S"
  then show "live (collect uv w) p" using supported_collect by (auto simp: supported_def)
qed

section \<open>Publishing ends\<close>

lemma publish_fuel_enough:
  assumes "invar w" and "live w p"
  shows "publish_fuel (Suc (Suc n)) beh e p w = publish beh e p w"
proof -
  obtain m where m: "length (objs w) = Suc m"
    using live_length [OF assms(2)] by (cases "length (objs w)") auto
  have fwd: "publish_fuel (Suc n) beh e q w = publish_fuel (Suc m) beh e q w"
    if "handler (tag_of e) (handlers (objs w ! p)) = Some (Forward q)" for q
  proof -
    have "Forward q \<in> set (listeners (handlers (objs w ! p)))" using that handler_in_listeners by metis
    then have "live w q" "\<not> internal_kind (kind (objs w ! q))"
      using invar_live [OF assms] forward_in_refs by (auto simp: live_ok_def forward_ok_def refs_ok_def)
    then show ?thesis using publish_user [OF assms(1)] by metis
  qed
  show ?thesis
    unfolding publish_def m using assms(2)
    by (auto simp del: publish_fuel.simps simp: publish_fuel.simps(2) [of "Suc n"] publish_fuel.simps(2) [of "Suc m"]
        fwd split: option.splits listener.splits)
qed

section \<open>File system requests\<close>

lemma fs_body_defined:
  assumes "invar v" and "live v p" and "respectful beh" and "0 \<le> fs_result req \<longrightarrow> documented_ptr req"
  shows "\<exists>u. (if fs_result req < 0 then publish beh x p v else publish_fs beh (make_fs_event req) p (file_update f p v)) = Inr u"
    and "\<exists>u. (if fs_result req < 0 then publish beh x p v else publish_fs beh (make_fs_event req) p v) = Inr u"
    and "\<exists>u. (if fs_result req < 0 then publish beh x p v else publish_fs beh (make_fs_read_event req d) p (file_update f p v)) = Inr u"
proof -
  have u: "invar (file_update f p v)" "live (file_update f p v) p"
    using good_inv [OF good_file_update [OF assms(1)]] assms(2) by simp_all
  have pub: "\<exists>u. publish beh ev p y = Inr u" if "invar y" "live y p" for ev y
    using publish_defined [OF that assms(3)] by blast
  have ev: "\<exists>e. make_fs_event req = Inr e" if "\<not> fs_result req < 0"
    using that assms(4)
    by (cases "fs_kind req"; cases "fs_pointer req")
      (simp_all add: documented_ptr_def make_fs_event_def split: list.splits)
  show "\<exists>u. (if fs_result req < 0 then publish beh x p v else publish_fs beh (make_fs_event req) p (file_update f p v)) = Inr u"
    using pub [OF u] pub [OF assms(1,2)] ev by (auto simp: publish_fs_def)
  show "\<exists>u. (if fs_result req < 0 then publish beh x p v else publish_fs beh (make_fs_event req) p v) = Inr u"
    using pub [OF assms(1,2)] ev by (auto simp: publish_fs_def)
  show "\<exists>u. (if fs_result req < 0 then publish beh x p v else publish_fs beh (make_fs_read_event req d) p (file_update f p v)) = Inr u"
    using pub [OF u] pub [OF assms(1,2)] ev by (auto simp: publish_fs_def make_fs_read_event_def)
qed

lemma with_reserve_runs:
  assumes "invar w" and "0 < pending (hist w) p" and "request_cb cb" and "live w p"
    and "\<And>v. invar v \<Longrightarrow> live v p \<Longrightarrow> \<exists>u. body v = Inr u"
  shows "\<exists>v. with_reserve uv cb p body w = Inr v"
proof -
  let ?v = "self_reset p (take_hold p (fire cb p w))"
  have "invar ?v" using assms(1-4) core_completed [OF inv_core] by (intro invar_held) auto
  moreover have "live ?v p"
    using assms(4) by (simp add: self_reset_def set_self_def take_hold_def live_upd fire_def)
  ultimately obtain u where "body ?v = Inr u" using assms(5) by metis
  then show ?thesis using assms(4) by (simp add: with_reserve_def reserve_def deref_def fire_def)
qed

lemma fs_dispatch_defined:
  assumes "invar w" and "well_behaved uv net beh run" and "0 < pending (hist w) p" and "fs_callback cb"
    and "live w p" and "0 \<le> fs_result (raw_fs uv (hist w) p) \<longrightarrow> documented_ptr (raw_fs uv (hist w) p)"
  shows "\<exists>v. dispatch uv net beh run cb a p w = Inr v"
proof -
  have r: "respectful beh" using assms(2) by (rule well_behaved_respectful)
  note b = fs_body_defined [OF _ _ r assms(6)]
  have rq: "request_cb cb_fs_open" "request_cb cb_fs_close" "request_cb cb_fs_read" "request_cb cb_fs_request"
    by (simp_all add: request_cb_def)
  note runs = with_reserve_runs [OF assms(1,3) _ assms(5)]
  have "\<exists>v. fs_open_callback uv beh p w = Inr v" "\<exists>v. fs_close_callback uv beh p w = Inr v"
    "\<exists>v. fs_read_callback uv beh (a_buf a) p w = Inr v" "\<exists>v. fs_request_callback uv beh p w = Inr v"
    unfolding fs_open_callback_def fs_close_callback_def fs_read_callback_def fs_request_callback_def
      file_set_def Let_def
    by (rule runs, rule rq, erule (1) b)+
  then show ?thesis using assms(4) by (auto simp: fs_callback_def dispatch_def)
qed

section \<open>The terminal mode\<close>

text \<open>How often \<^verbatim>\<open>uv_tty_reset_mode\<close> has been called.\<close>

definition mode_resets :: "history \<Rightarrow> nat" where
  "mode_resets h = length (filter (\<lambda>x. case x of Called (C_tty uv_tty_reset_mode) r \<Rightarrow> True | _ \<Rightarrow> False) h)"

definition live_memos :: "world \<Rightarrow> oid set" where
  "live_memos w = {m. live w m \<and> kind (objs w ! m) = K_reset_memo}"

lemma finite_live_memos [simp]: "finite (live_memos w)"
  by (rule finite_subset [of _ "{..< length (objs w)}"]) (auto simp: live_memos_def live_def)

lemma mode_resets_destructor:
  "mode_resets (hist (destructor uv p w)) = mode_resets (hist w) + of_bool (kind (objs w ! p) = K_reset_memo)"
  by (cases "kind (objs w ! p)")
    (auto simp: destructor_def loop_close_def uv_loop_of_def uvcall_def mode_resets_def Let_def split: option.splits)

lemma memo_kind_destroy:
  assumes "q < length (objs w)"
  shows "kind (objs (destroy uv p w) ! q) = K_reset_memo \<longleftrightarrow> kind (objs w ! q) = K_reset_memo"
proof -
  have "kind (objs (destructor uv p w) ! q) = K_reset_memo \<longleftrightarrow> kind (objs w ! q) = K_reset_memo"
    by (cases "kind (objs w ! p)")
      (auto simp: destructor_def loop_close_def uv_loop_of_def uvcall_def Let_def nth_upd split: option.splits)
  then show ?thesis by (auto simp: destroy_def nth_upd)
qed

lemma mode_resets_destroy:
  "mode_resets (hist (destroy uv p w)) = mode_resets (hist w) + of_bool (kind (objs w ! p) = K_reset_memo)"
  by (simp add: destroy_def mode_resets_destructor)

lemma live_memos_destroy:
  assumes "p < length (objs w)"
  shows "live_memos (destroy uv p w) = live_memos w - {p}"
  using memo_kind_destroy live_length by (fastforce simp: live_memos_def destroy_live [OF assms])

text \<open>A destructor of the memo is a reset of the mode, and nothing else is.\<close>

lemma collect_resets:
  "mode_resets (hist (collect uv w)) + card (live_memos (collect uv w)) = mode_resets (hist w) + card (live_memos w)"
proof (induction uv w rule: collect.induct)
  case (1 uv w)
  show ?case
  proof (cases "garbage w")
    case Nil
    then show ?thesis by (simp add: collect.simps [of uv w])
  next
    case (Cons p ps)
    then have p: "p < length (objs w)" "alive (objs w ! p)" using garbage_in by auto
    have "mode_resets (hist (destroy uv p w)) + card (live_memos (destroy uv p w)) =
        mode_resets (hist w) + card (live_memos w)"
    proof (cases "kind (objs w ! p) = K_reset_memo")
      case True
      then have "p \<in> live_memos w" using p by (simp add: live_memos_def live_def)
      then show ?thesis
        using True card_Suc_Diff1 [of "live_memos w" p]
        by (simp add: live_memos_destroy [OF p(1)] mode_resets_destroy)
    next
      case False
      then have "p \<notin> live_memos w" by (simp add: live_memos_def)
      then show ?thesis
        using False by (simp add: live_memos_destroy [OF p(1)] mode_resets_destroy)
    qed
    then show ?thesis using 1 [OF Cons] Cons by (simp add: collect.simps [of uv w])
  qed
qed

lemma collect_memos: "live_memos (collect uv w) \<subseteq> live_memos w"
proof (induction uv w rule: collect.induct)
  case (1 uv w)
  show ?case
  proof (cases "garbage w")
    case Nil
    then show ?thesis by (simp add: collect.simps [of uv w])
  next
    case (Cons p ps)
    then have "live_memos (destroy uv p w) \<subseteq> live_memos w" using garbage_in live_memos_destroy by blast
    then show ?thesis using 1 [OF Cons] Cons by (simp add: collect.simps [of uv w])
  qed
qed

lemma live_memos_upd:
  "(\<And>b. alive (f b) = alive b) \<Longrightarrow> (\<And>b. kind (f b) = kind b) \<Longrightarrow> live_memos (upd p f w) = live_memos w"
  by (auto simp: live_memos_def live_upd nth_upd)

lemma release_resets:
  "mode_resets (hist (release uv p w)) = mode_resets (hist w) + card (live_memos w - live_memos (release uv p w))"
proof -
  let ?u = "upd p (\<lambda>o1. o1\<lparr>ext := ext o1 - 1\<rparr>) w"
  have m: "live_memos ?u = live_memos w" by (rule live_memos_upd) simp_all
  have "card (live_memos (collect uv ?u)) \<le> card (live_memos ?u)"
    using collect_memos by (intro card_mono) simp_all
  moreover have "card (live_memos ?u - live_memos (collect uv ?u)) =
      card (live_memos ?u) - card (live_memos (collect uv ?u))"
    using collect_memos by (intro card_Diff_subset) simp_all
  ultimately show ?thesis unfolding release_def using collect_resets [of uv ?u] m by simp
qed

section \<open>More programs\<close>

text \<open>The timer of \<^verbatim>\<open>timer_world\<close> after its close callback, with the loop dropped too.\<close>

definition closed_world :: world where
  "closed_world = projr (close_callback sample_libuv idle_user 1 timer_world)"

definition done_world :: world where
  "done_world = the (run_ops sample_libuv sample_netlib [U_release 0] closed_world)"

text \<open>A file request that the user keeps while libuv works on it.\<close>

definition kept_calls :: "user_op list" where
  "kept_calls = [U_create_loop, U_resource file_req 0, U_file 1 F_stat]"

definition kept_world :: world where
  "kept_world = the (run_ops sample_libuv sample_netlib kept_calls start_world)"

lemmas eval_closed = closed_world_def close_callback_def deref_def fire_def publish_def self_reset_def
  tag_of_def eval_store eval_calls worlds

lemma closed_world_run: "close_callback sample_libuv idle_user 1 timer_world = Inr closed_world"
  by (simp add: eval_closed cong: eval_congs split del: if_split)

lemma done_world_run: "run_ops sample_libuv sample_netlib [U_release 0] closed_world = Some done_world"
  by (simp add: done_world_def eval_closed cong: eval_congs split del: if_split)

lemma done_world_at: "\<not> live done_world 0" "\<not> live done_world 1" "length (objs done_world) = 2"
  by (simp_all add: done_world_def eval_closed cong: eval_congs split del: if_split)

lemma done_world_libuv: "\<not> is_open (hist done_world) p" "pending (hist done_world) p = 0"
  by (simp_all add: done_world_def eval_closed cong: eval_congs split del: if_split)

lemma done_reachable: "reachable sample_libuv sample_netlib idle_user idle_task may_fire done_world"
proof -
  have "may_fire (hist timer_world) cb_close 1" by (simp add: may_fire_def timer_world_facts)
  moreover have "dispatch sample_libuv sample_netlib idle_user idle_task cb_close a 1 timer_world = Inr closed_world" for a
    using closed_world_run by (simp add: dispatch_def)
  ultimately have "reachable sample_libuv sample_netlib idle_user idle_task may_fire closed_world"
    using reachable.more [OF sample_reachable(2) step.by_libuv] by blast
  then show ?thesis using done_world_run by (rule run_ops_reachable)
qed

lemma kept_world_run: "run_ops sample_libuv sample_netlib kept_calls start_world = Some kept_world"
  by (simp add: kept_world_def kept_calls_def eval_store eval_calls cong: eval_congs split del: if_split)

lemma kept_world_at: "live kept_world 1" "pending (hist kept_world) 1 = 1"
  by (simp_all add: kept_world_def kept_calls_def eval_store eval_calls cong: eval_congs split del: if_split)

text \<open>A TTY handle that was never initialised: object 1 is the memo, 2 the handle.\<close>

definition tty_world :: world where
  "tty_world = the (run_ops sample_libuv sample_netlib [U_create_loop, U_uninitialized (tty_handle 0 False) 0] start_world)"

lemmas eval_tty = tty_world_def tty_handle_def uninitialized_resource_def mode_memo_handler_def release_def
  eval_store eval_calls

lemma tty_world_run:
  "run_ops sample_libuv sample_netlib [U_create_loop, U_uninitialized (tty_handle 0 False) 0] start_world =
    Some tty_world"
  by (simp add: eval_tty cong: eval_congs split del: if_split)

lemma tty_world_at:
  "live tty_world 1" "kind (objs tty_world ! 1) = K_reset_memo" "\<not> live (release sample_libuv 2 tty_world) 1"
  by (simp_all add: eval_tty cong: eval_congs split del: if_split)

section \<open>Properties\<close>

text \<open>
  C15. Publishing an event ends, and what it does does not depend on a bound: in every reachable state
  a chain of forwarding listeners has at most one link, so that every fuel from two on gives the
  result of \<^verbatim>\<open>publish\<close>, which is always defined.
\<close>

theorem publish_terminates:
  assumes "reachable uv net beh run fires w"
    and "well_behaved uv net beh run" and "documented_callbacks fires"
    and "live w p" and "2 \<le> n"
  shows "publish_fuel n beh e p w = publish beh e p w \<and> (\<exists>v. publish beh e p w = Inr v)"
proof -
  have i: "invar w" using reachable_invar [OF assms(1-3)] by simp
  obtain m where "n = Suc (Suc m)" using assms(5) by (metis add_2_eq_Suc le_Suc_ex)
  then show ?thesis
    using publish_fuel_enough [OF i assms(4)] publish_defined [OF i assms(4) well_behaved_respectful(1) [OF assms(2)]]
    by blast
qed

theorem publish_terminates_witness:
  "publish_fuel 2 idle_user Ev_connect 2 tcp_world = publish idle_user Ev_connect 2 tcp_world"
  using publish_terminates [OF sample_reachable(1) idle_well_behaved may_fire_documented, of 2 2]
  by (simp add: tcp_world_facts)

text \<open>
  C9. A program that is done leaves nothing behind: in a reachable state in which every handle has
  been closed, no request is pending, the user has dropped all pointers and no ring of pointers
  exists among the objects, no object is left, neither a handle, a request nor a loop.
\<close>

theorem finished_program_frees_all:
  assumes "reachable uv net beh run fires w"
    and "well_behaved uv net beh run" and "documented_callbacks fires"
    and "\<forall>p. \<not> is_open (hist w) p \<and> pending (hist w) p = 0" and "\<forall>p. live w p \<longrightarrow> ext (objs w ! p) = 0"
    and "acyclic {(s, q). live w s \<and> q \<in> set (refs_of (objs w ! s))}" (is "acyclic ?R")
  shows "\<not> live w p"
proof
  assume p: "live w p"
  have i: "invar w" and h: "\<forall>p < length (objs w). hold (objs w ! p) = 0"
    using reachable_invar [OF assms(1-3)] by auto
  have "?R \<subseteq> {..< length (objs w)} \<times> {..< length (objs w)}"
    using invar_live [OF i] live_length by (auto simp: live_ok_def refs_ok_def)
  then have "wf ?R" using assms(6) by (intro finite_acyclic_wf) (auto intro: finite_subset)
  moreover have "p \<in> Collect (live w)" using p by simp
  ultimately obtain q where "q \<in> Collect (live w)" and min: "\<And>s. (s, q) \<in> ?R \<Longrightarrow> s \<notin> Collect (live w)"
    by (rule wfE_min) blast
  then have q: "live w q" by simp
  have "hold (objs w ! q) = 0" "ext (objs w ! q) = 0" using h assms(5) q live_length by blast+
  moreover have "\<not> self_ptr (objs w ! q)"
    using invar_live [OF i q] assms(4) unfolding live_ok_def by (metis less_irrefl)
  ultimately have "own_count (objs w ! q) = 0" by (simp add: own_count_def)
  then obtain s where "live w s" "q \<in> set (refs_of (objs w ! s))"
    using i q by (auto simp: invar_def all_held_def')
  then show False using min [of s] by simp
qed

theorem finished_program_frees_all_witness: "\<not> live done_world 0 \<and> \<not> live done_world 1"
proof -
  have no: "\<not> live done_world s" for s
    using done_world_at live_length [of done_world s] by (metis less_2_cases One_nat_def)
  have "\<not> live done_world p" for p
    by (rule finished_program_frees_all [OF done_reachable idle_well_behaved may_fire_documented])
      (simp_all add: no done_world_libuv acyclic_def)
  then show ?thesis by simp
qed

text \<open>
  C13. A file system request is safe as long as something holds it: the completion of an asynchronous
  operation whose request is still alive runs to its end and publishes the error or the event, given
  that libuv sets the result pointer of an operation that succeeded.
\<close>

theorem fs_request_safe_while_held:
  assumes "reachable uv net beh run fires w"
    and "well_behaved uv net beh run" and "documented_callbacks fires"
    and "fires (hist w) cb p" and "fs_callback cb" and "live w p"
    and "0 \<le> fs_result (raw_fs uv (hist w) p) \<longrightarrow> documented_ptr (raw_fs uv (hist w) p)"
  shows "\<exists>v. dispatch uv net beh run cb a p w = Inr v \<and> invar v"
proof -
  have i: "invar w" using reachable_invar [OF assms(1-3)] by simp
  have f: "may_fire (hist w) cb p" using assms(3,4) by (simp add: documented_callbacks_def)
  then have "0 < pending (hist w) p"
    using assms(5) by (auto simp: may_fire_def fs_callback_def request_cb_def split: if_splits)
  then obtain v where "dispatch uv net beh run cb a p w = Inr v"
    using fs_dispatch_defined [OF i assms(2) _ assms(5-7)] by blast
  then show ?thesis using dispatch_good [OF i assms(2) f] good_inv by blast
qed

theorem fs_request_safe_while_held_witness:
  "\<forall>a. \<exists>v. dispatch sample_libuv sample_netlib idle_user idle_task cb_fs_request a 1 kept_world = Inr v \<and> invar v"
  by (rule allI, rule fs_request_safe_while_held [OF run_start_reachable [OF kept_world_run] idle_well_behaved
        may_fire_documented])
    (simp_all add: may_fire_def request_cb_def fs_callback_def kept_world_at
      kept_world_at [unfolded One_nat_def] sample_libuv_def documented_ptr_def)

text \<open>
  C16. Disconnecting all listeners of an object lets go exactly what only they kept: the objects that
  are alive afterwards are those of the largest set whose members are alive, and have a pointer
  outside the store or are referred to from within the set when the object's listeners are gone. In
  particular the order in which the destructors run is irrelevant.
\<close>

theorem reset_destroys_exactly:
  assumes "reachable uv net beh run fires w"
    and "well_behaved uv net beh run" and "documented_callbacks fires" and "live w p"
  shows "live (emitter_reset_all uv p w) q \<longleftrightarrow>
    (\<exists>S. q \<in> S \<and> supported (upd p (\<lambda>b. b\<lparr>handlers := slots_make (events_of (kind b))\<rparr>) w) S)"
proof -
  have "live_ok w p" using reachable_invar [OF assms(1-3)] invar_live assms(4) by blast
  then have "slots_reset_all (handlers (objs w ! p)) = slots_make (events_of (kind (objs w ! p)))"
    using emitter_reset_all_fresh [of "handlers (objs w ! p)"]
    by (simp add: live_ok_def slots_ok_def distinct_events_of)
  then have "emitter_reset_all uv p w =
      collect uv (upd p (\<lambda>b. b\<lparr>handlers := slots_make (events_of (kind b))\<rparr>) w)"
    by (simp add: emitter_reset_all_def upd_def)
  then show ?thesis by (simp add: collect_survivors)
qed

theorem reset_destroys_exactly_witness:
  "live (emitter_reset_all sample_libuv 2 tcp_world) 2"
proof -
  let ?w = "upd 2 (\<lambda>b. b\<lparr>handlers := slots_make (events_of (kind b))\<rparr>) tcp_world"
  have "0 < own_count (objs ?w ! 2)" "live ?w 2"
    by (simp_all add: worlds eval_store eval_calls cong: eval_congs split del: if_split)
  then have "supported ?w {2}" by (simp add: supported_def)
  then show ?thesis
    using reset_destroys_exactly [OF sample_reachable(1) idle_well_behaved may_fire_documented tcp_world_facts(7),
        of 2] by blast
qed

text \<open>
  C34. The terminal gets its mode back with the last TTY handle: dropping a pointer resets the mode once
  for each memo that it destroys and not otherwise, a memo stays alive as long as any object that
  shares it, and a new TTY handle shares the memo that is alive.
\<close>

theorem tty_mode_reset_with_last_handle:
  assumes "reachable uv net beh run fires w"
    and "well_behaved uv net beh run" and "documented_callbacks fires" and "v = release uv p w"
  shows "mode_resets (hist v) = mode_resets (hist w) + card (live_memos w - live_memos v) \<and>
    (\<forall>s m. live v s \<and> m \<in> set (members (objs v ! s)) \<longrightarrow> live v m) \<and>
    (\<forall>m f r l q u. memo_ref v = Some m \<and> live v m \<and> make_resource (K_tty f r) l v = (q, u) \<longrightarrow>
       members (objs u ! q) = [m])"
proof -
  have "invar w" using reachable_invar [OF assms(1-3)] by simp
  then have i: "invar v" unfolding assms(4) using good_release good_inv by blast
  have "live v m" if "live v s" "m \<in> set (members (objs v ! s))" for s m
  proof -
    have "m \<in> set (refs_of (objs v ! s))" using that(2) by (simp add: refs_of_def)
    then show ?thesis using invar_live [OF i that(1)] by (simp add: live_ok_def refs_ok_def)
  qed
  moreover have "members (objs u ! q) = [m]"
    if "memo_ref v = Some m" "live v m" "make_resource (K_tty f r) l v = (q, u)" for m f r l q u
    using that live_length [OF that(2)]
    by (auto simp: make_resource_def has_memo_def mode_memo_handler_def alloc_def take_hold_def nth_upd nth_append)
  ultimately show ?thesis using release_resets [of uv p w] assms(4) by blast
qed

theorem tty_mode_reset_with_last_handle_witness:
  "mode_resets (hist (release sample_libuv 2 tty_world)) =
     mode_resets (hist tty_world) + card (live_memos tty_world - live_memos (release sample_libuv 2 tty_world)) \<and>
   1 \<in> live_memos tty_world - live_memos (release sample_libuv 2 tty_world)"
proof
  show "mode_resets (hist (release sample_libuv 2 tty_world)) =
     mode_resets (hist tty_world) + card (live_memos tty_world - live_memos (release sample_libuv 2 tty_world))"
    using tty_mode_reset_with_last_handle [OF run_start_reachable [OF tty_world_run] idle_well_behaved
        may_fire_documented refl] by blast
  show "1 \<in> live_memos tty_world - live_memos (release sample_libuv 2 tty_world)"
    by (simp add: live_memos_def tty_world_at tty_world_at [unfolded One_nat_def])
qed

end
