(* ===== verification/Buffers.thy ===== *)
theory Buffers
  imports Udp
begin

text \<open>
  The memory behind received data: \<^verbatim>\<open>common_alloc_callback\<close> of \<^verbatim>\<open>util.ipp\<close> allocates a buffer with
  \<^verbatim>\<open>new char[]\<close>, \<^verbatim>\<open>read_callback\<close> of \<^verbatim>\<open>stream.h\<close> and \<^verbatim>\<open>recv_callback\<close> of \<^verbatim>\<open>udp.ipp\<close> put \<^verbatim>\<open>buf->base\<close> into a
  \<^verbatim>\<open>std::unique_ptr<char[]>\<close> that goes at their end, unless it is moved into the event and from there
  to the user. The theories Streams and Udp say what these callbacks publish; here they act on the
  heap. The locale \<^verbatim>\<open>buffer_source\<close> is what provides a buffer, \<^verbatim>\<open>consumer\<close> what a callback does with
  it, and \<^verbatim>\<open>reader\<close> puts the two together.
\<close>

section \<open>The heap\<close>

text \<open>A pointer to a \<^verbatim>\<open>char\<close> is a block and an offset into it; the null pointer is \<^verbatim>\<open>None\<close>.\<close>

type_synonym cptr = "(nat \<times> nat) option"

record heap =
  blocks :: "nat set"
  next_block :: nat

datatype buffer_error = Bad_delete cptr | Bad_event ub

definition heap_ok :: "heap \<Rightarrow> bool" where
  "heap_ok h \<longleftrightarrow> (\<forall>b \<in> blocks h. b < next_block h)"

definition new_array :: "heap \<Rightarrow> cptr \<times> heap" where
  "new_array h =
     (Some (next_block h, 0), \<lparr>blocks = insert (next_block h) (blocks h), next_block = Suc (next_block h)\<rparr>)"

text \<open>\<^verbatim>\<open>delete[]\<close> is defined for the null pointer and for the start of a block that is allocated.\<close>

definition delete_array :: "cptr \<Rightarrow> heap \<Rightarrow> buffer_error + heap" where
  "delete_array p h =
     (case p of
        None \<Rightarrow> Inr h
      | Some (b, i) \<Rightarrow> if i = 0 \<and> b \<in> blocks h then Inr (h\<lparr>blocks := blocks h - {b}\<rparr>) else Inl (Bad_delete p))"

section \<open>The callbacks\<close>

text \<open>\<^verbatim>\<open>*buf = uv_buf_init(new char[size], size)\<close>: the base and the length.\<close>

definition alloc_buffer :: "u64 \<Rightarrow> heap \<Rightarrow> (cptr \<times> u32) \<times> heap" where
  "alloc_buffer suggested h =
     (let size = to_uint32 (uint suggested); (p, h1) = new_array h in ((p, size), h1))"

text \<open>
  The template for a custom allocation function of the user, which gives a pointer and a size. The
  callbacks free what it returns with \<^verbatim>\<open>delete[]\<close>, so it has to come from \<^verbatim>\<open>new char[]\<close>; \<^verbatim>\<open>tests_alloc\<close> is
  the function that the tests of TCP and UDP handles pass.
\<close>

definition custom_buffer :: "(u64 \<Rightarrow> heap \<Rightarrow> (cptr \<times> u64) \<times> heap) \<Rightarrow> u64 \<Rightarrow> heap \<Rightarrow> (cptr \<times> u32) \<times> heap" where
  "custom_buffer g suggested h =
     (let ((p, size), h1) = g suggested h in ((p, to_uint32 (uint size)), h1))"

definition allocates_new :: "(u64 \<Rightarrow> heap \<Rightarrow> (cptr \<times> u64) \<times> heap) \<Rightarrow> bool" where
  "allocates_new g \<longleftrightarrow> (\<forall>s h. (fst (fst (g s h)), snd (g s h)) = new_array h)"

definition tests_alloc :: "u64 \<Rightarrow> heap \<Rightarrow> (cptr \<times> u64) \<times> heap" where
  "tests_alloc suggested h = (let (p, h1) = new_array h in ((p, suggested), h1))"

text \<open>
  What a callback gets: the number of bytes or an error, the bytes, for a datagram the sender and the
  flags; and whether the user's listener moves the data out of the event.
\<close>

record received =
  nread :: int
  content :: bytes
  sender :: "bytes option"
  recv_flags :: flags
  takes :: bool

text \<open>The end of the \<^verbatim>\<open>std::unique_ptr\<close>: in the callback, in the event, or with the user.\<close>

definition drop_data :: "bool \<Rightarrow> cptr \<Rightarrow> heap \<Rightarrow> buffer_error + heap" where
  "drop_data moved p h = (if moved then Inr h else delete_array p h)"

definition read_buffer :: "libuv \<Rightarrow> received \<Rightarrow> cptr \<Rightarrow> heap \<Rightarrow> buffer_error + heap" where
  "read_buffer uv r p h =
     (case read_event uv (nread r) (content r) of
        Some (Ev_data d n) \<Rightarrow> drop_data (takes r) p h
      | _ \<Rightarrow> drop_data False p h)"

definition recv_buffer :: "netlib \<Rightarrow> received \<Rightarrow> cptr \<Rightarrow> heap \<Rightarrow> buffer_error + heap" where
  "recv_buffer net r p h =
     (case recv_event net (nread r) (content r) (sender r) (recv_flags r) of
        Inl e \<Rightarrow> Inl (Bad_event e)
      | Inr (Some (Ev_udp_data a d n b)) \<Rightarrow> drop_data (takes r) p h
      | Inr _ \<Rightarrow> drop_data False p h)"

section \<open>Rounds of allocating and receiving\<close>

text \<open>libuv asks for a buffer, then calls back with it.\<close>

fun rounds ::
  "(u64 \<Rightarrow> heap \<Rightarrow> (cptr \<times> u32) \<times> heap) \<Rightarrow> ('r \<Rightarrow> cptr \<Rightarrow> heap \<Rightarrow> buffer_error + heap) \<Rightarrow>
   (u64 \<times> 'r) list \<Rightarrow> heap \<Rightarrow> buffer_error + heap" where
  "rounds al consume [] h = Inr h"
| "rounds al consume ((suggested, r) # rs) h =
     (let ((p, size), h1) = al suggested h
      in case consume r p h1 of Inl e \<Rightarrow> Inl e | Inr h2 \<Rightarrow> rounds al consume rs h2)"

text \<open>The two sides: what provides a buffer, and what a callback does with it.\<close>

locale buffer_source =
  fixes al :: "u64 \<Rightarrow> heap \<Rightarrow> (cptr \<times> u32) \<times> heap"
  assumes al_new: "al s h = ((p, n), h1) \<Longrightarrow> new_array h = (p, h1)"

locale consumer =
  fixes consume :: "'r \<Rightarrow> cptr \<Rightarrow> heap \<Rightarrow> buffer_error + heap"
    and documented :: "'r \<Rightarrow> bool"
    and keeps :: "'r \<Rightarrow> bool"
  assumes consume_eq: "documented r \<Longrightarrow> consume r p h = drop_data (keeps r) p h"

locale reader = buffer_source al + consumer consume documented keeps
  for al :: "u64 \<Rightarrow> heap \<Rightarrow> (cptr \<times> u32) \<times> heap"
    and consume :: "'r \<Rightarrow> cptr \<Rightarrow> heap \<Rightarrow> buffer_error + heap"
    and documented :: "'r \<Rightarrow> bool"
    and keeps :: "'r \<Rightarrow> bool"
begin

lemma round_ok:
  assumes "heap_ok h" and "documented r" and "al s h = ((p, n), h1)"
  shows "\<exists>h2. consume r p h1 = Inr h2 \<and> heap_ok h2 \<and> next_block h2 = Suc (next_block h) \<and>
    blocks h2 = (if keeps r then insert (next_block h) (blocks h) else blocks h)"
proof -
  have new: "next_block h \<notin> blocks h" and old: "\<And>b. b \<in> blocks h \<Longrightarrow> b < Suc (next_block h)"
    using assms(1) by (auto simp: heap_ok_def intro: less_SucI)
  show ?thesis
    using assms(2) al_new [OF assms(3)] new old
    by (auto simp: consume_eq drop_data_def delete_array_def new_array_def heap_ok_def)
qed

lemma rounds_balanced:
  assumes "heap_ok h" and "\<forall>(s, r) \<in> set rs. documented r"
  shows "\<exists>h2. rounds al consume rs h = Inr h2 \<and> heap_ok h2 \<and> blocks h \<subseteq> blocks h2 \<and> next_block h \<le> next_block h2 \<and>
    finite (blocks h2 - blocks h) \<and> (\<forall>b \<in> blocks h2 - blocks h. next_block h \<le> b) \<and>
    card (blocks h2 - blocks h) = length (filter (\<lambda>x. keeps (snd x)) rs)"
  using assms
proof (induction rs arbitrary: h)
  case (Cons x rs)
  obtain s r where x: "x = (s, r)" by (cases x)
  obtain p n h1 where a: "al s h = ((p, n), h1)" by (cases "al s h") auto
  obtain h2 where h2: "consume r p h1 = Inr h2" "heap_ok h2" "next_block h2 = Suc (next_block h)"
    "blocks h2 = (if keeps r then insert (next_block h) (blocks h) else blocks h)"
    using round_ok [OF Cons.prems(1) _ a, of r] Cons.prems(2) x by auto
  obtain h3 where h3: "rounds al consume rs h2 = Inr h3" "heap_ok h3" "blocks h2 \<subseteq> blocks h3"
    "next_block h2 \<le> next_block h3" "finite (blocks h3 - blocks h2)" "\<forall>b \<in> blocks h3 - blocks h2. next_block h2 \<le> b"
    "card (blocks h3 - blocks h2) = length (filter (\<lambda>x. keeps (snd x)) rs)"
    using Cons.IH [OF h2(2)] Cons.prems(2) by auto
  have new: "next_block h \<notin> blocks h" using Cons.prems(1) by (auto simp: heap_ok_def)
  have split: "blocks h3 - blocks h = (if keeps r then insert (next_block h) (blocks h3 - blocks h2) else blocks h3 - blocks h2)"
    using h2(4) h3(3) new by auto
  have "next_block h \<notin> blocks h3 - blocks h2" using h3(6) [THEN bspec, of "next_block h"] h2(3) by auto
  then have "card (blocks h3 - blocks h) = length (filter (\<lambda>x. keeps (snd x)) (x # rs))"
    using h3(5,7) x by (simp add: split)
  moreover have "blocks h \<subseteq> blocks h3" using h2(4) h3(3) by (auto split: if_splits)
  moreover have "\<forall>b \<in> blocks h3 - blocks h. next_block h \<le> b" using h3(6) h2(3) by (auto simp: split Suc_le_eq intro: less_imp_le)
  moreover have "rounds al consume (x # rs) h = Inr h3" using h3(1) h2(1) a x by simp
  moreover have "finite (blocks h3 - blocks h)" using h3(5) by (simp add: split)
  moreover have "next_block h \<le> next_block h3" using h3(4) h2(3) by simp
  ultimately show ?case
    using h3(2) by blast
qed simp

end

definition read_keeps :: "libuv \<Rightarrow> received \<Rightarrow> bool" where
  "read_keeps uv r \<longleftrightarrow> takes r \<and> 0 < nread r \<and> nread r \<noteq> UV_EOF uv"

definition recv_keeps :: "received \<Rightarrow> bool" where
  "recv_keeps r \<longleftrightarrow> takes r \<and> 0 \<le> nread r \<and> sender r \<noteq> None"

interpretation default_source: buffer_source alloc_buffer
  by unfold_locales (auto simp: alloc_buffer_def case_prod_beta Let_def)

interpretation tests_source: buffer_source "custom_buffer tests_alloc"
  by unfold_locales (auto simp: custom_buffer_def tests_alloc_def case_prod_beta Let_def)

lemma custom_source: "allocates_new g \<Longrightarrow> buffer_source (custom_buffer g)"
  by unfold_locales (auto simp: allocates_new_def custom_buffer_def case_prod_beta)

lemma tests_alloc_new: "allocates_new tests_alloc"
  by (simp add: allocates_new_def tests_alloc_def case_prod_beta)

interpretation stream_consumer: consumer "read_buffer uv" "\<lambda>r. True" "read_keeps uv" for uv
  by unfold_locales (auto simp: read_buffer_def read_event_def read_keeps_def drop_data_def)

interpretation udp_consumer: consumer "recv_buffer net" "\<lambda>r. 0 < nread r \<longrightarrow> sender r \<noteq> None" recv_keeps for net
  by unfold_locales (auto simp: recv_buffer_def recv_event_def recv_keeps_def drop_data_def split: option.splits)

interpretation stream_data: reader alloc_buffer "read_buffer uv" "\<lambda>r. True" "read_keeps uv" for uv ..

interpretation udp_data: reader alloc_buffer "recv_buffer net" "\<lambda>r. 0 < nread r \<longrightarrow> sender r \<noteq> None" recv_keeps
  for net ..

section \<open>Several datagrams in one buffer\<close>

text \<open>
  With \<^verbatim>\<open>UDP_RECVMMSG\<close>, libuv asks for one buffer, calls back for each datagram with a pointer into
  it and \<^verbatim>\<open>UV_UDP_MMSG_CHUNK\<close> set, and at last with the buffer's start, no data, no sender and
  \<^verbatim>\<open>UV_UDP_MMSG_FREE\<close>: only then is the buffer to be freed. A chunk has room for the largest datagram.
\<close>

definition chunk_size :: nat where
  "chunk_size = 65536"

definition free_call :: received where
  "free_call = \<lparr>nread = 0, content = [], sender = None, recv_flags = udp_flag_value UDP_MMSG_FREE, takes = False\<rparr>"

fun recv_chunks :: "netlib \<Rightarrow> nat \<Rightarrow> nat \<Rightarrow> received list \<Rightarrow> heap \<Rightarrow> buffer_error + heap" where
  "recv_chunks net b i [] h = recv_buffer net free_call (Some (b, 0)) h"
| "recv_chunks net b i (r # rs) h =
     (case recv_buffer net r (Some (b, i * chunk_size)) h of
        Inl e \<Rightarrow> Inl e
      | Inr h1 \<Rightarrow> recv_chunks net b (Suc i) rs h1)"

definition recv_batch :: "netlib \<Rightarrow> u64 \<Rightarrow> received list \<Rightarrow> heap \<Rightarrow> buffer_error + heap" where
  "recv_batch net suggested rs h =
     (let ((p, size), h1) = alloc_buffer suggested h
      in case p of None \<Rightarrow> Inr h1 | Some (b, i) \<Rightarrow> recv_chunks net b 0 rs h1)"

definition is_chunk :: "received \<Rightarrow> bool" where
  "is_chunk r \<longleftrightarrow> 0 \<le> nread r \<and> sender r \<noteq> None \<and> flag_test (udp_flag_value UDP_MMSG_CHUNK) (recv_flags r)"

lemma recv_free_call: "recv_buffer net free_call p h = delete_array p h"
  by (simp add: recv_buffer_def recv_event_def free_call_def drop_data_def)

lemma recv_chunk_drop: "is_chunk r \<Longrightarrow> \<not> takes r \<Longrightarrow> recv_buffer net r p h = delete_array p h"
  using udp_consumer.consume_eq [of r net p h] by (auto simp: is_chunk_def recv_keeps_def drop_data_def)

section \<open>Properties\<close>



text \<open>
  C24. A handle that receives several datagrams at once frees what it must not: for every batch with at
  least one datagram, none of which the listener keeps, the callbacks free the buffer with the first
  chunk and then delete a pointer that is not, or no longer, the start of an allocated block.
\<close>

theorem recvmmsg_frees_chunks:
  assumes "\<forall>r \<in> set rs. is_chunk r \<and> \<not> takes r" and "rs \<noteq> []"
  shows "\<exists>q. recv_batch net suggested rs h = Inl (Bad_delete q)"
proof -
  let ?b = "next_block h" and ?h = "\<lparr>blocks = blocks h - {next_block h}, next_block = Suc (next_block h)\<rparr>"
  obtain r rs' where rs: "rs = r # rs'" using assms(2) by (cases rs) auto
  have first: "recv_batch net suggested rs h = recv_chunks net ?b 1 rs' ?h"
    using assms(1) rs
    by (simp add: recv_batch_def alloc_buffer_def new_array_def recv_chunk_drop delete_array_def Let_def)
  have "\<exists>q. recv_chunks net ?b 1 rs' ?h = Inl (Bad_delete q)"
    using assms(1) rs by (cases rs') (simp_all add: recv_chunk_drop recv_free_call delete_array_def chunk_size_def)
  then show ?thesis using first by simp
qed

theorem recvmmsg_frees_chunks_witness:
  "\<exists>q. recv_batch sample_netlib 131072
      [\<lparr>nread = 1, content = [7], sender = Some (replicate 16 0), recv_flags = udp_flag_value UDP_MMSG_CHUNK,
        takes = False\<rparr>] \<lparr>blocks = {}, next_block = 0\<rparr> = Inl (Bad_delete q)"
  by (rule recvmmsg_frees_chunks) (simp_all add: is_chunk_def flag_test_def udp_flag_value_def enum_not_def enum_and_def)

end
