(* ===== verification/File_Buffers.thy ===== *)
theory File_Buffers
  imports Buffers Fs
begin

text \<open>
  The memory of a file request: \<^verbatim>\<open>current\<close> of \<^verbatim>\<open>fs.h\<close> is a \<^verbatim>\<open>std::unique_ptr<char[]>\<close> that \<^verbatim>\<open>read\<close>,
  \<^verbatim>\<open>read_sync\<close>, \<^verbatim>\<open>write\<close> and \<^verbatim>\<open>write_sync\<close> of \<^verbatim>\<open>fs.ipp\<close> assign, \<^verbatim>\<open>fs_read_callback\<close> moves into the event
  and the destructor frees, while libuv reads or writes through the raw pointer of the operation that
  is pending. The theory Fs has the contents of these buffers; here they are blocks of the heap of the
  theory Buffers, owned by the request or by the user's program.
\<close>

section \<open>The request and its buffer\<close>

text \<open>What libuv does with the request, with the memory it was given.\<close>

datatype pending_op = Reading cptr | Writing cptr | Unbuffered

record file_mem =
  mem :: heap
  current_ptr :: cptr
  in_use :: "pending_op option"
  mine :: "nat set"

definition used_ptr :: "file_mem \<Rightarrow> cptr" where
  "used_ptr s =
     (case in_use s of Some (Reading p) \<Rightarrow> p | Some (Writing p) \<Rightarrow> p | _ \<Rightarrow> None)"

text \<open>\<^verbatim>\<open>current = ...\<close>: the move assignment of a unique pointer frees what it held.\<close>

definition assign_current :: "cptr \<Rightarrow> file_mem \<Rightarrow> buffer_error + file_mem" where
  "assign_current p s =
     (case delete_array (current_ptr s) (mem s) of
        Inl e \<Rightarrow> Inl e
      | Inr h \<Rightarrow> Inr (s\<lparr>mem := h, current_ptr := p\<rparr>))"

text \<open>\<^verbatim>\<open>current = std::make_unique<char[]>(len)\<close>.\<close>

definition mem_new_buffer :: "file_mem \<Rightarrow> buffer_error + file_mem" where
  "mem_new_buffer s = (let (p, h) = new_array (mem s) in assign_current p (s\<lparr>mem := h\<rparr>))"

text \<open>\<^verbatim>\<open>std::move(current)\<close> into a pointer of the user's program.\<close>

definition current_to_user :: "file_mem \<Rightarrow> file_mem" where
  "current_to_user s =
     s\<lparr>current_ptr := None,
       mine := (case current_ptr s of None \<Rightarrow> mine s | Some (b, i) \<Rightarrow> insert b (mine s))\<rparr>"

definition mem_read :: "file_mem \<Rightarrow> buffer_error + file_mem" where
  "mem_read s = map_sum id (\<lambda>u. u\<lparr>in_use := Some (Reading (current_ptr u))\<rparr>) (mem_new_buffer s)"

definition mem_read_sync :: "file_mem \<Rightarrow> buffer_error + file_mem" where
  "mem_read_sync s = map_sum id current_to_user (mem_new_buffer s)"

text \<open>The overloads that take the buffer over: the user's pointer is moved into \<^verbatim>\<open>current\<close>.\<close>

definition take_buffer :: "nat \<Rightarrow> file_mem \<Rightarrow> buffer_error + file_mem" where
  "take_buffer b s = assign_current (Some (b, 0)) (s\<lparr>mine := mine s - {b}\<rparr>)"

definition mem_write :: "nat \<Rightarrow> file_mem \<Rightarrow> buffer_error + file_mem" where
  "mem_write b s = map_sum id (\<lambda>u. u\<lparr>in_use := Some (Writing (current_ptr u))\<rparr>) (take_buffer b s)"

definition mem_write_sync :: "nat \<Rightarrow> file_mem \<Rightarrow> buffer_error + file_mem" where
  "mem_write_sync b s = take_buffer b s"

definition mem_write_raw :: "cptr \<Rightarrow> file_mem \<Rightarrow> buffer_error + file_mem" where
  "mem_write_raw p s = Inr (s\<lparr>in_use := Some (Writing p)\<rparr>)"

text \<open>
  The completions. \<^verbatim>\<open>fs_read_callback\<close> moves \<^verbatim>\<open>current\<close> into the event when the read succeeded; the
  buffer goes with the event unless the listener takes it. The other callbacks leave it alone.
\<close>

definition mem_read_callback :: "bool \<Rightarrow> bool \<Rightarrow> file_mem \<Rightarrow> buffer_error + file_mem" where
  "mem_read_callback success taken s =
     (let u = s\<lparr>in_use := None\<rparr> in
      if \<not> success then Inr u
      else if taken then Inr (current_to_user u)
      else assign_current None u)"

definition mem_complete :: "bool \<Rightarrow> bool \<Rightarrow> file_mem \<Rightarrow> buffer_error + file_mem" where
  "mem_complete success taken s =
     (case in_use s of
        Some (Reading p) \<Rightarrow> mem_read_callback success taken s
      | _ \<Rightarrow> Inr (s\<lparr>in_use := None\<rparr>))"

text \<open>\<^verbatim>\<open>~file_req\<close>, after whose body the member is destroyed.\<close>

definition mem_destroy :: "file_mem \<Rightarrow> buffer_error + file_mem" where
  "mem_destroy s = assign_current None s"

section \<open>The program around it\<close>

text \<open>What can happen: an operation, a completion, and the user's program freeing memory of its own.\<close>

datatype file_act =
    Act_read | Act_read_sync | Act_write nat | Act_write_sync nat | Act_write_raw cptr | Act_unbuffered
  | Act_unbuffered_sync | Act_complete bool bool | Act_delete nat

definition file_act :: "file_act \<Rightarrow> file_mem \<Rightarrow> buffer_error + file_mem" where
  "file_act a s =
     (case a of
        Act_read \<Rightarrow> mem_read s
      | Act_read_sync \<Rightarrow> mem_read_sync s
      | Act_write b \<Rightarrow> mem_write b s
      | Act_write_sync b \<Rightarrow> mem_write_sync b s
      | Act_write_raw p \<Rightarrow> mem_write_raw p s
      | Act_unbuffered \<Rightarrow> Inr (s\<lparr>in_use := Some Unbuffered\<rparr>)
      | Act_unbuffered_sync \<Rightarrow> Inr s
      | Act_complete success taken \<Rightarrow> mem_complete success taken s
      | Act_delete b \<Rightarrow> map_sum id (\<lambda>h. s\<lparr>mem := h, mine := mine s - {b}\<rparr>) (delete_array (Some (b, 0)) (mem s)))"

text \<open>
  libuv's rule for a request, one operation at a time, and what the user's program owes: it hands
  over and frees only blocks that it owns, and leaves a borrowed one alone until the operation is done.
\<close>

definition in_block :: "cptr \<Rightarrow> nat set \<Rightarrow> bool" where
  "in_block p bs = (case p of None \<Rightarrow> True | Some (b, i) \<Rightarrow> b \<in> bs)"

definition may_act :: "file_act \<Rightarrow> file_mem \<Rightarrow> bool" where
  "may_act a s =
     (case a of
        Act_write b \<Rightarrow> in_use s = None \<and> b \<in> mine s
      | Act_write_sync b \<Rightarrow> in_use s = None \<and> b \<in> mine s
      | Act_write_raw p \<Rightarrow> in_use s = None \<and> in_block p (mine s)
      | Act_complete success taken \<Rightarrow> in_use s \<noteq> None
      | Act_delete b \<Rightarrow> b \<in> mine s \<and> in_block (used_ptr s) (- {b})
      | _ \<Rightarrow> in_use s = None)"

inductive file_reach :: "file_mem \<Rightarrow> file_mem \<Rightarrow> bool" where
  start: "file_reach s s"
| act: "file_reach s u \<Longrightarrow> may_act a u \<Longrightarrow> file_act a u = Inr v \<Longrightarrow> file_reach s v"

text \<open>A new request: the blocks are the user's.\<close>

definition new_request :: "file_mem \<Rightarrow> bool" where
  "new_request s \<longleftrightarrow> heap_ok (mem s) \<and> current_ptr s = None \<and> in_use s = None \<and> mine s = blocks (mem s)"

section \<open>The invariant\<close>

definition current_block :: "file_mem \<Rightarrow> nat set" where
  "current_block s = (case current_ptr s of None \<Rightarrow> {} | Some (b, i) \<Rightarrow> {b})"

definition mem_ok :: "file_mem \<Rightarrow> bool" where
  "mem_ok s \<longleftrightarrow> heap_ok (mem s) \<and> blocks (mem s) = mine s \<union> current_block s \<and>
     mine s \<inter> current_block s = {} \<and> (case current_ptr s of None \<Rightarrow> True | Some (b, i) \<Rightarrow> i = 0) \<and>
     in_block (used_ptr s) (blocks (mem s))"

lemma new_request_ok: "new_request s \<Longrightarrow> mem_ok s"
  by (simp add: new_request_def mem_ok_def current_block_def used_ptr_def in_block_def)

text \<open>Assigning to \<^verbatim>\<open>current\<close> a block that is nobody's yet, or null.\<close>

lemma assign_current_ok:
  assumes "heap_ok (mem s)" and "blocks (mem s) = mine s \<union> current_block s \<union> fresh"
    and "mine s \<inter> current_block s = {}" and "fresh \<inter> (mine s \<union> current_block s) = {}"
    and "case current_ptr s of None \<Rightarrow> True | Some (b, i) \<Rightarrow> i = 0"
    and "fresh = (case p of None \<Rightarrow> {} | Some (b, i) \<Rightarrow> {b})" and "case p of None \<Rightarrow> True | Some (b, i) \<Rightarrow> i = 0"
    and "in_use s = None"
  shows "\<exists>u. assign_current p s = Inr u \<and> mem_ok u \<and> current_ptr u = p \<and> mine u = mine s \<and> in_use u = None"
proof -
  have bs: "blocks (mem s) - current_block s = mine s \<union> fresh" using assms(2-4) by blast
  obtain h where h: "delete_array (current_ptr s) (mem s) = Inr h" "blocks h = mine s \<union> fresh" "heap_ok h"
    using assms(1,2,5) bs
    by (cases "current_ptr s") (auto simp: delete_array_def current_block_def heap_ok_def)
  show ?thesis
    using h assms(4,6-8)
    by (auto simp: assign_current_def mem_ok_def current_block_def used_ptr_def in_block_def split: option.splits)
qed

lemma mem_new_buffer_ok:
  assumes "mem_ok s" and "in_use s = None"
  shows "\<exists>u. mem_new_buffer s = Inr u \<and> mem_ok u \<and> current_ptr u = Some (next_block (mem s), 0) \<and>
    mine u = mine s \<and> in_use u = None"
proof -
  let ?b = "next_block (mem s)"
  let ?s = "s\<lparr>mem := snd (new_array (mem s))\<rparr>"
  have new: "?b \<notin> blocks (mem s)" using assms(1) by (auto simp: mem_ok_def heap_ok_def)
  have "\<exists>u. assign_current (Some (?b, 0)) ?s = Inr u \<and> mem_ok u \<and> current_ptr u = Some (?b, 0) \<and>
      mine u = mine ?s \<and> in_use u = None"
    using assms new
    by (intro assign_current_ok [where fresh = "{?b}"])
      (auto simp: mem_ok_def new_array_def heap_ok_def current_block_def intro: less_SucI)
  then show ?thesis by (simp add: mem_new_buffer_def new_array_def)
qed

lemma take_buffer_ok:
  assumes "mem_ok s" and "in_use s = None" and "b \<in> mine s"
  shows "\<exists>u. take_buffer b s = Inr u \<and> mem_ok u \<and> current_ptr u = Some (b, 0) \<and> in_use u = None"
proof -
  have "\<exists>u. assign_current (Some (b, 0)) (s\<lparr>mine := mine s - {b}\<rparr>) = Inr u \<and> mem_ok u \<and>
      current_ptr u = Some (b, 0) \<and> mine u = mine (s\<lparr>mine := mine s - {b}\<rparr>) \<and> in_use u = None"
    using assms by (intro assign_current_ok [where fresh = "{b}"]) (auto simp: mem_ok_def current_block_def)
  then show ?thesis by (auto simp: take_buffer_def)
qed

lemma current_to_user_ok: "mem_ok s \<Longrightarrow> mem_ok (current_to_user s)"
  by (auto simp: mem_ok_def current_to_user_def current_block_def used_ptr_def split: option.splits)

text \<open>Handing \<^verbatim>\<open>current\<close> or a block of the user's to libuv.\<close>

lemma set_in_use_ok:
  "mem_ok s \<Longrightarrow> in_block (used_ptr (s\<lparr>in_use := x\<rparr>)) (blocks (mem s)) \<Longrightarrow> mem_ok (s\<lparr>in_use := x\<rparr>)"
  by (simp add: mem_ok_def current_block_def)

lemma idle_ok: "mem_ok s \<Longrightarrow> mem_ok (s\<lparr>in_use := None\<rparr>)"
  by (rule set_in_use_ok) (simp_all add: used_ptr_def in_block_def)

lemma current_in_block: "mem_ok s \<Longrightarrow> in_block (current_ptr s) (blocks (mem s))"
  by (auto simp: mem_ok_def in_block_def current_block_def split: option.splits)

lemma drop_current_ok:
  assumes "mem_ok s" and "in_use s = None"
  shows "\<exists>u. assign_current None s = Inr u \<and> mem_ok u \<and> current_ptr u = None \<and> mine u = mine s \<and> in_use u = None"
  using assms by (intro assign_current_ok [where fresh = "{}"]) (auto simp: mem_ok_def)

lemma mem_complete_ok:
  assumes "mem_ok s"
  shows "\<exists>u. mem_complete success taken s = Inr u \<and> mem_ok u"
proof -
  have i: "mem_ok (s\<lparr>in_use := None\<rparr>)" using assms by (rule idle_ok)
  then show ?thesis
    using drop_current_ok [OF i] current_to_user_ok [OF i]
    by (auto simp: mem_complete_def mem_read_callback_def Let_def split: option.splits pending_op.splits)
qed

lemma mem_delete_ok:
  assumes "mem_ok s" and "b \<in> mine s" and "in_block (used_ptr s) (- {b})"
  shows "\<exists>h. delete_array (Some (b, 0)) (mem s) = Inr h \<and> mem_ok (s\<lparr>mem := h, mine := mine s - {b}\<rparr>)"
  using assms
  by (auto simp: mem_ok_def delete_array_def heap_ok_def current_block_def used_ptr_def in_block_def
      split: option.splits pending_op.splits)

lemma file_act_ok:
  assumes "mem_ok s" and "may_act a s"
  shows "\<exists>v. file_act a s = Inr v \<and> mem_ok v"
proof (cases a)
  case Act_read
  then obtain u where "mem_new_buffer s = Inr u" "mem_ok u"
    using assms mem_new_buffer_ok by (auto simp: may_act_def)
  then show ?thesis
    using Act_read current_in_block
    by (auto simp: file_act_def mem_read_def used_ptr_def intro!: set_in_use_ok)
next
  case Act_read_sync
  then show ?thesis
    using assms mem_new_buffer_ok current_to_user_ok by (fastforce simp: file_act_def mem_read_sync_def may_act_def)
next
  case (Act_write b)
  then obtain u where "take_buffer b s = Inr u" "mem_ok u"
    using assms take_buffer_ok by (auto simp: may_act_def)
  then show ?thesis
    using Act_write current_in_block
    by (auto simp: file_act_def mem_write_def used_ptr_def intro!: set_in_use_ok)
next
  case (Act_write_sync b)
  then show ?thesis
    using assms take_buffer_ok by (auto simp: file_act_def mem_write_sync_def may_act_def)
next
  case (Act_write_raw p)
  then have "in_block p (blocks (mem s))"
    using assms by (auto simp: may_act_def in_block_def mem_ok_def split: option.splits)
  then show ?thesis
    using Act_write_raw assms(1)
    by (auto simp: file_act_def mem_write_raw_def used_ptr_def intro!: set_in_use_ok)
next
  case Act_unbuffered
  then show ?thesis
    using assms(1) by (auto simp: file_act_def used_ptr_def in_block_def intro!: set_in_use_ok)
next
  case (Act_delete b)
  then show ?thesis
    using assms mem_delete_ok by (fastforce simp: file_act_def may_act_def)
qed (use assms mem_complete_ok in \<open>auto simp: file_act_def\<close>)

lemma file_reach_ok: "file_reach s u \<Longrightarrow> mem_ok s \<Longrightarrow> mem_ok u"
  by (induction rule: file_reach.induct) (use file_act_ok in fastforce)+

section \<open>The two views of the member\<close>

text \<open>The theory Fs and this one agree on when \<^verbatim>\<open>current\<close> is null.\<close>

definition same_current :: "world \<Rightarrow> oid \<Rightarrow> file_mem \<Rightarrow> bool" where
  "same_current w p s \<longleftrightarrow> (current (file_data_of w p) = None) = (current_ptr s = None)"

lemma file_data_async: "file_data_of (fs_async uv op cb p w) p = file_data_of w p"
  by (simp add: fs_async_def fs_cleanup_def uvcall_def Let_def file_data_of_def)

lemma file_data_sync: "file_data_of (snd (fs_sync uv op p w)) p = file_data_of w p"
  by (simp add: fs_sync_def fs_cleanup_def uvcall_def Let_def file_data_of_def)

lemma file_data_update:
  "p < length (objs w) \<Longrightarrow> kind (objs w ! p) = K_file d \<Longrightarrow> file_data_of (file_update f p w) p = f d"
  by (simp add: file_data_of_def file_update_def nth_upd)

lemma assign_current_ptr: "assign_current p s = Inr u \<Longrightarrow> current_ptr u = p"
  by (auto simp: assign_current_def split: sum.splits)

lemma mem_new_buffer_ptr: "mem_new_buffer s = Inr u \<Longrightarrow> current_ptr u \<noteq> None"
  by (auto simp: mem_new_buffer_def new_array_def dest!: assign_current_ptr)

lemma same_current_ops:
  assumes "p < length (objs w)" and "kind (objs w ! p) = K_file d"
  shows "mem_read s = Inr u \<Longrightarrow> same_current (file_read uv offset n p w) p u"
    and "mem_read_sync s = Inr u \<Longrightarrow> same_current (snd (file_read_sync uv filled offset n p w)) p u"
    and "mem_write b s = Inr u \<Longrightarrow> same_current (file_write uv cs n offset p w) p u"
    and "mem_write_sync b s = Inr u \<Longrightarrow> same_current (snd (file_write_sync uv cs n offset p w)) p u"
    and "same_current w p s \<Longrightarrow> mem_write_raw q s = Inr u \<Longrightarrow> same_current (file_write_raw uv cs n offset p w) p u"
proof -
  let ?v = "file_new_buffer n p w"
  have kv: "p < length (objs ?v)" "\<exists>d. kind (objs ?v ! p) = K_file d"
    using assms by (simp_all add: file_new_buffer_def file_update_def nth_upd)
  show "same_current (file_read uv offset n p w) p u" if "mem_read s = Inr u"
  proof -
    have "current_ptr u \<noteq> None"
      using that mem_new_buffer_ptr by (cases "mem_new_buffer s") (auto simp: mem_read_def)
    then show ?thesis
      using assms by (simp add: same_current_def file_read_def Let_def file_data_async file_new_buffer_def file_data_update)
  qed
  show "same_current (snd (file_read_sync uv filled offset n p w)) p u" if "mem_read_sync s = Inr u"
  proof -
    obtain req x where x: "fs_sync uv (read_op n (file_handle ?v p) offset) p ?v = (req, x)" by fastforce
    then have "file_data_of x p = file_data_of ?v p" "objs x = objs ?v"
      using file_data_sync [of uv "read_op n (file_handle ?v p) offset" p ?v]
        fs_sync_frame(1) [of uv "read_op n (file_handle ?v p) offset" p ?v] by simp_all
    then show ?thesis
      using that kv x
      by (cases "mem_new_buffer s")
        (auto simp: same_current_def file_read_sync_def Let_def file_data_update mem_read_sync_def current_to_user_def)
  qed
  show "same_current (file_write uv cs n offset p w) p u" if "mem_write b s = Inr u"
    using that assms assign_current_ptr
    by (cases "take_buffer b s")
      (force simp: same_current_def file_write_def Let_def file_data_async file_data_update mem_write_def take_buffer_def)+
  show "same_current (snd (file_write_sync uv cs n offset p w)) p u" if "mem_write_sync b s = Inr u"
    using that assms assign_current_ptr [of "Some (b, 0)"]
      file_data_sync [of uv _ p "file_update (\<lambda>d. d\<lparr>current := Some cs\<rparr>) p w"]
    by (auto simp: same_current_def file_write_sync_def fs_sync_size_def Let_def case_prod_beta file_data_update
        mem_write_sync_def take_buffer_def)
  show "same_current (file_write_raw uv cs n offset p w) p u" if "same_current w p s" "mem_write_raw q s = Inr u"
    using that by (auto simp: same_current_def file_write_raw_def file_data_async mem_write_raw_def)
qed

section \<open>Properties\<close>

text \<open>
  C22. The buffers of a file request are safe under libuv's rule of one operation at a time: in every
  state that operations, completions and the user's program lead to, nothing that is allowed frees a
  pointer that is not an allocated block, the memory that libuv reads or writes is allocated, every
  block belongs to the user or to the request, and destroying the idle request frees its own block
  and leaves the user's.
\<close>

theorem file_buffers_safe:
  assumes "new_request s" and "file_reach s u"
  shows "(may_act a u \<longrightarrow> (\<exists>v. file_act a u = Inr v)) \<and> in_block (used_ptr u) (blocks (mem u)) \<and>
    blocks (mem u) = mine u \<union> current_block u \<and> mine u \<inter> current_block u = {} \<and>
    (in_use u = None \<longrightarrow> (\<exists>v. mem_destroy u = Inr v \<and> blocks (mem v) = mine u \<and> mine v = mine u))"
proof -
  have ok: "mem_ok u" using file_reach_ok [OF assms(2)] new_request_ok [OF assms(1)] .
  have "\<exists>v. mem_destroy u = Inr v \<and> blocks (mem v) = mine u \<and> mine v = mine u" if "in_use u = None"
    using drop_current_ok [OF ok that] by (auto simp: mem_destroy_def mem_ok_def current_block_def)
  then show ?thesis
    using ok file_act_ok [OF ok, of a] by (auto simp: mem_ok_def)
qed

definition sample_mem :: file_mem where
  "sample_mem = \<lparr>mem = \<lparr>blocks = {0}, next_block = 1\<rparr>, current_ptr = None, in_use = None, mine = {0}\<rparr>"

definition reading_mem :: file_mem where
  "reading_mem = \<lparr>mem = \<lparr>blocks = {0, 1}, next_block = 2\<rparr>, current_ptr = Some (1, 0),
     in_use = Some (Reading (Some (1, 0))), mine = {0}\<rparr>"

lemma sample_mem_reach: "file_reach sample_mem sample_mem" "file_reach sample_mem reading_mem"
proof -
  show *: "file_reach sample_mem sample_mem" by (rule file_reach.start)
  have "file_act Act_read sample_mem = Inr reading_mem"
    by (auto simp: file_act_def mem_read_def mem_new_buffer_def new_array_def assign_current_def
        delete_array_def sample_mem_def reading_mem_def)
  then show "file_reach sample_mem reading_mem"
    by (rule file_reach.act [OF *, rotated]) (simp add: may_act_def sample_mem_def)
qed

lemma sample_mem_new: "new_request sample_mem"
  by (simp add: new_request_def sample_mem_def heap_ok_def)

theorem file_buffers_safe_witness:
  "in_block (used_ptr reading_mem) (blocks (mem reading_mem)) \<and>
   (\<exists>v. file_act (Act_complete True False) reading_mem = Inr v)"
  using file_buffers_safe [OF sample_mem_new sample_mem_reach(2), of "Act_complete True False"]
  by (simp add: may_act_def reading_mem_def)

text \<open>
  C23. A file request that is dropped, or given another read, while libuv still works with its buffer
  frees that buffer: the block that libuv reads or writes is no longer allocated.
\<close>

theorem file_buffer_freed_in_use:
  assumes "new_request s" and "file_reach s u" and "used_ptr u = Some (b, i)" and "current_ptr u = used_ptr u"
  shows "(\<exists>v. mem_destroy u = Inr v \<and> used_ptr v = Some (b, i) \<and> b \<notin> blocks (mem v)) \<and>
    (\<exists>v. mem_read u = Inr v \<and> b \<notin> blocks (mem v))"
proof -
  have ok: "mem_ok u" using file_reach_ok [OF assms(2)] new_request_ok [OF assms(1)] .
  then have i: "i = 0" and b: "b \<in> blocks (mem u)" and n: "b \<noteq> next_block (mem u)"
    using assms(3,4) by (auto simp: mem_ok_def current_block_def heap_ok_def)
  have "mem_destroy u = Inr (u\<lparr>mem := (mem u)\<lparr>blocks := blocks (mem u) - {b}\<rparr>, current_ptr := None\<rparr>)"
    using assms(3,4) i b by (simp add: mem_destroy_def assign_current_def delete_array_def)
  moreover have "used_ptr (u\<lparr>mem := h, current_ptr := q\<rparr>) = used_ptr u" for h q
    by (simp add: used_ptr_def)
  moreover have "\<exists>v. mem_read u = Inr v \<and> b \<notin> blocks (mem v)"
    using assms(3,4) i b n
    by (simp add: mem_read_def mem_new_buffer_def new_array_def assign_current_def delete_array_def)
  ultimately show ?thesis
    using assms(3) by simp
qed

theorem file_buffer_freed_in_use_witness:
  "\<exists>v. mem_destroy reading_mem = Inr v \<and> used_ptr v = Some (1, 0) \<and> 1 \<notin> blocks (mem v)"
  using file_buffer_freed_in_use [OF sample_mem_new sample_mem_reach(2), of 1 0]
  by (simp add: reading_mem_def used_ptr_def)

end
