(* ===== verification/Spec2Isabelle.thy ===== *)
theory Spec2Isabelle
  imports Type_Info Sync Ownership File_Buffers
begin

text \<open>
  A verification development for uvw, the C++ wrapper of libuv (\<^verbatim>\<open>src/src/uvw\<close>).

  \<^bold>\<open>The program.\<close> uvw wraps the handles and requests of libuv in objects that publish events. The
  classes stand in a hierarchy: \<^verbatim>\<open>uv_type\<close> embeds the C structure and holds a shared pointer to the
  loop (\<^verbatim>\<open>owner\<close>); \<^verbatim>\<open>emitter\<close> has a tuple of listeners, one for each event type; \<^verbatim>\<open>resource\<close> combines the
  two and may hold a shared pointer to itself (\<^verbatim>\<open>self_ptr\<close>), which \<^verbatim>\<open>leak_if\<close> sets when libuv accepts
  an object and \<^verbatim>\<open>self_reset\<close> drops when libuv is done with it; \<^verbatim>\<open>handle\<close> and \<^verbatim>\<open>request\<close> derive from it,
  and the concrete classes from these. \<^verbatim>\<open>loop::resource\<close> makes every object. \<^verbatim>\<open>connect\<close>, \<^verbatim>\<open>shutdown\<close>,
  \<^verbatim>\<open>write\<close> and \<^verbatim>\<open>send\<close> make a request of the library's own whose listeners forward the outcome to the
  handle. libuv calls back with the pointer it was given, and the callback finds the object through
  \<^verbatim>\<open>data\<close>: whether that object is still alive is the question that the core of the development answers.

  \<^bold>\<open>The model.\<close> libuv is not part of the repository. It is a parameter: a record of functions of the
  history of calls, and a predicate for when it may fire a callback; what the code relies on is a
  named hypothesis (\<^verbatim>\<open>documented_callbacks\<close>, \<^verbatim>\<open>documented_is_closing\<close> and others). The state is a
  store of objects with their shared pointers, and the history. An operation is a function on the
  state; undefined behaviour is a value of the type \<^verbatim>\<open>ub\<close>, so that a use of a freed object, of an
  unset variable or of a null pointer shows in the result.

  \<^descr> \<^verbatim>\<open>Prelude\<close>: machine integers and conversions, undefined behaviour, shared lemmas.
  \<^descr> \<^verbatim>\<open>Type_Info\<close>: \<^verbatim>\<open>type_info.hpp\<close>, the hash of a type name and the fallback numbering.
  \<^descr> \<^verbatim>\<open>Enum_Flags\<close>: \<^verbatim>\<open>enum.hpp\<close>; the locale \<^verbatim>\<open>flag_set_laws\<close> is what users of flags rely on.
  \<^descr> \<^verbatim>\<open>Emitter\<close>: \<^verbatim>\<open>emitter.h\<close>, \<^verbatim>\<open>emitter.ipp\<close>; the locale \<^verbatim>\<open>event_table\<close> specifies the tuple as a map.
  \<^descr> \<^verbatim>\<open>Libuv\<close>: the boundary, with the calls, the callbacks and the documented behaviour.
  \<^descr> \<^verbatim>\<open>Objects\<close>, \<^verbatim>\<open>Resource\<close>: the object store, \<^verbatim>\<open>uv_type.hpp\<close>, \<^verbatim>\<open>resource.hpp\<close>, \<^verbatim>\<open>publish\<close>.
  \<^descr> \<^verbatim>\<open>Util\<close>: \<^verbatim>\<open>util.h\<close>, \<^verbatim>\<open>util.ipp\<close>: \<^verbatim>\<open>try_read\<close>, addresses, environment, handle
    types, clocks, memory and the other queries.
  \<^descr> \<^verbatim>\<open>Sync\<close>: \<^verbatim>\<open>thread.h\<close>, \<^verbatim>\<open>thread.ipp\<close>, \<^verbatim>\<open>lib.h\<close>, \<^verbatim>\<open>lib.ipp\<close>; the locale \<^verbatim>\<open>managed\<close> is the contract of a
    class whose constructor and destructor bracket its calls.
  \<^descr> \<^verbatim>\<open>Invariant\<close>: the invariant of the store and the frame \<^verbatim>\<open>good\<close> that every step satisfies.
  \<^descr> \<^verbatim>\<open>Loop\<close>: \<^verbatim>\<open>loop.h\<close>, \<^verbatim>\<open>loop.ipp\<close>. \<^verbatim>\<open>Handle\<close>: \<^verbatim>\<open>handle.hpp\<close>, \<^verbatim>\<open>request.hpp\<close>.
  \<^descr> \<^verbatim>\<open>Watchers\<close>: async, check, idle, prepare, timer, signal, poll, fs_event and fs_poll; the locale
    \<^verbatim>\<open>handle_init\<close> is the contract of an \<^verbatim>\<open>init\<close>, interpreted for each class.
  \<^descr> \<^verbatim>\<open>Streams\<close>: stream, tcp, pipe, tty; the locale \<^verbatim>\<open>forwarding\<close> is the contract of an operation that
    makes a forwarding request. \<^verbatim>\<open>Udp\<close>, \<^verbatim>\<open>Process\<close>: the files of these names.
  \<^descr> \<^verbatim>\<open>Work_Dns\<close>: work and dns; the locales \<^verbatim>\<open>request_submit\<close> and \<^verbatim>\<open>completion\<close> are the two halves of a
    request's life, interpreted also for the requests of streams and datagrams.
  \<^descr> \<^verbatim>\<open>Fs\<close>: \<^verbatim>\<open>fs.h\<close>, \<^verbatim>\<open>fs.ipp\<close>, all operations in both forms, their callbacks and events.
  \<^descr> \<^verbatim>\<open>Buffers\<close>: the memory behind received data, as a heap of blocks, in \<^verbatim>\<open>common_alloc_callback\<close>,
    \<^verbatim>\<open>read_callback\<close> and \<^verbatim>\<open>recv_callback\<close>; the locales \<^verbatim>\<open>buffer_source\<close> and \<^verbatim>\<open>consumer\<close> are the two sides, what
    provides a buffer and what a callback does with it. \<^verbatim>\<open>File_Buffers\<close>: the buffer of a file request on
    the same heap, as a state machine of operations, completions and the user's program.
  \<^descr> \<^verbatim>\<open>Lifetime\<close>: the whole program as a step relation: a call of the user, with any operation of any
    class on objects it may use, or a callback of libuv, whose listeners may again make such calls.
  \<^descr> \<^verbatim>\<open>Samples\<close>: concrete programs, evaluated, at which the theorems are shown to apply.
  \<^descr> \<^verbatim>\<open>Ownership\<close>: what is alive after an operation or at the end of a program, as the largest set of
    objects that support each other, and the terminal's mode memo.

  \<^bold>\<open>What is shown.\<close> For every reachable state: no callback of a handle or of a request other than a
  file system request uses a freed object; an object holds itself exactly while libuv has it; nothing
  leaks; a loop outlives what runs on it; every tuple of listeners fits its class; every call of the
  user is safe; publishing ends. A program that has closed its handles and dropped its pointers
  leaves no object behind, and resetting listeners destroys exactly what nothing supports any more.
  No receive buffer leaks or is freed twice, batches of datagrams apart, nor does a buffer of a file
  request that does one operation at a time. For single operations: what they return, pass on and publish on every branch, and
  where they are undefined. For tables (listeners, descriptors, environment): that they refine a
  map. Where the code departs from its documentation, a theorem states what it does.

  \<^bold>\<open>Bounds.\<close> \<^verbatim>\<open>publish\<close> follows forwarding listeners with fuel, one more than the number of objects. A
  forwarding listener stands only in a request of the library's own and points to an object of
  another kind, so a chain has at most one link and the fuel never runs out;
  that no callback ends with \<^verbatim>\<open>Endless_forward\<close> is part of the theorems. All other recursions are
  structural or have a termination proof.

  \<^bold>\<open>Not modelled.\<close> libuv and the system behind it; the scheduling of threads (the operations of
  \<^verbatim>\<open>Sync\<close> are sequences of calls); the blocks of data written to streams
  and sent as datagrams, which live and die with their request; the closure of a listener that
  replaces or resets itself while it runs, which the code destroys under it; allocation failure and
  exceptions thrown by listeners; \<^verbatim>\<open>config.h\<close> and the \<^verbatim>\<open>.cpp\<close> files, which only include. Copies of a
  shared pointer inside the user's program are counted, not located.
\<close>

section \<open>Lifetime\<close>

text \<open>
  C1. No callback finds its object freed. In every state that calls of the user and callbacks of libuv
  lead to, a callback that libuv may fire with a handle or with a request other than a file system
  request runs to its end: the object behind \<^verbatim>\<open>data\<close> is alive, its listeners are, and forwarding
  ends.
\<close>

theorem callbacks_never_dangle:
  assumes "reachable uv net beh run fires w"
    and "well_behaved uv net beh run" and "documented_callbacks fires"
    and "fires (hist w) cb p" and "documented_args cb a"
    and "\<not> fs_kind_of (kind (objs w ! p))" and "\<not> fs_callback cb"
  shows "\<exists>v. dispatch uv net beh run cb a p w = Inr v"
  using assms reachable_invar [OF assms(1-3)] dispatch_defined
  by (auto simp: documented_callbacks_def)

theorem callbacks_never_dangle_witness:
  "\<exists>v. dispatch sample_libuv sample_netlib idle_user idle_task cb_connect
     \<lparr>a_status = 0, a_events = 0, a_buf = [], a_addr = None, a_flags = 0, a_name = None, a_host = [],
      a_service = [], a_prev = [], a_curr = [], a_res = 0\<rparr> 2 tcp_world = Inr v"
  by (rule callbacks_never_dangle [where fires = may_fire])
    (simp_all add: sample_reachable idle_well_behaved may_fire_documented may_fire_def tcp_world_facts
      documented_args_def fs_callback_def fs_kind_of_def)



text \<open>
  C3. Nothing leaks: an object that is alive is held by the user, is in libuv, or is referred to by
  another object that is alive.
\<close>

theorem no_leak:
  assumes "reachable uv net beh run fires w"
    and "well_behaved uv net beh run" and "documented_callbacks fires" and "live w p"
  shows "0 < ext (objs w ! p) \<or> is_open (hist w) p \<or> 0 < pending (hist w) p \<or>
    (\<exists>q. live w q \<and> p \<in> set (refs_of (objs w ! q)))"
proof -
  have i: "invar w" and h: "hold (objs w ! p) = 0"
    using reachable_invar [OF assms(1-3)] live_length [OF assms(4)] by auto
  have "0 < own_count (objs w ! p) \<or> (\<exists>q. live w q \<and> p \<in> set (refs_of (objs w ! q)))"
    using i assms(4) by (simp add: invar_def all_held_def')
  moreover have "self_ptr (objs w ! p) \<longrightarrow> is_open (hist w) p \<or> 0 < pending (hist w) p"
    using invar_live [OF i assms(4)] by (simp add: live_ok_def)
  ultimately show ?thesis using h by (auto simp: own_count_def)
qed

theorem no_leak_witness:
  "0 < ext (objs timer_world ! 1) \<or> is_open (hist timer_world) 1 \<or> 0 < pending (hist timer_world) 1 \<or>
   (\<exists>q. live timer_world q \<and> 1 \<in> set (refs_of (objs timer_world ! q)))"
  by (rule no_leak [OF sample_reachable(2) idle_well_behaved may_fire_documented timer_world_facts(3)])












section \<open>Completion and closing\<close>





end
